(* ===== verification/Prelude.thy ===== *)
theory Prelude
  imports Main "HOL-Library.Word" "HOL-Library.Multiset"
begin

text \<open>
  Shared vocabulary of the development: the Go values the relayer computes with and the
  facts about them every component uses.

  \<^item> errors: a Go function returning \<open>(T, error)\<close> is a function into \<open>'a res\<close>;
    \<open>Error\<close> is a returned error, \<open>Panic\<close> a run-time panic (which \<open>recover\<close> can catch);
  \<^item> integers: \<open>uint8\<close> and \<open>uint64\<close> are words, \<open>int64\<close> conversions wrap explicitly,
    \<open>big.Int\<close> is \<open>int\<close> or, where it comes from \<open>SetBytes\<close>, \<open>nat\<close>;
  \<^item> byte slices: a byte list, or \<open>gslice\<close> where the code re-slices up to the capacity;
  \<^item> \<open>fmt\<close>, \<open>strings\<close> and \<open>strconv\<close>: the formatting verbs and parsers the code uses;
  \<^item> Go maps that the code iterates over: association lists in insertion order.
\<close>

section \<open>Results\<close>

datatype go_error = Error string | Panic string

type_synonym 'a res = "go_error + 'a"

type_synonym byte = "8 word"
type_synonym bytes = "byte list"
type_synonym uint8 = "8 word"
type_synonym uint16 = "16 word"
type_synonym uint32 = "32 word"
type_synonym uint64 = "64 word"

named_theorems deposit_handler_defs \<open>the deposit handlers of the chains\<close>
named_theorems message_handler_defs \<open>the message handlers of the chains\<close>

fun and_then :: "'e + 'a \<Rightarrow> ('a \<Rightarrow> 'e + 'b) \<Rightarrow> 'e + 'b" where
  "and_then (Inl e) f = Inl e"
| "and_then (Inr v) f = f v"

definition is_ok :: "'e + 'a \<Rightarrow> bool" where
  "is_ok r = (case r of Inl _ \<Rightarrow> False | Inr _ \<Rightarrow> True)"

definition is_panic :: "'a res \<Rightarrow> bool" where
  "is_panic r = (case r of Inl (Panic _) \<Rightarrow> True | _ \<Rightarrow> False)"

lemma is_ok_simps [simp]: "is_ok (Inr v)" "\<not> is_ok (Inl e)"
  by (simp_all add: is_ok_def)

lemma is_panic_simps [simp]:
  "is_panic (Inl (Panic s))" "\<not> is_panic (Inl (Error s))" "\<not> is_panic (Inr v)"
  by (simp_all add: is_panic_def)

lemma and_then_Inr_iff [simp]:
  "and_then r f = Inr y \<longleftrightarrow> (\<exists>v. r = Inr v \<and> f v = Inr y)"
  by (cases r) auto

lemma and_then_Inl_iff:
  "and_then r f = Inl e \<longleftrightarrow> r = Inl e \<or> (\<exists>v. r = Inr v \<and> f v = Inl e)"
  by (cases r) auto

section \<open>Integers\<close>

text \<open>The conversion \<open>int64(x)\<close> and the method \<open>Int64()\<close>: two's complement wrap-around.\<close>

definition int64 :: "int \<Rightarrow> int" where
  "int64 x = (x + 2 ^ 63) mod 2 ^ 64 - 2 ^ 63"

lemma int64_id [simp]: "- (2 ^ 63) \<le> x \<Longrightarrow> x < 2 ^ 63 \<Longrightarrow> int64 x = x"
  by (simp add: int64_def)

lemma int64_bounds: "- (2 ^ 63) \<le> int64 x" "int64 x < 2 ^ 63"
proof -
  have "0 \<le> (x + 2 ^ 63) mod 2 ^ 64" "(x + 2 ^ 63) mod 2 ^ 64 < 2 ^ 64"
    by simp_all
  then show "- (2 ^ 63) \<le> int64 x" "int64 x < 2 ^ 63"
    by (simp_all add: int64_def)
qed

text \<open>\<open>int64\<close> agrees with reading the low 64 bits as a signed word.\<close>

lemma int64_sint: "int64 x = sint (word_of_int x :: 64 word)"
  by (simp add: int64_def signed_of_int signed_take_bit_eq_take_bit_shift take_bit_eq_mod)

section \<open>Big-endian numbers\<close>

text \<open>\<open>big.Int.SetBytes\<close> reads a byte slice as an unsigned big-endian number.\<close>

definition SetBytes :: "bytes \<Rightarrow> nat" where
  "SetBytes bs = foldl (\<lambda>acc b. acc * 256 + unat b) 0 bs"

text \<open>\<open>big.Int.Bytes\<close> is the shortest big-endian form; zero is the empty slice.\<close>

fun Bytes :: "nat \<Rightarrow> bytes" where
  "Bytes n = (if n = 0 then [] else Bytes (n div 256) @ [of_nat (n mod 256)])"

declare Bytes.simps [simp del]

text \<open>Zero bytes in front up to a width, nothing when the slice is long enough.\<close>

definition left_pad :: "bytes \<Rightarrow> nat \<Rightarrow> bytes" where
  "left_pad s l = replicate (l - length s) 0 @ s"

lemma unat_byte_less: "unat (b :: byte) < 256"
  using unsigned_less [where 'a = nat and w = b] by simp

lemma unat_eq_iff_byte: "unat (a :: byte) = unat b \<longleftrightarrow> a = b"
  by (auto intro: unsigned_word_eqI)

lemma SetBytes_Nil [simp]: "SetBytes [] = 0"
  by (simp add: SetBytes_def)

lemma SetBytes_snoc [simp]: "SetBytes (bs @ [b]) = SetBytes bs * 256 + unat b"
  by (simp add: SetBytes_def)

lemma SetBytes_single [simp]: "SetBytes [b] = unat b"
  using SetBytes_snoc [of "[]" b] by simp

lemma SetBytes_append: "SetBytes (as @ bs) = SetBytes as * 256 ^ length bs + SetBytes bs"
proof (induction bs rule: rev_induct)
  case Nil
  then show ?case by simp
next
  case (snoc b bs)
  have "SetBytes (as @ bs @ [b]) = SetBytes (as @ bs) * 256 + unat b"
    using SetBytes_snoc [of "as @ bs" b] by simp
  with snoc show ?case by (simp add: algebra_simps)
qed

lemma SetBytes_replicate0 [simp]: "SetBytes (replicate k 0) = 0"
proof (induction k)
  case (Suc k)
  then show ?case using SetBytes_append [of "[0]" "replicate k 0"] by simp
qed simp

lemma SetBytes_left_pad [simp]: "SetBytes (left_pad s l) = SetBytes s"
  by (simp add: left_pad_def SetBytes_append)

lemma SetBytes_Bytes [simp]: "SetBytes (Bytes n) = n"
proof (induction n rule: Bytes.induct)
  case (1 n)
  show ?case
  proof (cases "n = 0")
    case True
    then show ?thesis by (simp add: Bytes.simps)
  next
    case False
    have "unat (of_nat (n mod 256) :: byte) = n mod 256"
      by (simp add: unat_of_nat)
    with 1 False show ?thesis by (simp add: Bytes.simps [of n])
  qed
qed

lemma SetBytes_less: "SetBytes bs < 256 ^ length bs"
proof (induction bs rule: rev_induct)
  case (snoc b bs)
  have "unat b < 256" by (rule unat_byte_less)
  with snoc show ?case by (simp add: algebra_simps)
qed simp

lemma length_Bytes_le: "n < 256 ^ k \<Longrightarrow> length (Bytes n) \<le> k"
proof (induction k arbitrary: n)
  case 0
  then show ?case by (simp add: Bytes.simps)
next
  case (Suc k)
  then have "n div 256 < 256 ^ k" by (simp add: less_mult_imp_div_less mult.commute)
  with Suc.IH have "length (Bytes (n div 256)) \<le> k" by blast
  then show ?case by (simp add: Bytes.simps [of n])
qed

lemma length_left_pad [simp]: "length (left_pad s l) = max l (length s)"
  by (simp add: left_pad_def max_def)

lemma SetBytes_inj: "length as = length bs \<Longrightarrow> SetBytes as = SetBytes bs \<Longrightarrow> as = bs"
proof (induction as arbitrary: bs rule: rev_induct)
  case Nil
  then show ?case by simp
next
  case (snoc a as)
  then obtain b bs' where bs: "bs = bs' @ [b]" by (cases bs rule: rev_cases) auto
  have lt: "unat a < 256" "unat b < 256"
    by (rule unat_byte_less)+
  have eq: "SetBytes as * 256 + unat a = SetBytes bs' * 256 + unat b"
    using snoc.prems bs by simp
  have mods: "unat a = (SetBytes as * 256 + unat a) mod 256"
    "unat b = (SetBytes bs' * 256 + unat b) mod 256"
    using lt by simp_all
  from mods eq have "unat a = unat b" by simp
  then have "a = b" "SetBytes as = SetBytes bs'" using eq by (simp_all add: unat_eq_iff_byte)
  with snoc bs show ?case by auto
qed

text \<open>Padding the shortest form back to its width recovers the original bytes.\<close>

lemma left_pad_SetBytes:
  assumes "length bs = k"
  shows "left_pad (Bytes (SetBytes bs)) k = bs"
proof (rule SetBytes_inj)
  have "length (Bytes (SetBytes bs)) \<le> k"
    using length_Bytes_le SetBytes_less assms by metis
  then show "length (left_pad (Bytes (SetBytes bs)) k) = length bs"
    using assms by simp
qed simp

lemma left_pad_id [simp]: "l \<le> length s \<Longrightarrow> left_pad s l = s"
  by (simp add: left_pad_def)

lemma length_pad_Bytes: "n < 256 ^ k \<Longrightarrow> length (left_pad (Bytes n) k) = k"
  using length_Bytes_le [of n k] by simp

section \<open>Slices\<close>

text \<open>
  A Go slice re-sliced as \<open>s[a:b]\<close> is bounded by its capacity, not by its length:
  \<open>spare\<close> is the part of the backing array behind the last element. \<open>s[a:]\<close> ends at the
  length.
\<close>

record gslice =
  elems :: bytes
  spare :: bytes

abbreviation exact :: "bytes \<Rightarrow> gslice" where
  "exact bs \<equiv> \<lparr>elems = bs, spare = []\<rparr>"

definition slice_len :: "gslice \<Rightarrow> int" where
  "slice_len s = int (length (elems s))"

definition subslice :: "gslice \<Rightarrow> int \<Rightarrow> int \<Rightarrow> bytes res" where
  "subslice s a b =
     (if 0 \<le> a \<and> a \<le> b \<and> b \<le> int (length (elems s) + length (spare s))
      then Inr (take (nat (b - a)) (drop (nat a) (elems s @ spare s)))
      else Inl (Panic ''slice bounds out of range''))"

definition slice_from :: "gslice \<Rightarrow> int \<Rightarrow> bytes res" where
  "slice_from s a = subslice s a (slice_len s)"

lemma subslice_Inr_iff:
  "subslice s a b = Inr x \<longleftrightarrow>
     0 \<le> a \<and> a \<le> b \<and> b \<le> int (length (elems s) + length (spare s)) \<and>
     x = take (nat (b - a)) (drop (nat a) (elems s @ spare s))"
  by (auto simp: subslice_def)

lemma subslice_length: "subslice s a b = Inr x \<Longrightarrow> int (length x) = b - a"
  by (auto simp: subslice_Inr_iff)

lemma subslice_no_Error [simp]: "subslice s a b \<noteq> Inl (Error e)"
  by (simp add: subslice_def)

lemma subslice_append3:
  assumes "elems s @ spare s = pre @ mid @ post" "a = int (length pre)"
    "b = int (length pre + length mid)"
  shows "subslice s a b = Inr mid"
proof -
  have "length (elems s) + length (spare s) = length (pre @ mid @ post)"
    using assms(1) by (metis length_append)
  with assms show ?thesis by (simp add: subslice_def)
qed

section \<open>Formatting and parsing\<close>

text \<open>\<open>%d\<close> on an unsigned value.\<close>

definition digit :: "nat \<Rightarrow> char" where
  "digit n = char_of (48 + n)"

fun dec :: "nat \<Rightarrow> string" where
  "dec n = (if n < 10 then [digit n] else dec (n div 10) @ [digit (n mod 10)])"

declare dec.simps [simp del]

text \<open>\<open>%d\<close> on a signed value or a \<open>*big.Int\<close>.\<close>

definition dec_int :: "int \<Rightarrow> string" where
  "dec_int x = (if x < 0 then ''-'' @ dec (nat (- x)) else dec (nat x))"

definition is_digit :: "char \<Rightarrow> bool" where
  "is_digit c = (48 \<le> (of_char c :: nat) \<and> (of_char c :: nat) \<le> 57)"

definition digits_value :: "string \<Rightarrow> nat" where
  "digits_value s = foldl (\<lambda>acc c. acc * 10 + (of_char c - 48)) 0 s"

lemma of_char_digit: "n < 10 \<Longrightarrow> (of_char (digit n) :: nat) = 48 + n"
  by (simp add: digit_def)

lemma is_digit_digit [simp]: "n < 10 \<Longrightarrow> is_digit (digit n)"
  by (simp add: is_digit_def of_char_digit)

lemma dec_digits: "c \<in> set (dec n) \<Longrightarrow> is_digit c"
proof (induction n rule: dec.induct)
  case (1 n)
  then show ?case
    by (cases "n < 10") (auto simp: dec.simps [of n])
qed

lemma dec_not_Nil [simp]: "dec n \<noteq> []"
  by (subst dec.simps) simp

lemma digits_value_dec [simp]: "digits_value (dec n) = n"
proof (induction n rule: dec.induct)
  case (1 n)
  then show ?case
    by (cases "n < 10") (auto simp: dec.simps [of n] digits_value_def of_char_digit)
qed

lemma dec_inj: "dec m = dec n \<Longrightarrow> m = n"
  by (metis digits_value_dec)

lemma dec_no_char: "\<not> is_digit c \<Longrightarrow> c \<notin> set (dec n)"
  using dec_digits by blast

lemma not_digit_chars [simp]:
  "\<not> is_digit CHR '':''" "\<not> is_digit CHR ''-''" "\<not> is_digit CHR ''_''"
  by (simp_all add: is_digit_def)

lemma append_sep_eq:
  assumes "c \<notin> set xs" "c \<notin> set xs'" "xs @ c # ys = xs' @ c # ys'"
  shows "xs = xs' \<and> ys = ys'"
  using assms by (induction xs arbitrary: xs') (auto simp: Cons_eq_append_conv)

lemma dec_suffix_inj:
  assumes "m @ c # dec i = m' @ c # dec j" "\<not> is_digit c"
  shows "i = j"
proof -
  have "rev (dec i) @ c # rev m = rev (dec j) @ c # rev m'"
    using arg_cong [OF assms(1), of rev] by simp
  with dec_no_char [OF assms(2)] have "rev (dec i) = rev (dec j)"
    using append_sep_eq by (metis set_rev)
  then show ?thesis by (simp add: dec_inj)
qed

text \<open>\<open>strings.Split\<close> with a one-character separator.\<close>

fun split_on :: "char \<Rightarrow> string \<Rightarrow> string list" where
  "split_on c [] = [[]]"
| "split_on c (x # xs) =
     (if x = c then [] # split_on c xs
      else (case split_on c xs of [] \<Rightarrow> [[x]] | y # ys \<Rightarrow> (x # y) # ys))"

lemma split_on_not_Nil [simp]: "split_on c xs \<noteq> []"
  by (induction xs) (auto split: list.splits)

lemma split_on_no_sep: "c \<notin> set xs \<Longrightarrow> split_on c xs = [xs]"
  by (induction xs) auto

lemma split_on_append: "c \<notin> set xs \<Longrightarrow> split_on c (xs @ c # ys) = xs # split_on c ys"
  by (induction xs) auto

lemma length_split_on: "length (split_on c xs) = Suc (count_list xs c)"
  by (induction xs) (auto split: list.splits)

text \<open>\<open>strconv.ParseUint(s, 10, w)\<close>: decimal digits only, at least one, within \<open>w\<close> bits.\<close>

definition ParseUint10 :: "nat \<Rightarrow> string \<Rightarrow> nat res" where
  "ParseUint10 w s =
     (if s = [] \<or> \<not> list_all is_digit s then Inl (Error ''invalid syntax'')
      else if 2 ^ w \<le> digits_value s then Inl (Error ''value out of range'')
      else Inr (digits_value s))"

text \<open>\<open>strconv.ParseInt(s, 10, w)\<close>: an optional sign in front.\<close>

definition ParseInt10 :: "nat \<Rightarrow> string \<Rightarrow> int res" where
  "ParseInt10 w s =
     (let neg = (case s of c # _ \<Rightarrow> c = CHR ''-'' | [] \<Rightarrow> False);
          t = (case s of c # cs \<Rightarrow> if c = CHR ''-'' \<or> c = CHR ''+'' then cs else s | [] \<Rightarrow> s)
      in and_then (ParseUint10 64 t) (\<lambda>n.
           if \<not> neg \<and> 2 ^ (w - 1) \<le> n then Inl (Error ''value out of range'')
           else if neg \<and> 2 ^ (w - 1) < n then Inl (Error ''value out of range'')
           else Inr (if neg then - int n else int n)))"

lemma ParseUint10_dec: "n < 2 ^ w \<Longrightarrow> ParseUint10 w (dec n) = Inr n"
  by (simp add: ParseUint10_def list_all_iff dec_digits)

lemma ParseInt10_dec:
  assumes "n < 2 ^ (w - 1)" "n < 2 ^ 64"
  shows "ParseInt10 w (dec n) = Inr (int n)"
proof -
  obtain c cs where c: "dec n = c # cs" by (cases "dec n") simp_all
  then have "is_digit c" using dec_digits [of c n] by simp
  then have "c \<noteq> CHR ''-''" "c \<noteq> CHR ''+''" by (auto simp: is_digit_def)
  with c assms ParseUint10_dec [of n 64] show ?thesis
    by (simp add: ParseInt10_def)
qed

section \<open>Go maps with slices as values\<close>

text \<open>\<open>m[k] = append(m[k], v)\<close> on a map kept as an association list.\<close>

fun append_at :: "'k \<Rightarrow> 'v \<Rightarrow> ('k \<times> 'v list) list \<Rightarrow> ('k \<times> 'v list) list" where
  "append_at k v [] = [(k, [v])]"
| "append_at k v ((k', vs) # m) =
     (if k = k' then (k', vs @ [v]) # m else (k', vs) # append_at k v m)"

definition at_key :: "('k \<times> 'v list) list \<Rightarrow> 'k \<Rightarrow> 'v list" where
  "at_key m k = (case map_of m k of None \<Rightarrow> [] | Some vs \<Rightarrow> vs)"

lemma at_key_append_at [simp]:
  "at_key (append_at k v m) k' = (if k' = k then at_key m k @ [v] else at_key m k')"
  by (induction k v m rule: append_at.induct) (auto simp: at_key_def)

lemma at_key_Nil [simp]: "at_key [] k = []"
  by (simp add: at_key_def)

lemma keys_append_at [simp]: "fst ` set (append_at k v m) = insert k (fst ` set m)"
  by (induction k v m rule: append_at.induct) auto

lemma distinct_append_at: "distinct (map fst m) \<Longrightarrow> distinct (map fst (append_at k v m))"
proof (induction k v m rule: append_at.induct)
  case (2 k v k' vs m)
  then show ?case by (auto simp: image_iff)
qed simp

lemma append_at_nonempty:
  "(\<forall>e \<in> set m. snd e \<noteq> []) \<Longrightarrow> e \<in> set (append_at k v m) \<Longrightarrow> snd e \<noteq> []"
  by (induction k v m rule: append_at.induct) (auto split: if_splits)

lemma at_key_in: "distinct (map fst m) \<Longrightarrow> (k, vs) \<in> set m \<Longrightarrow> at_key m k = vs"
  by (simp add: at_key_def)

lemma at_key_entry:
  "at_key m k \<noteq> [] \<Longrightarrow> (k, at_key m k) \<in> set m"
  by (auto simp: at_key_def map_of_SomeD split: option.splits)

section \<open>Loops that skip failures\<close>

text \<open>The results of a loop whose body logs an error and goes on.\<close>

fun oks :: "('d \<Rightarrow> 'e + 'm) \<Rightarrow> 'd list \<Rightarrow> 'm list" where
  "oks f [] = []"
| "oks f (d # ds) = (case f d of Inl _ \<Rightarrow> oks f ds | Inr m \<Rightarrow> m # oks f ds)"

lemma oks_append [simp]: "oks f (xs @ ys) = oks f xs @ oks f ys"
  by (induction xs) (auto split: sum.splits)

lemma set_oks: "m \<in> set (oks f ds) \<longleftrightarrow> (\<exists>d \<in> set ds. f d = Inr m)"
  by (induction ds) (auto split: sum.splits)

lemma oks_all_ok: "list_all (\<lambda>d. is_ok (f d)) ds \<Longrightarrow> length (oks f ds) = length ds"
  by (induction ds) (auto split: sum.splits)

end
