(* ===== verification/Parsing.thy ===== *)
theory Parsing
  imports Prelude
begin

text \<open>
  Standard-library parsing and encoding used by the configuration and topology code:
  \<open>strconv.ParseInt\<close> with base 0 (prefixes and underscores included), hexadecimal encoding and
  \<open>strings.TrimSuffix\<close>.
\<close>

section \<open>Integers with base prefixes\<close>

definition lower :: "char \<Rightarrow> char" where
  "lower c = (let n = (of_char c :: nat) in if 65 \<le> n \<and> n \<le> 90 then char_of (n + 32) else c)"

text \<open>The value of a digit, or 255 for a character that is none.\<close>

definition digit_value :: "char \<Rightarrow> nat" where
  "digit_value c =
     (let n = (of_char c :: nat); l = (of_char (lower c) :: nat) in
      if 48 \<le> n \<and> n \<le> 57 then n - 48 else if 97 \<le> l \<and> l \<le> 122 then l - 97 + 10 else 255)"

definition base_prefix :: "string \<Rightarrow> nat \<times> string" where
  "base_prefix s =
     (case s of
        c # d # rest \<Rightarrow>
          if c = CHR ''0'' then
            (if rest \<noteq> [] \<and> lower d = CHR ''b'' then (2, rest)
             else if rest \<noteq> [] \<and> lower d = CHR ''o'' then (8, rest)
             else if rest \<noteq> [] \<and> lower d = CHR ''x'' then (16, rest)
             else (8, d # rest))
          else (10, s)
      | [c] \<Rightarrow> if c = CHR ''0'' then (8, []) else (10, s)
      | [] \<Rightarrow> (10, s))"

text \<open>The scan over the digits; with base 0 underscores are skipped here and checked afterwards.\<close>

fun scan_digits :: "nat \<Rightarrow> nat \<Rightarrow> string \<Rightarrow> nat option" where
  "scan_digits base acc [] = Some acc"
| "scan_digits base acc (c # cs) =
     (if c = CHR ''_'' then scan_digits base acc cs
      else if base \<le> digit_value c then None
      else scan_digits base (acc * base + digit_value c) cs)"

datatype underscore_state = AtStart | AfterDigit | AfterUnderscore | AfterOther

fun underscores :: "bool \<Rightarrow> underscore_state \<Rightarrow> string \<Rightarrow> bool" where
  "underscores hex st [] = (st \<noteq> AfterUnderscore)"
| "underscores hex st (c # cs) =
     (if digit_value c < 10 \<or> hex \<and> digit_value c < 16 then underscores hex AfterDigit cs
      else if c = CHR ''_'' then st = AfterDigit \<and> underscores hex AfterUnderscore cs
      else st \<noteq> AfterUnderscore \<and> underscores hex AfterOther cs)"

definition underscoreOK :: "string \<Rightarrow> bool" where
  "underscoreOK s =
     (case s of
        c # d # rest \<Rightarrow>
          if c = CHR ''0'' \<and> lower d \<in> {CHR ''b'', CHR ''o'', CHR ''x''}
          then underscores (lower d = CHR ''x'') AfterDigit rest else underscores False AtStart s
      | _ \<Rightarrow> underscores False AtStart s)"

definition ParseUint0 :: "string \<Rightarrow> nat res" where
  "ParseUint0 s =
     (if s = [] then Inl (Error ''invalid syntax'')
      else
        (let (base, digits) = base_prefix s in
         case scan_digits base 0 digits of
           None \<Rightarrow> Inl (Error ''invalid syntax'')
         | Some n \<Rightarrow>
             if 2 ^ 64 \<le> n then Inl (Error ''value out of range'')
             else if CHR ''_'' \<in> set s \<and> \<not> underscoreOK s then Inl (Error ''invalid syntax'')
             else Inr n))"

text \<open>\<open>strconv.ParseInt(s, 0, w)\<close>; \<open>w = 0\<close> stands for 64 bits.\<close>

definition signed_value :: "nat \<Rightarrow> bool \<Rightarrow> nat \<Rightarrow> int res" where
  "signed_value bits neg n =
     (if \<not> neg \<and> 2 ^ (bits - 1) \<le> n then Inl (Error ''value out of range'')
      else if neg \<and> 2 ^ (bits - 1) < n then Inl (Error ''value out of range'')
      else Inr (if neg then - int n else int n))"

definition ParseInt0 :: "nat \<Rightarrow> string \<Rightarrow> int res" where
  "ParseInt0 w s =
     (let bits = (if w = 0 then 64 else w);
          neg = (case s of c # _ \<Rightarrow> c = CHR ''-'' | [] \<Rightarrow> False);
          t = (case s of c # cs \<Rightarrow> if c = CHR ''-'' \<or> c = CHR ''+'' then cs else s | [] \<Rightarrow> s)
      in and_then (ParseUint0 t) (signed_value bits neg))"

lemma signed_value_bounds:
  assumes "signed_value bits neg n = Inr x"
  shows "- (2 ^ (bits - 1)) \<le> x \<and> x < 2 ^ (bits - 1)"
proof (cases neg)
  case True
  then have "n \<le> 2 ^ (bits - 1)" "x = - int n"
    using assms by (auto simp: signed_value_def not_less split: if_splits)
  then have "int n \<le> 2 ^ (bits - 1)" "x = - int n" by (simp_all flip: of_nat_power [of 2, simplified])
  moreover have "(0 :: int) < 2 ^ (bits - 1)" by simp
  ultimately show ?thesis by linarith
next
  case False
  then have "n < 2 ^ (bits - 1)" "x = int n"
    using assms by (auto simp: signed_value_def not_le split: if_splits)
  moreover have "(0 :: int) < 2 ^ (bits - 1)" by simp
  ultimately show ?thesis by (simp add: order.trans [of _ 0])
qed

lemma ParseInt0_bounds:
  assumes "ParseInt0 w s = Inr x" "w \<noteq> 0"
  shows "- (2 ^ (w - 1)) \<le> x \<and> x < 2 ^ (w - 1)"
  using assms by (auto simp: ParseInt0_def Let_def dest: signed_value_bounds)

section \<open>Hexadecimal\<close>

definition hex_digit :: "nat \<Rightarrow> char" where
  "hex_digit n = (if n < 10 then char_of (48 + n) else char_of (87 + n))"

definition hex_encode :: "bytes \<Rightarrow> string" where
  "hex_encode bs = concat (map (\<lambda>b. [hex_digit (unat b div 16), hex_digit (unat b mod 16)]) bs)"

fun hex_decode :: "string \<Rightarrow> bytes res" where
  "hex_decode [] = Inr []"
| "hex_decode [c] = Inl (Error ''encoding/hex: odd length hex string'')"
| "hex_decode (c # d # rest) =
     (if 16 \<le> digit_value c \<or> 16 \<le> digit_value d then Inl (Error ''encoding/hex: invalid byte'')
      else and_then (hex_decode rest) (\<lambda>bs. Inr (of_nat (digit_value c * 16 + digit_value d) # bs)))"

lemma digit_value_hex_digit: "n < 16 \<Longrightarrow> digit_value (hex_digit n) = n"
proof -
  assume n: "n < 16"
  show ?thesis
  proof (cases "n < 10")
    case True
    then have "(of_char (hex_digit n) :: nat) = 48 + n" by (simp add: hex_digit_def)
    with True show ?thesis by (simp add: digit_value_def Let_def)
  next
    case False
    then have c: "(of_char (hex_digit n) :: nat) = 87 + n" using n by (simp add: hex_digit_def)
    then have "lower (hex_digit n) = hex_digit n" using n False by (simp add: lower_def Let_def)
    with c False n show ?thesis by (simp add: digit_value_def Let_def)
  qed
qed

lemma hex_decode_encode: "hex_decode (hex_encode bs) = Inr bs"
proof (induction bs)
  case (Cons b bs)
  have lt: "unat b < 256" by (rule unat_byte_less)
  then have "unat b div 16 < 16" "unat b mod 16 < 16" by auto
  moreover have "of_nat (unat b div 16 * 16 + unat b mod 16) = b" by simp
  ultimately show ?case using Cons
    by (simp add: hex_encode_def digit_value_hex_digit del: of_nat_add)
qed (simp add: hex_encode_def)

section \<open>Suffixes\<close>

definition TrimSuffix :: "string \<Rightarrow> string \<Rightarrow> string" where
  "TrimSuffix s suffix =
     (if suffix \<noteq> [] \<and> length suffix \<le> length s \<and> drop (length s - length suffix) s = suffix
      then take (length s - length suffix) s else s)"

end
