(* ===== verification/Floats.thy ===== *)
theory Floats
  imports Prelude
begin

text \<open>
  The part of Go's \<open>float64\<close> arithmetic the relayer uses: non-negative finite numbers, products,
  quotients and conversions, with the rounding of IEEE 754 double precision. Amounts and
  durations stay far from the limits of the exponent, so that neither overflow nor denormal
  numbers occur.
\<close>

section \<open>Numbers and rounding\<close>

text \<open>
  A non-negative \<open>float64\<close> as mantissa and scale: \<open>(m, k)\<close> is \<open>m / 2\<^sup>k\<close>. A product is rounded
  to 53 significant bits, to the nearest, ties to even. Bitcoin amounts stay far from the
  limits of the exponent.
\<close>

type_synonym float64 = "nat \<times> nat"

fun bit_len :: "nat \<Rightarrow> nat" where
  "bit_len n = (if n = 0 then 0 else Suc (bit_len (n div 2)))"

declare bit_len.simps [simp del]

definition round53 :: "nat \<Rightarrow> nat" where
  "round53 m =
     (if m < 2 ^ 53 then m
      else
        (let s = bit_len m - 53; q = m div 2 ^ s; r = m mod 2 ^ s in
         if 2 ^ s < 2 * r \<or> 2 * r = 2 ^ s \<and> odd q then (q + 1) * 2 ^ s else q * 2 ^ s))"

definition float_mul :: "float64 \<Rightarrow> float64 \<Rightarrow> float64" where
  "float_mul x y = (round53 (fst x * fst y), snd x + snd y)"

text \<open>The conversion to an integer drops the fraction.\<close>

definition float_to_int :: "float64 \<Rightarrow> int" where
  "float_to_int x = int (fst x div 2 ^ snd x)"

text \<open>
  A quotient is computed with more than 53 bits and a last bit that says whether a remainder
  was dropped, and then rounded once.
\<close>

definition float_div :: "float64 \<Rightarrow> float64 \<Rightarrow> float64" where
  "float_div x y =
     (let a = fst x * 2 ^ snd y; b = fst y * 2 ^ snd x; s = 55 + bit_len b; q = a * 2 ^ s div b
      in (round53 (2 * q + (if a * 2 ^ s mod b = 0 then 0 else 1)), Suc s))"

definition float_of_nat :: "nat \<Rightarrow> float64" where
  "float_of_nat n = (round53 n, 0)"

definition float_eq :: "float64 \<Rightarrow> float64 \<Rightarrow> bool" where
  "float_eq x y \<longleftrightarrow> fst x * 2 ^ snd y = fst y * 2 ^ snd x"

section \<open>The rounding error\<close>

lemma bit_len_bounds: "0 < n \<Longrightarrow> 2 ^ (bit_len n - 1) \<le> n \<and> n < 2 ^ bit_len n"
proof (induction n rule: bit_len.induct)
  case (1 n)
  show ?case
  proof (cases "n = 1")
    case True
    then show ?thesis by (simp add: bit_len.simps)
  next
    case False
    with 1 have half: "2 ^ (bit_len (n div 2) - 1) \<le> n div 2" "n div 2 < 2 ^ bit_len (n div 2)" by auto
    with False 1(2) have "bit_len (n div 2) \<noteq> 0" by (intro notI) simp
    then obtain l where l: "bit_len (n div 2) = Suc l" using not0_implies_Suc by blast
    have "bit_len n = Suc (Suc l)" using 1(2) l by (subst bit_len.simps) simp
    moreover obtain p :: nat where p: "p = 2 ^ l" by simp
    moreover from half l p have "p \<le> n div 2" "n div 2 < 2 * p" by simp_all
    then have "2 * p \<le> n" "n < 4 * p" by linarith+
    ultimately show ?thesis by simp
  qed
qed

text \<open>Rounding is off by at most one part in \<open>2\<^sup>5\<^sup>3\<close>.\<close>

lemma round53_error: "\<bar>int (round53 m) - int m\<bar> * 2 ^ 53 \<le> int m"
proof (cases "m < 2 ^ 53")
  case True
  then show ?thesis by (simp add: round53_def)
next
  case False
  define s q r where "s = bit_len m - 53" and "q = m div 2 ^ s" and "r = m mod 2 ^ s"
  from False have m: "0 < m" by (intro gr0I) simp
  have len: "2 ^ (bit_len m - 1) \<le> m" "m < 2 ^ bit_len m" using bit_len_bounds [OF m] by auto
  have "\<not> bit_len m \<le> 53" using len(2) False power_increasing [of "bit_len m" 53 "2 :: nat"] by auto
  then have s: "bit_len m - 1 = s - 1 + 53" "1 \<le> s" by (auto simp: s_def)
  have mq: "m = q * 2 ^ s + r" unfolding q_def r_def by (rule div_mult_mod_eq [symmetric])
  have rs: "r < 2 ^ s" by (simp add: r_def)
  have pow: "(2 :: int) ^ s = 2 * 2 ^ (s - 1)" using s(2) by (simp flip: power_Suc)
  have "\<bar>int (round53 m) - int m\<bar> \<le> 2 ^ (s - 1)"
  proof -
    have ri: "int r < 2 ^ s" using rs by (metis of_nat_less_iff of_nat_numeral of_nat_power)
    have mi: "int m = int q * 2 ^ s + int r" by (subst mq) simp
    show ?thesis
    proof (cases "2 ^ s < 2 * r \<or> 2 * r = 2 ^ s \<and> odd q")
      case True
      then have "round53 m = (q + 1) * 2 ^ s" using False by (simp add: round53_def Let_def q_def r_def s_def)
      then have "int (round53 m) - int m = 2 ^ s - int r" by (simp add: mi algebra_simps)
      moreover have "2 ^ s \<le> 2 * int r" using True by (metis less_imp_le of_nat_le_iff of_nat_mult of_nat_numeral of_nat_power order_refl)
      ultimately show ?thesis using ri pow by linarith
    next
      case no: False
      then have "round53 m = q * 2 ^ s" using False by (simp add: round53_def Let_def q_def r_def s_def)
      then have "int (round53 m) - int m = - int r" by (simp add: mi)
      moreover have "2 * int r \<le> 2 ^ s" using no by (metis not_less of_nat_le_iff of_nat_mult of_nat_numeral of_nat_power)
      ultimately show ?thesis using pow by linarith
    qed
  qed
  then have "\<bar>int (round53 m) - int m\<bar> * 2 ^ 53 \<le> 2 ^ (s - 1) * 2 ^ 53" by simp
  also have "\<dots> = 2 ^ (bit_len m - 1)" unfolding s(1) by (simp add: power_add)
  also have "\<dots> \<le> int m" using len(1) by (metis of_nat_le_iff of_nat_numeral of_nat_power)
  finally show ?thesis .
qed

lemma float_eq_sym: "float_eq x y \<longleftrightarrow> float_eq y x"
  by (auto simp: float_eq_def)

lemma float_eq_of_nat: "a < 2 ^ 53 \<Longrightarrow> b < 2 ^ 53 \<Longrightarrow> float_eq (float_of_nat a) (float_of_nat b) \<longleftrightarrow> a = b"
  by (simp add: float_eq_def float_of_nat_def round53_def)

end
