(* ===== verification/Relayer_Data.thy ===== *)
theory Relayer_Data
  imports Prelude
begin

text \<open>
  The data that travels through the relayer (\<open>relayer/transfer/transfer.go\<close>, the message and
  proposal data of \<open>relayer/retry/retry.go\<close> and \<open>chains/btc/executor/message-handler.go\<close>).
  A listener produces a \<open>message\<close>, a message handler of the destination chain turns it
  into a \<open>proposal\<close>, and an executor carries the proposal out. The envelopes \<open>message\<close> and
  \<open>proposal\<close> are the records the code builds with \<open>message.NewMessage\<close> and
  \<open>proposal.NewProposal\<close>.
\<close>

section \<open>Transfer types\<close>

type_synonym TransferType = string

definition FungibleTransfer :: TransferType where
  "FungibleTransfer = ''fungible''"

definition SemiFungibleTransfer :: TransferType where
  "SemiFungibleTransfer = ''semiFungible''"

definition NonFungibleTransfer :: TransferType where
  "NonFungibleTransfer = ''nonFungible''"

definition PermissionedGenericTransfer :: TransferType where
  "PermissionedGenericTransfer = ''permissionedGeneric''"

definition PermissionlessGenericTransfer :: TransferType where
  "PermissionlessGenericTransfer = ''permissionlessGeneric''"

lemmas transfer_type_defs = FungibleTransfer_def SemiFungibleTransfer_def
  NonFungibleTransfer_def PermissionedGenericTransfer_def PermissionlessGenericTransfer_def

lemma transfer_types_distinct:
  "distinct [FungibleTransfer, SemiFungibleTransfer, NonFungibleTransfer,
     PermissionedGenericTransfer, PermissionlessGenericTransfer]"
  by (simp add: transfer_type_defs)

lemma transfer_types_neq [simp]:
  "SemiFungibleTransfer \<noteq> FungibleTransfer" "NonFungibleTransfer \<noteq> FungibleTransfer"
  "NonFungibleTransfer \<noteq> SemiFungibleTransfer"
  "PermissionedGenericTransfer \<noteq> FungibleTransfer"
  "PermissionedGenericTransfer \<noteq> SemiFungibleTransfer"
  "PermissionedGenericTransfer \<noteq> NonFungibleTransfer"
  "PermissionlessGenericTransfer \<noteq> FungibleTransfer"
  "PermissionlessGenericTransfer \<noteq> SemiFungibleTransfer"
  "PermissionlessGenericTransfer \<noteq> NonFungibleTransfer"
  "PermissionlessGenericTransfer \<noteq> PermissionedGenericTransfer"
  by (simp_all add: transfer_type_defs)

definition TransferMessageType :: string where
  "TransferMessageType = ''TransferMessage''"

definition TransferProposalType :: string where
  "TransferProposalType = ''TransferProposal''"

definition RetryMessageType :: string where
  "RetryMessageType = ''RetryMessage''"

section \<open>Payloads and metadata\<close>

text \<open>The dynamic types an \<open>interface{}\<close> of the payload or the metadata is asserted against.\<close>

datatype iface = IBytes bytes | IBigInts "nat list" | IUint64 uint64 | INil

type_synonym metadata = "(string \<times> iface) list"
type_synonym bytes32 = bytes

record TransferMessageData =
  tmd_DepositNonce :: uint64
  tmd_ResourceId :: bytes32
  tmd_Metadata :: metadata
  tmd_Payload :: "iface list"
  tmd_Type :: TransferType

record RetryMessageData =
  rmd_SourceDomainID :: uint8
  rmd_DestinationDomainID :: uint8
  rmd_BlockHeight :: int
  rmd_ResourceID :: bytes32

datatype message_data = MTransfer TransferMessageData | MRetry RetryMessageData

record message =
  m_Source :: uint8
  m_Destination :: uint8
  m_Data :: message_data
  m_ID :: string
  m_Type :: string
  m_Timestamp :: int

definition NewMessage ::
  "uint8 \<Rightarrow> uint8 \<Rightarrow> message_data \<Rightarrow> string \<Rightarrow> string \<Rightarrow> int \<Rightarrow> message" where
  "NewMessage source destination data messageID msgType timestamp =
     \<lparr>m_Source = source, m_Destination = destination, m_Data = data, m_ID = messageID,
      m_Type = msgType, m_Timestamp = timestamp\<rparr>"

record TransferMessage =
  tm_Source :: uint8
  tm_Destination :: uint8
  tm_Data :: TransferMessageData
  tm_Type :: string
  tm_ID :: string

record TransferProposalData =
  tpd_DepositNonce :: uint64
  tpd_ResourceId :: bytes32
  tpd_Metadata :: metadata
  tpd_Data :: bytes

record BtcTransferProposalData =
  btpd_Amount :: uint64
  btpd_Recipient :: string
  btpd_DepositNonce :: uint64
  btpd_ResourceId :: bytes32

datatype proposal_data = PTransfer TransferProposalData | PBtc BtcTransferProposalData

record proposal =
  p_Source :: uint8
  p_Destination :: uint8
  p_Data :: proposal_data
  p_MessageID :: string
  p_Type :: string

definition NewProposal ::
  "uint8 \<Rightarrow> uint8 \<Rightarrow> proposal_data \<Rightarrow> string \<Rightarrow> string \<Rightarrow> proposal" where
  "NewProposal source destination data messageID propType =
     \<lparr>p_Source = source, p_Destination = destination, p_Data = data,
      p_MessageID = messageID, p_Type = propType\<rparr>"

record TransferProposal =
  tp_Source :: uint8
  tp_Destination :: uint8
  tp_Data :: TransferProposalData
  tp_Type :: string
  tp_MessageID :: string

text \<open>The type assertions \<open>msg.Data.(transfer.TransferMessageData)\<close> and the like panic.\<close>

definition conversion_panic :: go_error where
  "conversion_panic = Panic ''interface conversion''"

fun asTransferMessageData :: "message_data \<Rightarrow> TransferMessageData res" where
  "asTransferMessageData (MTransfer d) = Inr d"
| "asTransferMessageData (MRetry _) = Inl conversion_panic"

fun asRetryMessageData :: "message_data \<Rightarrow> RetryMessageData res" where
  "asRetryMessageData (MRetry d) = Inr d"
| "asRetryMessageData (MTransfer _) = Inl conversion_panic"

fun asTransferProposalData :: "proposal_data \<Rightarrow> TransferProposalData res" where
  "asTransferProposalData (PTransfer d) = Inr d"
| "asTransferProposalData (PBtc _) = Inl conversion_panic"

fun asBtcTransferProposalData :: "proposal_data \<Rightarrow> BtcTransferProposalData res" where
  "asBtcTransferProposalData (PBtc d) = Inr d"
| "asBtcTransferProposalData (PTransfer _) = Inl conversion_panic"

text \<open>The checked assertion \<open>x, ok := payload[i].([]byte)\<close>: an error, not a panic.\<close>

fun asBytes :: "string \<Rightarrow> iface \<Rightarrow> bytes res" where
  "asBytes msg (IBytes b) = Inr b"
| "asBytes msg _ = Inl (Error msg)"

fun asBigInts :: "string \<Rightarrow> iface \<Rightarrow> nat list res" where
  "asBigInts msg (IBigInts b) = Inr b"
| "asBigInts msg _ = Inl (Error msg)"

text \<open>Indexing the payload: out of range panics.\<close>

definition payload_at :: "iface list \<Rightarrow> nat \<Rightarrow> iface res" where
  "payload_at p i = (if i < length p then Inr (p ! i) else Inl (Panic ''index out of range''))"

lemma asBytes_Inr_iff [simp]: "asBytes s x = Inr b \<longleftrightarrow> x = IBytes b"
  by (cases x) auto

lemma asBigInts_Inr_iff [simp]: "asBigInts s x = Inr b \<longleftrightarrow> x = IBigInts b"
  by (cases x) auto

lemma payload_at_Inr_iff [simp]: "payload_at p i = Inr x \<longleftrightarrow> i < length p \<and> p ! i = x"
  by (auto simp: payload_at_def)

section \<open>Grouping messages by destination\<close>

text \<open>
  The loop every deposit listener runs: each event is turned into a message inside a
  function that recovers from panics; a failing event is logged and left out, the others
  are collected under their destination domain.
\<close>

fun group_loop :: "('d \<Rightarrow> message res) \<Rightarrow> (uint8 \<times> message list) list \<Rightarrow> 'd list \<Rightarrow> (uint8 \<times> message list) list" where
  "group_loop f acc [] = acc"
| "group_loop f acc (d # ds) =
     (case f d of
        Inl _ \<Rightarrow> group_loop f acc ds
      | Inr m \<Rightarrow> group_loop f (append_at (m_Destination m) m acc) ds)"

text \<open>What such a map of message lists has to look like for its consumers.\<close>

definition grouped :: "(uint8 \<times> message list) list \<Rightarrow> bool" where
  "grouped dd \<longleftrightarrow> distinct (map fst dd) \<and>
     (\<forall>(k, ms) \<in> set dd. ms \<noteq> [] \<and> (\<forall>m \<in> set ms. m_Destination m = k))"

lemma grouped_Nil [simp]: "grouped []"
  by (simp add: grouped_def)

lemma append_at_entries:
  "(k', ms) \<in> set (append_at k v m) \<Longrightarrow> (k', ms) \<in> set m \<or> k' = k \<and> (ms = [v] \<or> (\<exists>vs. (k, vs) \<in> set m \<and> ms = vs @ [v]))"
  by (induction k v m rule: append_at.induct) (auto split: if_splits)

lemma grouped_append_at:
  assumes "grouped dd"
  shows "grouped (append_at (m_Destination m) m dd)"
proof -
  have "ms \<noteq> [] \<and> (\<forall>x \<in> set ms. m_Destination x = k)"
    if "(k, ms) \<in> set (append_at (m_Destination m) m dd)" for k ms
    using append_at_entries [OF that] assms by (fastforce simp: grouped_def)
  with assms show ?thesis by (auto simp: grouped_def distinct_append_at)
qed

lemma group_loop_grouped: "grouped acc \<Longrightarrow> grouped (group_loop f acc ds)"
  by (induction ds arbitrary: acc) (auto split: sum.splits intro: grouped_append_at)

lemma group_loop_at_key:
  "at_key (group_loop f acc ds) k = at_key acc k @ filter (\<lambda>m. m_Destination m = k) (oks f ds)"
  by (induction ds arbitrary: acc) (auto split: sum.splits)

end
