(* ===== verification/PropStore.thy ===== *)
theory PropStore
  imports Relayer_Data
begin

text \<open>
  The proposal status store (\<open>store/propstore.go\<close>). The key-value database below it
  (LevelDB behind \<open>KeyValueReaderWriter\<close>) is a parameter: its read and write operations are
  arguments of the store's operations, and locale \<open>kv_store\<close> states what a database
  promises. Locale \<open>prop_storer\<close> is the \<open>PropStorer\<close> interface the executors and the retry
  code use; every \<open>kv_store\<close> gives a \<open>prop_storer\<close> through the store's own definitions,
  because the database keys of different proposals differ.
\<close>

section \<open>Statuses and keys\<close>

type_synonym PropStatus = string

definition MissingProp :: PropStatus where "MissingProp = ''missing''"
definition PendingProp :: PropStatus where "PendingProp = ''pending''"
definition FailedProp :: PropStatus where "FailedProp = ''failed''"
definition ExecutedProp :: PropStatus where "ExecutedProp = ''executed''"

lemmas prop_status_defs = MissingProp_def PendingProp_def FailedProp_def ExecutedProp_def

lemma prop_status_neq [simp]:
  "MissingProp \<noteq> PendingProp" "MissingProp \<noteq> FailedProp" "MissingProp \<noteq> ExecutedProp"
  "PendingProp \<noteq> MissingProp" "PendingProp \<noteq> FailedProp" "PendingProp \<noteq> ExecutedProp"
  "FailedProp \<noteq> MissingProp" "FailedProp \<noteq> PendingProp" "FailedProp \<noteq> ExecutedProp"
  "ExecutedProp \<noteq> MissingProp" "ExecutedProp \<noteq> PendingProp" "ExecutedProp \<noteq> FailedProp"
  by (simp_all add: prop_status_defs)

definition KEY :: "uint8 \<Rightarrow> uint8 \<Rightarrow> uint64 \<Rightarrow> string" where
  "KEY source destination depositNonce =
     ''source:'' @ dec (unat source) @ '':destination:'' @ dec (unat destination)
       @ '':depositNonce:'' @ dec (unat depositNonce)"

section \<open>Operations\<close>

datatype db_error = ErrNotFound | DbFault string

definition StorePropStatus ::
  "('d \<Rightarrow> string \<Rightarrow> string \<Rightarrow> 'd res) \<Rightarrow> 'd \<Rightarrow> uint8 \<Rightarrow> uint8 \<Rightarrow> uint64 \<Rightarrow> PropStatus \<Rightarrow> 'd res"
  where
  "StorePropStatus SetByKey db source destination depositNonce status =
     (case SetByKey db (KEY source destination depositNonce) status of
        Inl err \<Rightarrow> Inl err
      | Inr db' \<Rightarrow> Inr db')"

definition PropStatus ::
  "('d \<Rightarrow> string \<Rightarrow> db_error + string) \<Rightarrow> 'd \<Rightarrow> uint8 \<Rightarrow> uint8 \<Rightarrow> uint64 \<Rightarrow> PropStatus res"
  where
  "PropStatus GetByKey db source destination depositNonce =
     (case GetByKey db (KEY source destination depositNonce) of
        Inl ErrNotFound \<Rightarrow> Inr MissingProp
      | Inl (DbFault err) \<Rightarrow> Inl (Error err)
      | Inr v \<Rightarrow> Inr v)"

section \<open>Keys identify proposals\<close>

lemma append_dec_sep:
  assumes "dec m @ CHR '':'' # ys = dec m' @ CHR '':'' # ys'"
  shows "m = m' \<and> ys = ys'"
  using append_sep_eq [OF _ _ assms] dec_no_char [of "CHR '':''"] by (auto dest: dec_inj)

lemma KEY_eq_iff:
  "KEY s d n = KEY s' d' n' \<longleftrightarrow> s = s' \<and> d = d' \<and> n = n'"
proof
  assume eq: "KEY s d n = KEY s' d' n'"
  then have "dec (unat s) @ CHR '':'' # ''destination:'' @ dec (unat d) @ CHR '':'' # ''depositNonce:'' @ dec (unat n)
     = dec (unat s') @ CHR '':'' # ''destination:'' @ dec (unat d') @ CHR '':'' # ''depositNonce:'' @ dec (unat n')"
    by (simp add: KEY_def)
  from append_dec_sep [OF this]
  have s: "unat s = unat s'"
    and "dec (unat d) @ CHR '':'' # ''depositNonce:'' @ dec (unat n)
       = dec (unat d') @ CHR '':'' # ''depositNonce:'' @ dec (unat n')" by auto
  from append_dec_sep [OF this(2)]
  have "unat d = unat d'" "dec (unat n) = dec (unat n')" by auto
  with s show "s = s' \<and> d = d' \<and> n = n'"
    by (auto dest: dec_inj intro: unsigned_word_eqI)
qed simp

section \<open>Interfaces\<close>

locale kv_store =
  fixes GetByKey :: "'d \<Rightarrow> string \<Rightarrow> db_error + string"
    and SetByKey :: "'d \<Rightarrow> string \<Rightarrow> string \<Rightarrow> 'd res"
  assumes get_set: "SetByKey db k v = Inr db' \<Longrightarrow> GetByKey db' k = Inr v"
    and get_set_other: "SetByKey db k v = Inr db' \<Longrightarrow> k' \<noteq> k \<Longrightarrow> GetByKey db' k' = GetByKey db k'"

locale prop_storer =
  fixes status :: "'s \<Rightarrow> uint8 \<Rightarrow> uint8 \<Rightarrow> uint64 \<Rightarrow> PropStatus res"
    and store :: "'s \<Rightarrow> uint8 \<Rightarrow> uint8 \<Rightarrow> uint64 \<Rightarrow> PropStatus \<Rightarrow> 's res"
  assumes status_store: "store st s d n x = Inr st' \<Longrightarrow> status st' s d n = Inr x"
    and status_store_other: "store st s d n x = Inr st' \<Longrightarrow>
      (s', d', n') \<noteq> (s, d, n) \<Longrightarrow> status st' s' d' n' = status st s' d' n'"
begin

lemma status_after:
  "store st s d n x = Inr st' \<Longrightarrow>
   status st' s' d' n' = (if (s', d', n') = (s, d, n) then Inr x else status st s' d' n')"
  using status_store status_store_other by auto

end

sublocale kv_store \<subseteq> ps: prop_storer "PropStatus GetByKey" "StorePropStatus SetByKey"
proof unfold_locales
  fix st s d n x st'
  assume "StorePropStatus SetByKey st s d n x = Inr st'"
  then have "SetByKey st (KEY s d n) x = Inr st'"
    by (simp add: StorePropStatus_def split: sum.splits)
  then show "PropStatus GetByKey st' s d n = Inr x"
    by (simp add: PropStatus_def get_set)
next
  fix st s d n x st' s' d' n'
  assume "StorePropStatus SetByKey st s d n x = Inr st'" and ne: "(s', d', n') \<noteq> (s, d, n)"
  then have "SetByKey st (KEY s d n) x = Inr st'"
    by (simp add: StorePropStatus_def split: sum.splits)
  moreover have "KEY s' d' n' \<noteq> KEY s d n" using ne by (auto simp: KEY_eq_iff)
  ultimately show "PropStatus GetByKey st' s' d' n' = PropStatus GetByKey st s' d' n'"
    by (simp add: PropStatus_def get_set_other)
qed

context kv_store
begin

lemma status_read_after_write:
  "StorePropStatus SetByKey db s d n x = Inr db' \<Longrightarrow>
   PropStatus GetByKey db' s' d' n' =
     (if (s', d', n') = (s, d, n) then Inr x else PropStatus GetByKey db s' d' n')"
  by (rule ps.status_after)

end

text \<open>
  An in-memory database that honours the contract: an association list, which refuses
  writes once it is closed.
\<close>

record mem_db =
  mem_entries :: "(string \<times> string) list"
  mem_closed :: bool

definition mem_get :: "mem_db \<Rightarrow> string \<Rightarrow> db_error + string" where
  "mem_get db k =
     (if mem_closed db then Inl (DbFault ''leveldb: closed'')
      else case map_of (mem_entries db) k of None \<Rightarrow> Inl ErrNotFound | Some v \<Rightarrow> Inr v)"

definition mem_set :: "mem_db \<Rightarrow> string \<Rightarrow> string \<Rightarrow> mem_db res" where
  "mem_set db k v =
     (if mem_closed db then Inl (Error ''leveldb: closed'')
      else Inr (db\<lparr>mem_entries := (k, v) # mem_entries db\<rparr>))"

interpretation mem: kv_store mem_get mem_set
  by unfold_locales (auto simp: mem_get_def mem_set_def split: if_splits)

text \<open>
  C32. A status written for a proposal is what a later read of that proposal returns, and
  writing it changes the status of no other proposal, whatever the database is, as long
  as the database itself returns what was last written under a key.
\<close>

theorem prop_store_read_after_write:
  assumes "kv_store GetByKey SetByKey"
    and "StorePropStatus SetByKey db s d n x = Inr db'"
  shows "PropStatus GetByKey db' s' d' n' =
           (if (s', d', n') = (s, d, n) then Inr x else PropStatus GetByKey db s' d' n')"
  using kv_store.status_read_after_write [OF assms] .

theorem prop_store_read_after_write_witness:
  "PropStatus mem_get \<lparr>mem_entries = [(KEY 1 2 3, ExecutedProp)], mem_closed = False\<rparr> 1 2 3
     = Inr ExecutedProp"
  using prop_store_read_after_write [OF mem.kv_store_axioms,
    of "\<lparr>mem_entries = [], mem_closed = False\<rparr>" 1 2 3 ExecutedProp
       "\<lparr>mem_entries = [(KEY 1 2 3, ExecutedProp)], mem_closed = False\<rparr>" 1 2 3]
  by (simp add: StorePropStatus_def mem_set_def)

end
