(* ===== verification/Retry.thy ===== *)
theory Retry
  imports PropStore
begin

text \<open>
  Selecting the deposits of a retry request (\<open>relayer/retry/retry.go\<close>). The proposal store is
  reached through the \<open>PropStorer\<close> interface: its two operations are arguments, and the
  client lemmas are proved once in locale \<open>prop_storer\<close>. A deposit whose status cannot be
  read or written is skipped, as the code's \<open>continue\<close> does.
\<close>

section \<open>Operations\<close>

definition isExecuted ::
  "('s \<Rightarrow> uint8 \<Rightarrow> uint8 \<Rightarrow> uint64 \<Rightarrow> PropStatus res) \<Rightarrow>
   ('s \<Rightarrow> uint8 \<Rightarrow> uint8 \<Rightarrow> uint64 \<Rightarrow> PropStatus \<Rightarrow> 's res) \<Rightarrow>
   's \<Rightarrow> message \<Rightarrow> bool res \<times> 's" where
  "isExecuted status store st msg =
     (case asTransferMessageData (m_Data msg) of
        Inl e \<Rightarrow> (Inl e, st)
      | Inr data \<Rightarrow>
          (case status st (m_Source msg) (m_Destination msg) (tmd_DepositNonce data) of
             Inl err \<Rightarrow> (Inl err, st)
           | Inr propStatus \<Rightarrow>
               if propStatus = ExecutedProp then (Inr True, st)
               else if propStatus = PendingProp then
                 (case store st (m_Source msg) (m_Destination msg) (tmd_DepositNonce data) FailedProp of
                    Inl err \<Rightarrow> (Inl err, st)
                  | Inr st' \<Rightarrow> (Inr False, st'))
               else (Inr False, st)))"

text \<open>The inner loop over the deposits of one domain.\<close>

fun filter_loop ::
  "('s \<Rightarrow> uint8 \<Rightarrow> uint8 \<Rightarrow> uint64 \<Rightarrow> PropStatus res) \<Rightarrow>
   ('s \<Rightarrow> uint8 \<Rightarrow> uint8 \<Rightarrow> uint64 \<Rightarrow> PropStatus \<Rightarrow> 's res) \<Rightarrow>
   bytes32 \<Rightarrow> 's \<Rightarrow> message list \<Rightarrow> message list \<Rightarrow> message list res \<times> 's" where
  "filter_loop status store resourceID st acc [] = (Inr acc, st)"
| "filter_loop status store resourceID st acc (deposit # deposits) =
     (case asTransferMessageData (m_Data deposit) of
        Inl e \<Rightarrow> (Inl e, st)
      | Inr data \<Rightarrow>
          if tmd_ResourceId data \<noteq> resourceID
          then filter_loop status store resourceID st acc deposits
          else (case isExecuted status store st deposit of
                  (Inl err, st') \<Rightarrow> filter_loop status store resourceID st' acc deposits
                | (Inr True, st') \<Rightarrow> filter_loop status store resourceID st' acc deposits
                | (Inr False, st') \<Rightarrow>
                    filter_loop status store resourceID st' (acc @ [deposit]) deposits))"

text \<open>The outer loop over the map of deposits per domain.\<close>

fun FilterDeposits_loop ::
  "('s \<Rightarrow> uint8 \<Rightarrow> uint8 \<Rightarrow> uint64 \<Rightarrow> PropStatus res) \<Rightarrow>
   ('s \<Rightarrow> uint8 \<Rightarrow> uint8 \<Rightarrow> uint64 \<Rightarrow> PropStatus \<Rightarrow> 's res) \<Rightarrow>
   bytes32 \<Rightarrow> uint8 \<Rightarrow> 's \<Rightarrow> message list \<Rightarrow> (uint8 \<times> message list) list
     \<Rightarrow> message list res \<times> 's" where
  "FilterDeposits_loop status store resourceID destination st acc [] = (Inr acc, st)"
| "FilterDeposits_loop status store resourceID destination st acc ((domain, deposits) # rest) =
     (if domain \<noteq> destination
      then FilterDeposits_loop status store resourceID destination st acc rest
      else (case filter_loop status store resourceID st acc deposits of
              (Inl e, st') \<Rightarrow> (Inl e, st')
            | (Inr acc', st') \<Rightarrow>
                FilterDeposits_loop status store resourceID destination st' acc' rest))"

definition FilterDeposits ::
  "('s \<Rightarrow> uint8 \<Rightarrow> uint8 \<Rightarrow> uint64 \<Rightarrow> PropStatus res) \<Rightarrow>
   ('s \<Rightarrow> uint8 \<Rightarrow> uint8 \<Rightarrow> uint64 \<Rightarrow> PropStatus \<Rightarrow> 's res) \<Rightarrow>
   's \<Rightarrow> (uint8 \<times> message list) list \<Rightarrow> bytes32 \<Rightarrow> uint8 \<Rightarrow> message list res \<times> 's" where
  "FilterDeposits status store st domainDeposits resourceID destination =
     FilterDeposits_loop status store resourceID destination st [] domainDeposits"

section \<open>Vocabulary of the specification\<close>

definition is_transfer :: "message \<Rightarrow> bool" where
  "is_transfer m = (case m_Data m of MTransfer _ \<Rightarrow> True | MRetry _ \<Rightarrow> False)"

definition transfer_of :: "message \<Rightarrow> TransferMessageData" where
  "transfer_of m = (case m_Data m of MTransfer d \<Rightarrow> d | MRetry _ \<Rightarrow> undefined)"

text \<open>The status the store holds for the deposit a message stands for.\<close>

definition msg_status ::
  "('s \<Rightarrow> uint8 \<Rightarrow> uint8 \<Rightarrow> uint64 \<Rightarrow> PropStatus res) \<Rightarrow> 's \<Rightarrow> message \<Rightarrow> PropStatus res" where
  "msg_status status st m =
     status st (m_Source m) (m_Destination m) (tmd_DepositNonce (transfer_of m))"

text \<open>A store none of whose operations fails.\<close>

definition store_healthy ::
  "('s \<Rightarrow> uint8 \<Rightarrow> uint8 \<Rightarrow> uint64 \<Rightarrow> PropStatus res) \<Rightarrow>
   ('s \<Rightarrow> uint8 \<Rightarrow> uint8 \<Rightarrow> uint64 \<Rightarrow> PropStatus \<Rightarrow> 's res) \<Rightarrow> ('s \<Rightarrow> bool) \<Rightarrow> bool" where
  "store_healthy status store I \<longleftrightarrow>
     (\<forall>st s d n. I st \<longrightarrow> is_ok (status st s d n)) \<and>
     (\<forall>st s d n x. I st \<longrightarrow> (\<exists>st'. store st s d n x = Inr st' \<and> I st'))"

text \<open>
  What one pass over the store may change: a pending entry may become failed, every other
  entry keeps its status.
\<close>

definition only_unstuck ::
  "('s \<Rightarrow> uint8 \<Rightarrow> uint8 \<Rightarrow> uint64 \<Rightarrow> PropStatus res) \<Rightarrow> 's \<Rightarrow> 's \<Rightarrow> bool" where
  "only_unstuck status st st' \<longleftrightarrow>
     (\<forall>s d n. status st' s d n = status st s d n \<or>
        status st s d n = Inr PendingProp \<and> status st' s d n = Inr FailedProp)"

lemma is_transferD: "is_transfer m \<Longrightarrow> asTransferMessageData (m_Data m) = Inr (transfer_of m)"
  by (simp add: is_transfer_def transfer_of_def split: message_data.splits)

lemma only_unstuck_refl [simp]: "only_unstuck status st st"
  by (simp add: only_unstuck_def)

lemma only_unstuck_trans:
  "only_unstuck status a b \<Longrightarrow> only_unstuck status b c \<Longrightarrow> only_unstuck status a c"
  unfolding only_unstuck_def by (metis Inr_inject prop_status_neq(5))

lemma only_unstuck_executed:
  "only_unstuck status st st' \<Longrightarrow>
   status st' s d n = Inr ExecutedProp \<longleftrightarrow> status st s d n = Inr ExecutedProp"
  unfolding only_unstuck_def by (metis Inr_inject prop_status_neq(6,9))

section \<open>Client lemmas over the interface\<close>

context prop_storer
begin

lemma store_failed_only_unstuck:
  "store st s d n FailedProp = Inr st' \<Longrightarrow> status st s d n = Inr PendingProp \<Longrightarrow>
   only_unstuck status st st'"
  by (auto simp: only_unstuck_def status_after)

lemma isExecuted_only_unstuck:
  "isExecuted status store st m = (r, st') \<Longrightarrow> only_unstuck status st st'"
  by (auto simp: isExecuted_def split: sum.splits if_splits intro: store_failed_only_unstuck)

lemma isExecuted_False:
  assumes "isExecuted status store st m = (Inr False, st')"
  shows "msg_status status st' m \<noteq> Inr ExecutedProp \<and> msg_status status st' m \<noteq> Inr PendingProp"
proof -
  from assms obtain d where d: "m_Data m = MTransfer d"
    by (cases "m_Data m") (auto simp: isExecuted_def)
  with assms show ?thesis
    by (auto simp: isExecuted_def msg_status_def transfer_of_def split: sum.splits if_splits
        dest: status_store)
qed

lemma isExecuted_healthy:
  assumes "store_healthy status store I" "I st" "is_transfer m"
  obtains st' where "isExecuted status store st m = (Inr (msg_status status st m = Inr ExecutedProp), st')"
    "I st'"
proof -
  let ?n = "tmd_DepositNonce (transfer_of m)"
  from assms obtain x where x: "status st (m_Source m) (m_Destination m) ?n = Inr x"
    unfolding store_healthy_def by (metis is_ok_simps(2) sum.exhaust)
  from assms obtain st'' where st'':
    "store st (m_Source m) (m_Destination m) ?n FailedProp = Inr st''" "I st''"
    unfolding store_healthy_def by blast
  show thesis
  proof (cases "x = PendingProp")
    case True
    with x st'' assms(3) show thesis
      by (intro that [of st'']) (simp_all add: isExecuted_def msg_status_def is_transferD)
  next
    case False
    with x assms(2,3) show thesis
      by (intro that [of st]) (simp_all add: isExecuted_def msg_status_def is_transferD)
  qed
qed

lemma filter_loop_only_unstuck:
  "filter_loop status store rid st acc ds = (r, st') \<Longrightarrow> only_unstuck status st st'"
proof (induction ds arbitrary: st acc)
  case (Cons m ds)
  obtain b st1 where x: "isExecuted status store st m = (b, st1)" by fastforce
  then have "only_unstuck status st st1" by (rule isExecuted_only_unstuck)
  with Cons x show ?case
    by (auto split: sum.splits if_splits bool.splits intro: only_unstuck_trans)
qed simp

text \<open>Every deposit kept is for the asked resource, and its status allows an execution.\<close>

lemma filter_loop_sound:
  assumes "filter_loop status store rid st acc ds = (Inr out, st')" "m \<in> set out"
  shows "m \<in> set acc \<or> m \<in> set ds \<and> is_transfer m \<and> tmd_ResourceId (transfer_of m) = rid \<and>
           msg_status status st' m \<noteq> Inr ExecutedProp \<and> msg_status status st' m \<noteq> Inr PendingProp"
  using assms
proof (induction ds arbitrary: st acc)
  case (Cons a ds)
  obtain b st1 where x: "isExecuted status store st a = (b, st1)" by fastforce
  show ?case
  proof (cases "\<exists>d. m_Data a = MTransfer d \<and> tmd_ResourceId d = rid \<and> b = Inr False")
    case True
    then have step: "filter_loop status store rid st1 (acc @ [a]) ds = (Inr out, st')"
      using Cons.prems x by auto
    have un: "only_unstuck status st1 st'" using filter_loop_only_unstuck [OF step] .
    have "msg_status status st1 a \<noteq> Inr ExecutedProp \<and> msg_status status st1 a \<noteq> Inr PendingProp"
      using isExecuted_False x True by blast
    then have "msg_status status st' a \<noteq> Inr ExecutedProp \<and> msg_status status st' a \<noteq> Inr PendingProp"
      using un by (auto simp: msg_status_def only_unstuck_def) (metis Inr_inject prop_status_neq)+
    with True Cons.IH [OF step Cons.prems(2)] show ?thesis
      by (auto simp: is_transfer_def transfer_of_def)
  next
    case False
    then obtain st2 where "filter_loop status store rid st2 acc ds = (Inr out, st')"
      using Cons.prems x by (cases "m_Data a") (auto split: sum.splits if_splits bool.splits)
    from Cons.IH [OF this Cons.prems(2)] show ?thesis by auto
  qed
qed simp

lemma filter_loop_healthy:
  assumes "store_healthy status store I" "I st" "list_all is_transfer ds"
  shows "\<exists>st'. filter_loop status store rid st acc ds =
     (Inr (acc @ filter (\<lambda>m. tmd_ResourceId (transfer_of m) = rid \<and>
        msg_status status st m \<noteq> Inr ExecutedProp) ds), st') \<and> I st'"
  using assms(2,3)
proof (induction ds arbitrary: st acc)
  case (Cons m ds)
  then have m: "is_transfer m" "list_all is_transfer ds" by simp_all
  show ?case
  proof (cases "tmd_ResourceId (transfer_of m) = rid")
    case False
    with Cons.IH [OF Cons.prems(1) m(2), of acc] m(1) show ?thesis by (simp add: is_transferD)
  next
    case True
    obtain st1 where st1:
      "isExecuted status store st m = (Inr (msg_status status st m = Inr ExecutedProp), st1)" "I st1"
      using isExecuted_healthy [OF assms(1) Cons.prems(1) m(1)] by blast
    have same: "msg_status status st1 m' \<noteq> Inr ExecutedProp \<longleftrightarrow> msg_status status st m' \<noteq> Inr ExecutedProp"
      for m' using only_unstuck_executed [OF isExecuted_only_unstuck [OF st1(1)]]
      by (simp add: msg_status_def)
    from Cons.IH [OF st1(2) m(2), of acc] Cons.IH [OF st1(2) m(2), of "acc @ [m]"]
      st1(1) True m(1) show ?thesis
      by (cases "msg_status status st m = Inr ExecutedProp") (auto simp: is_transferD same)
  qed
qed simp

text \<open>Only the entry of the asked destination matters.\<close>

lemma FilterDeposits_loop_skip:
  "destination \<notin> fst ` set dd \<Longrightarrow>
   FilterDeposits_loop status store rid destination st acc dd = (Inr acc, st)"
  by (induction dd) auto

lemma FilterDeposits_at_key:
  assumes "distinct (map fst dd)"
  shows "FilterDeposits status store st dd rid destination =
           filter_loop status store rid st [] (at_key dd destination)"
proof -
  have "FilterDeposits_loop status store rid destination st acc dd =
          filter_loop status store rid st acc (at_key dd destination)" for acc
    using assms
    by (induction dd) (auto simp: at_key_def FilterDeposits_loop_skip split: prod.splits sum.splits)
  then show ?thesis by (simp add: FilterDeposits_def)
qed

end

section \<open>Retry requests over the proposal store\<close>

context kv_store
begin

lemma kv_filter_deposits_healthy:
  assumes "store_healthy (PropStatus GetByKey) (StorePropStatus SetByKey) I" "I st"
    and "distinct (map fst dd)" "list_all is_transfer (at_key dd destination)"
  shows "fst (FilterDeposits (PropStatus GetByKey) (StorePropStatus SetByKey) st dd rid destination) =
     Inr (filter (\<lambda>m. tmd_ResourceId (transfer_of m) = rid \<and>
        msg_status (PropStatus GetByKey) st m \<noteq> Inr ExecutedProp) (at_key dd destination))"
  using ps.filter_loop_healthy [OF assms(1,2,4), of rid "[]"]
  by (auto simp: ps.FilterDeposits_at_key assms(3))

lemma kv_filter_deposits_safe:
  assumes "distinct (map fst dd)"
    and "FilterDeposits (PropStatus GetByKey) (StorePropStatus SetByKey) st dd rid destination
           = (Inr out, st')"
  shows "only_unstuck (PropStatus GetByKey) st st' \<and>
     (\<forall>m \<in> set out. m \<in> set (at_key dd destination) \<and> is_transfer m \<and>
        tmd_ResourceId (transfer_of m) = rid \<and>
        msg_status (PropStatus GetByKey) st' m \<noteq> Inr ExecutedProp \<and>
        msg_status (PropStatus GetByKey) st' m \<noteq> Inr PendingProp)"
proof -
  from assms have step: "filter_loop (PropStatus GetByKey) (StorePropStatus SetByKey) rid st []
      (at_key dd destination) = (Inr out, st')"
    by (simp add: ps.FilterDeposits_at_key)
  from ps.filter_loop_only_unstuck [OF step] ps.filter_loop_sound [OF step] show ?thesis by auto
qed

end

definition example_deposit :: "uint64 \<Rightarrow> message" where
  "example_deposit n = NewMessage 1 2 (MTransfer \<lparr>tmd_DepositNonce = n, tmd_ResourceId = [7],
     tmd_Metadata = [], tmd_Payload = [], tmd_Type = FungibleTransfer\<rparr>) ''1-2-5-5'' TransferMessageType 0"

abbreviation example_db :: mem_db where
  "example_db \<equiv> \<lparr>mem_entries = [(KEY 1 2 4, PendingProp), (KEY 1 2 3, ExecutedProp)], mem_closed = False\<rparr>"

lemma mem_healthy:
  "store_healthy (PropStatus mem_get) (StorePropStatus mem_set) (\<lambda>db. \<not> mem_closed db)"
  by (auto simp: store_healthy_def PropStatus_def StorePropStatus_def mem_get_def mem_set_def is_ok_def
      split: option.splits)

text \<open>
  On a store that works, a retry request yields exactly the deposits of the asked
  destination and resource that are not marked executed, in their original order: nothing
  else is retried and no eligible deposit is lost.
\<close>

theorem filter_deposits_spec:
  assumes "kv_store GetByKey SetByKey"
    and "store_healthy (PropStatus GetByKey) (StorePropStatus SetByKey) I" "I st"
    and "distinct (map fst dd)" "list_all is_transfer (at_key dd destination)"
  shows "fst (FilterDeposits (PropStatus GetByKey) (StorePropStatus SetByKey) st dd rid destination) =
     Inr (filter (\<lambda>m. tmd_ResourceId (transfer_of m) = rid \<and>
        msg_status (PropStatus GetByKey) st m \<noteq> Inr ExecutedProp) (at_key dd destination))"
  using kv_store.kv_filter_deposits_healthy [OF assms] .

theorem filter_deposits_spec_witness:
  "fst (FilterDeposits (PropStatus mem_get) (StorePropStatus mem_set) example_db
      [(2, [example_deposit 3, example_deposit 4])] [7] 2) = Inr [example_deposit 4]"
  using filter_deposits_spec [OF mem.kv_store_axioms mem_healthy,
      of example_db "[(2, [example_deposit 3, example_deposit 4])]" 2 "[7]"]
  by (simp add: at_key_def example_deposit_def NewMessage_def is_transfer_def transfer_of_def
      msg_status_def PropStatus_def mem_get_def KEY_eq_iff)

text \<open>
  Whatever the store does (reads and writes may fail at any point), a retry request
  never hands out a deposit that is executed or still marked pending, and its only effect
  on the store is that pending entries become failed; in particular an executed entry
  stays executed.
\<close>

theorem filter_deposits_safe:
  assumes "kv_store GetByKey SetByKey" and "distinct (map fst dd)"
    and "FilterDeposits (PropStatus GetByKey) (StorePropStatus SetByKey) st dd rid destination
           = (Inr out, st')"
  shows "only_unstuck (PropStatus GetByKey) st st' \<and>
     (\<forall>m \<in> set out. m \<in> set (at_key dd destination) \<and> is_transfer m \<and>
        tmd_ResourceId (transfer_of m) = rid \<and>
        msg_status (PropStatus GetByKey) st' m \<noteq> Inr ExecutedProp \<and>
        msg_status (PropStatus GetByKey) st' m \<noteq> Inr PendingProp)"
  using kv_store.kv_filter_deposits_safe [OF assms] .

theorem filter_deposits_safe_witness:
  "only_unstuck (PropStatus mem_get) example_db
     (example_db\<lparr>mem_entries := (KEY 1 2 4, FailedProp) # mem_entries example_db\<rparr>)"
proof -
  have "FilterDeposits (PropStatus mem_get) (StorePropStatus mem_set) example_db
      [(2, [example_deposit 3, example_deposit 4])] [7] 2 =
      (Inr [example_deposit 4],
       example_db\<lparr>mem_entries := (KEY 1 2 4, FailedProp) # mem_entries example_db\<rparr>)"
    by (simp add: FilterDeposits_def example_deposit_def NewMessage_def isExecuted_def PropStatus_def
        StorePropStatus_def mem_get_def mem_set_def KEY_eq_iff)
  from filter_deposits_safe [OF mem.kv_store_axioms _ this] show ?thesis by simp
qed

end
