(* ===== verification/Btc_Executor.thy ===== *)
theory Btc_Executor
  imports Retry Parsing
begin

text \<open>
  The Bitcoin executor (\<open>chains/btc/executor/executor.go\<close>) with the resources it pays from
  (\<open>chains/btc/config/config.go\<close>) and the unspent outputs the mempool service reports
  (\<open>chains/btc/mempool/mempool.go\<close>). Selecting the proposals under the mutex, building the
  transaction on 64-bit amounts, collecting one signature per input and recording the outcome
  are modelled. The functions of btcd (addresses, scripts, hashes) are arguments, and so are
  the uploader, the HTTP answers and the proposal store.
\<close>

section \<open>Data\<close>

record BtcTransferProposal =
  bp_Source :: uint8
  bp_Destination :: uint8
  bp_Data :: BtcTransferProposalData

record 'a Resource =
  rc_Address :: 'a
  rc_FeeAmount :: int
  rc_ResourceID :: bytes32
  rc_Tweak :: string
  rc_Script :: bytes

record Utxo =
  ux_TxID :: string
  ux_Vout :: uint32
  ux_Value :: uint64
  ux_BlockTime :: uint64

record Fee =
  fe_EconomyFee :: uint64

record TxOut =
  to_Value :: int
  to_PkScript :: bytes

record 'h TxIn =
  ti_Hash :: 'h
  ti_Index :: uint32
  ti_Witness :: "bytes list"

record 'h MsgTx =
  tx_In :: "'h TxIn list"
  tx_Out :: "TxOut list"

record ('a, 'h) btcd =
  DecodeAddress :: "string \<Rightarrow> 'a res"
  AddressString :: "'a \<Rightarrow> string"
  PayToAddrScript :: "'a \<Rightarrow> bytes res"
  NullDataScript :: "bytes \<Rightarrow> bytes res"
  NewHashFromStr :: "string \<Rightarrow> 'h res"

text \<open>
  What the services answer during one execution. The recommended fee is asked for twice;
  \<open>RecommendedFee n\<close> is the n-th answer.
\<close>

record btc_services =
  RecommendedFee :: "nat \<Rightarrow> Fee res"
  Utxos :: "string \<Rightarrow> Utxo list res"
  Upload :: "(uint8 \<times> uint64) list \<Rightarrow> string res"

definition INPUT_SIZE :: uint64 where "INPUT_SIZE = 180"
definition OUTPUT_SIZE :: uint64 where "OUTPUT_SIZE = 34"
definition FEE_ROUNDING_FACTOR :: uint64 where "FEE_ROUNDING_FACTOR = 5"

section \<open>Selecting proposals\<close>

type_synonym 's get_status = "'s \<Rightarrow> uint8 \<Rightarrow> uint8 \<Rightarrow> uint64 \<Rightarrow> PropStatus res"
type_synonym 's set_status = "'s \<Rightarrow> uint8 \<Rightarrow> uint8 \<Rightarrow> uint64 \<Rightarrow> PropStatus \<Rightarrow> 's res"

record 's executor_state =
  ex_propMutex :: bool
  ex_store :: 's

definition Btc_isExecuted :: "'s get_status \<Rightarrow> 's \<Rightarrow> proposal \<Rightarrow> bool res" where
  "Btc_isExecuted status st prop =
     and_then (asBtcTransferProposalData (p_Data prop)) (\<lambda>data.
     and_then (status st (p_Source prop) (p_Destination prop) (btpd_DepositNonce data)) (\<lambda>s.
     Inr (\<not> (s = MissingProp \<or> s = FailedProp))))"

fun select_proposals ::
  "'s get_status \<Rightarrow> 's set_status \<Rightarrow> 's \<Rightarrow> BtcTransferProposal list \<Rightarrow> proposal list \<Rightarrow>
   BtcTransferProposal list res \<times> 's" where
  "select_proposals status store st props [] = (Inr props, st)"
| "select_proposals status store st props (prop # rest) =
     (case Btc_isExecuted status st prop of
        Inl err \<Rightarrow> (Inl err, st)
      | Inr True \<Rightarrow> select_proposals status store st props rest
      | Inr False \<Rightarrow>
          (case asBtcTransferProposalData (p_Data prop) of
             Inl e \<Rightarrow> (Inl e, st)
           | Inr data \<Rightarrow>
               (case store st (p_Source prop) (p_Destination prop) (btpd_DepositNonce data) PendingProp of
                  Inl err \<Rightarrow> (Inl err, st)
                | Inr st' \<Rightarrow>
                    select_proposals status store st'
                      (props @ [\<lparr>bp_Source = p_Source prop, bp_Destination = p_Destination prop, bp_Data = data\<rparr>])
                      rest)))"

text \<open>
  The mutex is locked at the start and unlocked at the end of the function only: the early
  returns leave it locked. \<open>None\<close>: the call waits for the mutex.
\<close>

definition proposalsForExecution ::
  "'s get_status \<Rightarrow> 's set_status \<Rightarrow> 's executor_state \<Rightarrow> proposal list \<Rightarrow>
   (BtcTransferProposal list res \<times> 's executor_state) option" where
  "proposalsForExecution status store e proposals =
     (if ex_propMutex e then None
      else
        (let (r, st) = select_proposals status store (ex_store e) [] proposals
         in Some (r, \<lparr>ex_propMutex = \<not> is_ok r, ex_store = st\<rparr>)))"

fun store_statuses :: "'s set_status \<Rightarrow> 's \<Rightarrow> BtcTransferProposal list \<Rightarrow> PropStatus \<Rightarrow> 's" where
  "store_statuses store st [] s = st"
| "store_statuses store st (p # ps) s =
     (case store st (bp_Source p) (bp_Destination p) (btpd_DepositNonce (bp_Data p)) s of
        Inl _ \<Rightarrow> store_statuses store st ps s
      | Inr st' \<Rightarrow> store_statuses store st' ps s)"

definition storeProposalsStatus ::
  "'s set_status \<Rightarrow> 's executor_state \<Rightarrow> BtcTransferProposal list \<Rightarrow> PropStatus \<Rightarrow> 's executor_state option" where
  "storeProposalsStatus store e props s =
     (if ex_propMutex e then None
      else Some (e\<lparr>ex_store := store_statuses store (ex_store e) props s\<rparr>))"

section \<open>Building the transaction\<close>

definition fee :: "btc_services \<Rightarrow> nat \<Rightarrow> uint64 \<Rightarrow> uint64 \<Rightarrow> uint64 res" where
  "fee srv call numOfInputs numOfOutputs =
     and_then (RecommendedFee srv call) (\<lambda>recommendedFee.
     Inr ((numOfInputs * INPUT_SIZE + numOfOutputs * OUTPUT_SIZE) *
          ((fe_EconomyFee recommendedFee div FEE_ROUNDING_FACTOR) * FEE_ROUNDING_FACTOR + FEE_ROUNDING_FACTOR)))"

text \<open>\<open>int64(x)\<close> of an unsigned 64-bit value is \<open>sint\<close>.\<close>

fun add_outputs ::
  "('a, 'h) btcd \<Rightarrow> 'h MsgTx \<Rightarrow> uint64 \<Rightarrow> (uint8 \<times> uint64) list \<Rightarrow> BtcTransferProposal list \<Rightarrow>
   ('h MsgTx \<times> uint64 \<times> (uint8 \<times> uint64) list) res" where
  "add_outputs lib tx outputAmount dataToUpload [] = Inr (tx, outputAmount, dataToUpload)"
| "add_outputs lib tx outputAmount dataToUpload (prop # props) =
     and_then (DecodeAddress lib (btpd_Recipient (bp_Data prop))) (\<lambda>addr.
     and_then (PayToAddrScript lib addr) (\<lambda>destinationAddrByte.
     add_outputs lib
       (tx\<lparr>tx_Out := tx_Out tx @ [\<lparr>to_Value = sint (btpd_Amount (bp_Data prop)), to_PkScript = destinationAddrByte\<rparr>]\<rparr>)
       (outputAmount + btpd_Amount (bp_Data prop))
       (dataToUpload @ [(bp_Source prop, btpd_DepositNonce (bp_Data prop))]) props))"

definition outputs ::
  "('a, 'h) btcd \<Rightarrow> btc_services \<Rightarrow> 'h MsgTx \<Rightarrow> BtcTransferProposal list \<Rightarrow> (uint64 \<times> 'h MsgTx) res" where
  "outputs lib srv tx proposals =
     and_then (add_outputs lib tx 0 [] proposals) (\<lambda>(tx', outputAmount, dataToUpload).
     and_then (Upload srv dataToUpload) (\<lambda>cid.
     and_then (NullDataScript lib (map (of_nat \<circ> of_char) (''syg_'' @ cid))) (\<lambda>opReturnScript.
     Inr (outputAmount, tx'\<lparr>tx_Out := tx_Out tx' @ [\<lparr>to_Value = 0, to_PkScript = opReturnScript\<rparr>]\<rparr>))))"

fun take_utxos ::
  "('a, 'h) btcd \<Rightarrow> uint64 \<Rightarrow> 'h MsgTx \<Rightarrow> uint64 \<Rightarrow> Utxo list \<Rightarrow> Utxo list \<Rightarrow> (uint64 \<times> Utxo list \<times> 'h MsgTx) res" where
  "take_utxos lib outputAmount tx inputAmount usedUtxos [] = Inr (inputAmount, usedUtxos, tx)"
| "take_utxos lib outputAmount tx inputAmount usedUtxos (utxo # utxos) =
     and_then (NewHashFromStr lib (ux_TxID utxo)) (\<lambda>previousTxHash.
     let tx' = tx\<lparr>tx_In := tx_In tx @ [\<lparr>ti_Hash = previousTxHash, ti_Index = ux_Vout utxo, ti_Witness = []\<rparr>]\<rparr>;
         inputAmount' = inputAmount + ux_Value utxo
     in if outputAmount < inputAmount' then Inr (inputAmount', usedUtxos @ [utxo], tx')
        else take_utxos lib outputAmount tx' inputAmount' (usedUtxos @ [utxo]) utxos)"

definition inputs ::
  "('a, 'h) btcd \<Rightarrow> btc_services \<Rightarrow> 'h MsgTx \<Rightarrow> 'a \<Rightarrow> uint64 \<Rightarrow> (uint64 \<times> Utxo list \<times> 'h MsgTx) res" where
  "inputs lib srv tx address outputAmount =
     and_then (Utxos srv (AddressString lib address)) (\<lambda>utxos. take_utxos lib outputAmount tx 0 [] utxos)"

definition rawTx ::
  "('a, 'h) btcd \<Rightarrow> btc_services \<Rightarrow> BtcTransferProposal list \<Rightarrow> 'a Resource \<Rightarrow> ('h MsgTx \<times> Utxo list) res" where
  "rawTx lib srv proposals resource =
     and_then (outputs lib srv \<lparr>tx_In = [], tx_Out = []\<rparr> proposals) (\<lambda>(outputAmount, tx1).
     and_then (fee srv 0 (of_nat (length proposals)) (of_nat (length proposals))) (\<lambda>feeEstimate.
     and_then (inputs lib srv tx1 (rc_Address resource) (outputAmount + feeEstimate)) (\<lambda>(inputAmount, utxos, tx2).
     if inputAmount < outputAmount then Inl (Error ''utxo input amount less than output amount'')
     else
       and_then (fee srv 1 (of_nat (length utxos)) (of_nat (length proposals) + 1)) (\<lambda>fee.
       let returnAmount = inputAmount - fee - outputAmount in
       if 0 < returnAmount then
         and_then (PayToAddrScript lib (rc_Address resource)) (\<lambda>returnScript.
         Inr (tx2\<lparr>tx_Out := tx_Out tx2 @ [\<lparr>to_Value = sint returnAmount, to_PkScript = returnScript\<rparr>]\<rparr>, utxos))
       else Inr (tx2, utxos)))))"

section \<open>Signing and sending\<close>

definition signaturesFilled :: "bytes list \<Rightarrow> bool" where
  "signaturesFilled signatures = list_all (\<lambda>signature. length signature \<noteq> 0) signatures"

definition signed_tx :: "'h MsgTx \<Rightarrow> bytes list \<Rightarrow> 'h MsgTx" where
  "signed_tx tx signatures =
     tx\<lparr>tx_In := map (\<lambda>(txIn, sig). txIn\<lparr>ti_Witness := [sig]\<rparr>) (zip (tx_In tx) signatures)\<rparr>"

text \<open>\<open>SendRaw\<close> serialises and sends; its answer is the transaction hash.\<close>

definition sendTx :: "('h MsgTx \<Rightarrow> string res) \<Rightarrow> 'h MsgTx \<Rightarrow> bytes list \<Rightarrow> string res" where
  "sendTx SendRaw tx signatures = SendRaw (signed_tx tx signatures)"

text \<open>
  What the watcher receives: a signature with the index of its input (or nil) and the answer
  the node gives if the transaction is sent then, the timeout, or the cancellation.
\<close>

datatype 'h btc_event =
    BtcSig "(nat \<times> bytes) option" "'h MsgTx \<Rightarrow> string res"
  | BtcTimeout
  | BtcDone

datatype 'h btc_action =
    BtcCancel
  | BtcSend "'h MsgTx"
  | BtcFail string
  | BtcStatus PropStatus

fun btc_watch ::
  "'h MsgTx \<Rightarrow> string \<Rightarrow> bytes list \<Rightarrow> 'h btc_event list \<Rightarrow> unit res option \<times> 'h btc_action list" where
  "btc_watch tx sessionID signatures [] = (None, [])"
| "btc_watch tx sessionID signatures (BtcSig None SendRaw # es) = btc_watch tx sessionID signatures es"
| "btc_watch tx sessionID signatures (BtcSig (Some (i, sig)) SendRaw # es) =
     (if length signatures \<le> i then (Some (Inl (Panic ''index out of range'')), [BtcCancel])
      else
        (let signatures' = signatures[i := sig] in
         if \<not> signaturesFilled signatures' then btc_watch tx sessionID signatures' es
         else
           (case sendTx SendRaw tx signatures' of
              Inl err \<Rightarrow> (Some (Inl err),
                [BtcCancel, BtcSend (signed_tx tx signatures'), BtcFail sessionID, BtcStatus FailedProp, BtcCancel])
            | Inr hash \<Rightarrow> (Some (Inr ()),
                [BtcCancel, BtcSend (signed_tx tx signatures'), BtcStatus ExecutedProp, BtcCancel]))))"
| "btc_watch tx sessionID signatures (BtcTimeout # es) =
     (Some (Inl (Error ''execution timed out in 30m0s'')), [BtcCancel])"
| "btc_watch tx sessionID signatures (BtcDone # es) = (Some (Inr ()), [BtcCancel])"

definition Btc_watchExecution ::
  "'h MsgTx \<Rightarrow> string \<Rightarrow> 'h btc_event list \<Rightarrow> unit res option \<times> 'h btc_action list" where
  "Btc_watchExecution tx sessionID es = btc_watch tx sessionID (replicate (length (tx_In tx)) []) es"

section \<open>Executing proposals\<close>

record BtcSigning =
  bs_id :: nat
  bs_msg :: bytes
  bs_tweak :: string
  bs_messageID :: string
  bs_sessionID :: string

fun prev_outs ::
  "('a, 'h) btcd \<Rightarrow> bytes \<Rightarrow> Utxo list \<Rightarrow> (('h \<times> uint32) \<rightharpoonup> TxOut) \<Rightarrow> (('h \<times> uint32) \<rightharpoonup> TxOut) res" where
  "prev_outs lib script [] m = Inr m"
| "prev_outs lib script (utxo # utxos) m =
     and_then (NewHashFromStr lib (ux_TxID utxo)) (\<lambda>hash.
     prev_outs lib script utxos
       (m((hash, ux_Vout utxo) \<mapsto> \<lparr>to_Value = sint (ux_Value utxo), to_PkScript = script\<rparr>)))"

text \<open>One signing process per input; \<open>sigHash\<close> is the taproot signature hash of an input.\<close>

fun signing_sessions ::
  "(nat \<Rightarrow> bytes res) \<Rightarrow> (BtcSigning \<Rightarrow> unit res) \<Rightarrow> string \<Rightarrow> string \<Rightarrow> nat list \<Rightarrow> BtcSigning list res" where
  "signing_sessions sigHash NewSigning tweak messageID [] = Inr []"
| "signing_sessions sigHash NewSigning tweak messageID (i # is) =
     and_then (sigHash i) (\<lambda>signingHash.
     let s = \<lparr>bs_id = i, bs_msg = signingHash, bs_tweak = tweak, bs_messageID = messageID,
               bs_sessionID = hex_encode signingHash\<rparr> in
     and_then (NewSigning s) (\<lambda>_.
     and_then (signing_sessions sigHash NewSigning tweak messageID is) (\<lambda>ss. Inr (s # ss))))"

record 'h resource_execution =
  rx_tx :: "'h MsgTx"
  rx_props :: "BtcTransferProposal list"
  rx_sessions :: "BtcSigning list"
  rx_watchSession :: string

definition executeResourceProps ::
  "('a, 'h) btcd \<Rightarrow> btc_services \<Rightarrow> ((('h \<times> uint32) \<rightharpoonup> TxOut) \<Rightarrow> 'h MsgTx \<Rightarrow> nat \<Rightarrow> bytes res) \<Rightarrow>
   (BtcSigning \<Rightarrow> unit res) \<Rightarrow> BtcTransferProposal list \<Rightarrow> 'a Resource \<Rightarrow> string \<Rightarrow> 'h resource_execution res" where
  "executeResourceProps lib srv sigHash NewSigning props resource messageID =
     and_then (rawTx lib srv props resource) (\<lambda>(tx, utxos).
     and_then (prev_outs lib (rc_Script resource) utxos Map.empty) (\<lambda>prevOuts.
     and_then (signing_sessions (sigHash prevOuts tx) NewSigning (rc_Tweak resource) messageID [0..<length (tx_In tx)])
       (\<lambda>sessions. Inr \<lparr>rx_tx = tx, rx_props = props, rx_sessions = sessions,
          rx_watchSession = messageID @ ''-'' @ hex_encode (rc_ResourceID resource)\<rparr>)))"

fun props_per_resource ::
  "(bytes32 \<times> BtcTransferProposal list) list \<Rightarrow> BtcTransferProposal list \<Rightarrow>
   (bytes32 \<times> BtcTransferProposal list) list" where
  "props_per_resource m [] = m"
| "props_per_resource m (prop # props) =
     props_per_resource (append_at (btpd_ResourceId (bp_Data prop)) prop m) props"

text \<open>
  \<open>Execute\<close>: one goroutine per resource; \<open>run\<close> is what a resource execution returns once its
  coordinator and watcher are done. The result lists what the goroutines return.
\<close>

definition Btc_Execute ::
  "'s get_status \<Rightarrow> 's set_status \<Rightarrow> (bytes32 \<rightharpoonup> 'a Resource) \<Rightarrow>
   (BtcTransferProposal list \<Rightarrow> 'a Resource \<Rightarrow> string \<Rightarrow> unit res) \<Rightarrow> 's executor_state \<Rightarrow> proposal list \<Rightarrow>
   (unit res list res \<times> 's executor_state) option" where
  "Btc_Execute status store resources executeResource e proposals =
     (if proposals = [] then Some (Inl (Panic ''index out of range''), e) else
      let messageID = p_MessageID (hd proposals) in
      case proposalsForExecution status store e proposals of
        None \<Rightarrow> None
      | Some (Inl err, e') \<Rightarrow> Some (Inl err, e')
      | Some (Inr props, e') \<Rightarrow>
          if props = [] then Some (Inr [], e')
          else Some (Inr (map (\<lambda>(resourceID, props).
                 case resources resourceID of
                   None \<Rightarrow> Inl (Error (''no resource for ID '' @ hex_encode resourceID))
                 | Some resource \<Rightarrow> executeResource props resource messageID)
               (props_per_resource [] props)), e'))"


section \<open>Every proposal is taken once\<close>

abbreviation bp_key :: "BtcTransferProposal \<Rightarrow> uint8 \<times> uint8 \<times> uint64" where
  "bp_key p \<equiv> (bp_Source p, bp_Destination p, btpd_DepositNonce (bp_Data p))"

text \<open>What the selection has done to the store, from \<open>st\<close> to \<open>st'\<close>.\<close>

definition taken ::
  "'s get_status \<Rightarrow> 's \<Rightarrow> 's \<Rightarrow> BtcTransferProposal list \<Rightarrow> bool" where
  "taken status st st' ps \<longleftrightarrow>
     distinct (map bp_key ps) \<and>
     (\<forall>p \<in> set ps. \<exists>x. status st (bp_Source p) (bp_Destination p) (btpd_DepositNonce (bp_Data p)) = Inr x \<and>
        x \<in> {MissingProp, FailedProp}) \<and>
     (\<forall>s d n. status st' s d n = (if (s, d, n) \<in> bp_key ` set ps then Inr PendingProp else status st s d n))"

lemma taken_distinct: "taken status st st' ps \<Longrightarrow> distinct (map bp_key ps)"
  by (simp add: taken_def)

lemma taken_status:
  "taken status st st' ps \<Longrightarrow>
   status st' s d n = (if (s, d, n) \<in> bp_key ` set ps then Inr PendingProp else status st s d n)"
  by (simp add: taken_def)

lemma select_proposals_from:
  assumes "select_proposals status store st ps props = (Inr sel, st')"
  shows "\<forall>p \<in> set sel. p \<in> set ps \<or> (\<exists>q \<in> set props. bp_Source p = p_Source q \<and> bp_Destination p = p_Destination q \<and>
    asBtcTransferProposalData (p_Data q) = Inr (bp_Data p))"
  using assms
proof (induction props arbitrary: st ps)
  case (Cons a props)
  show ?case
  proof (cases "Btc_isExecuted status st a")
    case (Inr executed)
    show ?thesis
    proof (cases executed)
      case False
      with Inr Cons.prems obtain data st2 where d: "asBtcTransferProposalData (p_Data a) = Inr data"
        "select_proposals status store st2 (ps @ [\<lparr>bp_Source = p_Source a, bp_Destination = p_Destination a, bp_Data = data\<rparr>]) props = (Inr sel, st')"
        by (auto split: sum.splits)
      with Cons.IH [OF d(2)] show ?thesis by auto
    qed (use Inr Cons in auto)
  qed (use Cons in simp)
qed simp

context prop_storer
begin

lemma taken_step:
  assumes "taken status st st1 ps" "store st1 (bp_Source p) (bp_Destination p) (btpd_DepositNonce (bp_Data p)) PendingProp = Inr st2"
    and x: "status st1 (bp_Source p) (bp_Destination p) (btpd_DepositNonce (bp_Data p)) = Inr x" "x = MissingProp \<or> x = FailedProp"
  shows "taken status st st2 (ps @ [p])"
proof -
  have new: "bp_key p \<notin> bp_key ` set ps"
    using taken_status [OF assms(1), of "bp_Source p" "bp_Destination p" "btpd_DepositNonce (bp_Data p)"] x
    by (auto simp: PendingProp_def MissingProp_def FailedProp_def split: if_splits)
  then have "status st (bp_Source p) (bp_Destination p) (btpd_DepositNonce (bp_Data p)) = Inr x"
    using taken_status [OF assms(1), of "bp_Source p" "bp_Destination p" "btpd_DepositNonce (bp_Data p)"] x(1) by simp
  moreover have "status st2 s d n = (if (s, d, n) \<in> bp_key ` set (ps @ [p]) then Inr PendingProp else status st s d n)" for s d n
    using status_after [OF assms(2), of s d n] taken_status [OF assms(1), of s d n] by auto
  ultimately show ?thesis using assms(1) new x(2) unfolding taken_def by auto
qed

lemma select_proposals_taken:
  assumes "select_proposals status store st1 ps props = (Inr sel, st')" "taken status st st1 ps"
  shows "taken status st st' sel"
  using assms
proof (induction props arbitrary: st1 ps)
  case (Cons a props)
  show ?case
  proof (cases "Btc_isExecuted status st1 a")
    case (Inl e)
    with Cons.prems(1) show ?thesis by simp
  next
    case (Inr executed)
    show ?thesis
    proof (cases executed)
      case True
      with Inr Cons show ?thesis by simp
    next
      case False
      from Inr False obtain data x where data: "asBtcTransferProposalData (p_Data a) = Inr data"
        "status st1 (p_Source a) (p_Destination a) (btpd_DepositNonce data) = Inr x" "x = MissingProp \<or> x = FailedProp"
        by (auto simp: Btc_isExecuted_def)
      with Inr False Cons.prems(1) obtain st2 where
        st2: "store st1 (p_Source a) (p_Destination a) (btpd_DepositNonce data) PendingProp = Inr st2"
        by (cases "store st1 (p_Source a) (p_Destination a) (btpd_DepositNonce data) PendingProp") auto
      let ?p = "\<lparr>bp_Source = p_Source a, bp_Destination = p_Destination a, bp_Data = data\<rparr>"
      have "taken status st st2 (ps @ [?p])"
        by (rule taken_step [OF Cons.prems(2)]) (use data st2 in simp_all)
      with Inr False data st2 Cons show ?thesis by simp
    qed
  qed
qed simp

lemma taken_none: "taken status st st []"
  by (simp add: taken_def)

text \<open>Selecting again after a selection finds nothing left of it.\<close>

lemma select_again:
  assumes "\<forall>p \<in> set props. \<exists>data. asBtcTransferProposalData (p_Data p) = Inr data \<and>
      (\<exists>x. status st (p_Source p) (p_Destination p) (btpd_DepositNonce data) = Inr x \<and> x \<notin> {MissingProp, FailedProp})"
  shows "select_proposals status store st ps props = (Inr ps, st)"
  using assms by (induction props) (auto simp: Btc_isExecuted_def)

lemma select_proposals_complete:
  assumes "select_proposals status store st ps props = (Inr sel, st')"
  shows "set ps \<subseteq> set sel \<and> (\<forall>q \<in> set props. \<forall>d x. asBtcTransferProposalData (p_Data q) = Inr d \<longrightarrow>
    status st (p_Source q) (p_Destination q) (btpd_DepositNonce d) = Inr x \<longrightarrow> x \<in> {MissingProp, FailedProp} \<longrightarrow>
    (p_Source q, p_Destination q, btpd_DepositNonce d) \<in> bp_key ` set sel)"
  using assms
proof (induction props arbitrary: st ps)
  case (Cons a props)
  show ?case
  proof (cases "Btc_isExecuted status st a")
    case (Inr executed)
    show ?thesis
    proof (cases executed)
      case True
      with Inr Cons have "set ps \<subseteq> set sel \<and> (\<forall>q \<in> set props. \<forall>d x. asBtcTransferProposalData (p_Data q) = Inr d \<longrightarrow>
        status st (p_Source q) (p_Destination q) (btpd_DepositNonce d) = Inr x \<longrightarrow> x \<in> {MissingProp, FailedProp} \<longrightarrow>
        (p_Source q, p_Destination q, btpd_DepositNonce d) \<in> bp_key ` set sel)" by simp
      with Inr True show ?thesis by (auto simp: Btc_isExecuted_def)
    next
      case False
      with Inr Cons.prems obtain data st2 where d: "asBtcTransferProposalData (p_Data a) = Inr data"
        "store st (p_Source a) (p_Destination a) (btpd_DepositNonce data) PendingProp = Inr st2"
        "select_proposals status store st2 (ps @ [\<lparr>bp_Source = p_Source a, bp_Destination = p_Destination a, bp_Data = data\<rparr>]) props = (Inr sel, st')"
        by (auto split: sum.splits)
      let ?k = "(p_Source a, p_Destination a, btpd_DepositNonce data)"
      have k: "?k \<in> bp_key ` set sel" using Cons.IH [OF d(3)] by (auto intro: rev_image_eqI)
      have "status st2 s e n = status st s e n" if "(s, e, n) \<noteq> ?k" for s e n
        using status_after [OF d(2), of s e n] that by auto
      note same = this
      show ?thesis
      proof (intro conjI ballI allI impI)
        show "set ps \<subseteq> set sel" using Cons.IH [OF d(3)] by simp
        fix q e x
        assume q: "q \<in> set (a # props)" "asBtcTransferProposalData (p_Data q) = Inr e"
          "status st (p_Source q) (p_Destination q) (btpd_DepositNonce e) = Inr x" "x \<in> {MissingProp, FailedProp}"
        show "(p_Source q, p_Destination q, btpd_DepositNonce e) \<in> bp_key ` set sel"
        proof (cases "(p_Source q, p_Destination q, btpd_DepositNonce e) = ?k")
          case True
          with k show ?thesis by (simp only:)
        next
          case False
          then have "q \<in> set props" using q(1,2) d(1) by auto
          moreover have "status st2 (p_Source q) (p_Destination q) (btpd_DepositNonce e) = Inr x"
            using same [OF False] q(3) by simp
          ultimately show ?thesis using Cons.IH [OF d(3)] q(2,4) by blast
        qed
      qed
    qed
  qed (use Cons in simp)
qed simp

end

text \<open>
  C9. A proposal is executed at most once at a time: what the executor selects was missing
  or failed before and is pending afterwards, the selection has no duplicates even if the
  request does, no other status changes, and the mutex is released. It selects requested proposals with
  their data, and every requested proposal that was missing or failed.
\<close>

theorem proposals_taken_once:
  assumes "prop_storer status store"
    and "proposalsForExecution status store e proposals = Some (Inr sel, e')"
  shows "\<not> ex_propMutex e' \<and> distinct (map bp_key sel) \<and>
     (\<forall>p \<in> set sel. \<exists>x. status (ex_store e) (bp_Source p) (bp_Destination p) (btpd_DepositNonce (bp_Data p)) = Inr x \<and>
        x \<in> {MissingProp, FailedProp}) \<and>
     (\<forall>s d n. status (ex_store e') s d n =
        (if (s, d, n) \<in> bp_key ` set sel then Inr PendingProp else status (ex_store e) s d n)) \<and>
     (\<forall>p \<in> set sel. \<exists>q \<in> set proposals. bp_Source p = p_Source q \<and> bp_Destination p = p_Destination q \<and>
        asBtcTransferProposalData (p_Data q) = Inr (bp_Data p)) \<and>
     (\<forall>q \<in> set proposals. \<forall>d x. asBtcTransferProposalData (p_Data q) = Inr d \<longrightarrow>
        status (ex_store e) (p_Source q) (p_Destination q) (btpd_DepositNonce d) = Inr x \<longrightarrow> x \<in> {MissingProp, FailedProp} \<longrightarrow>
        (p_Source q, p_Destination q, btpd_DepositNonce d) \<in> bp_key ` set sel)"
proof -
  from assms(2) obtain st where
    sel: "select_proposals status store (ex_store e) [] proposals = (Inr sel, st)"
      "e' = \<lparr>ex_propMutex = False, ex_store = st\<rparr>"
    by (auto simp: proposalsForExecution_def split: if_splits prod.splits)
  note taken = prop_storer.select_proposals_taken [OF assms(1) sel(1) prop_storer.taken_none [OF assms(1)]]
  note complete = prop_storer.select_proposals_complete [OF assms(1) sel(1), THEN conjunct2]
  show ?thesis
  proof (intro conjI)
    show "\<forall>p \<in> set sel. \<exists>q \<in> set proposals. bp_Source p = p_Source q \<and> bp_Destination p = p_Destination q \<and>
        asBtcTransferProposalData (p_Data q) = Inr (bp_Data p)"
      using select_proposals_from [OF sel(1)] by simp
  qed (use taken complete sel(2) in \<open>simp_all add: taken_def\<close>)
qed

definition btc_proposal :: "uint64 \<Rightarrow> uint64 \<Rightarrow> proposal" where
  "btc_proposal nonce amount = NewProposal 1 4
     (PBtc \<lparr>btpd_Amount = amount, btpd_Recipient = ''tb1'', btpd_DepositNonce = nonce, btpd_ResourceId = [3]\<rparr>) ''1-4-9'' TransferProposalType"

definition example_executor :: "mem_db executor_state" where
  "example_executor = \<lparr>ex_propMutex = False,
     ex_store = \<lparr>mem_entries = [(KEY 1 4 8, ExecutedProp)], mem_closed = False\<rparr>\<rparr>"

lemma KEY_1_4: "KEY 1 4 7 \<noteq> KEY 1 4 8" "KEY 1 4 8 \<noteq> KEY 1 4 7"
  by (simp_all add: KEY_eq_iff)

lemma example_selection:
  "\<exists>e' sel. proposalsForExecution (PropStatus mem_get) (StorePropStatus mem_set) example_executor
      [btc_proposal 7 10, btc_proposal 8 20, btc_proposal 7 10] = Some (Inr sel, e') \<and> length sel = 1"
  by (simp add: proposalsForExecution_def example_executor_def btc_proposal_def NewProposal_def Btc_isExecuted_def
      PropStatus_def StorePropStatus_def mem_get_def mem_set_def KEY_1_4 PendingProp_def ExecutedProp_def
      MissingProp_def FailedProp_def)

theorem proposals_taken_once_witness:
  "\<exists>e' sel. proposalsForExecution (PropStatus mem_get) (StorePropStatus mem_set) example_executor
      [btc_proposal 7 10, btc_proposal 8 20, btc_proposal 7 10] = Some (Inr sel, e') \<and> length sel = 1 \<and>
     distinct (map bp_key sel) \<and> \<not> ex_propMutex e'"
proof -
  obtain e' sel where run: "proposalsForExecution (PropStatus mem_get) (StorePropStatus mem_set) example_executor
      [btc_proposal 7 10, btc_proposal 8 20, btc_proposal 7 10] = Some (Inr sel, e')" "length sel = 1"
    using example_selection by blast
  from proposals_taken_once [OF mem.ps.prop_storer_axioms run(1)] run show ?thesis by blast
qed

text \<open>
  C23. An error while selecting leaves the mutex locked, so that every later selection and
  every later status update of the executor waits for ever.
\<close>

theorem failed_selection_blocks_executor:
  assumes "proposalsForExecution status store e proposals = Some (Inl err, e')"
  shows "proposalsForExecution status store e' proposals' = None \<and> storeProposalsStatus store e' props s = None"
  using assms by (auto simp: proposalsForExecution_def storeProposalsStatus_def is_ok_def split: if_splits prod.splits)

theorem failed_selection_blocks_executor_witness:
  "\<exists>err e'. proposalsForExecution (PropStatus mem_get) (StorePropStatus mem_set)
      \<lparr>ex_propMutex = False, ex_store = \<lparr>mem_entries = [], mem_closed = True\<rparr>\<rparr> [btc_proposal 7 10] = Some (Inl err, e') \<and>
     proposalsForExecution (PropStatus mem_get) (StorePropStatus mem_set) e' [btc_proposal 9 10] = None"
proof -
  have "\<exists>err e'. proposalsForExecution (PropStatus mem_get) (StorePropStatus mem_set)
      \<lparr>ex_propMutex = False, ex_store = \<lparr>mem_entries = [], mem_closed = True\<rparr>\<rparr> [btc_proposal 7 10] = Some (Inl err, e')"
    by (simp add: proposalsForExecution_def btc_proposal_def NewProposal_def Btc_isExecuted_def PropStatus_def mem_get_def)
  then show ?thesis using failed_selection_blocks_executor by blast
qed


section \<open>The transaction balances\<close>

definition sats :: "Utxo list \<Rightarrow> int" where
  "sats us = sum_list (map (uint \<circ> ux_Value) us)"

definition amounts :: "BtcTransferProposal list \<Rightarrow> int" where
  "amounts ps = sum_list (map (\<lambda>p. uint (btpd_Amount (bp_Data p))) ps)"

lemma sats_nonneg: "0 \<le> sats us"
  by (induction us) (simp_all add: sats_def)

lemma amounts_nonneg: "0 \<le> amounts ps"
  by (induction ps) (simp_all add: amounts_def)

lemma amounts_member: "p \<in> set ps \<Longrightarrow> uint (btpd_Amount (bp_Data p)) \<le> amounts ps"
  by (induction ps) (auto simp: amounts_def amounts_nonneg [unfolded amounts_def] add_increasing)

lemma sint_eq_uint_small: "uint (w :: uint64) < 2 ^ 63 \<Longrightarrow> sint w = uint w"
proof -
  assume "uint w < 2 ^ 63"
  moreover have "- (2 ^ 63) \<le> uint w" by (rule order.trans [of _ 0]) simp_all
  ultimately have "signed_take_bit 63 (uint w) = uint w" by (intro signed_take_bit_int_eq_self)
  then show ?thesis by (simp add: sint_uint)
qed

lemma add_outputs_spec:
  assumes "add_outputs lib tx amt up ps = Inr (tx', amt', up')"
  shows "tx_In tx' = tx_In tx \<and> amt' = amt + of_int (amounts ps) \<and>
     map to_Value (tx_Out tx') = map to_Value (tx_Out tx) @ map (\<lambda>p. sint (btpd_Amount (bp_Data p))) ps"
  using assms
proof (induction ps arbitrary: tx amt up)
  case (Cons p ps)
  from Cons.prems obtain scr where
    "add_outputs lib (tx\<lparr>tx_Out := tx_Out tx @ [\<lparr>to_Value = sint (btpd_Amount (bp_Data p)), to_PkScript = scr\<rparr>]\<rparr>)
       (amt + btpd_Amount (bp_Data p)) (up @ [(bp_Source p, btpd_DepositNonce (bp_Data p))]) ps = Inr (tx', amt', up')"
    by auto
  from Cons.IH [OF this] show ?case by (simp add: amounts_def)
qed (simp add: amounts_def)

lemma outputs_spec:
  assumes "outputs lib srv tx ps = Inr (amt, tx')"
  shows "tx_In tx' = tx_In tx \<and> amt = of_int (amounts ps) \<and>
     map to_Value (tx_Out tx') = map to_Value (tx_Out tx) @ map (\<lambda>p. sint (btpd_Amount (bp_Data p))) ps @ [0]"
  using assms by (auto simp: outputs_def dest!: add_outputs_spec)

text \<open>The inputs are a prefix of what the mempool reports, and no longer than needed.\<close>

lemma take_utxos_spec:
  assumes "take_utxos lib wanted tx amt used us = Inr (amt', used', tx')"
  shows "\<exists>k \<le> length us. used' = used @ take k us \<and> amt' = amt + of_int (sats (take k us)) \<and>
     tx_Out tx' = tx_Out tx \<and> length (tx_In tx') = length (tx_In tx) + k \<and>
     map ti_Index (tx_In tx') = map ti_Index (tx_In tx) @ map ux_Vout (take k us) \<and>
     map (\<lambda>i. Inr (ti_Hash i)) (tx_In tx') = map (\<lambda>i. Inr (ti_Hash i)) (tx_In tx) @ map (\<lambda>u. NewHashFromStr lib (ux_TxID u)) (take k us) \<and>
     (wanted < amt' \<and> 0 < k \<or> k = length us) \<and> (\<forall>j. 0 < j \<and> j < k \<longrightarrow> amt + of_int (sats (take j us)) \<le> wanted)"
  using assms
proof (induction us arbitrary: tx amt used)
  case (Cons u us)
  from Cons.prems obtain h where h: "NewHashFromStr lib (ux_TxID u) = Inr h" by auto
  let ?tx = "tx\<lparr>tx_In := tx_In tx @ [\<lparr>ti_Hash = h, ti_Index = ux_Vout u, ti_Witness = []\<rparr>]\<rparr>"
  show ?case
  proof (cases "wanted < amt + ux_Value u")
    case True
    with Cons.prems h show ?thesis by (intro exI [of _ 1]) (auto simp: Let_def sats_def)
  next
    case False
    with Cons.prems h have "take_utxos lib wanted ?tx (amt + ux_Value u) (used @ [u]) us = Inr (amt', used', tx')"
      by (simp add: Let_def)
    from Cons.IH [OF this] obtain k where k: "k \<le> length us" "used' = (used @ [u]) @ take k us"
      "amt' = amt + ux_Value u + of_int (sats (take k us))" "tx_Out tx' = tx_Out ?tx"
      "length (tx_In tx') = length (tx_In ?tx) + k"
      "map ti_Index (tx_In tx') = map ti_Index (tx_In ?tx) @ map ux_Vout (take k us)"
      "map (\<lambda>i. Inr (ti_Hash i)) (tx_In tx') = map (\<lambda>i. Inr (ti_Hash i)) (tx_In ?tx) @ map (\<lambda>u. NewHashFromStr lib (ux_TxID u)) (take k us)"
      "wanted < amt' \<and> 0 < k \<or> k = length us"
      "\<And>j. 0 < j \<and> j < k \<Longrightarrow> amt + ux_Value u + of_int (sats (take j us)) \<le> wanted"
      by blast
    have "amt + of_int (sats (take j (u # us))) \<le> wanted" if "0 < j" "j < Suc k" for j
    proof (cases "j = 1")
      case True
      with False show ?thesis by (simp add: sats_def)
    next
      case False
      with that k(9) [of "j - 1"] show ?thesis by (cases j) (simp_all add: sats_def add.assoc)
    qed
    with k h show ?thesis by (intro exI [of _ "Suc k"]) (auto simp: sats_def add.assoc)
  qed
qed (simp add: sats_def)

text \<open>The parts of a transaction that was built.\<close>

lemma rawTx_spec:
  assumes "rawTx lib srv ps res = Inr (tx, us)"
  shows "\<exists>f feeEstimate ret all. fee srv 0 (of_nat (length ps)) (of_nat (length ps)) = Inr feeEstimate \<and>
     fee srv 1 (of_nat (length us)) (of_nat (length ps) + 1) = Inr f \<and>
     ret = of_int (sats us) - f - of_int (amounts ps) \<and>
     (of_int (amounts ps) :: uint64) \<le> of_int (sats us) \<and>
     map to_Value (tx_Out tx) = map (\<lambda>p. sint (btpd_Amount (bp_Data p))) ps @ [0] @ (if ret = 0 then [] else [sint ret]) \<and>
     Utxos srv (AddressString lib (rc_Address res)) = Inr all \<and>
     (\<exists>k \<le> length all. us = take k all \<and> (of_int (amounts ps) + feeEstimate < of_int (sats us) \<or> us = all)) \<and>
     length (tx_In tx) = length us \<and> map ti_Index (tx_In tx) = map ux_Vout us \<and>
     map (\<lambda>i. Inr (ti_Hash i)) (tx_In tx) = map (\<lambda>u. NewHashFromStr lib (ux_TxID u)) us"
proof -
  from assms obtain amt tx1 fe inp us' tx2 f where parts:
    "outputs lib srv \<lparr>tx_In = [], tx_Out = []\<rparr> ps = Inr (amt, tx1)"
    "fee srv 0 (of_nat (length ps)) (of_nat (length ps)) = Inr fe"
    "inputs lib srv tx1 (rc_Address res) (amt + fe) = Inr (inp, us', tx2)" "amt \<le> inp"
    "fee srv 1 (of_nat (length us')) (of_nat (length ps) + 1) = Inr f"
    and tx: "(let returnAmount = inp - f - amt in
       if 0 < returnAmount then
         and_then (PayToAddrScript lib (rc_Address res)) (\<lambda>returnScript.
         Inr (tx2\<lparr>tx_Out := tx_Out tx2 @ [\<lparr>to_Value = sint returnAmount, to_PkScript = returnScript\<rparr>]\<rparr>, us'))
       else Inr (tx2, us')) = Inr (tx, us)"
    unfolding rawTx_def by (auto simp: not_less split: if_split_asm)
  have us: "us' = us" using tx by (auto simp: Let_def split: if_split_asm)
  have out: "tx_In tx = tx_In tx2"
    "map to_Value (tx_Out tx) = map to_Value (tx_Out tx2) @ (if inp - f - amt = 0 then [] else [sint (inp - f - amt)])"
  proof -
    obtain r where r: "r = inp - f - amt" by simp
    show "tx_In tx = tx_In tx2"
      "map to_Value (tx_Out tx) = map to_Value (tx_Out tx2) @ (if inp - f - amt = 0 then [] else [sint (inp - f - amt)])"
      using tx unfolding Let_def r [symmetric] by (cases "r = 0"; auto simp: word_gt_0)+
  qed
  from parts(3) us obtain all where all: "Utxos srv (AddressString lib (rc_Address res)) = Inr all"
    "take_utxos lib (amt + fe) tx1 0 [] all = Inr (inp, us, tx2)"
    by (auto simp: inputs_def)
  note o = outputs_spec [OF parts(1)]
  from take_utxos_spec [OF all(2)] o obtain k where k: "k \<le> length all" "us = take k all" "inp = of_int (sats us)"
    "tx_Out tx2 = tx_Out tx1" "length (tx_In tx2) = k" "map ti_Index (tx_In tx2) = map ux_Vout us"
    "map (\<lambda>i. Inr (ti_Hash i)) (tx_In tx2) = map (\<lambda>u. NewHashFromStr lib (ux_TxID u)) us" "amt + fe < inp \<or> k = length all"
    by auto
  show ?thesis
    by (rule exI [of _ f], rule exI [of _ fe], rule exI [of _ "inp - f - amt"], rule exI [of _ all])
      (use parts all k o out us in auto)
qed


lemma of_int_uint64: "0 \<le> x \<Longrightarrow> x < 2 ^ 64 \<Longrightarrow> uint (of_int x :: uint64) = x"
  by (simp add: uint_word_of_int take_bit_int_eq_self)

lemma sum_sint_amounts:
  assumes "amounts ps < 2 ^ 63"
  shows "map (\<lambda>p. sint (btpd_Amount (bp_Data p))) ps = map (\<lambda>p. uint (btpd_Amount (bp_Data p))) ps"
proof (rule map_cong [OF refl])
  fix p assume "p \<in> set ps"
  from le_less_trans [OF amounts_member [OF this] assms]
  show "sint (btpd_Amount (bp_Data p)) = uint (btpd_Amount (bp_Data p))" by (rule sint_eq_uint_small)
qed

lemma return_amount:
  fixes f :: uint64
  assumes "sats us < 2 ^ 62" "uint f < 2 ^ 62" "amounts ps < 2 ^ 62"
  shows "sint (of_int (sats us) - f - of_int (amounts ps) :: uint64) = sats us - uint f - amounts ps"
proof -
  have word: "of_int (sats us) - f - of_int (amounts ps) = (of_int (sats us - uint f - amounts ps) :: uint64)" by simp
  obtain v where v: "uint f = v" "0 \<le> v" by simp
  then have "- (2 ^ 63) \<le> sats us - uint f - amounts ps" "sats us - uint f - amounts ps < 2 ^ 63"
    using assms sats_nonneg [of us] amounts_nonneg [of ps] by simp_all
  then have "signed_take_bit 63 (sats us - uint f - amounts ps) = sats us - uint f - amounts ps"
    by (rule signed_take_bit_int_eq_self)
  then show ?thesis unfolding word signed_of_int by simp
qed

lemma sint_0_iff: "(w :: uint64) = 0 \<longleftrightarrow> sint w = 0"
  by (simp add: signed_eq_0_iff)

text \<open>The change, and the outputs with it, over the integers.\<close>

lemma rawTx_values:
  assumes "rawTx lib srv ps res = Inr (tx, us)"
    and "fee srv 1 (of_nat (length us)) (of_nat (length ps) + 1) = Inr f"
    and "sats us < 2 ^ 62" "uint f < 2 ^ 62" "amounts ps < 2 ^ 62"
  shows "amounts ps \<le> sats us \<and>
     map to_Value (tx_Out tx) = map (\<lambda>p. uint (btpd_Amount (bp_Data p))) ps @ [0] @
       (if sats us - uint f - amounts ps = 0 then [] else [sats us - uint f - amounts ps])"
proof -
  let ?ret = "of_int (sats us) - f - of_int (amounts ps) :: uint64"
  have ret: "sint ?ret = sats us - uint f - amounts ps" by (rule return_amount) (use assms in simp_all)
  from rawTx_spec [OF assms(1)] assms(2)
  have le: "(of_int (amounts ps) :: uint64) \<le> of_int (sats us)"
    and vals: "map to_Value (tx_Out tx) = map (\<lambda>p. sint (btpd_Amount (bp_Data p))) ps @ [0] @ (if ?ret = 0 then [] else [sint ?ret])"
    by auto
  have "amounts ps \<le> sats us"
    using le assms(3,5) sats_nonneg [of us] amounts_nonneg [of ps]
    by (simp add: word_le_def of_int_uint64)
  moreover have "map (\<lambda>p. sint (btpd_Amount (bp_Data p))) ps = map (\<lambda>p. uint (btpd_Amount (bp_Data p))) ps"
    by (rule sum_sint_amounts) (use assms(5) in simp)
  moreover have "?ret = 0 \<longleftrightarrow> sats us - uint f - amounts ps = 0" using ret sint_0_iff [of ?ret] by simp
  ultimately show ?thesis using vals ret by simp
qed

text \<open>An output that a proposal is paid with: its script is the one of the recipient's address.\<close>

definition pays :: "('a, 'h) btcd \<Rightarrow> BtcTransferProposal \<Rightarrow> TxOut \<Rightarrow> bool" where
  "pays lib p out \<longleftrightarrow> (\<exists>a. DecodeAddress lib (btpd_Recipient (bp_Data p)) = Inr a \<and> PayToAddrScript lib a = Inr (to_PkScript out))"

lemma add_outputs_scripts:
  assumes "add_outputs lib tx amt up ps = Inr (tx', amt', up')"
  shows "\<exists>outs. tx_Out tx' = tx_Out tx @ outs \<and> list_all2 (pays lib) ps outs"
  using assms
proof (induction ps arbitrary: tx amt up)
  case (Cons p ps)
  from Cons.prems obtain a scr where s: "DecodeAddress lib (btpd_Recipient (bp_Data p)) = Inr a" "PayToAddrScript lib a = Inr scr"
    "add_outputs lib (tx\<lparr>tx_Out := tx_Out tx @ [\<lparr>to_Value = sint (btpd_Amount (bp_Data p)), to_PkScript = scr\<rparr>]\<rparr>)
       (amt + btpd_Amount (bp_Data p)) (up @ [(bp_Source p, btpd_DepositNonce (bp_Data p))]) ps = Inr (tx', amt', up')"
    by auto
  from Cons.IH [OF s(3)] s(1,2) show ?case by (auto simp: pays_def)
qed simp

lemma rawTx_scripts:
  assumes "rawTx lib srv ps res = Inr (tx, us)"
  shows "\<exists>outs marker change. tx_Out tx = outs @ [marker] @ change \<and> list_all2 (pays lib) ps outs \<and>
    (\<forall>out \<in> set change. PayToAddrScript lib (rc_Address res) = Inr (to_PkScript out))"
proof -
  from assms obtain amt tx1 w inp tx2 ret where parts: "outputs lib srv \<lparr>tx_In = [], tx_Out = []\<rparr> ps = Inr (amt, tx1)"
    "inputs lib srv tx1 (rc_Address res) w = Inr (inp, us, tx2)"
    and tx: "tx_Out tx = tx_Out tx2 @ ret" "\<forall>out \<in> set ret. PayToAddrScript lib (rc_Address res) = Inr (to_PkScript out)"
    unfolding rawTx_def Let_def by (fastforce split: if_split_asm)
  have "tx_Out tx2 = tx_Out tx1" using parts(2) take_utxos_spec by (fastforce simp: inputs_def)
  moreover obtain outs marker where "tx_Out tx1 = outs @ [marker]" "list_all2 (pays lib) ps outs"
    using parts(1) by (auto simp: outputs_def dest!: add_outputs_scripts)
  ultimately show ?thesis using tx by auto
qed

text \<open>
  C10. The transaction pays what it should: every proposal is paid its amount in order, to the address of its recipient; the
  inputs spend, by transaction hash and index, the first of the unspent outputs that the mempool reports for the resource;
  and what the inputs hold minus what the outputs pay is exactly the fee for this number of inputs and outputs, the surplus
  going back to the bridge. The code does not check that the inputs cover amounts and fee: the outputs have values that are
  not negative exactly if they do. Sums below \<open>2\<^sup>6\<^sup>2\<close> satoshi cover all bitcoins there are.
\<close>

theorem raw_tx_balances:
  assumes "rawTx lib srv ps res = Inr (tx, us)"
    and "fee srv 1 (of_nat (length us)) (of_nat (length ps) + 1) = Inr f"
    and "sats us < 2 ^ 62" "uint f < 2 ^ 62" "amounts ps < 2 ^ 62"
  shows "sats us - sum_list (map to_Value (tx_Out tx)) = uint f \<and>
     ((\<forall>out \<in> set (tx_Out tx). 0 \<le> to_Value out) \<longleftrightarrow> amounts ps + uint f \<le> sats us) \<and>
     take (length ps) (map to_Value (tx_Out tx)) = map (\<lambda>p. uint (btpd_Amount (bp_Data p))) ps \<and>
     (\<exists>all k. Utxos srv (AddressString lib (rc_Address res)) = Inr all \<and> us = take k all) \<and>
     map ti_Index (tx_In tx) = map ux_Vout us \<and> map (\<lambda>i. Inr (ti_Hash i)) (tx_In tx) = map (\<lambda>u. NewHashFromStr lib (ux_TxID u)) us \<and>
     (\<exists>outs marker change. tx_Out tx = outs @ [marker] @ change \<and> list_all2 (pays lib) ps outs \<and>
        (\<forall>out \<in> set change. PayToAddrScript lib (rc_Address res) = Inr (to_PkScript out)))"
proof -
  note v = rawTx_values [OF assms(1-5)]
  have "(\<forall>x \<in> set (map to_Value (tx_Out tx)). 0 \<le> x) \<longleftrightarrow> amounts ps + uint f \<le> sats us"
    using v by auto
  then have nonneg: "(\<forall>out \<in> set (tx_Out tx). 0 \<le> to_Value out) \<longleftrightarrow> amounts ps + uint f \<le> sats us" by simp
  have "sum_list (map to_Value (tx_Out tx)) = amounts ps + (sats us - uint f - amounts ps)"
    using v by (simp add: amounts_def)
  moreover have "take (length ps) (map to_Value (tx_Out tx)) = map (\<lambda>p. uint (btpd_Amount (bp_Data p))) ps"
    using v by simp
  ultimately have "sats us - sum_list (map to_Value (tx_Out tx)) = uint f \<and>
     ((\<forall>out \<in> set (tx_Out tx). 0 \<le> to_Value out) \<longleftrightarrow> amounts ps + uint f \<le> sats us) \<and>
     take (length ps) (map to_Value (tx_Out tx)) = map (\<lambda>p. uint (btpd_Amount (bp_Data p))) ps \<and>
     (\<exists>all k. Utxos srv (AddressString lib (rc_Address res)) = Inr all \<and> us = take k all) \<and>
     map ti_Index (tx_In tx) = map ux_Vout us \<and> map (\<lambda>i. Inr (ti_Hash i)) (tx_In tx) = map (\<lambda>u. NewHashFromStr lib (ux_TxID u)) us"
    using nonneg rawTx_spec [OF assms(1)] by auto
  with rawTx_scripts [OF assms(1)] show ?thesis by blast
qed

text \<open>
  The fee is estimated for one input per proposal, but charged for the inputs actually
  taken and one output more. When the inputs cover the amounts but not this larger fee, the
  subtraction of the change wraps around: the transaction gets an output of negative value,
  which no node accepts, and no error is reported while it is built and signed.
\<close>

theorem raw_tx_negative_change:
  assumes "rawTx lib srv ps res = Inr (tx, us)"
    and "fee srv 1 (of_nat (length us)) (of_nat (length ps) + 1) = Inr f"
    and "sats us < 2 ^ 62" "uint f < 2 ^ 62" "amounts ps < 2 ^ 62" "sats us < amounts ps + uint f"
  shows "\<exists>out \<in> set (tx_Out tx). to_Value out = sats us - uint f - amounts ps \<and> to_Value out < 0"
proof -
  have "sats us - uint f - amounts ps \<in> set (map to_Value (tx_Out tx))"
    using rawTx_values [OF assms(1-5)] assms(6) by simp
  then show ?thesis using assms(6) by auto
qed

definition example_btcd :: "(string, string) btcd" where
  "example_btcd = \<lparr>DecodeAddress = Inr, AddressString = (\<lambda>a. a), PayToAddrScript = (\<lambda>a. Inr (map (of_nat \<circ> of_char) a)),
     NullDataScript = Inr, NewHashFromStr = Inr\<rparr>"

definition example_resource :: "string Resource" where
  "example_resource = \<lparr>rc_Address = ''bridge'', rc_FeeAmount = 0, rc_ResourceID = [3], rc_Tweak = '''', rc_Script = [1]\<rparr>"

definition example_services :: "uint64 list \<Rightarrow> btc_services" where
  "example_services values =
     \<lparr>RecommendedFee = (\<lambda>_. Inr \<lparr>fe_EconomyFee = 3\<rparr>),
      Utxos = (\<lambda>_. Inr (map (\<lambda>v. \<lparr>ux_TxID = ''tx'', ux_Vout = 0, ux_Value = v, ux_BlockTime = 0\<rparr>) values)),
      Upload = (\<lambda>_. Inr ''cid'')\<rparr>"

definition example_payment :: "uint64 \<Rightarrow> BtcTransferProposal" where
  "example_payment amount = \<lparr>bp_Source = 1, bp_Destination = 4, bp_Data = \<lparr>btpd_Amount = amount, btpd_Recipient = ''tb1'',
     btpd_DepositNonce = 7, btpd_ResourceId = [3]\<rparr>\<rparr>"

lemmas example_tx_defs =
  rawTx_def outputs_def inputs_def fee_def example_btcd_def example_resource_def example_services_def
  example_payment_def INPUT_SIZE_def OUTPUT_SIZE_def FEE_ROUNDING_FACTOR_def Let_def

theorem raw_tx_balances_witness:
  "\<exists>tx us. rawTx example_btcd (example_services [1000, 4000, 3000]) [example_payment 1500] example_resource = Inr (tx, us) \<and>
     sats us = 5000 \<and> sats us - sum_list (map to_Value (tx_Out tx)) = 2140"
proof -
  obtain tx us where run: "rawTx example_btcd (example_services [1000, 4000, 3000]) [example_payment 1500] example_resource = Inr (tx, us)"
    and len: "length us = 2" "sats us = 5000"
  proof -
    let ?r = "rawTx example_btcd (example_services [1000, 4000, 3000]) [example_payment 1500] example_resource"
    have "is_ok ?r" "length (snd (projr ?r)) = 2" "sats (snd (projr ?r)) = 5000" by code_simp+
    then show ?thesis by (intro that [of "fst (projr ?r)" "snd (projr ?r)"]) (auto simp: is_ok_def split: sum.splits)
  qed
  have "fee (example_services [1000, 4000, 3000]) 1 (of_nat (length us)) (of_nat (length [example_payment 1500]) + 1) = Inr 2140"
    by (simp add: len example_tx_defs)
  from raw_tx_balances [OF run this] len run show ?thesis
    by (auto simp: amounts_def example_payment_def)
qed

theorem raw_tx_negative_change_witness:
  "\<exists>tx us out. rawTx example_btcd (example_services [1000, 2000, 3000]) [example_payment 1500] example_resource = Inr (tx, us) \<and>
     out \<in> set (tx_Out tx) \<and> to_Value out = - 640"
proof -
  obtain tx us where run: "rawTx example_btcd (example_services [1000, 2000, 3000]) [example_payment 1500] example_resource = Inr (tx, us)"
    and len: "length us = 2" "sats us = 3000"
  proof -
    let ?r = "rawTx example_btcd (example_services [1000, 2000, 3000]) [example_payment 1500] example_resource"
    have "is_ok ?r" "length (snd (projr ?r)) = 2" "sats (snd (projr ?r)) = 3000" by code_simp+
    then show ?thesis by (intro that [of "fst (projr ?r)" "snd (projr ?r)"]) (auto simp: is_ok_def split: sum.splits)
  qed
  have "fee (example_services [1000, 2000, 3000]) 1 (of_nat (length us)) (of_nat (length [example_payment 1500]) + 1) = Inr 2140"
    by (simp add: len example_tx_defs)
  from raw_tx_negative_change [OF run this] len run show ?thesis
    by (auto simp: amounts_def example_payment_def)
qed


section \<open>Sending\<close>

lemma length_signed_tx: "length sigs = length (tx_In tx) \<Longrightarrow> map ti_Witness (tx_In (signed_tx tx sigs)) = map (\<lambda>s. [s]) sigs"
  by (auto simp: signed_tx_def intro!: nth_equalityI)

lemma btc_watch_actions:
  assumes "length sigs = length (tx_In tx)"
  shows "(case btc_watch tx sid sigs es of (r, acts) \<Rightarrow>
     acts = [] \<or> acts = [BtcCancel] \<or>
     (\<exists>full. length full = length (tx_In tx) \<and> signaturesFilled full \<and>
        (acts = [BtcCancel, BtcSend (signed_tx tx full), BtcStatus ExecutedProp, BtcCancel] \<and> r = Some (Inr ()) \<or>
         acts = [BtcCancel, BtcSend (signed_tx tx full), BtcFail sid, BtcStatus FailedProp, BtcCancel] \<and>
           (\<exists>err. r = Some (Inl err)))))"
  using assms
proof (induction tx sid sigs es rule: btc_watch.induct)
  case (3 tx sid sigs i sig SendRaw es)
  show ?case
  proof (cases "i < length sigs \<and> signaturesFilled (sigs[i := sig])")
    case True
    then show ?thesis
      using 3(2)
      by (cases "sendTx SendRaw tx (sigs[i := sig])") (auto simp: Let_def intro!: exI [of _ "sigs[i := sig]"])
  next
    case False
    then show ?thesis using 3 by (auto simp: Let_def not_less)
  qed
qed simp_all

text \<open>What is sent is the transaction with signatures that arrived for the inputs they are put into.\<close>

lemma btc_watch_sent:
  assumes "BtcSend t \<in> set (snd (btc_watch tx sid sigs es))"
  shows "\<exists>full. t = signed_tx tx full \<and> length full = length sigs \<and> signaturesFilled full \<and>
    (\<forall>k < length full. full ! k = sigs ! k \<or> (\<exists>send. BtcSig (Some (k, full ! k)) send \<in> set es))"
  using assms
proof (induction tx sid sigs es rule: btc_watch.induct)
  case (3 tx sid sigs i sig SendRaw es)
  let ?sigs = "sigs[i := sig]"
  have new: "?sigs ! k = sigs ! k \<or> (k = i \<and> ?sigs ! k = sig)" if "k < length sigs" for k
    using that by (cases "k = i") simp_all
  have i: "i < length sigs" using "3.prems" by (auto split: if_splits)
  show ?case
  proof (cases "signaturesFilled ?sigs")
    case True
    with "3.prems" i have "t = signed_tx tx ?sigs" by (auto simp: Let_def split: sum.splits)
    with True new show ?thesis by (intro exI [of _ ?sigs]) auto
  next
    case False
    with "3.prems" i have sent: "BtcSend t \<in> set (snd (btc_watch tx sid ?sigs es))" by (auto simp: Let_def)
    have "\<not> length sigs \<le> i" using i by simp
    from "3.IH" [OF this refl False sent] obtain full where f: "t = signed_tx tx full" "length full = length ?sigs" "signaturesFilled full"
      "\<forall>k < length full. full ! k = ?sigs ! k \<or> (\<exists>send. BtcSig (Some (k, full ! k)) send \<in> set es)" by blast
    with new show ?thesis by (intro exI [of _ full]) fastforce
  qed
qed simp_all

lemma signed_tx_same:
  assumes "length sigs = length (tx_In tx)"
  shows "tx_Out (signed_tx tx sigs) = tx_Out tx \<and> map ti_Hash (tx_In (signed_tx tx sigs)) = map ti_Hash (tx_In tx) \<and>
    map ti_Index (tx_In (signed_tx tx sigs)) = map ti_Index (tx_In tx)"
  using assms by (auto simp: signed_tx_def list_eq_iff_nth_eq)

lemma signed_tx_witness:
  "length sigs = length (tx_In tx) \<Longrightarrow> k < length sigs \<Longrightarrow> ti_Witness (tx_In (signed_tx tx sigs) ! k) = [sigs ! k]"
  by (simp add: signed_tx_def)

lemma btc_sent_signed:
  assumes "BtcSend t \<in> set (snd (Btc_watchExecution tx sid es))"
  shows "tx_Out t = tx_Out tx \<and> map ti_Hash (tx_In t) = map ti_Hash (tx_In tx) \<and> map ti_Index (tx_In t) = map ti_Index (tx_In tx) \<and>
    (\<forall>k < length (tx_In t). \<exists>sig send. ti_Witness (tx_In t ! k) = [sig] \<and> sig \<noteq> [] \<and> BtcSig (Some (k, sig)) send \<in> set es)"
proof -
  obtain full where f: "t = signed_tx tx full" "length full = length (tx_In tx)" "signaturesFilled full"
    "\<forall>k < length full. full ! k = [] \<or> (\<exists>send. BtcSig (Some (k, full ! k)) send \<in> set es)"
    using btc_watch_sent [OF assms [unfolded Btc_watchExecution_def]] by auto
  have "length (tx_In t) = length full" using f(1,2) by (simp add: signed_tx_def)
  moreover have "full ! k \<noteq> []" if "k < length full" for k
    using f(3) that by (auto simp: signaturesFilled_def list_all_length)
  ultimately show ?thesis using f signed_tx_same [OF f(2)] signed_tx_witness [OF f(2)] by fastforce
qed

text \<open>The transaction is sent once a signature for every input has arrived.\<close>

lemma btc_watch_sends:
  assumes "\<forall>e \<in> set es. \<exists>x send. e = BtcSig x send \<and> (\<forall>i s. x = Some (i, s) \<longrightarrow> i < length sigs \<and> s \<noteq> [])"
    and "\<forall>k < length sigs. sigs ! k \<noteq> [] \<or> (\<exists>s send. BtcSig (Some (k, s)) send \<in> set es)" "\<not> signaturesFilled sigs"
  shows "\<exists>t. BtcSend t \<in> set (snd (btc_watch tx sid sigs es))"
  using assms
proof (induction tx sid sigs es rule: btc_watch.induct)
  case (1 tx sid sigs)
  then show ?case by (auto simp: signaturesFilled_def list_all_length)
next
  case (3 tx sid sigs i sig SendRaw es)
  let ?sigs = "sigs[i := sig]"
  from 3(2) have i: "i < length sigs" "sig \<noteq> []" by auto
  show ?case
  proof (cases "signaturesFilled ?sigs")
    case True
    with i show ?thesis by (auto simp: Let_def split: sum.splits)
  next
    case False
    have "\<not> length sigs \<le> i" using i by simp
    moreover have "?sigs ! k \<noteq> [] \<or> (\<exists>s send. BtcSig (Some (k, s)) send \<in> set es)" if "k < length ?sigs" for k
    proof (cases "k = i")
      case False
      with 3(3) [rule_format, of k] that show ?thesis by auto
    qed (use i in simp)
    ultimately have "\<exists>t. BtcSend t \<in> set (snd (btc_watch tx sid ?sigs es))"
      using 3(2) by (intro "3.IH" [OF _ refl False]) (auto simp: False)
    with i False show ?thesis by (simp add: Let_def)
  qed
qed auto

text \<open>
  C11. A Bitcoin transaction is sent at most once per execution: it has the inputs and outputs it was built with, and
  every input carries a signature that arrived for this input. It is sent once all signatures have arrived. The proposals become executed only after the node accepted it, and
  failed only after the node refused it and the failure was announced; on a timeout or a
  cancellation they keep their status.
\<close>

theorem btc_send_complete:
  assumes "Btc_watchExecution tx sid es = (r, acts)"
  shows "length (filter (\<lambda>a. \<exists>t. a = BtcSend t) acts) \<le> 1 \<and>
     (\<forall>t. BtcSend t \<in> set acts \<longrightarrow> tx_Out t = tx_Out tx \<and> map ti_Hash (tx_In t) = map ti_Hash (tx_In tx) \<and>
        map ti_Index (tx_In t) = map ti_Index (tx_In tx) \<and>
        (\<forall>k < length (tx_In t). \<exists>sig send. ti_Witness (tx_In t ! k) = [sig] \<and> sig \<noteq> [] \<and> BtcSig (Some (k, sig)) send \<in> set es)) \<and>
     (tx_In tx \<noteq> [] \<longrightarrow> (\<forall>k < length (tx_In tx). \<exists>sig send. BtcSig (Some (k, sig)) send \<in> set es) \<longrightarrow>
        (\<forall>e \<in> set es. \<exists>x send. e = BtcSig x send \<and> (\<forall>i s. x = Some (i, s) \<longrightarrow> i < length (tx_In tx) \<and> s \<noteq> [])) \<longrightarrow>
        (\<exists>t. BtcSend t \<in> set acts)) \<and>
     (\<forall>s. BtcStatus s \<in> set acts \<longrightarrow> (\<exists>t. BtcSend t \<in> set acts) \<and>
        (s = ExecutedProp \<and> r = Some (Inr ()) \<or> s = FailedProp \<and> BtcFail sid \<in> set acts \<and> (\<exists>err. r = Some (Inl err))))"
proof -
  have "acts = [] \<or> acts = [BtcCancel] \<or>
     (\<exists>full. length full = length (tx_In tx) \<and> signaturesFilled full \<and>
        (acts = [BtcCancel, BtcSend (signed_tx tx full), BtcStatus ExecutedProp, BtcCancel] \<and> r = Some (Inr ()) \<or>
         acts = [BtcCancel, BtcSend (signed_tx tx full), BtcFail sid, BtcStatus FailedProp, BtcCancel] \<and>
           (\<exists>err. r = Some (Inl err))))"
    using btc_watch_actions [of "replicate (length (tx_In tx)) []" tx sid es] assms by (simp add: Btc_watchExecution_def)
  then have once: "length (filter (\<lambda>a. \<exists>t. a = BtcSend t) acts) \<le> 1 \<and>
     (\<forall>s. BtcStatus s \<in> set acts \<longrightarrow> (\<exists>t. BtcSend t \<in> set acts) \<and>
        (s = ExecutedProp \<and> r = Some (Inr ()) \<or> s = FailedProp \<and> BtcFail sid \<in> set acts \<and> (\<exists>err. r = Some (Inl err))))"
    by (elim disjE exE conjE) simp_all
  have "\<exists>t. BtcSend t \<in> set acts"
    if "tx_In tx \<noteq> []" "\<forall>k < length (tx_In tx). \<exists>sig send. BtcSig (Some (k, sig)) send \<in> set es"
      "\<forall>e \<in> set es. \<exists>x send. e = BtcSig x send \<and> (\<forall>i s. x = Some (i, s) \<longrightarrow> i < length (tx_In tx) \<and> s \<noteq> [])"
    using btc_watch_sends [of es "replicate (length (tx_In tx)) []" tx sid] that assms
    by (cases "tx_In tx") (simp_all add: Btc_watchExecution_def signaturesFilled_def)
  with once btc_sent_signed [of _ tx sid es] assms show ?thesis by simp
qed

definition example_tx :: "string MsgTx" where
  "example_tx = \<lparr>tx_In = [\<lparr>ti_Hash = ''a'', ti_Index = 0, ti_Witness = []\<rparr>, \<lparr>ti_Hash = ''b'', ti_Index = 1, ti_Witness = []\<rparr>], tx_Out = []\<rparr>"

theorem btc_send_complete_witness:
  "\<exists>r acts. Btc_watchExecution example_tx ''s''
       [BtcSig (Some (1, [9])) (\<lambda>_. Inl (Error [])), BtcSig None (\<lambda>_. Inr []), BtcSig (Some (0, [8])) (\<lambda>_. Inr ''hash'')] = (r, acts) \<and>
     BtcStatus ExecutedProp \<in> set acts \<and> r = Some (Inr ()) \<and> (\<exists>t. BtcSend t \<in> set acts)"
proof -
  obtain r acts where run: "Btc_watchExecution example_tx ''s''
       [BtcSig (Some (1, [9])) (\<lambda>_. Inl (Error [])), BtcSig None (\<lambda>_. Inr []), BtcSig (Some (0, [8])) (\<lambda>_. Inr ''hash'')] = (r, acts)"
    by fastforce
  then have "BtcStatus ExecutedProp \<in> set acts"
    by (auto simp: Btc_watchExecution_def example_tx_def signaturesFilled_def sendTx_def Let_def numeral_2_eq_2 split: prod.splits)
  with btc_send_complete [OF run] run show ?thesis by (auto simp: ExecutedProp_def FailedProp_def)
qed

section \<open>Sessions\<close>

lemma hex_no_dash: "CHR ''-'' \<notin> set (hex_encode bs)"
proof -
  have "hex_digit n \<noteq> CHR ''-''" if "n < 16" for n
    using digit_value_hex_digit [OF that] that by (auto simp: digit_value_def lower_def)
  moreover have "unat b div 16 < 16" "unat b mod 16 < 16" for b :: byte
    using unat_byte_less [of b] by auto
  ultimately have "CHR ''-'' \<noteq> hex_digit (unat b div 16)" "CHR ''-'' \<noteq> hex_digit (unat b mod 16)" for b :: byte
    by metis+
  then show ?thesis by (simp add: hex_encode_def)
qed

lemma signing_sessions_spec:
  assumes "signing_sessions sigHash NewSigning tweak mid is = Inr ss"
  shows "map bs_id ss = is \<and> (\<forall>s \<in> set ss. sigHash (bs_id s) = Inr (bs_msg s) \<and> bs_sessionID s = hex_encode (bs_msg s) \<and>
     bs_messageID s = mid \<and> bs_tweak s = tweak)"
  using assms by (induction "is" arbitrary: ss) (auto simp: Let_def)

text \<open>
  One signing process per input, in the order of the inputs, each over the taproot
  signature hash of its input and with the hash as session. The watcher's session, under
  which a failure is announced, is never one of these sessions, so the coordinators of the
  other relayers, who listen on the session of the first process, do not hear it.
\<close>

theorem btc_sessions:
  assumes "executeResourceProps lib srv sigHash NewSigning props resource mid = Inr x"
  shows "(\<exists>prevOuts. map bs_id (rx_sessions x) = [0..<length (tx_In (rx_tx x))] \<and>
       (\<forall>s \<in> set (rx_sessions x). sigHash prevOuts (rx_tx x) (bs_id s) = Inr (bs_msg s) \<and>
          bs_sessionID s = hex_encode (bs_msg s))) \<and>
     rx_watchSession x \<notin> bs_sessionID ` set (rx_sessions x)"
proof -
  from assms obtain prevOuts ss where
    ss: "signing_sessions (sigHash prevOuts (rx_tx x)) NewSigning (rc_Tweak resource) mid [0..<length (tx_In (rx_tx x))] = Inr ss"
      "rx_sessions x = ss" "rx_watchSession x = mid @ ''-'' @ hex_encode (rc_ResourceID resource)"
    by (auto simp: executeResourceProps_def)
  have "CHR ''-'' \<in> set (rx_watchSession x)" using ss(3) by simp
  then have "bs_sessionID s \<noteq> rx_watchSession x" if "s \<in> set ss" for s
    using signing_sessions_spec [OF ss(1)] that hex_no_dash by metis
  then have "rx_watchSession x \<notin> bs_sessionID ` set (rx_sessions x)" using ss(2) by (metis imageE)
  with signing_sessions_spec [OF ss(1)] ss(2) show ?thesis by blast
qed

theorem btc_sessions_witness:
  "\<exists>x. executeResourceProps example_btcd (example_services [1000, 4000, 3000]) (\<lambda>_ _ i. Inr [of_nat i]) (\<lambda>_. Inr ())
       [example_payment 1500] example_resource ''1-4-9'' = Inr x \<and>
     map bs_sessionID (rx_sessions x) = [''00'', ''01''] \<and> rx_watchSession x = ''1-4-9-03'' \<and>
     rx_watchSession x \<notin> bs_sessionID ` set (rx_sessions x)"
proof -
  let ?r = "executeResourceProps example_btcd (example_services [1000, 4000, 3000]) (\<lambda>_ _ i. Inr [of_nat i]) (\<lambda>_. Inr ())
       [example_payment 1500] example_resource ''1-4-9''"
  have "is_ok ?r" "map bs_sessionID (rx_sessions (projr ?r)) = [''00'', ''01'']" "rx_watchSession (projr ?r) = ''1-4-9-03''"
    by code_simp+
  moreover from this(1) have r: "?r = Inr (projr ?r)" by (cases ?r) simp_all
  moreover have "rx_watchSession (projr ?r) \<notin> bs_sessionID ` set (rx_sessions (projr ?r))"
    using btc_sessions [OF r] by blast
  ultimately show ?thesis by (intro exI [of _ "projr ?r"] conjI)
qed

section \<open>Grouping by resource\<close>

lemma props_per_resource_at:
  "at_key (props_per_resource m ps) k = at_key m k @ filter (\<lambda>p. btpd_ResourceId (bp_Data p) = k) ps"
  by (induction ps arbitrary: m) auto

lemma props_per_resource_keys:
  "fst ` set (props_per_resource m ps) = fst ` set m \<union> (\<lambda>p. btpd_ResourceId (bp_Data p)) ` set ps"
  by (induction ps arbitrary: m) auto

lemma props_per_resource_distinct:
  "distinct (map fst m) \<Longrightarrow> distinct (map fst (props_per_resource m ps))"
  by (induction ps arbitrary: m) (simp_all add: distinct_append_at)

text \<open>
  Every selected proposal is paid by the execution of its own resource: there is exactly
  one execution per resource that occurs, and it gets exactly the proposals of this resource
  in their order.
\<close>

theorem resources_partition_proposals:
  "distinct (map fst (props_per_resource [] ps)) \<and>
   fst ` set (props_per_resource [] ps) = (\<lambda>p. btpd_ResourceId (bp_Data p)) ` set ps \<and>
   set (props_per_resource [] ps) =
     {(k, filter (\<lambda>p. btpd_ResourceId (bp_Data p) = k) ps) |k. k \<in> (\<lambda>p. btpd_ResourceId (bp_Data p)) ` set ps}"
proof -
  let ?m = "props_per_resource [] ps"
  have d: "distinct (map fst ?m)" by (rule props_per_resource_distinct) simp
  have keys: "fst ` set ?m = (\<lambda>p. btpd_ResourceId (bp_Data p)) ` set ps" by (simp add: props_per_resource_keys)
  have entry: "vs = filter (\<lambda>p. btpd_ResourceId (bp_Data p) = k) ps" if "(k, vs) \<in> set ?m" for k vs
    using at_key_in [OF d that] by (simp add: props_per_resource_at)
  have "(k, filter (\<lambda>p. btpd_ResourceId (bp_Data p) = k) ps) \<in> set ?m" if "k \<in> fst ` set ?m" for k
    using that entry by force
  with d keys entry show ?thesis by (auto simp flip: keys) force
qed

end
