(* ===== verification/Config.thy ===== *)
theory Config
  imports Parsing Floats Btc_Executor "HOL-Library.Sublist"
begin

text \<open>
  The configuration (\<open>config\<close>, \<open>config/relayer\<close>, \<open>config/chain\<close> and the configurations of the
  chains): reading the environment, parsing durations and ports, merging the local with the
  shared configuration, validation. \<open>mapstructure\<close>, \<open>defaults\<close>, \<open>mergo\<close>, the log level parser and the
  address parser of btcd belong to other packages and are arguments.
\<close>

section \<open>Durations\<close>

text \<open>
  \<open>time.ParseDuration\<close> of the standard library, in nanoseconds. Its three error messages are not
  told apart.
\<close>

fun leadingInt :: "nat \<Rightarrow> string \<Rightarrow> (nat \<times> string) option" where
  "leadingInt x [] = Some (x, [])"
| "leadingInt x (c # cs) =
     (if is_digit c then
        (if 2 ^ 63 div 10 < x then None
         else (let x' = x * 10 + digit_value c in if 2 ^ 63 < x' then None else leadingInt x' cs))
      else Some (x, c # cs))"

text \<open>Digits that would overflow are dropped but consumed.\<close>

fun leadingFraction :: "nat \<Rightarrow> float64 \<Rightarrow> bool \<Rightarrow> string \<Rightarrow> nat \<times> float64 \<times> string" where
  "leadingFraction x scale overflow [] = (x, scale, [])"
| "leadingFraction x scale overflow (c # cs) =
     (if is_digit c then
        (if overflow then leadingFraction x scale True cs
         else if (2 ^ 63 - 1) div 10 < x then leadingFraction x scale True cs
         else (let y = x * 10 + digit_value c in
               if 2 ^ 63 < y then leadingFraction x scale True cs
               else leadingFraction y (float_mul scale (10, 0)) False cs))
      else (x, scale, c # cs))"

definition unit_char :: "char \<Rightarrow> bool" where
  "unit_char c \<longleftrightarrow> \<not> (c = CHR ''.'' \<or> is_digit c)"

text \<open>The two micro signs are written in UTF-8.\<close>

definition duration_unit :: "string \<Rightarrow> nat option" where
  "duration_unit u =
     (if u = ''ns'' then Some 1
      else if u = ''us'' \<or> u = [CHR 0xC2, CHR 0xB5, CHR ''s''] \<or> u = [CHR 0xCE, CHR 0xBC, CHR ''s''] then Some (10 ^ 3)
      else if u = ''ms'' then Some (10 ^ 6)
      else if u = ''s'' then Some (10 ^ 9)
      else if u = ''m'' then Some (60 * 10 ^ 9)
      else if u = ''h'' then Some (3600 * 10 ^ 9)
      else None)"

text \<open>One number with its unit: its value and what follows.\<close>

definition duration_part :: "string \<Rightarrow> (nat \<times> string) option" where
  "duration_part s =
     (if s = [] \<or> unit_char (hd s) then None
      else
        (case leadingInt 0 s of
           None \<Rightarrow> None
         | Some (v, s1) \<Rightarrow>
             (let (f, scale, s2, post) =
                    (if s1 \<noteq> [] \<and> hd s1 = CHR ''.''
                     then (let (f, scale, r) = leadingFraction 0 (1, 0) False (tl s1) in (f, scale, r, r \<noteq> tl s1))
                     else (0, (1, 0), s1, False))
              in if s1 = s \<and> \<not> post then None
                 else
                   (let u = takeWhile unit_char s2 in
                    if u = [] then None
                    else
                      (case duration_unit u of
                         None \<Rightarrow> None
                       | Some unit \<Rightarrow>
                           if 2 ^ 63 div unit < v then None
                           else
                             (let d = v * unit + (if 0 < f
                                then nat (float_to_int (float_mul (float_of_nat f) (float_div (float_of_nat unit) scale))) else 0)
                              in if 2 ^ 63 < d then None else Some (d, dropWhile unit_char s2)))))))"

text \<open>The loop; the string gets shorter with every part.\<close>

lemma leadingInt_length: "leadingInt x s = Some (v, r) \<Longrightarrow> length r \<le> length s"
  by (induction x s rule: leadingInt.induct) (auto simp: Let_def split: if_splits)

lemma leadingFraction_length: "leadingFraction x sc b s = (f, sc', r) \<Longrightarrow> length r \<le> length s"
  by (induction x sc b s rule: leadingFraction.induct) (auto simp: Let_def split: if_splits)

lemma dropWhile_length_less: "takeWhile P s \<noteq> [] \<Longrightarrow> length (dropWhile P s) < length s"
  by (cases s) (auto simp: less_Suc_eq_le length_dropWhile_le split: if_splits)

lemma duration_part_length:
  assumes "duration_part s = Some (d, r)"
  shows "length r < length s"
proof -
  from assms obtain v s1 where s1: "leadingInt 0 s = Some (v, s1)"
    by (auto simp: duration_part_def split: if_splits option.splits)
  obtain s2 where s2: "r = dropWhile unit_char s2" "takeWhile unit_char s2 \<noteq> []" "length s2 \<le> length s1"
  proof (cases "s1 \<noteq> [] \<and> hd s1 = CHR ''.''")
    case True
    obtain f sc rest where fr: "leadingFraction 0 (1, 0) False (tl s1) = (f, sc, rest)" by (metis prod_cases3)
    then have "length rest \<le> length s1" using leadingFraction_length [OF fr] by (cases s1) auto
    with assms s1 fr True that [of rest] show thesis
      by (auto simp: duration_part_def Let_def split: if_splits option.splits)
  next
    case False
    with assms s1 that [of s1] show thesis
      by (auto simp: duration_part_def Let_def split: if_splits option.splits)
  qed
  from s2(1) dropWhile_length_less [OF s2(2)] s2(3) leadingInt_length [OF s1] show ?thesis by simp
qed

function duration_loop :: "nat \<Rightarrow> string \<Rightarrow> nat option" where
  "duration_loop d s =
     (if s = [] then Some d
      else
        (case duration_part s of
           None \<Rightarrow> None
         | Some (v, rest) \<Rightarrow> if 2 ^ 63 < d + v then None else duration_loop (d + v) rest))"
  by pat_completeness auto
termination
  by (relation "measure (\<lambda>(d, s). length s)") (auto dest: duration_part_length)

declare duration_loop.simps [simp del]

definition ParseDuration :: "string \<Rightarrow> int res" where
  "ParseDuration s =
     (let neg = (case s of c # _ \<Rightarrow> c = CHR ''-'' | [] \<Rightarrow> False);
          t = (case s of c # cs \<Rightarrow> if c = CHR ''-'' \<or> c = CHR ''+'' then cs else s | [] \<Rightarrow> s)
      in if t = ''0'' then Inr 0
         else if t = [] then Inl (Error ''time: invalid duration'')
         else
           (case duration_loop 0 t of
              None \<Rightarrow> Inl (Error ''time: invalid duration'')
            | Some d \<Rightarrow>
                if neg then Inr (- int d)
                else if 2 ^ 63 \<le> d then Inl (Error ''time: invalid duration'')
                else Inr (int d)))"

section \<open>The relayer configuration\<close>

record TopologyConfiguration =
  tc_EncryptionKey :: string
  tc_Url :: string
  tc_Path :: string

record RawMpcRelayerConfig =
  rm_KeysharePath :: string
  rm_FrostKeysharePath :: string
  rm_Key :: string
  rm_Port :: string
  rm_TopologyConfiguration :: TopologyConfiguration
  rm_CommHealthCheckInterval :: string

record RawBullyConfig =
  rb_PingWaitTime :: string
  rb_PingBackOff :: string
  rb_PingInterval :: string
  rb_ElectionWaitTime :: string
  rb_BullyWaitTime :: string

record UploaderConfig =
  uc_URL :: string
  uc_AuthToken :: string
  uc_MaxRetries :: uint64
  uc_MaxElapsedTime :: int

record RawRelayerConfig =
  rr_OpenTelemetryCollectorURL :: string
  rr_LogLevel :: string
  rr_LogFile :: string
  rr_HealthPort :: string
  rr_Env :: string
  rr_Id :: string
  rr_MpcConfig :: RawMpcRelayerConfig
  rr_BullyConfig :: RawBullyConfig
  rr_UploaderConfig :: UploaderConfig

record MpcRelayerConfig =
  mc_TopologyConfiguration :: TopologyConfiguration
  mc_Port :: uint16
  mc_KeysharePath :: string
  mc_FrostKeysharePath :: string
  mc_Key :: string
  mc_CommHealthCheckInterval :: int

record BullyConfig =
  bc_PingWaitTime :: int
  bc_PingBackOff :: int
  bc_PingInterval :: int
  bc_ElectionWaitTime :: int
  bc_BullyWaitTime :: int

record RelayerConfig =
  rl_OpenTelemetryCollectorURL :: string
  rl_LogLevel :: int
  rl_LogFile :: string
  rl_HealthPort :: uint16
  rl_Env :: string
  rl_Id :: string
  rl_MpcConfig :: MpcRelayerConfig
  rl_BullyConfig :: BullyConfig
  rl_UploaderConfig :: UploaderConfig

definition RawRelayerConfig_Validate :: "RawRelayerConfig \<Rightarrow> unit res" where
  "RawRelayerConfig_Validate c =
     (let t = rm_TopologyConfiguration (rr_MpcConfig c) in
      if tc_EncryptionKey t = '''' then Inl (Error ''topology configuration encryption key not provided'')
      else if tc_Url t = '''' then Inl (Error ''topology configuration url not provided'')
      else if tc_Path t = '''' then Inl (Error ''topology configuration path not provided'')
      else Inr ())"

definition wrap_error :: "string \<Rightarrow> 'a res \<Rightarrow> 'a res" where
  "wrap_error msg r = (case r of Inl (Error e) \<Rightarrow> Inl (Error (msg @ e)) | _ \<Rightarrow> r)"

definition parseMpcConfig :: "RawRelayerConfig \<Rightarrow> MpcRelayerConfig res" where
  "parseMpcConfig rawConfig =
     (let m = rr_MpcConfig rawConfig in
      and_then (wrap_error ''unable to parse mpc port from config '' (ParseInt0 16 (rm_Port m))) (\<lambda>port.
      and_then (wrap_error ''unable to parse communication health check interval time: ''
                  (ParseDuration (rm_CommHealthCheckInterval m))) (\<lambda>duration.
      Inr \<lparr>mc_TopologyConfiguration = rm_TopologyConfiguration m, mc_Port = of_int port,
           mc_KeysharePath = rm_KeysharePath m, mc_FrostKeysharePath = rm_FrostKeysharePath m, mc_Key = rm_Key m,
           mc_CommHealthCheckInterval = duration\<rparr>)))"

definition parseBullyConfig :: "RawRelayerConfig \<Rightarrow> BullyConfig res" where
  "parseBullyConfig rawConfig =
     (let b = rr_BullyConfig rawConfig in
      and_then (wrap_error ''unable to parse bully election wait time: '' (ParseDuration (rb_ElectionWaitTime b))) (\<lambda>electionWaitTime.
      and_then (wrap_error ''unable to parse bully ping wait time: '' (ParseDuration (rb_PingWaitTime b))) (\<lambda>pingWaitTime.
      and_then (wrap_error ''unable to parse bully ping interval time: '' (ParseDuration (rb_PingInterval b))) (\<lambda>pingInterval.
      and_then (wrap_error ''unable to parse bully ping back off time: '' (ParseDuration (rb_PingBackOff b))) (\<lambda>pingBackOff.
      and_then (wrap_error ''unable to parse bully wait time: '' (ParseDuration (rb_BullyWaitTime b))) (\<lambda>bullyWaitTime.
      Inr \<lparr>bc_PingWaitTime = pingWaitTime, bc_PingBackOff = pingBackOff, bc_PingInterval = pingInterval,
           bc_ElectionWaitTime = electionWaitTime, bc_BullyWaitTime = bullyWaitTime\<rparr>))))))"

definition NewRelayerConfig :: "(string \<Rightarrow> int res) \<Rightarrow> RawRelayerConfig \<Rightarrow> RelayerConfig res" where
  "NewRelayerConfig ParseLevel rawConfig =
     and_then (RawRelayerConfig_Validate rawConfig) (\<lambda>_.
     case ParseLevel (rr_LogLevel rawConfig) of
       Inl e \<Rightarrow> Inl (Error (''unknown log level: '' @ rr_LogLevel rawConfig))
     | Inr logLevel \<Rightarrow>
         and_then (wrap_error ''unable to parse health port '' (ParseInt0 16 (rr_HealthPort rawConfig))) (\<lambda>healthPort.
         and_then (parseMpcConfig rawConfig) (\<lambda>mpcConfig.
         and_then (parseBullyConfig rawConfig) (\<lambda>bullyConfig.
         Inr \<lparr>rl_OpenTelemetryCollectorURL = rr_OpenTelemetryCollectorURL rawConfig, rl_LogLevel = logLevel,
              rl_LogFile = rr_LogFile rawConfig, rl_HealthPort = of_int healthPort, rl_Env = rr_Env rawConfig,
              rl_Id = rr_Id rawConfig, rl_MpcConfig = mpcConfig, rl_BullyConfig = bullyConfig,
              rl_UploaderConfig = rr_UploaderConfig rawConfig\<rparr>))))"

section \<open>Chain configurations as decoded JSON\<close>

text \<open>
  A dynamic value. Integers occur in configurations built in Go; numbers decoded from JSON are
  floats, here with their sign. The value \<open>nil\<close> is JSON's null and what a missing key reads as.
\<close>

type_synonym gofloat = "bool \<times> float64"

datatype jval = JNil | JInt int | JFloat gofloat | JString string | JBool bool | JOther string

type_synonym chain_config = "(string \<times> jval) list"

definition config_get :: "chain_config \<Rightarrow> string \<Rightarrow> jval" where
  "config_get c k = (case map_of c k of None \<Rightarrow> JNil | Some v \<Rightarrow> v)"

definition gofloat_eq :: "gofloat \<Rightarrow> gofloat \<Rightarrow> bool" where
  "gofloat_eq x y \<longleftrightarrow> float_eq (snd x) (snd y) \<and> (fst x = fst y \<or> fst (snd x) = 0)"

definition gofloat_of_int :: "int \<Rightarrow> gofloat" where
  "gofloat_of_int a = (a < 0, float_of_nat (nat \<bar>a\<bar>))"

definition compareDomainID :: "jval \<Rightarrow> jval \<Rightarrow> bool" where
  "compareDomainID a b =
     (case a of
        JInt a \<Rightarrow> (case b of JInt b \<Rightarrow> a = b | JFloat b \<Rightarrow> gofloat_eq (gofloat_of_int a) b | _ \<Rightarrow> False)
      | JFloat a \<Rightarrow> (case b of JInt b \<Rightarrow> gofloat_eq a (gofloat_of_int b) | JFloat b \<Rightarrow> gofloat_eq a b | _ \<Rightarrow> False)
      | _ \<Rightarrow> False)"

fun findChainConfig :: "jval \<Rightarrow> chain_config list \<Rightarrow> chain_config res" where
  "findChainConfig i [] = Inl (Error ''missing chain'')"
| "findChainConfig i (c # cs) = (if compareDomainID i (config_get c ''id'') then Inr c else findChainConfig i cs)"

record Config =
  cf_RelayerConfig :: RelayerConfig
  cf_ChainConfigs :: "chain_config list"

record RawConfig =
  rw_RelayerConfig :: RawRelayerConfig
  rw_ChainConfigs :: "chain_config list"

text \<open>\<open>chain["id"] == 0\<close> compares with the dynamic value \<open>int(0)\<close>.\<close>

fun merge_chains ::
  "(chain_config \<Rightarrow> chain_config \<Rightarrow> chain_config res) \<Rightarrow> chain_config list \<Rightarrow> nat \<Rightarrow> chain_config list \<Rightarrow> chain_config list res" where
  "merge_chains Merge shared i [] = Inr []"
| "merge_chains Merge shared i (chain # rest) =
     (if config_get chain ''id'' = JInt 0 \<or> config_get chain ''id'' = JNil
      then Inl (Error (''chain 'id' not configured for chain '' @ dec i))
      else if config_get chain ''type'' = JString '''' \<or> config_get chain ''type'' = JNil
      then Inl (Error ''chain 'type' must be provided for every configured chain'')
      else
        and_then (findChainConfig (config_get chain ''id'') shared) (\<lambda>chainConfig.
        and_then (Merge chain chainConfig) (\<lambda>merged.
        and_then (merge_chains Merge shared (Suc i) rest) (\<lambda>r. Inr (merged # r)))))"

text \<open>An error leaves the configuration that was passed in as it was.\<close>

definition processRawConfig ::
  "(RawConfig \<Rightarrow> RawConfig res) \<Rightarrow> (string \<Rightarrow> int res) \<Rightarrow> (chain_config \<Rightarrow> chain_config \<Rightarrow> chain_config res) \<Rightarrow>
   RawConfig \<Rightarrow> Config option \<Rightarrow> Config res" where
  "processRawConfig setDefaults ParseLevel Merge rawConfig config =
     and_then (setDefaults rawConfig) (\<lambda>rawConfig.
     and_then (NewRelayerConfig ParseLevel (rw_RelayerConfig rawConfig)) (\<lambda>relayerConfig.
     case config of
       None \<Rightarrow> Inr \<lparr>cf_RelayerConfig = relayerConfig, cf_ChainConfigs = rw_ChainConfigs rawConfig\<rparr>
     | Some config \<Rightarrow>
         and_then (merge_chains Merge (cf_ChainConfigs config) 0 (rw_ChainConfigs rawConfig)) (\<lambda>chainConfigs.
         Inr (config\<lparr>cf_ChainConfigs := chainConfigs, cf_RelayerConfig := relayerConfig\<rparr>))))"

definition GetSharedConfigFromNetwork :: "bytes res \<Rightarrow> (bytes \<Rightarrow> RawConfig res) \<Rightarrow> RelayerConfig \<Rightarrow> Config res" where
  "GetSharedConfigFromNetwork body Unmarshal zeroConfig =
     and_then body (\<lambda>body.
     and_then (Unmarshal body) (\<lambda>rawConfig.
     Inr \<lparr>cf_RelayerConfig = zeroConfig, cf_ChainConfigs = rw_ChainConfigs rawConfig\<rparr>))"

section \<open>Configuration from the environment\<close>

datatype env = Leaf string | Node "(string \<times> env) list"

text \<open>Writing a key of a Go map.\<close>

fun map_set :: "string \<Rightarrow> 'v \<Rightarrow> (string \<times> 'v) list \<Rightarrow> (string \<times> 'v) list" where
  "map_set k v [] = [(k, v)]"
| "map_set k v ((k', v') # m) = (if k = k' then (k, v) # m else (k', v') # map_set k v m)"

fun mountMap :: "(string \<times> env) list \<Rightarrow> string list \<Rightarrow> string \<Rightarrow> (string \<times> env) list" where
  "mountMap m [] v = m"
| "mountMap m [k] v = map_set k (Leaf v) m"
| "mountMap m (k # l # path) v =
     (case map_of m k of
        None \<Rightarrow> map_set k (Node (mountMap [] (l # path) v)) m
      | Some (Leaf w) \<Rightarrow> m
      | Some (Node sub) \<Rightarrow> map_set k (Node (mountMap sub (l # path) v)) m)"

definition EnvPrefix :: string where "EnvPrefix = ''SYG''"

text \<open>\<open>strings.Contains\<close> and \<open>strings.SplitN(e, "=", 2)\<close>.\<close>

fun contains :: "string \<Rightarrow> string \<Rightarrow> bool" where
  "contains p [] = (p = [])"
| "contains p (c # cs) = (take (length p) (c # cs) = p \<or> contains p cs)"

definition split2 :: "string \<Rightarrow> string list" where
  "split2 e =
     (let k = takeWhile (\<lambda>c. c \<noteq> CHR ''='') e in
      if length k = length e then [e] else [k, drop (Suc (length k)) e])"

text \<open>An entry without an equals sign would make the index \<open>pair[1]\<close> panic.\<close>

fun load_env :: "(string \<times> env) list \<Rightarrow> string list \<Rightarrow> (string \<times> env) list res" where
  "load_env m [] = Inr m"
| "load_env m (e # es) =
     (if contains EnvPrefix e then
        (case split2 e of
           [k, v] \<Rightarrow> load_env (mountMap m (split_on CHR ''_'' k) v) es
         | _ \<Rightarrow> Inl (Panic ''index out of range''))
      else load_env m es)"

definition loadENVToJsonStructure :: "((string \<times> env) list \<Rightarrow> bytes res) \<Rightarrow> string list \<Rightarrow> bytes res" where
  "loadENVToJsonStructure MarshalIndent environ = and_then (load_env [] environ) MarshalIndent"

definition loadFromEnv ::
  "((string \<times> env) list \<Rightarrow> bytes res) \<Rightarrow> (bytes \<Rightarrow> RawConfig res) \<Rightarrow> (string \<Rightarrow> chain_config list res) \<Rightarrow>
   (string \<Rightarrow> string) \<Rightarrow> string list \<Rightarrow> RawConfig res" where
  "loadFromEnv MarshalIndent UnmarshalConfig UnmarshalChains Getenv environ =
     and_then (loadENVToJsonStructure MarshalIndent environ) (\<lambda>json.
     and_then (UnmarshalConfig json) (\<lambda>rawConfig.
     and_then (RawRelayerConfig_Validate (rw_RelayerConfig rawConfig)) (\<lambda>_.
     let rawDomainConfig = Getenv (EnvPrefix @ ''_CHAINS'') in
     if rawDomainConfig = '''' then Inr rawConfig
     else and_then (UnmarshalChains rawDomainConfig) (\<lambda>cc. Inr (rawConfig\<lparr>rw_ChainConfigs := cc\<rparr>)))))"

definition GetConfigFromENV ::
  "((string \<times> env) list \<Rightarrow> bytes res) \<Rightarrow> (bytes \<Rightarrow> RawConfig res) \<Rightarrow> (string \<Rightarrow> chain_config list res) \<Rightarrow>
   (RawConfig \<Rightarrow> RawConfig res) \<Rightarrow> (string \<Rightarrow> int res) \<Rightarrow> (chain_config \<Rightarrow> chain_config \<Rightarrow> chain_config res) \<Rightarrow>
   (string \<Rightarrow> string) \<Rightarrow> string list \<Rightarrow> Config option \<Rightarrow> Config res" where
  "GetConfigFromENV MarshalIndent UnmarshalConfig UnmarshalChains setDefaults ParseLevel Merge Getenv environ config =
     and_then (loadFromEnv MarshalIndent UnmarshalConfig UnmarshalChains Getenv environ) (\<lambda>rawConfig.
     processRawConfig setDefaults ParseLevel Merge rawConfig config)"

text \<open>The file, read and decoded by viper.\<close>

definition GetConfigFromFile ::
  "RawConfig res \<Rightarrow> (RawConfig \<Rightarrow> RawConfig res) \<Rightarrow> (string \<Rightarrow> int res) \<Rightarrow>
   (chain_config \<Rightarrow> chain_config \<Rightarrow> chain_config res) \<Rightarrow> Config option \<Rightarrow> Config res" where
  "GetConfigFromFile readConfig setDefaults ParseLevel Merge config =
     and_then readConfig (\<lambda>rawConfig. processRawConfig setDefaults ParseLevel Merge rawConfig config)"

section \<open>Configurations of the chains\<close>

text \<open>
  \<open>Id\<close> is a pointer that may be nil. Signed 64-bit fields are integers; the durations wrap the
  way \<open>time.Duration(n) * time.Second\<close> does.
\<close>

record GeneralChainConfig =
  gc_Name :: string
  gc_Id :: "uint8 option"
  gc_Endpoint :: string
  gc_Type :: string
  gc_BlockstorePath :: string
  gc_FreshStart :: bool
  gc_LatestBlock :: bool
  gc_Key :: string
  gc_Insecure :: bool

definition GeneralChainConfig_Validate :: "GeneralChainConfig \<Rightarrow> unit res" where
  "GeneralChainConfig_Validate c =
     (case gc_Id c of
        None \<Rightarrow> Inl (Error ''required field domain.Id empty for chain <nil>'')
      | Some i \<Rightarrow>
          if gc_Endpoint c = '''' then Inl (Error (''required field chain.Endpoint empty for chain '' @ dec (unat i)))
          else if gc_Name c = '''' then Inl (Error (''required field chain.Name empty for chain '' @ dec (unat i)))
          else Inr ())"

record viper_flags =
  vf_Blockstore :: string
  vf_FreshStart :: bool
  vf_LatestBlock :: bool

definition ParseFlags :: "viper_flags \<Rightarrow> GeneralChainConfig \<Rightarrow> GeneralChainConfig" where
  "ParseFlags flags c =
     (let c1 = (if vf_Blockstore flags \<noteq> '''' then c\<lparr>gc_BlockstorePath := vf_Blockstore flags\<rparr> else c);
          c2 = (if vf_FreshStart flags then c1\<lparr>gc_FreshStart := vf_FreshStart flags\<rparr> else c1)
      in if vf_LatestBlock flags then c2\<lparr>gc_LatestBlock := vf_LatestBlock flags\<rparr> else c2)"

definition seconds :: "uint64 \<Rightarrow> int" where
  "seconds n = sint (n * 1000000000)"

record HandlerConfig =
  hc_Address :: string
  hc_Type :: string

record RawEVMConfig =
  re_GeneralChainConfig :: GeneralChainConfig
  re_Bridge :: string
  re_Retry :: string
  re_FrostKeygen :: string
  re_Handlers :: "HandlerConfig list"
  re_MaxGasPrice :: int
  re_GasMultiplier :: gofloat
  re_GasIncreasePercentage :: int
  re_GasLimit :: int
  re_TransferGas :: uint64
  re_StartBlock :: int
  re_BlockConfirmations :: int
  re_BlockInterval :: int
  re_BlockRetryInterval :: uint64

record EVMConfig =
  ec_GeneralChainConfig :: GeneralChainConfig
  ec_Bridge :: string
  ec_Retry :: string
  ec_FrostKeygen :: string
  ec_Handlers :: "HandlerConfig list"
  ec_MaxGasPrice :: int
  ec_GasMultiplier :: gofloat
  ec_GasLimit :: int
  ec_TransferGas :: uint64
  ec_GasIncreasePercentage :: int
  ec_StartBlock :: int
  ec_BlockConfirmations :: int
  ec_BlockInterval :: int
  ec_BlockRetryInterval :: int

definition RawEVMConfig_Validate :: "RawEVMConfig \<Rightarrow> unit res" where
  "RawEVMConfig_Validate c =
     and_then (GeneralChainConfig_Validate (re_GeneralChainConfig c)) (\<lambda>_.
     if re_Bridge c = ''''
     then Inl (Error (''required field chain.Bridge empty for chain '' @ dec (unat (the (gc_Id (re_GeneralChainConfig c))))))
     else if re_BlockConfirmations c < 1 then Inl (Error ''blockConfirmations has to be >=1'')
     else Inr ())"

definition NewEVMConfig ::
  "(chain_config \<Rightarrow> RawEVMConfig res) \<Rightarrow> (RawEVMConfig \<Rightarrow> RawEVMConfig res) \<Rightarrow> viper_flags \<Rightarrow> chain_config \<Rightarrow> EVMConfig res" where
  "NewEVMConfig Decode setDefaults flags chainConfig =
     and_then (Decode chainConfig) (\<lambda>c.
     and_then (setDefaults c) (\<lambda>c.
     and_then (RawEVMConfig_Validate c) (\<lambda>_.
     Inr \<lparr>ec_GeneralChainConfig = ParseFlags flags (re_GeneralChainConfig c), ec_Bridge = re_Bridge c,
          ec_Retry = re_Retry c, ec_FrostKeygen = re_FrostKeygen c, ec_Handlers = re_Handlers c,
          ec_MaxGasPrice = re_MaxGasPrice c, ec_GasMultiplier = re_GasMultiplier c, ec_GasLimit = re_GasLimit c,
          ec_TransferGas = re_TransferGas c, ec_GasIncreasePercentage = re_GasIncreasePercentage c,
          ec_StartBlock = re_StartBlock c, ec_BlockConfirmations = re_BlockConfirmations c,
          ec_BlockInterval = re_BlockInterval c, ec_BlockRetryInterval = seconds (re_BlockRetryInterval c)\<rparr>)))"

record RawResource =
  rs_Address :: string
  rs_ResourceID :: string
  rs_FeeAmount :: string
  rs_Tweak :: string
  rs_Script :: string

record RawBtcConfig =
  rb_GeneralChainConfig :: GeneralChainConfig
  rb_Resources :: "RawResource list"
  rb_StartBlock :: int
  rb_FeeAddress :: string
  rb_Username :: string
  rb_Password :: string
  rb_BlockInterval :: int
  rb_BlockRetryInterval :: uint64
  rb_BlockConfirmations :: int
  rb_Network :: string
  rb_MempoolUrl :: string

datatype Params = MainNetParams | TestNet3Params | RegressionNetParams | SigNetParams

record 'a BtcConfig =
  bt_GeneralChainConfig :: GeneralChainConfig
  bt_Resources :: "'a Resource list"
  bt_FeeAddress :: 'a
  bt_Username :: string
  bt_Password :: string
  bt_StartBlock :: int
  bt_BlockInterval :: int
  bt_BlockRetryInterval :: int
  bt_BlockConfirmations :: int
  bt_MempoolUrl :: string
  bt_Network :: Params

definition RawBtcConfig_Validate :: "RawBtcConfig \<Rightarrow> unit res" where
  "RawBtcConfig_Validate c =
     and_then (GeneralChainConfig_Validate (rb_GeneralChainConfig c)) (\<lambda>_.
     let i = dec (unat (the (gc_Id (rb_GeneralChainConfig c)))) in
     if rb_BlockConfirmations c < 1 then Inl (Error ''blockConfirmations has to be >=1'')
     else if rb_Username c = '''' then Inl (Error (''required field chain.Username empty for chain '' @ i))
     else if rb_Password c = '''' then Inl (Error (''required field chain.Password empty for chain '' @ i))
     else Inr ())"

definition networkParams :: "string \<Rightarrow> Params res" where
  "networkParams network =
     (if network = ''mainnet'' then Inr MainNetParams
      else if network = ''testnet'' then Inr TestNet3Params
      else if network = ''regtest'' then Inr RegressionNetParams
      else if network = ''signet'' then Inr SigNetParams
      else Inl (Error (''unknown network '' @ network)))"

text \<open>\<open>big.Int.SetString(s, 10)\<close>: a sign and decimal digits, at least one.\<close>

definition SetString10 :: "string \<Rightarrow> int option" where
  "SetString10 s =
     (let neg = (case s of c # _ \<Rightarrow> c = CHR ''-'' | [] \<Rightarrow> False);
          t = (case s of c # cs \<Rightarrow> if c = CHR ''-'' \<or> c = CHR ''+'' then cs else s | [] \<Rightarrow> s)
      in if t = [] \<or> \<not> list_all is_digit t then None
         else map_option (\<lambda>n. if neg then - int n else int n) (scan_digits 10 0 t))"

text \<open>\<open>copy\<close> into an array of 32 bytes.\<close>

definition copy32 :: "bytes \<Rightarrow> bytes32" where
  "copy32 bs = take 32 bs @ replicate (32 - length bs) 0"

definition new_resource :: "(string \<Rightarrow> Params \<Rightarrow> 'a res) \<Rightarrow> Params \<Rightarrow> RawResource \<Rightarrow> 'a Resource res" where
  "new_resource decodeAddress params r =
     and_then (hex_decode (rs_Script r)) (\<lambda>scriptBytes.
     case SetString10 (rs_FeeAmount r) of
       None \<Rightarrow> Inl (Error ''error: could not convert string to *big.Int'')
     | Some feeAmount \<Rightarrow>
         and_then (decodeAddress (rs_Address r) params) (\<lambda>address.
         if length (rs_ResourceID r) < 2 then Inl (Panic ''slice bounds out of range'')
         else
           (case hex_decode (drop 2 (rs_ResourceID r)) of
              Inl _ \<Rightarrow> Inl (Panic ''encoding/hex'')
            | Inr resourceBytes \<Rightarrow>
                Inr \<lparr>rc_Address = address, rc_FeeAmount = feeAmount, rc_ResourceID = copy32 resourceBytes,
                     rc_Tweak = rs_Tweak r, rc_Script = scriptBytes\<rparr>)))"

fun new_resources :: "(string \<Rightarrow> Params \<Rightarrow> 'a res) \<Rightarrow> Params \<Rightarrow> RawResource list \<Rightarrow> 'a Resource list res" where
  "new_resources decodeAddress params [] = Inr []"
| "new_resources decodeAddress params (r # rs) =
     and_then (new_resource decodeAddress params r) (\<lambda>x.
     and_then (new_resources decodeAddress params rs) (\<lambda>xs. Inr (x # xs)))"

definition NewBtcConfig ::
  "(chain_config \<Rightarrow> RawBtcConfig res) \<Rightarrow> (RawBtcConfig \<Rightarrow> RawBtcConfig res) \<Rightarrow> (string \<Rightarrow> Params \<Rightarrow> 'a res) \<Rightarrow>
   viper_flags \<Rightarrow> chain_config \<Rightarrow> 'a BtcConfig res" where
  "NewBtcConfig Decode setDefaults decodeAddress flags chainConfig =
     and_then (Decode chainConfig) (\<lambda>c.
     and_then (setDefaults c) (\<lambda>c.
     and_then (RawBtcConfig_Validate c) (\<lambda>_.
     and_then (networkParams (rb_Network c)) (\<lambda>params.
     and_then (decodeAddress (rb_FeeAddress c) params) (\<lambda>feeAddress.
     and_then (new_resources decodeAddress params (rb_Resources c)) (\<lambda>resources.
     Inr \<lparr>bt_GeneralChainConfig = ParseFlags flags (rb_GeneralChainConfig c), bt_Resources = resources,
          bt_FeeAddress = feeAddress, bt_Username = rb_Username c, bt_Password = rb_Password c,
          bt_StartBlock = rb_StartBlock c, bt_BlockInterval = rb_BlockInterval c,
          bt_BlockRetryInterval = seconds (rb_BlockRetryInterval c), bt_BlockConfirmations = rb_BlockConfirmations c,
          bt_MempoolUrl = rb_MempoolUrl c, bt_Network = params\<rparr>))))))"

record RawSubstrateConfig =
  ra_GeneralChainConfig :: GeneralChainConfig
  ra_ChainID :: int
  ra_StartBlock :: int
  ra_BlockInterval :: int
  ra_BlockRetryInterval :: uint64
  ra_SubstrateNetwork :: int
  ra_Tip :: uint64

record SubstrateConfig =
  su_GeneralChainConfig :: GeneralChainConfig
  su_ChainID :: int
  su_StartBlock :: int
  su_BlockInterval :: int
  su_BlockRetryInterval :: int
  su_SubstrateNetwork :: uint16
  su_Tip :: uint64

definition RawSubstrateConfig_Validate :: "RawSubstrateConfig \<Rightarrow> unit res" where
  "RawSubstrateConfig_Validate c = GeneralChainConfig_Validate (ra_GeneralChainConfig c)"

definition NewSubstrateConfig ::
  "(chain_config \<Rightarrow> RawSubstrateConfig res) \<Rightarrow> (RawSubstrateConfig \<Rightarrow> RawSubstrateConfig res) \<Rightarrow> viper_flags \<Rightarrow>
   chain_config \<Rightarrow> SubstrateConfig res" where
  "NewSubstrateConfig Decode setDefaults flags chainConfig =
     and_then (Decode chainConfig) (\<lambda>c.
     and_then (setDefaults c) (\<lambda>c.
     and_then (RawSubstrateConfig_Validate c) (\<lambda>_.
     Inr \<lparr>su_GeneralChainConfig = ParseFlags flags (ra_GeneralChainConfig c), su_ChainID = ra_ChainID c,
          su_StartBlock = ra_StartBlock c, su_BlockInterval = ra_BlockInterval c,
          su_BlockRetryInterval = seconds (ra_BlockRetryInterval c),
          su_SubstrateNetwork = of_int (ra_SubstrateNetwork c), su_Tip = ra_Tip c\<rparr>)))"

section \<open>Decimal numbers\<close>

lemma digit_value_is_digit: "is_digit c \<Longrightarrow> digit_value c = of_char c - 48"
  by (simp add: is_digit_def digit_value_def Let_def)

definition digits_from :: "nat \<Rightarrow> string \<Rightarrow> nat" where
  "digits_from x s = foldl (\<lambda>acc c. acc * 10 + (of_char c - 48)) x s"

lemma digits_from_ge: "x \<le> digits_from x s"
proof (induction s arbitrary: x)
  case (Cons c s)
  have "x \<le> x * 10 + (of_char c - 48)" by simp
  also have "\<dots> \<le> digits_from (x * 10 + (of_char c - 48)) s" by (rule Cons)
  finally show ?case by (simp add: digits_from_def)
qed (simp add: digits_from_def)

lemma digits_from_Cons: "digits_from x (c # s) = digits_from (x * 10 + (of_char c - 48)) s"
  by (simp add: digits_from_def)

lemma digits_from_dec [simp]: "digits_from 0 (dec n) = n"
  using digits_value_dec [of n] by (simp add: digits_value_def digits_from_def)

lemma leadingInt_digits:
  assumes "list_all is_digit ds" "digits_from x ds \<le> 2 ^ 63" "r = [] \<or> \<not> is_digit (hd r)"
  shows "leadingInt x (ds @ r) = Some (digits_from x ds, r)"
  using assms
proof (induction ds arbitrary: x)
  case Nil
  then show ?case by (cases r) (auto simp: digits_from_def)
next
  case (Cons c ds)
  let ?y = "x * 10 + (of_char c - 48)"
  have y: "?y \<le> 2 ^ 63" using Cons.prems(2) digits_from_ge [of ?y ds] by (simp add: digits_from_Cons)
  then have "\<not> 2 ^ 63 div 10 < x" by (simp add: less_eq_div_iff_mult_less_eq not_less)
  with Cons y show ?case by (simp add: digits_from_Cons digit_value_is_digit Let_def)
qed

lemma scan_digits_decimal:
  "list_all is_digit ds \<Longrightarrow> scan_digits 10 x ds = Some (digits_from x ds)"
proof (induction ds arbitrary: x)
  case (Cons c ds)
  then have "c \<noteq> CHR ''_''" "digit_value c < 10" by (auto simp: digit_value_is_digit is_digit_def)
  with Cons show ?case by (simp add: digits_from_Cons digit_value_is_digit)
qed (simp add: digits_from_def)

lemma all_digits_dec: "list_all is_digit (dec n)"
  by (simp add: list_all_iff dec_digits)

lemma dec_hd_zero: "dec n = CHR ''0'' # cs \<Longrightarrow> n = 0"
proof (induction n arbitrary: cs rule: dec.induct)
  case (1 n)
  show ?case
  proof (cases "n < 10")
    case True
    with 1(2) have "digit n = CHR ''0''" by (simp add: dec.simps [of n])
    then have "(of_char (digit n) :: nat) = of_char CHR ''0''" by (rule arg_cong)
    with True show ?thesis by (simp add: of_char_digit)
  next
    case False
    with 1(2) obtain ds where "dec (n div 10) = CHR ''0'' # ds"
      by (cases "dec (n div 10)") (auto simp: dec.simps [of n])
    with 1(1) False have "n div 10 = 0" by blast
    with False show ?thesis by simp
  qed
qed

lemma ParseUint0_dec: "ParseUint0 (dec n) = (if 2 ^ 64 \<le> n then Inl (Error ''value out of range'') else Inr n)"
proof (cases "n = 0")
  case True
  have "dec 0 = ''0''" by code_simp
  moreover have "ParseUint0 ''0'' = Inr 0" by (simp add: ParseUint0_def base_prefix_def)
  ultimately show ?thesis using True by simp
next
  case False
  obtain c cs where c: "dec n = c # cs" by (cases "dec n") simp_all
  then have "c \<noteq> CHR ''0''" using False dec_hd_zero by blast
  then have "base_prefix (dec n) = (10, dec n)" by (simp add: base_prefix_def c split: list.splits)
  moreover have "CHR ''_'' \<notin> set (dec n)" by (simp add: dec_no_char)
  ultimately show ?thesis by (simp add: ParseUint0_def scan_digits_decimal all_digits_dec)
qed

lemma ParseInt0_dec:
  assumes "w \<noteq> 0" "w \<le> 64"
  shows "ParseInt0 w (dec n) = (if 2 ^ (w - 1) \<le> n then Inl (Error ''value out of range'') else Inr (int n))"
proof -
  obtain c cs where c: "dec n = c # cs" by (cases "dec n") simp_all
  then have "is_digit c" using dec_digits [of c n] by simp
  then have sign: "c \<noteq> CHR ''-''" "c \<noteq> CHR ''+''" by (auto simp: is_digit_def)
  have "(2 :: nat) ^ (w - 1) \<le> 2 ^ 64" by (rule power_increasing) (use assms in auto)
  then have big: "2 ^ 64 \<le> n \<Longrightarrow> 2 ^ (w - 1) \<le> n" by linarith
  have "ParseInt0 w (dec n) = and_then (ParseUint0 (dec n)) (signed_value w False)"
    using assms sign by (simp add: ParseInt0_def c)
  then show ?thesis using big by (simp add: ParseUint0_dec signed_value_def)
qed

section \<open>Properties\<close>

lemma duration_unit_chars:
  assumes "duration_unit u = Some k"
  shows "u \<noteq> []" "takeWhile unit_char u = u" "dropWhile unit_char u = []" "\<not> is_digit (hd u)" "hd u \<noteq> CHR ''.''" "0 < k"
  using assms by (auto simp: duration_unit_def unit_char_def is_digit_def split: if_splits)

lemma duration_part_dec:
  assumes "duration_unit u = Some k" "n * k \<le> 2 ^ 63"
  shows "duration_part (dec n @ u) = Some (n * k, [])"
proof -
  obtain c cs where c: "dec n = c # cs" by (cases "dec n") simp_all
  have dig: "is_digit c" using c dec_digits [of c n] by simp
  have pos: "0 < k" using duration_unit_chars [OF assms(1)] by simp
  have "n * 1 \<le> n * k" using pos by (intro mult_le_mono) auto
  then have "n \<le> 2 ^ 63" using assms(2) by linarith
  then have "leadingInt 0 (dec n @ u) = Some (n, u)"
    using leadingInt_digits [of "dec n" 0 u] duration_unit_chars [OF assms(1)] by (simp add: all_digits_dec)
  moreover have "\<not> 2 ^ 63 div k < n" using assms(2) pos by (simp add: less_eq_div_iff_mult_less_eq not_less)
  ultimately show ?thesis using duration_unit_chars [OF assms(1)] assms dig
    by (simp add: duration_part_def c unit_char_def [of c] Let_def del: takeWhile_eq_all_conv dropWhile_eq_Nil_conv)
qed

lemma ParseDuration_dec:
  assumes "duration_unit u = Some k" "n * k < 2 ^ 63"
  shows "ParseDuration (dec n @ u) = Inr (int (n * k))"
proof -
  obtain c cs where c: "dec n = c # cs" by (cases "dec n") simp_all
  then have "is_digit c" using dec_digits [of c n] by simp
  then have sign: "c \<noteq> CHR ''-''" "c \<noteq> CHR ''+''" by (auto simp: is_digit_def)
  have "cs @ u = [] \<Longrightarrow> False" using duration_unit_chars(1) [OF assms(1)] by simp
  moreover have "duration_loop 0 (dec n @ u) = Some (n * k)"
    using assms duration_part_dec [of u k n] by (simp add: duration_loop.simps)
  ultimately show ?thesis using assms(2) sign c by (auto simp: ParseDuration_def Let_def)
qed

text \<open>
  A duration written as a decimal number and a unit is read as that many nanoseconds, as long as
  it fits the 63 bits of a \<open>time.Duration\<close>.
\<close>

lemma duration_roundtrip:
  assumes "duration_unit u = Some k" "n * k < 2 ^ 63"
  shows "ParseDuration (dec n @ u) = Inr (int (n * k))"
  using assms by (rule ParseDuration_dec)

lemma duration_roundtrip_witness:
  "ParseDuration (dec 2 @ ''s'') = Inr 2000000000 \<and> ParseDuration (dec 3 @ ''m'') = Inr 180000000000 \<and>
   ParseDuration (dec 5 @ ''m'') = Inr 300000000000"
  using duration_roundtrip [of "''s''" "10 ^ 9" 2] duration_roundtrip [of "''m''" "60 * 10 ^ 9" 3]
    duration_roundtrip [of "''m''" "60 * 10 ^ 9" 5]
  by (simp add: duration_unit_def)

text \<open>
  A port given in decimal is accepted only below \<open>2\<^sup>1\<^sup>5\<close>, although a port has 16 bits, and is
  then kept as it is.
\<close>

lemma configured_ports:
  assumes "NewRelayerConfig ParseLevel raw = Inr c"
    and "rr_HealthPort raw = dec m" "rm_Port (rr_MpcConfig raw) = dec n"
  shows "m < 2 ^ 15 \<and> unat (rl_HealthPort c) = m \<and> n < 2 ^ 15 \<and> unat (mc_Port (rl_MpcConfig c)) = n"
proof -
  have port: "unat (of_int (int k) :: uint16) = k" if "k < 2 ^ 15" for k
    using that by (simp add: unat_of_nat)
  have p: "ParseInt0 16 (dec k) = (if 2 ^ 15 \<le> k then Inl (Error ''value out of range'') else Inr (int k))" for k
    using ParseInt0_dec [of 16 k] by simp
  from assms have "m < 2 ^ 15" "rl_HealthPort c = of_int (int m)" "n < 2 ^ 15" "mc_Port (rl_MpcConfig c) = of_int (int n)"
    by (auto simp: NewRelayerConfig_def parseMpcConfig_def wrap_error_def p Let_def split: sum.splits if_splits)
  with port show ?thesis by metis
qed

definition sample_config :: RawRelayerConfig where
  "sample_config =
     \<lparr>rr_OpenTelemetryCollectorURL = '''', rr_LogLevel = ''info'', rr_LogFile = ''out.log'', rr_HealthPort = ''9001'',
      rr_Env = ''test'', rr_Id = ''1'',
      rr_MpcConfig = \<lparr>rm_KeysharePath = ''/cfg/keyshare'', rm_FrostKeysharePath = ''/cfg/frost'', rm_Key = ''key'', rm_Port = ''9000'',
        rm_TopologyConfiguration = \<lparr>tc_EncryptionKey = ''enc'', tc_Url = ''url'', tc_Path = ''path''\<rparr>,
        rm_CommHealthCheckInterval = ''5m''\<rparr>,
      rr_BullyConfig = \<lparr>rb_PingWaitTime = ''1s'', rb_PingBackOff = ''1s'', rb_PingInterval = ''1s'', rb_ElectionWaitTime = ''2s'',
        rb_BullyWaitTime = ''3m''\<rparr>,
      rr_UploaderConfig = \<lparr>uc_URL = '''', uc_AuthToken = '''', uc_MaxRetries = 5, uc_MaxElapsedTime = 300000\<rparr>\<rparr>"

lemma sample_durations:
  "ParseDuration ''5m'' = Inr 300000000000" "ParseDuration ''3m'' = Inr 180000000000"
  "ParseDuration ''1s'' = Inr 1000000000" "ParseDuration ''2s'' = Inr 2000000000"
proof -
  have d: "dec 5 = ''5''" "dec 3 = ''3''" "dec 1 = ''1''" "dec 2 = ''2''" by code_simp+
  have u: "duration_unit ''s'' = Some (10 ^ 9)" "duration_unit ''m'' = Some (60 * 10 ^ 9)" by (simp_all add: duration_unit_def)
  show "ParseDuration ''5m'' = Inr 300000000000" using ParseDuration_dec [OF u(2), of 5] d by simp
  show "ParseDuration ''3m'' = Inr 180000000000" using ParseDuration_dec [OF u(2), of 3] d by simp
  show "ParseDuration ''1s'' = Inr 1000000000" using ParseDuration_dec [OF u(1), of 1] d by simp
  show "ParseDuration ''2s'' = Inr 2000000000" using ParseDuration_dec [OF u(1), of 2] d by simp
qed

lemma sample_config_accepted:
  "is_ok (NewRelayerConfig (\<lambda>l. Inr 1) sample_config)"
  "rr_HealthPort sample_config = dec 9001" "rm_Port (rr_MpcConfig sample_config) = dec 9000"
proof -
  have "digit 9 = CHR ''9''" "digit 0 = CHR ''0''" "digit (Suc 0) = CHR ''1''" by code_simp+
  then have d: "dec 9001 = ''9001''" "dec 9000 = ''9000''" by (simp_all add: dec.simps)
  show "rr_HealthPort sample_config = dec 9001" "rm_Port (rr_MpcConfig sample_config) = dec 9000"
    by (simp_all add: sample_config_def d)
  have "ParseInt0 16 ''9001'' = Inr 9001" "ParseInt0 16 ''9000'' = Inr 9000"
    using ParseInt0_dec [of 16 9001] ParseInt0_dec [of 16 9000] d by simp_all
  then show "is_ok (NewRelayerConfig (\<lambda>l. Inr 1) sample_config)"
    by (simp add: NewRelayerConfig_def sample_config_def RawRelayerConfig_Validate_def parseMpcConfig_def parseBullyConfig_def
        wrap_error_def sample_durations)
qed

lemma configured_ports_witness:
  "\<exists>c. NewRelayerConfig (\<lambda>l. Inr 1) sample_config = Inr c \<and> unat (rl_HealthPort c) = 9001 \<and>
     unat (mc_Port (rl_MpcConfig c)) = 9000"
proof -
  obtain c where c: "NewRelayerConfig (\<lambda>l. Inr 1) sample_config = Inr c"
    using sample_config_accepted(1) by (cases "NewRelayerConfig (\<lambda>l. Inr 1) sample_config") auto
  then show ?thesis using configured_ports [OF c sample_config_accepted(2,3)] by auto
qed

lemma findChainConfig_Inr:
  "findChainConfig i cs = Inr c \<Longrightarrow> c \<in> set cs \<and> compareDomainID i (config_get c ''id'')"
  by (induction i cs rule: findChainConfig.induct) (auto split: if_splits)

lemma merge_chains_Inr:
  "merge_chains Merge shared i raw = Inr merged \<Longrightarrow>
   list_all2 (\<lambda>r m. \<exists>s \<in> set shared. compareDomainID (config_get r ''id'') (config_get s ''id'') \<and> Merge r s = Inr m) raw merged"
proof (induction Merge shared i raw arbitrary: merged rule: merge_chains.induct)
  case (2 Merge shared i chain rest)
  then show ?case by (fastforce dest: findChainConfig_Inr split: if_splits)
qed simp

text \<open>
  When a local configuration is processed on top of the shared one, every local chain is merged
  with the shared chain of the same id, in order, and the relayer configuration is the local one.
\<close>

lemma process_config_merges:
  assumes "processRawConfig setDefaults ParseLevel Merge raw (Some config) = Inr result" "setDefaults raw = Inr raw'"
  shows "NewRelayerConfig ParseLevel (rw_RelayerConfig raw') = Inr (cf_RelayerConfig result) \<and>
    list_all2 (\<lambda>r m. \<exists>s \<in> set (cf_ChainConfigs config).
        compareDomainID (config_get r ''id'') (config_get s ''id'') \<and> Merge r s = Inr m)
      (rw_ChainConfigs raw') (cf_ChainConfigs result)"
  using assms by (auto simp: processRawConfig_def dest: merge_chains_Inr)

text \<open>Two ids below \<open>2\<^sup>5\<^sup>3\<close> are the same whether they were written in Go or decoded from JSON.\<close>

lemma compareDomainID_numbers:
  assumes "a < 2 ^ 53" "b < 2 ^ 53"
  shows "compareDomainID (JInt (int a)) (JFloat (gofloat_of_int (int b))) \<longleftrightarrow> a = b"
    and "compareDomainID (JFloat (gofloat_of_int (int a))) (JInt (int b)) \<longleftrightarrow> a = b"
    and "compareDomainID (JFloat (gofloat_of_int (int a))) (JFloat (gofloat_of_int (int b))) \<longleftrightarrow> a = b"
  using assms float_eq_of_nat [OF assms]
  by (simp_all add: compareDomainID_def gofloat_eq_def gofloat_of_int_def)

definition sample_chain :: "jval \<Rightarrow> chain_config" where
  "sample_chain i = [(''id'', i), (''type'', JString ''evm'')]"

lemma process_config_merges_witness:
  "\<exists>result. processRawConfig Inr (\<lambda>l. Inr 1) (\<lambda>r s. Inr (r @ s))
      \<lparr>rw_RelayerConfig = sample_config, rw_ChainConfigs = [sample_chain (JInt 1)]\<rparr>
      (Some \<lparr>cf_RelayerConfig = undefined, cf_ChainConfigs = [sample_chain (JFloat (gofloat_of_int 1))]\<rparr>) = Inr result \<and>
    length (cf_ChainConfigs result) = 1"
proof -
  let ?raw = "\<lparr>rw_RelayerConfig = sample_config, rw_ChainConfigs = [sample_chain (JInt 1)]\<rparr>"
  let ?conf = "\<lparr>cf_RelayerConfig = undefined, cf_ChainConfigs = [sample_chain (JFloat (gofloat_of_int 1))]\<rparr>"
  have "compareDomainID (JInt 1) (JFloat (gofloat_of_int 1))" using compareDomainID_numbers(1) [of 1 1] by simp
  moreover obtain c where "NewRelayerConfig (\<lambda>l. Inr 1) sample_config = Inr c"
    using sample_config_accepted(1) by (cases "NewRelayerConfig (\<lambda>l. Inr 1) sample_config") auto
  ultimately obtain result where r: "processRawConfig Inr (\<lambda>l. Inr 1) (\<lambda>r s. Inr (r @ s)) ?raw (Some ?conf) = Inr result"
    by (simp add: processRawConfig_def sample_chain_def config_get_def)
  have "list_all2 (\<lambda>r m. \<exists>s \<in> set (cf_ChainConfigs ?conf).
        compareDomainID (config_get r ''id'') (config_get s ''id'') \<and> Inr (r @ s) = (Inr m :: chain_config res))
      (rw_ChainConfigs ?raw) (cf_ChainConfigs result)"
    using process_config_merges [OF r, of ?raw] by simp
  then have "length (cf_ChainConfigs result) = 1" by (auto dest: list_all2_lengthD)
  with r show ?thesis by blast
qed

text \<open>
  The check \<open>chain["id"] == 0\<close> rejects an integer zero but lets through the zero of a JSON
  document, which is a float.
\<close>

lemma json_zero_id_accepted:
  "merge_chains (\<lambda>r s. Inr (r @ s)) [sample_chain (JFloat (gofloat_of_int 0))] 0 [sample_chain (JFloat (gofloat_of_int 0))] =
     Inr [sample_chain (JFloat (gofloat_of_int 0)) @ sample_chain (JFloat (gofloat_of_int 0))] \<and>
   merge_chains (\<lambda>r s. Inr (r @ s)) [sample_chain (JInt 0)] 0 [sample_chain (JInt 0)] =
     Inl (Error ''chain 'id' not configured for chain 0'')"
proof -
  have "compareDomainID (JFloat (gofloat_of_int 0)) (JFloat (gofloat_of_int 0))"
    using compareDomainID_numbers(3) [of 0 0] by simp
  moreover have "dec 0 = ''0''" by code_simp
  ultimately show ?thesis by (simp add: sample_chain_def config_get_def)
qed

section \<open>The environment\<close>

fun env_lookup :: "(string \<times> env) list \<Rightarrow> string list \<Rightarrow> string option" where
  "env_lookup m [] = None"
| "env_lookup m [k] = (case map_of m k of Some (Leaf v) \<Rightarrow> Some v | _ \<Rightarrow> None)"
| "env_lookup m (k # l # path) = (case map_of m k of Some (Node sub) \<Rightarrow> env_lookup sub (l # path) | _ \<Rightarrow> None)"

text \<open>A value sits on the way to the path.\<close>

fun blocked :: "(string \<times> env) list \<Rightarrow> string list \<Rightarrow> bool" where
  "blocked m (k # l # path) =
     (case map_of m k of None \<Rightarrow> False | Some (Leaf _) \<Rightarrow> True | Some (Node sub) \<Rightarrow> blocked sub (l # path))"
| "blocked m path = False"

lemma map_of_map_set [simp]: "map_of (map_set k v m) k' = (if k' = k then Some v else map_of m k')"
  by (induction k v m rule: map_set.induct) auto

lemma blocked_Nil [simp]: "\<not> blocked [] path"
  by (cases "([] :: (string \<times> env) list, path)" rule: blocked.cases) auto

lemma env_lookup_Nil [simp]: "env_lookup [] path = None"
  by (cases "([] :: (string \<times> env) list, path)" rule: env_lookup.cases) auto

lemma mount_lookup_same:
  "path \<noteq> [] \<Longrightarrow> \<not> blocked m path \<Longrightarrow> env_lookup (mountMap m path v) path = Some v"
  by (induction m path v rule: mountMap.induct) (auto split: option.splits env.splits)

lemma mount_lookup_other:
  assumes "\<not> prefix p q" "\<not> prefix q p"
  shows "env_lookup (mountMap m p v) q = env_lookup m q"
  using assms
proof (induction m p v arbitrary: q rule: mountMap.induct)
  case (2 m k v)
  then show ?case by (cases "(m, q)" rule: env_lookup.cases) auto
next
  case (3 m k l path v)
  then show ?case by (cases "(m, q)" rule: env_lookup.cases) (auto split: option.splits env.splits)
qed simp

lemma mount_lookup_Some:
  "env_lookup (mountMap m p v) q = Some w \<Longrightarrow> q = p \<and> w = v \<or> env_lookup m q = Some w"
proof (induction m p v arbitrary: q rule: mountMap.induct)
  case (2 m k v)
  then show ?case by (cases "(m, q)" rule: env_lookup.cases) (auto split: if_splits option.splits)
next
  case (3 m k l path v)
  then show ?case
    by (cases "(m, q)" rule: env_lookup.cases) (fastforce split: option.splits env.splits if_splits)+
qed simp

lemma mount_blocked:
  assumes "\<not> blocked m q" "\<not> prefix p q"
  shows "\<not> blocked (mountMap m p v) q"
  using assms
proof (induction m p v arbitrary: q rule: mountMap.induct)
  case (2 m k v)
  then show ?case by (cases "(m, q)" rule: blocked.cases) auto
next
  case (3 m k l path v)
  then show ?case by (cases "(m, q)" rule: blocked.cases) (auto split: option.splits env.splits)
qed simp

definition env_path :: "string \<Rightarrow> string list" where
  "env_path e = split_on CHR ''_'' (takeWhile (\<lambda>c. c \<noteq> CHR ''='') e)"

definition env_value :: "string \<Rightarrow> string" where
  "env_value e = tl (dropWhile (\<lambda>c. c \<noteq> CHR ''='') e)"

lemma split2_eq:
  assumes "CHR ''='' \<in> set e"
  shows "split2 e = [takeWhile (\<lambda>c. c \<noteq> CHR ''='') e, env_value e]"
proof -
  let ?k = "takeWhile (\<lambda>c. c \<noteq> CHR ''='') e"
  have "length ?k \<noteq> length e"
  proof
    assume "length ?k = length e"
    then have "?k = e" using takeWhile_eq_take [of "\<lambda>c. c \<noteq> CHR ''=''" e] by simp
    with assms show False by (auto simp: takeWhile_eq_all_conv)
  qed
  moreover have "drop (Suc (length ?k)) e = env_value e"
    by (simp add: env_value_def dropWhile_eq_drop drop_Suc tl_drop)
  ultimately show ?thesis by (simp add: split2_def)
qed

definition apart :: "string \<Rightarrow> string \<Rightarrow> bool" where
  "apart e f \<longleftrightarrow> \<not> prefix (env_path e) (env_path f) \<and> \<not> prefix (env_path f) (env_path e)"

lemma load_env_spec:
  assumes "\<forall>e \<in> set es. contains EnvPrefix e \<longrightarrow> CHR ''='' \<in> set e"
    and "sorted_wrt apart (filter (contains EnvPrefix) es)"
    and "\<forall>e \<in> set es. contains EnvPrefix e \<longrightarrow> \<not> blocked m (env_path e)"
  shows "\<exists>m'. load_env m es = Inr m' \<and>
    (\<forall>e \<in> set es. contains EnvPrefix e \<longrightarrow> env_lookup m' (env_path e) = Some (env_value e)) \<and>
    (\<forall>q. (\<forall>e \<in> set es. contains EnvPrefix e \<longrightarrow> \<not> prefix (env_path e) q \<and> \<not> prefix q (env_path e)) \<longrightarrow>
      env_lookup m' q = env_lookup m q) \<and>
    (\<forall>q v. env_lookup m' q = Some v \<longrightarrow> env_lookup m q = Some v \<or>
      (\<exists>e \<in> set es. contains EnvPrefix e \<and> q = env_path e \<and> v = env_value e))"
  using assms
proof (induction m es rule: load_env.induct)
  case (2 m e es)
  show ?case
  proof (cases "contains EnvPrefix e")
    case False
    with 2 show ?thesis by auto
  next
    case True
    let ?m = "mountMap m (env_path e) (env_value e)"
    from True 2(3) have load: "load_env m (e # es) = load_env ?m es" by (simp add: split2_eq env_path_def)
    have ap: "apart e f" if "f \<in> set es" "contains EnvPrefix f" for f using that 2(4) True by auto
    have nb: "\<forall>f \<in> set es. contains EnvPrefix f \<longrightarrow> \<not> blocked ?m (env_path f)"
    proof (intro ballI impI)
      fix f
      assume "f \<in> set es" "contains EnvPrefix f"
      with ap 2(5) show "\<not> blocked ?m (env_path f)" by (intro mount_blocked) (auto simp: apart_def)
    qed
    obtain m' where m': "load_env ?m es = Inr m'"
      "\<forall>e \<in> set es. contains EnvPrefix e \<longrightarrow> env_lookup m' (env_path e) = Some (env_value e)"
      "\<And>q. (\<forall>e \<in> set es. contains EnvPrefix e \<longrightarrow> \<not> prefix (env_path e) q \<and> \<not> prefix q (env_path e)) \<Longrightarrow>
        env_lookup m' q = env_lookup ?m q"
      "\<And>q v. env_lookup m' q = Some v \<Longrightarrow> env_lookup ?m q = Some v \<or>
        (\<exists>e \<in> set es. contains EnvPrefix e \<and> q = env_path e \<and> v = env_value e)"
      using 2(1) [of "takeWhile (\<lambda>c. c \<noteq> CHR ''='') e" "[env_value e]" "env_value e" "[]"] True 2(3,4) nb
      by (auto simp: split2_eq env_path_def)
    have "env_lookup m' (env_path e) = Some (env_value e)"
      using m'(3) [of "env_path e"] ap mount_lookup_same [of "env_path e" m] 2(5) True
      by (auto simp: apart_def env_path_def)
    with m' load True show ?thesis by (auto simp: mount_lookup_other dest!: m'(4) mount_lookup_Some)
  qed
qed simp

text \<open>
  When the names of the variables that mention \<open>SYG\<close> split into paths none of which begins
  another, loading the environment succeeds, every such variable is found at its path with its
  value, and nothing else is there.
\<close>

lemma environment_loaded:
  assumes "\<forall>e \<in> set environ. contains EnvPrefix e \<longrightarrow> CHR ''='' \<in> set e"
    and "sorted_wrt apart (filter (contains EnvPrefix) environ)"
  shows "\<exists>m. load_env [] environ = Inr m \<and>
    (\<forall>q v. env_lookup m q = Some v \<longleftrightarrow>
      (\<exists>e \<in> set environ. contains EnvPrefix e \<and> q = env_path e \<and> v = env_value e))"
  using load_env_spec [of environ "[]"] assms by fastforce

lemma environment_loaded_witness:
  "\<exists>m. load_env [] [''SYG_RELAYER_ENV=test'', ''HOME=/root'', ''SYG_RELAYER_ID=3''] = Inr m \<and>
     env_lookup m [''SYG'', ''RELAYER'', ''ENV''] = Some ''test'' \<and> env_lookup m [''SYG'', ''RELAYER'', ''ID''] = Some ''3'' \<and>
     env_lookup m [''HOME''] = None"
proof -
  let ?environ = "[''SYG_RELAYER_ENV=test'', ''HOME=/root'', ''SYG_RELAYER_ID=3'']"
  have f: "filter (contains EnvPrefix) ?environ = [''SYG_RELAYER_ENV=test'', ''SYG_RELAYER_ID=3'']"
    by (simp add: EnvPrefix_def)
  have p: "env_path ''SYG_RELAYER_ENV=test'' = [''SYG'', ''RELAYER'', ''ENV'']"
    "env_path ''SYG_RELAYER_ID=3'' = [''SYG'', ''RELAYER'', ''ID'']"
    "env_value ''SYG_RELAYER_ENV=test'' = ''test''" "env_value ''SYG_RELAYER_ID=3'' = ''3''"
    by (simp_all add: env_path_def env_value_def)
  have "sorted_wrt apart (filter (contains EnvPrefix) ?environ)"
    unfolding f by (simp add: apart_def p)
  moreover have "\<forall>e \<in> set ?environ. contains EnvPrefix e \<longrightarrow> CHR ''='' \<in> set e" by (simp add: EnvPrefix_def)
  ultimately obtain m where m: "load_env [] ?environ = Inr m"
    "\<And>q v. env_lookup m q = Some v \<longleftrightarrow> (\<exists>e \<in> set ?environ. contains EnvPrefix e \<and> q = env_path e \<and> v = env_value e)"
    using environment_loaded [of ?environ] by blast
  have "env_lookup m [''HOME''] = None"
    using m(2) [of "[''HOME'']"] by (cases "env_lookup m [''HOME'']") (auto simp: EnvPrefix_def p)
  moreover have "env_lookup m [''SYG'', ''RELAYER'', ''ENV''] = Some ''test''" "env_lookup m [''SYG'', ''RELAYER'', ''ID''] = Some ''3''"
    unfolding m(2) by (simp_all add: EnvPrefix_def p)
  ultimately show ?thesis using m(1) by blast
qed

section \<open>Chain configurations\<close>

text \<open>
  A chain configuration that is accepted has an id, an endpoint and a name, waits for at least one
  confirmation (EVM and Bitcoin), and the flags given on the command line win over the configured
  values.
\<close>

lemma chain_config_checked:
  assumes "NewEVMConfig Decode setDefaults flags conf = Inr e"
    and "NewBtcConfig DecodeBtc setBtcDefaults decodeAddress flags conf' = Inr b"
  shows "1 \<le> ec_BlockConfirmations e \<and> ec_Bridge e \<noteq> '''' \<and> 1 \<le> bt_BlockConfirmations b \<and>
    (\<forall>g \<in> {ec_GeneralChainConfig e, bt_GeneralChainConfig b}.
      gc_Id g \<noteq> None \<and> gc_Endpoint g \<noteq> '''' \<and> gc_Name g \<noteq> '''' \<and>
      (vf_Blockstore flags \<noteq> '''' \<longrightarrow> gc_BlockstorePath g = vf_Blockstore flags) \<and>
      (vf_FreshStart flags \<longrightarrow> gc_FreshStart g) \<and> (vf_LatestBlock flags \<longrightarrow> gc_LatestBlock g))"
proof -
  have general: "gc_Id (ParseFlags flags g) \<noteq> None \<and> gc_Endpoint (ParseFlags flags g) \<noteq> '''' \<and> gc_Name (ParseFlags flags g) \<noteq> '''' \<and>
      (vf_Blockstore flags \<noteq> '''' \<longrightarrow> gc_BlockstorePath (ParseFlags flags g) = vf_Blockstore flags) \<and>
      (vf_FreshStart flags \<longrightarrow> gc_FreshStart (ParseFlags flags g)) \<and> (vf_LatestBlock flags \<longrightarrow> gc_LatestBlock (ParseFlags flags g))"
    if "GeneralChainConfig_Validate g = Inr ()" for g
    using that by (auto simp: GeneralChainConfig_Validate_def ParseFlags_def Let_def split: option.splits if_splits)
  from assms(1) obtain c where c: "RawEVMConfig_Validate c = Inr ()" "ec_BlockConfirmations e = re_BlockConfirmations c"
    "ec_Bridge e = re_Bridge c" "ec_GeneralChainConfig e = ParseFlags flags (re_GeneralChainConfig c)"
    by (auto simp: NewEVMConfig_def)
  from assms(2) obtain d where d: "RawBtcConfig_Validate d = Inr ()" "bt_BlockConfirmations b = rb_BlockConfirmations d"
    "bt_GeneralChainConfig b = ParseFlags flags (rb_GeneralChainConfig d)"
    by (auto simp: NewBtcConfig_def)
  from c(1) have "GeneralChainConfig_Validate (re_GeneralChainConfig c) = Inr ()" "1 \<le> re_BlockConfirmations c" "re_Bridge c \<noteq> ''''"
    by (auto simp: RawEVMConfig_Validate_def split: if_splits)
  moreover from d(1) have "GeneralChainConfig_Validate (rb_GeneralChainConfig d) = Inr ()" "1 \<le> rb_BlockConfirmations d"
    by (auto simp: RawBtcConfig_Validate_def Let_def split: if_splits)
  ultimately show ?thesis using c d general by auto
qed

text \<open>
  A resource of the Bitcoin chain whose id and script are given in hexadecimal (the id after two
  characters) and whose fee is given in decimal is decoded to exactly these values. An id shorter than
  two characters makes the relayer panic.
\<close>

lemma btc_resource_decoded:
  assumes "rs_Script r = hex_encode script" "rs_FeeAmount r = dec amount" "decodeAddress (rs_Address r) params = Inr a"
  shows "(rs_ResourceID r = ''0x'' @ hex_encode rid \<and> length rid = 32 \<longrightarrow>
      new_resource decodeAddress params r =
        Inr \<lparr>rc_Address = a, rc_FeeAmount = int amount, rc_ResourceID = rid, rc_Tweak = rs_Tweak r, rc_Script = script\<rparr>) \<and>
    (length (rs_ResourceID r) < 2 \<longrightarrow> is_panic (new_resource decodeAddress params r))"
proof -
  obtain c cs where c: "dec amount = c # cs" by (cases "dec amount") simp_all
  then have "is_digit c" using dec_digits [of c amount] by simp
  then have sign: "c \<noteq> CHR ''-''" "c \<noteq> CHR ''+''" by (auto simp: is_digit_def)
  have "SetString10 (dec amount) = Some (int amount)"
    using scan_digits_decimal [OF all_digits_dec [of amount], of 0] all_digits_dec [of amount] c sign
      digits_from_dec [of amount]
    by (simp add: SetString10_def)
  with assms show ?thesis by (simp add: new_resource_def hex_decode_encode copy32_def)
qed

definition sample_resource :: "string \<Rightarrow> RawResource" where
  "sample_resource rid =
     \<lparr>rs_Address = ''addr'', rs_ResourceID = rid, rs_FeeAmount = dec 10, rs_Tweak = ''tweak'', rs_Script = hex_encode [81]\<rparr>"

lemma btc_resource_decoded_witness:
  "new_resource (\<lambda>s p. Inr s) MainNetParams (sample_resource (''0x'' @ hex_encode (replicate 32 7))) =
   Inr \<lparr>rc_Address = ''addr'', rc_FeeAmount = 10, rc_ResourceID = replicate 32 7, rc_Tweak = ''tweak'', rc_Script = [81]\<rparr> \<and>
   is_panic (new_resource (\<lambda>s p. Inr s) MainNetParams (sample_resource ''''))"
  using btc_resource_decoded [of "sample_resource (''0x'' @ hex_encode (replicate 32 7))" "[81]" 10 "\<lambda>s p. Inr s"
      MainNetParams "''addr''" "replicate 32 7"]
    btc_resource_decoded [of "sample_resource ''''" "[81]" 10 "\<lambda>s p. Inr s" MainNetParams "''addr''"]
  by (simp add: sample_resource_def)

end
