(* ===== verification/Comm.thy ===== *)
theory Comm
  imports Prelude
begin

text \<open>
  Communication between relayers (\<open>comm/\<close> and \<open>comm/p2p/\<close>): message types, subscription
  identifiers, the registries of subscriptions and streams, the line protocol on a stream,
  broadcasting and the dispatch of incoming messages. libp2p (hosts, streams, DNS), JSON and
  the clock are arguments. Go channels are opaque values of type \<open>'c\<close>, peers of type \<open>'p\<close>.
\<close>

section \<open>Message types\<close>

type_synonym MessageType = uint8

definition TssKeyGenMsg :: MessageType where "TssKeyGenMsg = 0"
definition TssKeySignMsg :: MessageType where "TssKeySignMsg = 1"
definition TssInitiateMsg :: MessageType where "TssInitiateMsg = 2"
definition TssStartMsg :: MessageType where "TssStartMsg = 3"
definition TssFailMsg :: MessageType where "TssFailMsg = 4"
definition TssReadyMsg :: MessageType where "TssReadyMsg = 5"
definition TssReshareMsg :: MessageType where "TssReshareMsg = 6"
definition CoordinatorElectionMsg :: MessageType where "CoordinatorElectionMsg = 7"
definition CoordinatorAliveMsg :: MessageType where "CoordinatorAliveMsg = 8"
definition CoordinatorLeaveMsg :: MessageType where "CoordinatorLeaveMsg = 9"
definition CoordinatorSelectMsg :: MessageType where "CoordinatorSelectMsg = 10"
definition CoordinatorPingMsg :: MessageType where "CoordinatorPingMsg = 11"
definition CoordinatorPingResponseMsg :: MessageType where "CoordinatorPingResponseMsg = 12"
definition Unknown :: MessageType where "Unknown = 13"

lemmas message_type_defs = TssKeyGenMsg_def TssKeySignMsg_def TssInitiateMsg_def TssStartMsg_def
  TssFailMsg_def TssReadyMsg_def TssReshareMsg_def CoordinatorElectionMsg_def CoordinatorAliveMsg_def
  CoordinatorLeaveMsg_def CoordinatorSelectMsg_def CoordinatorPingMsg_def
  CoordinatorPingResponseMsg_def Unknown_def

definition MessageType_String :: "MessageType \<Rightarrow> string" where
  "MessageType_String msgType =
     (if msgType = TssKeyGenMsg then ''TssKeyGenMsg''
      else if msgType = TssKeySignMsg then ''TssKeySignMsg''
      else if msgType = TssInitiateMsg then ''TssInitiateMsg''
      else if msgType = TssStartMsg then ''TssStartMsg''
      else if msgType = TssFailMsg then ''TssFailMsg''
      else if msgType = TssReadyMsg then ''TssReadyMsg''
      else if msgType = TssReshareMsg then ''TssReshareMsg''
      else if msgType = CoordinatorElectionMsg then ''CoordinatorElectionMsg''
      else if msgType = CoordinatorAliveMsg then ''CoordinatorAliveMsg''
      else if msgType = CoordinatorLeaveMsg then ''CoordinatorLeaveMsg''
      else if msgType = CoordinatorSelectMsg then ''CoordinatorSelectMsg''
      else if msgType = CoordinatorPingMsg then ''CoordinatorPingMsg''
      else if msgType = CoordinatorPingResponseMsg then ''CoordinatorPingResponseMsg''
      else ''UnknownMsg'')"

section \<open>Subscription identifiers\<close>

type_synonym SubscriptionID = string

text \<open>\<open>now\<close> is the Unix time in nanoseconds, truncated to 32 bits by the code.\<close>

definition NewSubscriptionID :: "int \<Rightarrow> string \<Rightarrow> MessageType \<Rightarrow> SubscriptionID" where
  "NewSubscriptionID now sessionID msgType =
     sessionID @ ''-'' @ dec (unat msgType) @ ''-'' @ dec (unat (word_of_int now :: uint32))"

definition Unwrap :: "SubscriptionID \<Rightarrow> (string \<times> MessageType \<times> string) res" where
  "Unwrap sID =
     (let subIDParts = split_on CHR ''-'' sID in
      if length subIDParts \<noteq> 3 then Inl (Error ''invalid subscriptionID'')
      else
        and_then (ParseInt10 8 (subIDParts ! 1)) (\<lambda>msgType.
        if uint Unknown < msgType then Inl (Error ''invalid message type'')
        else Inr (subIDParts ! 0, word_of_int msgType, subIDParts ! 2)))"

definition SubID_SessionID :: "SubscriptionID \<Rightarrow> string" where
  "SubID_SessionID sID = (case Unwrap sID of Inl _ \<Rightarrow> '''' | Inr (sessID, _, _) \<Rightarrow> sessID)"

definition SubID_MessageType :: "SubscriptionID \<Rightarrow> MessageType" where
  "SubID_MessageType sID = (case Unwrap sID of Inl _ \<Rightarrow> Unknown | Inr (_, msgType, _) \<Rightarrow> msgType)"

definition SubscriptionIdentifier :: "SubscriptionID \<Rightarrow> string" where
  "SubscriptionIdentifier sID = (case Unwrap sID of Inl _ \<Rightarrow> '''' | Inr (_, _, subID) \<Rightarrow> subID)"

section \<open>The subscription registry\<close>

text \<open>
  The nested maps of \<open>SessionSubscriptionManager\<close>, one association list of subscribers per
  session and message type; an absent inner map is an empty list.
\<close>

type_synonym 'c subscribersMap = "string \<Rightarrow> MessageType \<Rightarrow> (string \<times> 'c) list"

definition NewSessionSubscriptionManager :: "'c subscribersMap" where
  "NewSessionSubscriptionManager = (\<lambda>_ _. [])"

definition GetSubscribers :: "'c subscribersMap \<Rightarrow> string \<Rightarrow> MessageType \<Rightarrow> 'c list" where
  "GetSubscribers ms sessionID msgType = map snd (ms sessionID msgType)"

fun set_entry :: "'k \<Rightarrow> 'v \<Rightarrow> ('k \<times> 'v) list \<Rightarrow> ('k \<times> 'v) list" where
  "set_entry k v [] = [(k, v)]"
| "set_entry k v ((k', v') # m) = (if k = k' then (k, v) # m else (k', v') # set_entry k v m)"

definition SubscribeTo ::
  "int \<Rightarrow> 'c subscribersMap \<Rightarrow> string \<Rightarrow> MessageType \<Rightarrow> 'c \<Rightarrow> SubscriptionID \<times> 'c subscribersMap" where
  "SubscribeTo now ms sessionID msgType channel =
     (let subID = NewSubscriptionID now sessionID msgType in
      (subID, ms(sessionID := (ms sessionID)(msgType :=
         set_entry (SubscriptionIdentifier subID) channel (ms sessionID msgType)))))"

definition UnSubscribeFrom :: "'c subscribersMap \<Rightarrow> SubscriptionID \<Rightarrow> 'c subscribersMap" where
  "UnSubscribeFrom ms subscriptionID =
     (case Unwrap subscriptionID of
        Inl _ \<Rightarrow> ms
      | Inr (sessionID, msgType, subID) \<Rightarrow>
          ms(sessionID := (ms sessionID)(msgType :=
            filter (\<lambda>e. fst e \<noteq> subID) (ms sessionID msgType))))"

section \<open>The stream registry\<close>

type_synonym ('p, 'st) streams = "string \<Rightarrow> ('p \<times> 'st) list"

definition NewStreamManager :: "('p, 'st) streams" where
  "NewStreamManager = (\<lambda>_. [])"

text \<open>The streams that are closed, and the registry without the session.\<close>

definition ReleaseStreams :: "('p, 'st) streams \<Rightarrow> string \<Rightarrow> 'st list \<times> ('p, 'st) streams" where
  "ReleaseStreams sm sessionID = (map snd (sm sessionID), sm(sessionID := []))"

definition AddStream :: "('p, 'st) streams \<Rightarrow> string \<Rightarrow> 'p \<Rightarrow> 'st \<Rightarrow> ('p, 'st) streams" where
  "AddStream sm sessionID peerID stream =
     (case map_of (sm sessionID) peerID of
        Some _ \<Rightarrow> sm
      | None \<Rightarrow> sm(sessionID := sm sessionID @ [(peerID, stream)]))"

definition Stream :: "('p, 'st) streams \<Rightarrow> string \<Rightarrow> 'p \<Rightarrow> 'st res" where
  "Stream sm sessionID peerID =
     (case map_of (sm sessionID) peerID of
        None \<Rightarrow> Inl (Error ''no stream for peerID'')
      | Some stream \<Rightarrow> Inr stream)"

section \<open>The line protocol\<close>

definition newline :: byte where "newline = 10"

text \<open>\<open>bufio.Reader.ReadString('\n')\<close> on the bytes that are still to come.\<close>

fun ReadString :: "bytes \<Rightarrow> bytes res \<times> bytes" where
  "ReadString [] = (Inl (Error ''EOF''), [])"
| "ReadString (b # bs) =
     (if b = newline then (Inr [b], bs)
      else (case ReadString bs of
              (Inl e, rest) \<Rightarrow> (Inl e, rest)
            | (Inr msg, rest) \<Rightarrow> (Inr (b # msg), rest)))"

definition trim_newlines :: "bytes \<Rightarrow> bytes" where
  "trim_newlines bs = rev (dropWhile (\<lambda>b. b = newline) (rev (dropWhile (\<lambda>b. b = newline) bs)))"

definition ReadStream :: "bytes \<Rightarrow> bytes res \<times> bytes" where
  "ReadStream r =
     (case ReadString r of
        (Inl err, rest) \<Rightarrow> (Inl err, rest)
      | (Inr msg, rest) \<Rightarrow>
          if msg = [] then (Inl (Error ''end of stream reached''), rest)
          else (Inr (trim_newlines msg), rest))"

text \<open>The bytes written, given whether writing and flushing succeed.\<close>

definition WriteStream :: "unit res \<Rightarrow> unit res \<Rightarrow> bytes \<Rightarrow> bytes res" where
  "WriteStream writeResult flushResult msg =
     (case writeResult of
        Inl err \<Rightarrow> Inl err
      | Inr _ \<Rightarrow>
     (case flushResult of
        Inl (Error err) \<Rightarrow> Inl (Error (''fail to flush stream: '' @ err))
      | Inl (Panic e) \<Rightarrow> Inl (Panic e)
      | Inr _ \<Rightarrow> Inr (msg @ [newline])))"

lemma ReadString_rest: "ReadString r = (Inr msg, rest) \<Longrightarrow> length rest < length r"
  by (induction r arbitrary: msg) (fastforce split: if_splits prod.splits sum.splits)+

lemma ReadStream_rest: "ReadStream r = (Inr msg, rest) \<Longrightarrow> length rest < length r"
  by (auto simp: ReadStream_def dest: ReadString_rest split: prod.splits sum.splits if_splits)

section \<open>Sending and receiving\<close>

record 'p WrappedMessage =
  w_MessageType :: MessageType
  w_SessionID :: string
  w_Payload :: bytes
  w_From :: 'p

text \<open>
  One send: the stream used (opened and registered when there was none) and the bytes put
  on it. The network answers through \<open>resolveDNS\<close>, \<open>NewStream\<close> and \<open>write\<close>.
\<close>

definition sendMessage ::
  "('p \<Rightarrow> unit res) \<Rightarrow> ('p \<Rightarrow> 'st res) \<Rightarrow> ('st \<Rightarrow> bytes \<Rightarrow> bytes res) \<Rightarrow> ('p, 'st) streams \<Rightarrow>
   'p \<Rightarrow> bytes \<Rightarrow> string \<Rightarrow> ('st \<times> bytes) res \<times> ('p, 'st) streams" where
  "sendMessage resolveDNS NewStream write sm to msg sessionID =
     (case resolveDNS to of
        Inl err \<Rightarrow> (Inl err, sm)
      | Inr _ \<Rightarrow>
     (case Stream sm sessionID to of
        Inr stream \<Rightarrow> (and_then (write stream msg) (\<lambda>out. Inr (stream, out)), sm)
      | Inl _ \<Rightarrow>
     (case NewStream to of
        Inl err \<Rightarrow> (Inl err, sm)
      | Inr stream \<Rightarrow>
          (and_then (write stream msg) (\<lambda>out. Inr (stream, out)), AddStream sm sessionID to stream))))"

datatype 'p comm_error = CommunicationError 'p go_error | MarshalError go_error

text \<open>
  The outcome for every peer but the host, in the order of the list; the pool reports the
  first error.
\<close>

fun broadcast_loop ::
  "(('p, 'st) streams \<Rightarrow> 'p \<Rightarrow> ('st \<times> bytes) res \<times> ('p, 'st) streams) \<Rightarrow> 'p \<Rightarrow> ('p, 'st) streams \<Rightarrow>
   'p list \<Rightarrow> ('p \<times> ('st \<times> bytes) res) list \<times> ('p, 'st) streams" where
  "broadcast_loop send hostID sm [] = ([], sm)"
| "broadcast_loop send hostID sm (peerID # peers) =
     (if hostID = peerID then broadcast_loop send hostID sm peers
      else (let (r, sm') = send sm peerID; (rs, sm'') = broadcast_loop send hostID sm' peers
            in ((peerID, r) # rs, sm'')))"

fun first_error :: "('p \<times> 'a res) list \<Rightarrow> 'p comm_error option" where
  "first_error [] = None"
| "first_error ((p, Inl e) # rs) = Some (CommunicationError p e)"
| "first_error ((p, Inr _) # rs) = first_error rs"

definition Broadcast ::
  "('p WrappedMessage \<Rightarrow> bytes res) \<Rightarrow> ('p \<Rightarrow> unit res) \<Rightarrow> ('p \<Rightarrow> 'st res) \<Rightarrow> ('st \<Rightarrow> bytes \<Rightarrow> bytes res) \<Rightarrow>
   'p \<Rightarrow> ('p, 'st) streams \<Rightarrow> 'p list \<Rightarrow> bytes \<Rightarrow> MessageType \<Rightarrow> string \<Rightarrow>
   'p comm_error option \<times> ('p \<times> ('st \<times> bytes) res) list \<times> ('p, 'st) streams" where
  "Broadcast Marshal resolveDNS NewStream write hostID sm peers msg msgType sessionID =
     (case Marshal \<lparr>w_MessageType = msgType, w_SessionID = sessionID, w_Payload = msg, w_From = hostID\<rparr> of
        Inl err \<Rightarrow> (Some (MarshalError err), [], sm)
      | Inr marshaledMsg \<Rightarrow>
          (let (rs, sm') = broadcast_loop
                 (\<lambda>s p. sendMessage resolveDNS NewStream write s p marshaledMsg sessionID) hostID sm peers
           in (first_error rs, rs, sm')))"

definition CloseSession :: "('p, 'st) streams \<Rightarrow> string \<Rightarrow> 'st list \<times> ('p, 'st) streams" where
  "CloseSession sm sessionID = ReleaseStreams sm sessionID"

text \<open>
  The deliveries (channel, message) that the read loop on one incoming stream makes. The
  registry is read at each message; it is passed as a function of the number of messages
  read so far.
\<close>

function ProcessMessagesFromStream ::
  "(bytes \<Rightarrow> 'p WrappedMessage res) \<Rightarrow> (nat \<Rightarrow> 'c subscribersMap) \<Rightarrow> 'p \<Rightarrow> nat \<Rightarrow> bytes \<Rightarrow>
   ('c \<times> 'p WrappedMessage) list" where
  "ProcessMessagesFromStream Unmarshal reg remotePeerID n r =
     (case ReadStream r of
        (Inl err, _) \<Rightarrow> []
      | (Inr msgBytes, rest) \<Rightarrow>
     (case Unmarshal msgBytes of
        Inl err \<Rightarrow> []
      | Inr wrappedMsg \<Rightarrow>
          (let wrappedMsg' = wrappedMsg\<lparr>w_From := remotePeerID\<rparr> in
           map (\<lambda>sub. (sub, wrappedMsg'))
             (GetSubscribers (reg n) (w_SessionID wrappedMsg') (w_MessageType wrappedMsg'))
           @ ProcessMessagesFromStream Unmarshal reg remotePeerID (Suc n) rest)))"
  by pat_completeness auto
termination
  by (relation "measure (\<lambda>(_, _, _, _, r). length r)") (auto dest: ReadStream_rest [OF sym])

declare ProcessMessagesFromStream.simps [simp del]

section \<open>The health check\<close>

text \<open>
  Every peer is contacted on its own; the error is converted to a communication error, which
  panics for any other error. The session is closed in any case.
\<close>

fun health_loop ::
  "('n \<Rightarrow> 'p list \<Rightarrow> bytes \<Rightarrow> MessageType \<Rightarrow> string \<Rightarrow> 'p comm_error option \<times> 'n) \<Rightarrow> 'n \<Rightarrow> 'p list \<Rightarrow>
   ('p \<times> go_error) list res \<times> 'n" where
  "health_loop broadcast net [] = (Inr [], net)"
| "health_loop broadcast net (p # peers) =
     (case broadcast net [p] [] Unknown ''health-session'' of
        (Some (MarshalError e), net') \<Rightarrow> (Inl (Panic ''interface conversion''), net')
      | (Some (CommunicationError q e), net') \<Rightarrow>
          (let (rest, net'') = health_loop broadcast net' peers
           in (and_then rest (\<lambda>es. Inr ((q, e) # es)), net''))
      | (None, net') \<Rightarrow> health_loop broadcast net' peers)"

definition ExecuteCommHealthCheck ::
  "('n \<Rightarrow> 'p list \<Rightarrow> bytes \<Rightarrow> MessageType \<Rightarrow> string \<Rightarrow> 'p comm_error option \<times> 'n) \<Rightarrow>
   ('n \<Rightarrow> string \<Rightarrow> 'n) \<Rightarrow> 'n \<Rightarrow> 'p list \<Rightarrow> ('p \<times> go_error) list res \<times> 'n" where
  "ExecuteCommHealthCheck broadcast closeSession net peers =
     (let (errors, net') = health_loop broadcast net peers in (errors, closeSession net' ''health-session''))"

section \<open>Subscription identifiers\<close>

lemma Unwrap_New:
  assumes "CHR ''-'' \<notin> set s" "unat t \<le> unat Unknown"
  shows "Unwrap (NewSubscriptionID now s t) = Inr (s, t, dec (unat (word_of_int now :: uint32)))"
proof -
  let ?t = "dec (unat t)" and ?n = "dec (unat (word_of_int now :: uint32))"
  have "split_on CHR ''-'' (s @ CHR ''-'' # ?t @ CHR ''-'' # ?n) = [s, ?t, ?n]"
    using assms(1) by (simp add: split_on_append split_on_no_sep dec_no_char)
  moreover have t: "unat t \<le> 13" using assms(2) by (simp add: Unknown_def)
  then have "ParseInt10 8 ?t = Inr (int (unat t))" by (intro ParseInt10_dec) simp_all
  moreover have "int (unat t) \<le> 13" using t by linarith
  then have "uint t \<le> 13" by simp
  ultimately show ?thesis by (simp add: Unwrap_def NewSubscriptionID_def Unknown_def Let_def)
qed

lemma Unwrap_dashed:
  assumes "CHR ''-'' \<in> set s"
  shows "Unwrap (NewSubscriptionID now s t) = Inl (Error ''invalid subscriptionID'')"
proof -
  have "0 < count_list s CHR ''-''" using assms by (metis count_list_0_iff gr0I)
  then show ?thesis
    by (simp add: Unwrap_def NewSubscriptionID_def length_split_on)
qed

text \<open>
  A subscription identifier splits back into the session, the message type and the
  unique suffix it was made of, as long as the session identifier contains no dash.
\<close>

theorem subscription_id_roundtrip:
  assumes "CHR ''-'' \<notin> set sessionID" "unat msgType \<le> unat Unknown"
  shows "SubID_SessionID (NewSubscriptionID now sessionID msgType) = sessionID \<and>
     SubID_MessageType (NewSubscriptionID now sessionID msgType) = msgType \<and>
     SubscriptionIdentifier (NewSubscriptionID now sessionID msgType)
       = dec (unat (word_of_int now :: uint32))"
  by (simp add: Unwrap_New [OF assms] SubID_SessionID_def SubID_MessageType_def SubscriptionIdentifier_def)

theorem subscription_id_roundtrip_witness:
  "SubID_SessionID (NewSubscriptionID 1234 ''1'' TssFailMsg) = ''1'' \<and>
   SubID_MessageType (NewSubscriptionID 1234 ''1'' TssFailMsg) = TssFailMsg \<and>
   SubscriptionIdentifier (NewSubscriptionID 1234 ''1'' TssFailMsg) = dec (unat (word_of_int 1234 :: uint32))"
  using subscription_id_roundtrip [of "''1''" TssFailMsg 1234] by (simp add: TssFailMsg_def Unknown_def)

text \<open>
  For a session identifier with a dash in it, which is what every signing, keygen and
  resharing session has, the identifier does not split. All subscriptions of the session to
  a message type then share the empty key: the later subscriber replaces the earlier one,
  and unsubscribing does nothing.
\<close>

theorem dashed_session_subscriptions:
  assumes "CHR ''-'' \<in> set sessionID" "ms sessionID msgType = []"
    and "SubscribeTo now1 ms sessionID msgType c1 = (id1, ms1)"
    and "SubscribeTo now2 ms1 sessionID msgType c2 = (id2, ms2)"
  shows "GetSubscribers ms1 sessionID msgType = [c1] \<and> GetSubscribers ms2 sessionID msgType = [c2] \<and>
         UnSubscribeFrom ms2 id1 = ms2 \<and> UnSubscribeFrom ms2 id2 = ms2"
  using assms Unwrap_dashed [OF assms(1)]
  by (auto simp: SubscribeTo_def UnSubscribeFrom_def SubscriptionIdentifier_def GetSubscribers_def Let_def)

theorem dashed_session_subscriptions_witness:
  "GetSubscribers (snd (SubscribeTo 2 (snd (SubscribeTo 1 NewSessionSubscriptionManager ''keygen-7'' TssFailMsg (1 :: nat)))
      ''keygen-7'' TssFailMsg 2)) ''keygen-7'' TssFailMsg = [2]"
  using dashed_session_subscriptions [of "''keygen-7''" NewSessionSubscriptionManager TssFailMsg 1 "1 :: nat" _ _ 2 2]
  by (simp add: NewSessionSubscriptionManager_def prod_eq_iff)

section \<open>Subscribing and unsubscribing\<close>

lemma set_entry_fresh: "k \<notin> fst ` set m \<Longrightarrow> set_entry k v m = m @ [(k, v)]"
  by (induction k v m rule: set_entry.induct) auto

lemma subscription_added:
  assumes "CHR ''-'' \<notin> set sessionID" "unat msgType \<le> unat Unknown"
    and "dec (unat (word_of_int now :: uint32)) \<notin> fst ` set (ms sessionID msgType)"
    and "SubscribeTo now ms sessionID msgType channel = (subID, ms')"
  shows "subID = NewSubscriptionID now sessionID msgType"
    and "ms' = ms(sessionID := (ms sessionID)(msgType :=
           ms sessionID msgType @ [(dec (unat (word_of_int now :: uint32)), channel)]))"
  using assms(4) set_entry_fresh [OF assms(3)]
  by (auto simp: SubscribeTo_def Let_def SubscriptionIdentifier_def Unwrap_New [OF assms(1,2)])

lemma subscription_removed:
  assumes "CHR ''-'' \<notin> set sessionID" "unat msgType \<le> unat Unknown"
    and "dec (unat (word_of_int now :: uint32)) \<notin> fst ` set (ms sessionID msgType)"
    and "SubscribeTo now ms sessionID msgType channel = (subID, ms')"
  shows "UnSubscribeFrom ms' subID = ms"
proof -
  have "filter (\<lambda>e. fst e \<noteq> dec (unat (word_of_int now :: uint32))) (ms sessionID msgType) = ms sessionID msgType"
    using assms(3) by (force simp: filter_id_conv)
  then show ?thesis
    by (auto simp: subscription_added [OF assms] UnSubscribeFrom_def Unwrap_New [OF assms(1,2)])
qed

text \<open>
  In a session whose identifier has no dash, a subscription adds exactly its own
  channel to the subscribers of its session and message type and to no other, and
  unsubscribing it again restores the registry.
\<close>

theorem subscribe_then_unsubscribe:
  assumes "CHR ''-'' \<notin> set sessionID" "unat msgType \<le> unat Unknown"
    and "dec (unat (word_of_int now :: uint32)) \<notin> fst ` set (ms sessionID msgType)"
    and "SubscribeTo now ms sessionID msgType channel = (subID, ms')"
  shows "GetSubscribers ms' sessionID msgType = GetSubscribers ms sessionID msgType @ [channel] \<and>
     (\<forall>s t. (s, t) \<noteq> (sessionID, msgType) \<longrightarrow> GetSubscribers ms' s t = GetSubscribers ms s t) \<and>
     UnSubscribeFrom ms' subID = ms"
  using subscription_removed [OF assms] by (auto simp: subscription_added(2) [OF assms] GetSubscribers_def)

theorem subscribe_then_unsubscribe_witness:
  "UnSubscribeFrom (snd (SubscribeTo 5 NewSessionSubscriptionManager ''s'' TssFailMsg (1 :: nat)))
     (fst (SubscribeTo 5 NewSessionSubscriptionManager ''s'' TssFailMsg (1 :: nat))) = NewSessionSubscriptionManager"
  using subscribe_then_unsubscribe [of "''s''" TssFailMsg 5 NewSessionSubscriptionManager "1 :: nat"]
  by (simp add: TssFailMsg_def Unknown_def NewSessionSubscriptionManager_def prod_eq_iff)

section \<open>The line protocol\<close>

lemma ReadString_line: "newline \<notin> set m \<Longrightarrow> ReadString (m @ newline # rest) = (Inr (m @ [newline]), rest)"
  by (induction m) auto

lemma dropWhile_newline_id: "newline \<notin> set m \<Longrightarrow> dropWhile (\<lambda>b. b = newline) m = m"
  by (cases m) auto

lemma trim_newlines_line:
  assumes "newline \<notin> set m"
  shows "trim_newlines (m @ [newline]) = m"
proof (cases m)
  case Nil
  then show ?thesis by (simp add: trim_newlines_def)
next
  case (Cons b bs)
  with assms dropWhile_newline_id [of "rev m"] show ?thesis by (auto simp: trim_newlines_def)
qed

lemma ReadStream_line:
  "newline \<notin> set m \<Longrightarrow> ReadStream (m @ newline # rest) = (Inr m, rest)"
  by (simp add: ReadStream_def ReadString_line trim_newlines_line)

fun deliveries ::
  "(bytes \<Rightarrow> 'p WrappedMessage res) \<Rightarrow> (nat \<Rightarrow> 'c subscribersMap) \<Rightarrow> 'p \<Rightarrow> nat \<Rightarrow> bytes list \<Rightarrow>
   ('c \<times> 'p WrappedMessage) list" where
  "deliveries Unmarshal reg remote n [] = []"
| "deliveries Unmarshal reg remote n (m # ms) =
     (case Unmarshal m of
        Inl _ \<Rightarrow> []
      | Inr w \<Rightarrow> map (\<lambda>sub. (sub, w\<lparr>w_From := remote\<rparr>)) (GetSubscribers (reg n) (w_SessionID w) (w_MessageType w))
          @ deliveries Unmarshal reg remote (Suc n) ms)"

text \<open>
  What one relayer writes, the other one reads: if every message is sent with
  \<open>WriteStream\<close> and none contains a newline, then the receiving loop handles exactly these
  messages in order, hands each to the subscribers of its session and type at that moment,
  and stops at the first message that does not parse or at the end of the stream.
\<close>

theorem stream_roundtrip:
  assumes "\<forall>m \<in> set ms. newline \<notin> set m"
    and "\<forall>m \<in> set ms. written m = projr (WriteStream (Inr ()) (Inr ()) m)"
  shows "ProcessMessagesFromStream Unmarshal reg remote n (concat (map written ms))
           = deliveries Unmarshal reg remote n ms"
  using assms
proof (induction ms arbitrary: n)
  case Nil
  then show ?case by (simp add: ProcessMessagesFromStream.simps ReadStream_def)
next
  case (Cons m ms)
  then have "ReadStream (concat (map written (m # ms))) = (Inr m, concat (map written ms))"
    using ReadStream_line [of m "concat (map written ms)"] by (simp add: WriteStream_def)
  with Cons show ?case
    by (simp add: ProcessMessagesFromStream.simps [of _ _ _ n] Let_def split: sum.splits)
qed

theorem stream_roundtrip_witness:
  "ProcessMessagesFromStream
     (\<lambda>m. Inr \<lparr>w_MessageType = TssFailMsg, w_SessionID = ''s'', w_Payload = m, w_From = (9 :: nat)\<rparr>)
     (\<lambda>_ _ _. [(''1'', ''chan'')]) 4 0 (concat (map (\<lambda>m. m @ [newline]) [[1, 2], [3]]))
   = [(''chan'', \<lparr>w_MessageType = TssFailMsg, w_SessionID = ''s'', w_Payload = [1, 2], w_From = 4\<rparr>),
      (''chan'', \<lparr>w_MessageType = TssFailMsg, w_SessionID = ''s'', w_Payload = [3], w_From = 4\<rparr>)]"
  using stream_roundtrip [of "[[1, 2], [3]]" "\<lambda>m. m @ [newline]"
     "\<lambda>m. Inr \<lparr>w_MessageType = TssFailMsg, w_SessionID = ''s'', w_Payload = m, w_From = (9 :: nat)\<rparr>"
     "\<lambda>_ _ _. [(''1'', ''chan'')]" 4 0]
  by (simp add: WriteStream_def newline_def GetSubscribers_def)

lemma deliveries_sender:
  "\<forall>(c, w) \<in> set (ProcessMessagesFromStream Unmarshal reg remote n r).
     w_From w = remote \<and> (\<exists>k. c \<in> set (GetSubscribers (reg k) (w_SessionID w) (w_MessageType w)))"
proof (induction Unmarshal reg remote n r rule: ProcessMessagesFromStream.induct)
  case (1 Unmarshal reg remote n r)
  obtain x rest where r: "ReadStream r = (x, rest)" by fastforce
  show ?case
  proof (cases x)
    case (Inl e)
    with r show ?thesis by (simp add: ProcessMessagesFromStream.simps)
  next
    case m: (Inr m)
    show ?thesis
    proof (cases "Unmarshal m")
      case (Inl e)
      with r m show ?thesis by (simp add: ProcessMessagesFromStream.simps)
    next
      case (Inr w)
      with r m have step: "ProcessMessagesFromStream Unmarshal reg remote n r =
          map (\<lambda>sub. (sub, w\<lparr>w_From := remote\<rparr>)) (GetSubscribers (reg n) (w_SessionID w) (w_MessageType w))
          @ ProcessMessagesFromStream Unmarshal reg remote (Suc n) rest"
        by (subst ProcessMessagesFromStream.simps) (simp add: Let_def)
      from 1 [OF r [symmetric] m Inr refl] have
        "\<forall>(c, w) \<in> set (ProcessMessagesFromStream Unmarshal reg remote (Suc n) rest).
           w_From w = remote \<and> (\<exists>k. c \<in> set (GetSubscribers (reg k) (w_SessionID w) (w_MessageType w)))"
        by simp
      then show ?thesis unfolding step by auto
    qed
  qed
qed

text \<open>
  C24. A peer cannot speak in another peer's name: whatever bytes arrive on a stream, every
  message handed to a subscriber carries the identity of the remote end of that stream as
  its sender, and only subscribers of the message's own session and type receive it.
\<close>

theorem deliveries_authenticated:
  assumes "(c, w) \<in> set (ProcessMessagesFromStream Unmarshal reg remote n r)"
  shows "w_From w = remote \<and> (\<exists>k. c \<in> set (GetSubscribers (reg k) (w_SessionID w) (w_MessageType w)))"
  using assms deliveries_sender [of Unmarshal reg remote n r] by blast

theorem deliveries_authenticated_witness:
  "\<exists>c w. (c, w) \<in> set (ProcessMessagesFromStream
       (\<lambda>m. Inr \<lparr>w_MessageType = TssFailMsg, w_SessionID = ''s'', w_Payload = m, w_From = (9 :: nat)\<rparr>)
       (\<lambda>_ _ _. [(''1'', ''chan'')]) 4 0 [1, 2, newline]) \<and> w_From w = 4"
proof -
  let ?U = "\<lambda>m. Inr \<lparr>w_MessageType = TssFailMsg, w_SessionID = ''s'', w_Payload = m, w_From = (9 :: nat)\<rparr>"
  have "ReadStream [1, 2, newline] = (Inr [1, 2], [])"
    using ReadStream_line [of "[1, 2]" "[]"] by (simp add: newline_def)
  then have "(''chan'', \<lparr>w_MessageType = TssFailMsg, w_SessionID = ''s'', w_Payload = [1, 2], w_From = 4\<rparr>)
      \<in> set (ProcessMessagesFromStream ?U (\<lambda>_ _ _. [(''1'', ''chan'')]) 4 0 [1, 2, newline])"
    by (subst ProcessMessagesFromStream.simps) (simp add: Let_def GetSubscribers_def)
  with deliveries_authenticated [OF this] show ?thesis by blast
qed

section \<open>Broadcasting\<close>

lemma broadcast_loop_peers:
  "map fst (fst (broadcast_loop send h sm ps)) = filter (\<lambda>p. p \<noteq> h) ps"
  by (induction ps arbitrary: sm) (auto split: prod.splits simp: case_prod_beta)

lemma first_error_None: "first_error rs = None \<longleftrightarrow> (\<forall>(p, r) \<in> set rs. is_ok r)"
  by (induction rs rule: first_error.induct) auto

text \<open>
  A broadcast contacts every listed peer except the sender itself, once per entry and
  in the listed order, whether or not an earlier send failed, and reports no error exactly
  when the message could be encoded and every send succeeded.
\<close>

theorem broadcast_reaches_all:
  assumes "Marshal \<lparr>w_MessageType = t, w_SessionID = s, w_Payload = msg, w_From = h\<rparr> = Inr enc"
    and "Broadcast Marshal resolveDNS NewStream write h sm peers msg t s = (err, rs, sm')"
  shows "map fst rs = filter (\<lambda>p. p \<noteq> h) peers \<and> (err = None \<longleftrightarrow> (\<forall>(p, r) \<in> set rs. is_ok r))"
  using assms broadcast_loop_peers [of "\<lambda>s' p. sendMessage resolveDNS NewStream write s' p enc s" h sm peers]
  by (auto simp: Broadcast_def first_error_None split: prod.splits)

theorem broadcast_reaches_all_witness:
  "map fst (fst (snd (Broadcast (\<lambda>w. Inr (w_Payload w)) (\<lambda>_. Inr ()) (\<lambda>p. if p = 2 then Inl (Error ''down'') else Inr p)
      (\<lambda>_ m. Inr m) (1 :: nat) NewStreamManager [1, 2, 3] [7] TssFailMsg ''s''))) = [2, 3]"
  using broadcast_reaches_all [of "\<lambda>w. Inr (w_Payload w)" TssFailMsg "''s''" "[7]" "1 :: nat" "[7]" "\<lambda>_. Inr ()"
      "\<lambda>p. if p = 2 then Inl (Error ''down'') else Inr p" "\<lambda>_ m. Inr m" NewStreamManager "[1, 2, 3]"]
  by (simp add: prod_eq_iff)

section \<open>Streams\<close>

lemma Stream_AddStream:
  "Stream (AddStream sm s p st) s' p' =
     (if s' = s \<and> p' = p \<and> \<not> is_ok (Stream sm s p) then Inr st else Stream sm s' p')"
  by (auto simp: Stream_def AddStream_def map_of_append map_add_def split: option.splits)

lemma Stream_ReleaseStreams:
  "Stream (snd (ReleaseStreams sm s)) s' p =
     (if s' = s then Inl (Error ''no stream for peerID'') else Stream sm s' p)"
  by (auto simp: Stream_def ReleaseStreams_def)

end
