(* ===== verification/Elector.thy ===== *)
theory Elector
  imports Comm
begin

text \<open>
  Coordinator election: ordering the peers of a session by hash (\<open>tss/util/sort.go\<close>,
  \<open>tss/util/util.go\<close>), the static elector (\<open>comm/elector/static.go\<close>) and the bully elector
  (\<open>comm/elector/bully.go\<close>). Keccak and the printing of peer identifiers are arguments.
  \<open>sort.Sort\<close> is modelled by a stable sort; lemma \<open>SortPeersForSession_unique\<close> shows that
  the choice does not matter when no two peers have the same hash.
\<close>

type_synonym peerID = string

section \<open>Ordering the peers of a session\<close>

record PeerMsg =
  pm_ID :: peerID
  pm_SessionID :: string

record peer_hash =
  Keccak :: "string \<Rightarrow> bytes"
  Pretty :: "peerID \<Rightarrow> string"

definition peerHash :: "peer_hash \<Rightarrow> PeerMsg \<Rightarrow> nat" where
  "peerHash lib m = SetBytes (take 8 (Keccak lib (Pretty lib (pm_ID m) @ pm_SessionID m)))"

definition Less :: "peer_hash \<Rightarrow> PeerMsg list \<Rightarrow> nat \<Rightarrow> nat \<Rightarrow> bool" where
  "Less lib sps i j \<longleftrightarrow> peerHash lib (sps ! j) < peerHash lib (sps ! i)"

definition GetPeerIDs :: "PeerMsg list \<Rightarrow> peerID list" where
  "GetPeerIDs sps = map pm_ID sps"

definition toPeerMsg :: "string \<Rightarrow> peerID \<Rightarrow> PeerMsg" where
  "toPeerMsg sessionID p = \<lparr>pm_ID = p, pm_SessionID = sessionID\<rparr>"

definition SortPeersForSession :: "peer_hash \<Rightarrow> peerID list \<Rightarrow> string \<Rightarrow> PeerMsg list" where
  "SortPeersForSession lib peers sessionID =
     sort_key (\<lambda>m. - int (peerHash lib m)) (map (toPeerMsg sessionID) peers)"

fun IsParticipant :: "peer_hash \<Rightarrow> peerID \<Rightarrow> peerID list \<Rightarrow> bool" where
  "IsParticipant lib p [] = False"
| "IsParticipant lib p (q # peers) = (Pretty lib q = Pretty lib p \<or> IsParticipant lib p peers)"

lemma IsParticipant_iff: "IsParticipant lib p peers \<longleftrightarrow> (\<exists>q \<in> set peers. Pretty lib q = Pretty lib p)"
  by (induction peers) auto

section \<open>The static elector\<close>

definition StaticCoordinator :: "peer_hash \<Rightarrow> string \<Rightarrow> peerID list \<Rightarrow> peerID" where
  "StaticCoordinator lib sessionID peers =
     (let sortedPeers = SortPeersForSession lib peers sessionID in
      if sortedPeers = [] then '''' else pm_ID (sortedPeers ! 0))"

section \<open>The bully elector\<close>

text \<open>
  The state of a bully election on one relayer. \<open>bl_pending\<close> is the message the listening
  goroutine is blocked on until the election goroutine takes it from \<open>receiveChan\<close>;
  \<open>bl_stuck\<close> says that it is blocked on \<open>pingChan\<close>, which nothing ever reads; \<open>bl_alive\<close> is
  the one-place buffer of \<open>electionChan\<close>; \<open>bl_electing\<close> says that \<open>elect\<close> waits for an alive
  message or for its timeout.
\<close>

record bully =
  bl_host :: peerID
  bl_sorted :: "peerID list"
  bl_coordinator :: peerID
  bl_pending :: "(MessageType \<times> peerID) option"
  bl_stuck :: bool
  bl_alive :: bool
  bl_electing :: bool
  bl_sent :: "(peerID \<times> MessageType) list"

text \<open>The scan keeps the last matching index, and index 0 for a peer that is not listed.\<close>

fun last_index_from :: "nat \<Rightarrow> nat \<Rightarrow> peerID \<Rightarrow> peerID list \<Rightarrow> nat" where
  "last_index_from acc i p [] = acc"
| "last_index_from acc i p (q # qs) = last_index_from (if p = q then i else acc) (Suc i) p qs"

definition isPeerIDHigher :: "peerID list \<Rightarrow> peerID \<Rightarrow> peerID \<Rightarrow> bool" where
  "isPeerIDHigher sortedPeers p1 p2 \<longleftrightarrow>
     last_index_from 0 0 p1 sortedPeers < last_index_from 0 0 p2 sortedPeers"

definition setCoordinator :: "peerID \<Rightarrow> bully \<Rightarrow> bully" where
  "setCoordinator ID bc =
     (if isPeerIDHigher (bl_sorted bc) ID (bl_coordinator bc) \<or> ID = bl_host bc
      then bc\<lparr>bl_coordinator := ID\<rparr> else bc)"

text \<open>The first half of \<open>elect\<close>: an election message to every higher peer.\<close>

definition elect_start :: "bully \<Rightarrow> bully" where
  "elect_start bc =
     bc\<lparr>bl_sent := bl_sent bc @ map (\<lambda>p. (p, CoordinatorElectionMsg))
          (filter (\<lambda>p. isPeerIDHigher (bl_sorted bc) p (bl_host bc)) (bl_sorted bc)),
        bl_electing := True\<rparr>"

text \<open>\<open>elect\<close> after its timeout: the relayer selects itself and tells all peers.\<close>

definition elect_timeout :: "bully \<Rightarrow> bully" where
  "elect_timeout bc =
     (let bc' = setCoordinator (bl_host bc) bc in
      bc'\<lparr>bl_sent := bl_sent bc' @ map (\<lambda>p. (p, CoordinatorSelectMsg)) (bl_sorted bc'),
          bl_electing := False\<rparr>)"

text \<open>One iteration of the listening goroutine on an incoming message.\<close>

definition listen_step :: "MessageType \<Rightarrow> peerID \<Rightarrow> bully \<Rightarrow> bully" where
  "listen_step msgType from bc =
     (if msgType = CoordinatorAliveMsg then
        (if isPeerIDHigher (bl_sorted bc) (bl_host bc) from then bc\<lparr>bl_alive := True\<rparr> else bc)
      else if msgType = CoordinatorSelectMsg then bc\<lparr>bl_pending := Some (msgType, from)\<rparr>
      else if msgType = CoordinatorElectionMsg then bc\<lparr>bl_pending := Some (msgType, from)\<rparr>
      else if msgType = CoordinatorPingResponseMsg then bc\<lparr>bl_stuck := True\<rparr>
      else if msgType = CoordinatorPingMsg
        then bc\<lparr>bl_sent := bl_sent bc @ [(from, CoordinatorPingResponseMsg)]\<rparr>
      else bc)"

text \<open>One iteration of the election goroutine on a message from \<open>receiveChan\<close>.\<close>

definition coordination_step :: "MessageType \<Rightarrow> peerID \<Rightarrow> bully \<Rightarrow> bully" where
  "coordination_step msgType from bc =
     (if msgType = CoordinatorElectionMsg \<and> \<not> isPeerIDHigher (bl_sorted bc) from (bl_host bc)
      then elect_start (bc\<lparr>bl_sent := bl_sent bc @ [(from, CoordinatorAliveMsg)]\<rparr>)
      else if msgType = CoordinatorSelectMsg then setCoordinator from bc
      else bc)"

inductive bully_step :: "bully \<Rightarrow> bully \<Rightarrow> bool" where
  listen: "bl_pending bc = None \<Longrightarrow> \<not> bl_stuck bc \<Longrightarrow> bully_step bc (listen_step msgType from bc)"
| alive: "bl_electing bc \<Longrightarrow> bl_alive bc \<Longrightarrow>
    bully_step bc (bc\<lparr>bl_alive := False, bl_electing := False\<rparr>)"
| election_timeout: "bl_electing bc \<Longrightarrow> bully_step bc (elect_timeout bc)"
| receive: "\<not> bl_electing bc \<Longrightarrow> bl_pending bc = Some (msgType, from) \<Longrightarrow>
    bully_step bc (coordination_step msgType from (bc\<lparr>bl_pending := None\<rparr>))"

text \<open>The state in which \<open>Coordinator\<close> starts its two goroutines.\<close>

definition bully_start :: "peer_hash \<Rightarrow> string \<Rightarrow> peerID \<Rightarrow> peerID list \<Rightarrow> bully" where
  "bully_start lib sessionID host peers =
     elect_start \<lparr>bl_host = host, bl_sorted = GetPeerIDs (SortPeersForSession lib peers sessionID),
        bl_coordinator = host, bl_pending = None, bl_stuck = False, bl_alive = False,
        bl_electing = True, bl_sent = []\<rparr>"

text \<open>\<open>Coordinator\<close> returns the coordinator of some state reached before its wait time is over.\<close>

definition BullyCoordinator :: "peer_hash \<Rightarrow> string \<Rightarrow> peerID \<Rightarrow> peerID list \<Rightarrow> peerID \<Rightarrow> bool" where
  "BullyCoordinator lib sessionID host peers c \<longleftrightarrow>
     (\<exists>bc. bully_step\<^sup>*\<^sup>* (bully_start lib sessionID host peers) bc \<and> bl_coordinator bc = c)"

datatype elector_kind = Static | Bully | OtherElector nat

definition CoordinatorElector ::
  "peer_hash \<Rightarrow> string \<Rightarrow> elector_kind \<Rightarrow> peerID \<Rightarrow> peerID list \<Rightarrow> (peerID \<Rightarrow> bool) option" where
  "CoordinatorElector lib sessionID electorType host peers =
     (case electorType of
        Static \<Rightarrow> Some (\<lambda>c. c = StaticCoordinator lib sessionID peers)
      | Bully \<Rightarrow> Some (BullyCoordinator lib sessionID host peers)
      | OtherElector _ \<Rightarrow> None)"

section \<open>Sorting is independent of the order of the peers\<close>

definition tie_free :: "peer_hash \<Rightarrow> string \<Rightarrow> peerID list \<Rightarrow> bool" where
  "tie_free lib sessionID peers \<longleftrightarrow>
     inj_on (\<lambda>p. peerHash lib (toPeerMsg sessionID p)) (set peers)"

lemma sorted_unique:
  fixes f :: "'a \<Rightarrow> 'b :: linorder"
  assumes "mset xs = mset ys" "sorted (map f xs)" "sorted (map f ys)" "inj_on f (set xs)"
  shows "xs = ys"
proof -
  have "sort (map f ys) = map f xs"
    by (rule properties_for_sort) (simp_all add: assms(1,2))
  moreover have "sort (map f ys) = map f ys"
    using assms(3) by (simp add: sorted_sort_id)
  ultimately have "map f xs = map f ys" by simp
  moreover have "set xs \<union> set ys = set xs" using mset_eq_setD [OF assms(1)] by simp
  ultimately show ?thesis using assms(4) by (intro map_inj_on [of f]) simp_all
qed

lemma set_SortPeersForSession:
  "pm_ID ` set (SortPeersForSession lib peers sessionID) = set peers"
  by (auto simp: SortPeersForSession_def toPeerMsg_def image_image)

lemma length_SortPeersForSession [simp]: "length (SortPeersForSession lib peers sessionID) = length peers"
  by (simp add: SortPeersForSession_def)

text \<open>Any way of sorting by \<open>Less\<close> gives the same slice when no two hashes agree.\<close>

lemma SortPeersForSession_unique:
  assumes "tie_free lib sessionID peers" "mset ms = mset (map (toPeerMsg sessionID) peers)"
    and "\<And>i j. i < j \<Longrightarrow> j < length ms \<Longrightarrow> \<not> Less lib ms j i"
  shows "ms = SortPeersForSession lib peers sessionID"
proof (rule sorted_unique [where f = "\<lambda>m. - int (peerHash lib m)"])
  show "sorted (map (\<lambda>m. - int (peerHash lib m)) ms)"
    using assms(3) by (auto simp: sorted_iff_nth_mono_less Less_def not_less)
  have "set ms = toPeerMsg sessionID ` set peers"
    using mset_eq_setD [OF assms(2)] by simp
  then show "inj_on (\<lambda>m. - int (peerHash lib m)) (set ms)"
    using assms(1) by (auto simp: tie_free_def inj_on_def)
qed (simp_all add: SortPeersForSession_def assms(2))

lemma SortPeersForSession_perm:
  assumes "tie_free lib sessionID peers" "mset peers = mset peers'"
  shows "SortPeersForSession lib peers sessionID = SortPeersForSession lib peers' sessionID"
proof (rule sorted_unique [where f = "\<lambda>m. - int (peerHash lib m)"])
  show "mset (SortPeersForSession lib peers sessionID) = mset (SortPeersForSession lib peers' sessionID)"
    using assms(2) by (simp add: SortPeersForSession_def)
  show "inj_on (\<lambda>m. - int (peerHash lib m)) (set (SortPeersForSession lib peers sessionID))"
    using assms(1) by (auto simp: SortPeersForSession_def tie_free_def inj_on_def)
qed (simp_all add: SortPeersForSession_def)

section \<open>The contract of an election\<close>

text \<open>
  What a session relies on: the elected peer is one of the peers, and relayers that know the
  same peers, in whatever order, elect the same one.
\<close>

locale election =
  fixes elect :: "peerID list \<Rightarrow> peerID"
    and decisive :: "peerID list \<Rightarrow> bool"
  assumes elected_is_peer: "peers \<noteq> [] \<Longrightarrow> elect peers \<in> set peers"
    and agreement: "decisive peers \<Longrightarrow> mset peers = mset peers' \<Longrightarrow> elect peers = elect peers'"
begin

lemma one_leader:
  assumes "decisive peers" "peers \<noteq> []" "\<forall>h \<in> set peers. mset (view h) = mset peers"
  shows "\<exists>!h. h \<in> set peers \<and> elect (view h) = h"
proof (rule ex1I [of _ "elect peers"])
  have "elect peers \<in> set peers" using assms(2) by (rule elected_is_peer)
  then show "elect peers \<in> set peers \<and> elect (view (elect peers)) = elect peers"
    using assms agreement by metis
next
  fix h
  assume "h \<in> set peers \<and> elect (view h) = h"
  then show "h = elect peers" using assms agreement by metis
qed

end

lemma StaticCoordinator_member: "peers \<noteq> [] \<Longrightarrow> StaticCoordinator lib sessionID peers \<in> set peers"
proof -
  let ?s = "SortPeersForSession lib peers sessionID"
  assume "peers \<noteq> []"
  then have "?s \<noteq> []" by (metis length_SortPeersForSession length_0_conv)
  then have "pm_ID (?s ! 0) \<in> pm_ID ` set ?s" using \<open>peers \<noteq> []\<close> by (intro imageI nth_mem) simp
  with \<open>?s \<noteq> []\<close> show ?thesis
    using set_SortPeersForSession [of lib peers sessionID] by (simp add: StaticCoordinator_def)
qed

interpretation static_election: election "StaticCoordinator lib sessionID" "tie_free lib sessionID"
  for lib sessionID
proof unfold_locales
  fix peers peers' :: "peerID list"
  assume "tie_free lib sessionID peers" "mset peers = mset peers'"
  from SortPeersForSession_perm [OF this]
  show "StaticCoordinator lib sessionID peers = StaticCoordinator lib sessionID peers'"
    by (simp add: StaticCoordinator_def)
qed (rule StaticCoordinator_member)

text \<open>
  C26. The static election has exactly one winner: if the relayers of a session know the
  same peers, each in an order of its own, and no two peers have the same 64-bit hash for
  the session, then exactly one of them finds itself to be the coordinator.
\<close>

theorem static_election_one_leader:
  assumes "tie_free lib sessionID peers" "peers \<noteq> []" "\<forall>h \<in> set peers. mset (view h) = mset peers"
  shows "\<exists>!h. h \<in> set peers \<and> StaticCoordinator lib sessionID (view h) = h"
  using assms by (rule static_election.one_leader)

definition example_hash :: peer_hash where
  "example_hash = \<lparr>Keccak = map (\<lambda>c. word_of_nat (of_char c)), Pretty = id\<rparr>"

theorem static_election_one_leader_witness:
  "\<exists>!h. h \<in> set [''a'', ''b'', ''c''] \<and>
     StaticCoordinator example_hash ''-1'' (if h = ''b'' then [''c'', ''a'', ''b''] else [''a'', ''b'', ''c'']) = h"
proof (rule static_election_one_leader)
  show "tie_free example_hash ''-1'' [''a'', ''b'', ''c'']"
    by (simp add: tie_free_def inj_on_def peerHash_def toPeerMsg_def example_hash_def SetBytes_def)
qed simp_all

section \<open>Bully elections\<close>

lemma last_index_absent: "p \<notin> set qs \<Longrightarrow> last_index_from acc i p qs = acc"
  by (induction qs arbitrary: acc i) auto

lemma isPeerIDHigher_trans:
  "isPeerIDHigher sp a b \<Longrightarrow> isPeerIDHigher sp b c \<Longrightarrow> isPeerIDHigher sp a c"
  by (simp add: isPeerIDHigher_def)

lemma isPeerIDHigher_irrefl: "\<not> isPeerIDHigher sp a a"
  by (simp add: isPeerIDHigher_def)

definition bully_inv :: "peerID \<Rightarrow> peerID list \<Rightarrow> bully \<Rightarrow> bool" where
  "bully_inv host sp bc \<longleftrightarrow> bl_host bc = host \<and> bl_sorted bc = sp \<and>
     (bl_coordinator bc = host \<or> isPeerIDHigher sp (bl_coordinator bc) host)"

lemma setCoordinator_inv: "bully_inv host sp bc \<Longrightarrow> bully_inv host sp (setCoordinator p bc)"
  by (auto simp: bully_inv_def setCoordinator_def dest: isPeerIDHigher_trans)

lemma elect_start_inv: "bully_inv host sp bc \<Longrightarrow> bully_inv host sp (elect_start bc)"
  by (simp add: bully_inv_def elect_start_def)

lemma bully_step_inv: "bully_step bc bc' \<Longrightarrow> bully_inv host sp bc \<Longrightarrow> bully_inv host sp bc'"
proof (induction rule: bully_step.induct)
  case (listen bc msgType "from")
  then show ?case by (simp add: listen_step_def bully_inv_def)
next
  case (election_timeout bc)
  from setCoordinator_inv [OF this(2), of "bl_host bc"] show ?case
    by (simp add: elect_timeout_def bully_inv_def Let_def)
next
  case (receive bc msgType "from")
  then have inv: "bully_inv host sp (bc\<lparr>bl_pending := None\<rparr>)" by (simp add: bully_inv_def)
  then have "bully_inv host sp (bc\<lparr>bl_pending := None, bl_sent := x\<rparr>)" for x
    by (simp add: bully_inv_def)
  with inv show ?case
    by (auto simp: coordination_step_def intro: setCoordinator_inv elect_start_inv)
qed (simp add: bully_inv_def)

lemma bully_reachable_inv:
  "bully_step\<^sup>*\<^sup>* bc bc' \<Longrightarrow> bully_inv host sp bc \<Longrightarrow> bully_inv host sp bc'"
  by (induction rule: rtranclp_induct) (auto intro: bully_step_inv)

lemma bully_start_inv:
  "bully_inv host (GetPeerIDs (SortPeersForSession lib peers sessionID)) (bully_start lib sessionID host peers)"
  unfolding bully_start_def by (intro elect_start_inv) (simp add: bully_inv_def)

text \<open>
  C27. A bully election never settles on a peer below the relayer itself: whatever messages
  arrive and in whatever order, the coordinator it returns is the relayer itself or a peer
  that the ordering of the session places above it.
\<close>

theorem bully_coordinator_not_lower:
  assumes "BullyCoordinator lib sessionID host peers c"
  shows "c = host \<or> isPeerIDHigher (GetPeerIDs (SortPeersForSession lib peers sessionID)) c host"
proof -
  from assms obtain bc where "bully_step\<^sup>*\<^sup>* (bully_start lib sessionID host peers) bc" "bl_coordinator bc = c"
    by (auto simp: BullyCoordinator_def)
  with bully_reachable_inv [OF this(1) bully_start_inv] show ?thesis
    by (simp add: bully_inv_def)
qed

text \<open>A select message from any sender ranked above the relayer is accepted.\<close>

lemma bully_accepts_select:
  assumes "isPeerIDHigher (GetPeerIDs (SortPeersForSession lib peers sessionID)) p host"
  shows "BullyCoordinator lib sessionID host peers p"
proof -
  let ?s0 = "bully_start lib sessionID host peers"
  let ?s1 = "elect_timeout ?s0"
  let ?s2 = "listen_step CoordinatorSelectMsg p ?s1"
  let ?s3 = "coordination_step CoordinatorSelectMsg p (?s2\<lparr>bl_pending := None\<rparr>)"
  have 1: "bully_step ?s0 ?s1"
    by (rule bully_step.election_timeout) (simp add: bully_start_def elect_start_def)
  have idle: "bl_pending ?s1 = None" "\<not> bl_stuck ?s1" "\<not> bl_electing ?s1" "bl_coordinator ?s1 = host"
    "bl_sorted ?s1 = GetPeerIDs (SortPeersForSession lib peers sessionID)" "bl_host ?s1 = host"
    by (simp_all add: elect_timeout_def setCoordinator_def bully_start_def elect_start_def Let_def)
  have 2: "bully_step ?s1 ?s2" by (rule bully_step.listen) (use idle in simp_all)
  have s2: "?s2 = ?s1\<lparr>bl_pending := Some (CoordinatorSelectMsg, p)\<rparr>"
    by (simp add: listen_step_def message_type_defs)
  have 3: "bully_step ?s2 ?s3"
    by (rule bully_step.receive) (simp_all add: s2 idle)
  have "bl_coordinator ?s3 = p"
    unfolding s2 using assms idle
    by (simp add: coordination_step_def setCoordinator_def)
  moreover have "bully_step\<^sup>*\<^sup>* ?s0 ?s3" using 1 2 3 by (meson converse_rtranclp_into_rtranclp rtranclp.rtrancl_refl)
  ultimately show ?thesis unfolding BullyCoordinator_def by blast
qed

theorem bully_coordinator_not_lower_witness:
  "BullyCoordinator example_hash ''-1'' ''a'' [''a'', ''b''] ''b'' \<and>
   isPeerIDHigher (GetPeerIDs (SortPeersForSession example_hash [''a'', ''b''] ''-1'')) ''b'' ''a''"
proof -
  have "isPeerIDHigher (GetPeerIDs (SortPeersForSession example_hash [''a'', ''b''] ''-1'')) ''b'' ''a''"
    by (simp add: isPeerIDHigher_def GetPeerIDs_def SortPeersForSession_def toPeerMsg_def peerHash_def
        example_hash_def SetBytes_def)
  then have "BullyCoordinator example_hash ''-1'' ''a'' [''a'', ''b''] ''b''"
    by (rule bully_accepts_select)
  with bully_coordinator_not_lower [OF this] show ?thesis by simp
qed

text \<open>
  The answer of a higher peer is ignored: an alive message, which a relayer sends in
  reply to the election message of a lower one, changes nothing when it comes from a peer
  above the receiver; it is taken into account only when it comes from below.
\<close>

theorem bully_ignores_higher_alive:
  "(isPeerIDHigher (bl_sorted bc) sender (bl_host bc) \<longrightarrow> listen_step CoordinatorAliveMsg sender bc = bc) \<and>
   (isPeerIDHigher (bl_sorted bc) (bl_host bc) sender \<longrightarrow>
      listen_step CoordinatorAliveMsg sender bc = bc\<lparr>bl_alive := True\<rparr>)"
  by (auto simp: listen_step_def isPeerIDHigher_def)

definition example_bully :: bully where
  "example_bully = \<lparr>bl_host = ''b'', bl_sorted = [''a'', ''b'', ''c''], bl_coordinator = ''b'', bl_pending = None,
     bl_stuck = False, bl_alive = False, bl_electing = True, bl_sent = []\<rparr>"

theorem bully_ignores_higher_alive_witness:
  "isPeerIDHigher (bl_sorted example_bully) ''a'' (bl_host example_bully) \<and>
   listen_step CoordinatorAliveMsg ''a'' example_bully = example_bully \<and>
   bl_alive (listen_step CoordinatorAliveMsg ''c'' example_bully)"
proof -
  have "isPeerIDHigher (bl_sorted example_bully) ''a'' (bl_host example_bully)"
    "isPeerIDHigher (bl_sorted example_bully) (bl_host example_bully) ''c''"
    by (simp_all add: isPeerIDHigher_def example_bully_def)
  with bully_ignores_higher_alive [of example_bully "''a''"] bully_ignores_higher_alive [of example_bully "''c''"]
  show ?thesis by simp
qed

text \<open>
  The election can be won from outside: a peer that is not among the peers of the
  election is ranked like the first of them, so that its select message makes it the
  coordinator of every relayer that does not come first itself.
\<close>

theorem bully_elects_outsider:
  assumes "p \<notin> set peers"
    and "0 < last_index_from 0 0 host (GetPeerIDs (SortPeersForSession lib peers sessionID))"
  shows "BullyCoordinator lib sessionID host peers p"
proof (rule bully_accepts_select)
  have "p \<notin> set (GetPeerIDs (SortPeersForSession lib peers sessionID))"
    using assms(1) set_SortPeersForSession [of lib peers sessionID] by (simp add: GetPeerIDs_def)
  then show "isPeerIDHigher (GetPeerIDs (SortPeersForSession lib peers sessionID)) p host"
    using assms(2) by (simp add: isPeerIDHigher_def last_index_absent)
qed

theorem bully_elects_outsider_witness:
  "''c'' \<notin> set [''a'', ''b''] \<and> BullyCoordinator example_hash ''-1'' ''a'' [''a'', ''b''] ''c''"
  using bully_elects_outsider [of "''c''" "[''a'', ''b'']" "''a''" example_hash "''-1''"]
  by (simp add: GetPeerIDs_def SortPeersForSession_def toPeerMsg_def peerHash_def
      example_hash_def SetBytes_def)

end
