(* ===== verification/Keyshare.thy ===== *)
theory Keyshare
  imports Elector
begin

text \<open>
  The key share stores (\<open>keyshare/ecdsa.go\<close>, \<open>keyshare/frost.go\<close>): a file with one key share
  and a mutex around the tss processes that replace it. The JSON codec, the binary codec of
  curve points and scalars and the file system are arguments; locale \<open>keyshare_files\<close> states
  what is relied on, and locale \<open>keyshare_storer\<close> is the contract the tss processes use.
\<close>

section \<open>State\<close>

record keyshare_store =
  ks_locked :: bool
  ks_file :: "bytes option"

definition NewKeyshareStore :: "bytes option \<Rightarrow> keyshare_store" where
  "NewKeyshareStore file = \<lparr>ks_locked = False, ks_file = file\<rparr>"

text \<open>\<open>sync.Mutex.Lock\<close>: \<open>None\<close> while another process holds the lock.\<close>

definition LockKeyshare :: "keyshare_store \<Rightarrow> keyshare_store option" where
  "LockKeyshare ks = (if ks_locked ks then None else Some (ks\<lparr>ks_locked := True\<rparr>))"

text \<open>\<open>sync.Mutex.Unlock\<close> of an unlocked mutex is a fatal error.\<close>

definition UnlockKeyshare :: "keyshare_store \<Rightarrow> keyshare_store res" where
  "UnlockKeyshare ks =
     (if ks_locked ks then Inr (ks\<lparr>ks_locked := False\<rparr>)
      else Inl (Panic ''sync: unlock of unlocked mutex''))"

text \<open>What the file operations and codecs of the other packages do.\<close>

record 'v files =
  OpenTrunc :: "unit res"
  WriteFile :: "bytes \<Rightarrow> bytes \<times> unit res"
  MarshalJson :: "'v \<Rightarrow> bytes res"
  UnmarshalJson :: "bytes \<Rightarrow> 'v res"

section \<open>ECDSA key shares\<close>

record 'k ECDSAKeyshare =
  ek_Key :: 'k
  ek_Threshold :: int
  ek_Peers :: "peerID list"

definition NewECDSAKeyshare :: "'k \<Rightarrow> int \<Rightarrow> peerID list \<Rightarrow> 'k ECDSAKeyshare" where
  "NewECDSAKeyshare key threshold peers = \<lparr>ek_Key = key, ek_Threshold = threshold, ek_Peers = peers\<rparr>"

definition ECDSA_StoreKeyshare ::
  "'k ECDSAKeyshare files \<Rightarrow> keyshare_store \<Rightarrow> 'k ECDSAKeyshare \<Rightarrow> unit res \<times> keyshare_store" where
  "ECDSA_StoreKeyshare fs ks keyshare =
     (case OpenTrunc fs of
        Inl err \<Rightarrow> (Inl err, ks)
      | Inr _ \<Rightarrow>
          (let opened = ks\<lparr>ks_file := Some []\<rparr> in
           case MarshalJson fs keyshare of
             Inl err \<Rightarrow> (Inl err, opened)
           | Inr kb \<Rightarrow> (let (written, r) = WriteFile fs kb in (r, ks\<lparr>ks_file := Some written\<rparr>))))"

definition ECDSA_GetKeyshare ::
  "'k ECDSAKeyshare files \<Rightarrow> keyshare_store \<Rightarrow> 'k ECDSAKeyshare res" where
  "ECDSA_GetKeyshare fs ks =
     (case ks_file ks of
        None \<Rightarrow> Inl (Error ''error on reading keyshare file: no such file'')
      | Some kb \<Rightarrow>
     (case UnmarshalJson fs kb of
        Inl (Error err) \<Rightarrow> Inl (Error (''error on unmarshaling keyshare file: '' @ err))
      | Inl (Panic e) \<Rightarrow> Inl (Panic e)
      | Inr k \<Rightarrow> Inr k))"

section \<open>FROST key shares\<close>

text \<open>The taproot configuration with scalars of type \<open>'s\<close> and curve points of type \<open>'pt\<close>.\<close>

record ('s, 'pt) TaprootConfig =
  tc_ID :: string
  tc_Threshold :: int
  tc_PrivateShare :: 's
  tc_PublicKey :: bytes
  tc_ChainKey :: bytes
  tc_VerificationShares :: "(string \<times> 'pt) list"

record ('s, 'pt) FrostKeyshare =
  fk_Key :: "('s, 'pt) TaprootConfig"
  fk_Threshold :: int
  fk_Peers :: "peerID list"

record frostKey =
  fs_ID :: string
  fs_KeyThreshold :: int
  fs_PrivateShare :: bytes
  fs_PublicKey :: bytes
  fs_ChainKey :: bytes
  fs_VerificationShares :: "(string \<times> bytes) list"

record frostKeyshareStore =
  fst_Key :: frostKey
  fst_Threshold :: int
  fst_Peers :: "peerID list"

definition NewFrostKeyshare ::
  "('s, 'pt) TaprootConfig \<Rightarrow> int \<Rightarrow> peerID list \<Rightarrow> ('s, 'pt) FrostKeyshare" where
  "NewFrostKeyshare key threshold peers = \<lparr>fk_Key = key, fk_Threshold = threshold, fk_Peers = peers\<rparr>"

record ('s, 'pt) curve_codec =
  MarshalScalar :: "'s \<Rightarrow> bytes res"
  UnmarshalScalar :: "bytes \<Rightarrow> 's res"
  MarshalPoint :: "'pt \<Rightarrow> bytes res"
  UnmarshalPoint :: "bytes \<Rightarrow> 'pt res"

fun convert_shares :: "('a \<Rightarrow> 'b res) \<Rightarrow> (string \<times> 'a) list \<Rightarrow> (string \<times> 'b) list res" where
  "convert_shares f [] = Inr []"
| "convert_shares f ((i, x) # xs) =
     and_then (f x) (\<lambda>y. and_then (convert_shares f xs) (\<lambda>ys. Inr ((i, y) # ys)))"

definition frost_encode :: "('s, 'pt) curve_codec \<Rightarrow> ('s, 'pt) FrostKeyshare \<Rightarrow> frostKeyshareStore res" where
  "frost_encode cc keyshare =
     and_then (MarshalScalar cc (tc_PrivateShare (fk_Key keyshare))) (\<lambda>privateShareBytes.
     and_then (convert_shares (MarshalPoint cc) (tc_VerificationShares (fk_Key keyshare)))
       (\<lambda>verificationShares.
     Inr \<lparr>fst_Key = \<lparr>fs_ID = tc_ID (fk_Key keyshare), fs_KeyThreshold = tc_Threshold (fk_Key keyshare),
            fs_PrivateShare = privateShareBytes, fs_PublicKey = tc_PublicKey (fk_Key keyshare),
            fs_ChainKey = tc_ChainKey (fk_Key keyshare), fs_VerificationShares = verificationShares\<rparr>,
          fst_Threshold = fk_Threshold keyshare, fst_Peers = fk_Peers keyshare\<rparr>))"

definition frost_decode :: "('s, 'pt) curve_codec \<Rightarrow> frostKeyshareStore \<Rightarrow> ('s, 'pt) FrostKeyshare res" where
  "frost_decode cc fStore =
     and_then (UnmarshalScalar cc (fs_PrivateShare (fst_Key fStore))) (\<lambda>privateShare.
     and_then (convert_shares (UnmarshalPoint cc) (fs_VerificationShares (fst_Key fStore)))
       (\<lambda>verificationShares.
     Inr \<lparr>fk_Key = \<lparr>tc_ID = fs_ID (fst_Key fStore), tc_Threshold = fs_KeyThreshold (fst_Key fStore),
            tc_PrivateShare = privateShare, tc_PublicKey = fs_PublicKey (fst_Key fStore),
            tc_ChainKey = fs_ChainKey (fst_Key fStore), tc_VerificationShares = verificationShares\<rparr>,
          fk_Threshold = fst_Threshold fStore, fk_Peers = fst_Peers fStore\<rparr>))"

definition Frost_StoreKeyshare ::
  "frostKeyshareStore files \<Rightarrow> ('s, 'pt) curve_codec \<Rightarrow> keyshare_store \<Rightarrow> ('s, 'pt) FrostKeyshare
     \<Rightarrow> unit res \<times> keyshare_store" where
  "Frost_StoreKeyshare fs cc ks keyshare =
     (case OpenTrunc fs of
        Inl err \<Rightarrow> (Inl err, ks)
      | Inr _ \<Rightarrow>
          (let opened = ks\<lparr>ks_file := Some []\<rparr> in
           case and_then (frost_encode cc keyshare) (MarshalJson fs) of
             Inl err \<Rightarrow> (Inl err, opened)
           | Inr kb \<Rightarrow> (let (written, r) = WriteFile fs kb in (r, ks\<lparr>ks_file := Some written\<rparr>))))"

definition Frost_GetKeyshare ::
  "frostKeyshareStore files \<Rightarrow> ('s, 'pt) curve_codec \<Rightarrow> keyshare_store \<Rightarrow> ('s, 'pt) FrostKeyshare res" where
  "Frost_GetKeyshare fs cc ks =
     (case ks_file ks of
        None \<Rightarrow> Inl (Error ''error on reading keyshare file: no such file'')
      | Some kb \<Rightarrow>
     (case UnmarshalJson fs kb of
        Inl (Error err) \<Rightarrow> Inl (Error (''error on unmarshaling keyshare file: '' @ err))
      | Inl (Panic e) \<Rightarrow> Inl (Panic e)
      | Inr fStore \<Rightarrow> frost_decode cc fStore))"

section \<open>The contract of a key share store\<close>

locale keyshare_storer =
  fixes get :: "keyshare_store \<Rightarrow> 'k res"
    and put :: "keyshare_store \<Rightarrow> 'k \<Rightarrow> unit res \<times> keyshare_store"
  assumes get_put: "put ks k = (Inr (), ks') \<Longrightarrow> get ks' = Inr k"
    and put_keeps_lock: "put ks k = (r, ks') \<Longrightarrow> ks_locked ks' = ks_locked ks"

text \<open>What the stores rely on: JSON round trips, and a successful write writes everything.\<close>

locale keyshare_files =
  fixes fs :: "'v files"
  assumes json_roundtrip: "MarshalJson fs v = Inr b \<Longrightarrow> UnmarshalJson fs b = Inr v"
    and full_write: "WriteFile fs b = (w, Inr ()) \<Longrightarrow> w = b"

locale curve_codecs =
  fixes cc :: "('s, 'pt) curve_codec"
  assumes scalar_roundtrip: "MarshalScalar cc s = Inr b \<Longrightarrow> UnmarshalScalar cc b = Inr s"
    and point_roundtrip: "MarshalPoint cc p = Inr b \<Longrightarrow> UnmarshalPoint cc b = Inr p"
begin

lemma convert_shares_roundtrip:
  "convert_shares (MarshalPoint cc) xs = Inr ys \<Longrightarrow> convert_shares (UnmarshalPoint cc) ys = Inr xs"
proof (induction xs arbitrary: ys)
  case (Cons x xs)
  then show ?case by (cases x) (auto dest: point_roundtrip)
qed simp

lemma frost_roundtrip: "frost_encode cc k = Inr st \<Longrightarrow> frost_decode cc st = Inr k"
  by (auto simp: frost_encode_def frost_decode_def scalar_roundtrip convert_shares_roundtrip)

end

locale ecdsa_files = keyshare_files fs for fs :: "'k ECDSAKeyshare files"

sublocale ecdsa_files \<subseteq> ecdsa: keyshare_storer "ECDSA_GetKeyshare fs" "ECDSA_StoreKeyshare fs"
proof unfold_locales
  fix ks k ks'
  assume "ECDSA_StoreKeyshare fs ks k = (Inr (), ks')"
  then obtain kb where "MarshalJson fs k = Inr kb" "ks_file ks' = Some kb"
    by (auto simp: ECDSA_StoreKeyshare_def Let_def dest: full_write split: sum.splits prod.splits)
  then show "ECDSA_GetKeyshare fs ks' = Inr k"
    by (simp add: ECDSA_GetKeyshare_def json_roundtrip)
next
  fix ks k r ks'
  assume "ECDSA_StoreKeyshare fs ks k = (r, ks')"
  then show "ks_locked ks' = ks_locked ks"
    by (auto simp: ECDSA_StoreKeyshare_def Let_def split: sum.splits prod.splits)
qed

locale frost_files = keyshare_files fs + curve_codecs cc
  for fs :: "frostKeyshareStore files" and cc :: "('s, 'pt) curve_codec"

sublocale frost_files \<subseteq> frost: keyshare_storer "Frost_GetKeyshare fs cc" "Frost_StoreKeyshare fs cc"
proof unfold_locales
  fix ks k ks'
  assume "Frost_StoreKeyshare fs cc ks k = (Inr (), ks')"
  then obtain st kb where "frost_encode cc k = Inr st" "MarshalJson fs st = Inr kb" "ks_file ks' = Some kb"
    by (auto simp: Frost_StoreKeyshare_def Let_def dest: full_write split: sum.splits prod.splits)
  then show "Frost_GetKeyshare fs cc ks' = Inr k"
    by (simp add: Frost_GetKeyshare_def json_roundtrip frost_roundtrip)
next
  fix ks k r ks'
  assume "Frost_StoreKeyshare fs cc ks k = (r, ks')"
  then show "ks_locked ks' = ks_locked ks"
    by (auto simp: Frost_StoreKeyshare_def Let_def split: sum.splits prod.splits)
qed

context frost_files
begin

lemma frost_get_put: "Frost_StoreKeyshare fs cc ks k = (Inr (), ks') \<Longrightarrow> Frost_GetKeyshare fs cc ks' = Inr k"
  by (rule frost.get_put)

end

context ecdsa_files
begin

lemma ecdsa_get_put: "ECDSA_StoreKeyshare fs ks k = (Inr (), ks') \<Longrightarrow> ECDSA_GetKeyshare fs ks' = Inr k"
  by (rule ecdsa.get_put)

end

section \<open>Properties\<close>

text \<open>A file system and codecs for examples, which know a single key share.\<close>

definition single_files :: "'v \<Rightarrow> 'v files" where
  "single_files v = \<lparr>OpenTrunc = Inr (), WriteFile = (\<lambda>b. (b, Inr ())),
     MarshalJson = (\<lambda>v'. if v' = v then Inr [1] else Inl (Error ''unsupported value'')),
     UnmarshalJson = (\<lambda>b. if b = [1] then Inr v else Inl (Error ''unexpected end of JSON input''))\<rparr>"

definition byte_codec :: "(byte, byte) curve_codec" where
  "byte_codec = \<lparr>MarshalScalar = (\<lambda>s. Inr [s]),
     UnmarshalScalar = (\<lambda>b. if b = [] then Inl (Error ''short'') else Inr (hd b)),
     MarshalPoint = (\<lambda>s. Inr [s]),
     UnmarshalPoint = (\<lambda>b. if b = [] then Inl (Error ''short'') else Inr (hd b))\<rparr>"

lemma keyshare_files_single: "keyshare_files (single_files v)"
  by unfold_locales (auto simp: single_files_def split: if_splits)

interpretation example_ecdsa: ecdsa_files "single_files v" for v :: "'k ECDSAKeyshare"
  by (simp add: ecdsa_files_def keyshare_files_single)

interpretation example_frost: frost_files "single_files v" byte_codec for v
  by (simp add: frost_files_def keyshare_files_single curve_codecs_def byte_codec_def)

definition example_taproot :: "(byte, byte) FrostKeyshare" where
  "example_taproot = NewFrostKeyshare \<lparr>tc_ID = ''a'', tc_Threshold = 1, tc_PrivateShare = 7,
     tc_PublicKey = [1, 2], tc_ChainKey = [3], tc_VerificationShares = [(''a'', 4), (''b'', 5)]\<rparr> 1 [''a'', ''b'']"

definition example_frost_file :: "frostKeyshareStore files" where
  "example_frost_file = single_files (projr (frost_encode byte_codec example_taproot))"

text \<open>
  A FROST key share that was stored is read back unchanged: the identity, both
  thresholds, the private share, the public and chain keys, every verification share and
  the committee survive the conversion to the file format and back, given that JSON and the
  curve codecs round-trip and that a successful write is complete.
\<close>

theorem frost_keyshare_roundtrip:
  assumes "frost_files fs cc" "Frost_StoreKeyshare fs cc ks k = (Inr (), ks')"
  shows "Frost_GetKeyshare fs cc ks' = Inr k"
  using frost_files.frost_get_put [OF assms] .

theorem frost_keyshare_roundtrip_witness:
  "Frost_GetKeyshare example_frost_file byte_codec
     (snd (Frost_StoreKeyshare example_frost_file byte_codec (NewKeyshareStore None) example_taproot))
     = Inr example_taproot"
proof (rule frost_keyshare_roundtrip)
  show "frost_files example_frost_file byte_codec"
    unfolding example_frost_file_def by (rule example_frost.frost_files_axioms)
  have "is_ok (frost_encode byte_codec example_taproot)"
    by (simp add: frost_encode_def byte_codec_def example_taproot_def NewFrostKeyshare_def)
  then obtain st where st: "frost_encode byte_codec example_taproot = Inr st"
    by (auto simp: is_ok_def split: sum.splits)
  then show "Frost_StoreKeyshare example_frost_file byte_codec (NewKeyshareStore None) example_taproot =
      (Inr (), snd (Frost_StoreKeyshare example_frost_file byte_codec (NewKeyshareStore None) example_taproot))"
    by (simp add: Frost_StoreKeyshare_def example_frost_file_def single_files_def)
qed

text \<open>
  Storing a key share is not atomic: the file is truncated before the new share is
  encoded, so when the encoding fails, the share that was stored before is gone, and reading
  it back gives an error. The other two failures keep it: a file that cannot be opened stays
  as it was.
\<close>

theorem failed_store_loses_keyshare:
  assumes "OpenTrunc fs = Inr ()" "MarshalJson fs k = Inl err" "\<not> is_ok (UnmarshalJson fs [])"
  shows "ECDSA_StoreKeyshare fs ks k = (Inl err, ks\<lparr>ks_file := Some []\<rparr>) \<and>
     \<not> is_ok (ECDSA_GetKeyshare fs (snd (ECDSA_StoreKeyshare fs ks k)))"
  using assms
  by (auto simp: ECDSA_StoreKeyshare_def ECDSA_GetKeyshare_def is_ok_def split: sum.splits go_error.splits)

theorem failed_store_loses_keyshare_witness:
  "let old = NewECDSAKeyshare () 1 [''a'', ''b'']; fs = single_files old;
       ks = snd (ECDSA_StoreKeyshare fs (NewKeyshareStore None) old)
   in ECDSA_GetKeyshare fs ks = Inr old \<and>
      \<not> is_ok (ECDSA_GetKeyshare fs (snd (ECDSA_StoreKeyshare fs ks (NewECDSAKeyshare () 2 []))))"
proof -
  let ?old = "NewECDSAKeyshare () 1 [''a'', ''b'']"
  let ?fs = "single_files ?old"
  have "ECDSA_GetKeyshare ?fs (snd (ECDSA_StoreKeyshare ?fs (NewKeyshareStore None) ?old)) = Inr ?old"
    by (simp add: ECDSA_StoreKeyshare_def ECDSA_GetKeyshare_def single_files_def)
  moreover have "MarshalJson ?fs (NewECDSAKeyshare () 2 []) = Inl (Error ''unsupported value'')"
    by (simp add: single_files_def NewECDSAKeyshare_def)
  moreover have "OpenTrunc ?fs = Inr ()" "\<not> is_ok (UnmarshalJson ?fs [])"
    by (simp_all add: single_files_def)
  ultimately show ?thesis
    using failed_store_loses_keyshare [of ?fs "NewECDSAKeyshare () 2 []" "Error ''unsupported value''"]
    unfolding Let_def by blast
qed

end
