(* ===== verification/Tss.thy ===== *)
theory Tss
  imports Keyshare "HOL-Library.List_Lexorder" "HOL-Library.Char_ord"
begin

text \<open>
  The threshold signature processes (\<open>tss/ecdsa\<close>, \<open>tss/frost\<close>, \<open>tss/message\<close>): which peers take
  part, when a process is ready, what the coordinator sends to start it, the checks on the
  start parameters, the message loops around the tss library and what is stored at the end.
  The cryptography (tss-lib, multi-party-sig), JSON and the libp2p identifier codec are
  arguments; a \<open>select\<close> loop is a function of the events it receives.
\<close>

section \<open>Errors and messages\<close>

record party =
  pt_Id :: string
  pt_Moniker :: string
  pt_Key :: nat
  pt_Index :: int

text \<open>The error types the coordinator distinguishes (\<open>tss/errors.go\<close>, \<open>comm/errors.go\<close>, tss-lib).\<close>

datatype tss_error =
    CoordinatorError peerID
  | SubsetError peerID
  | CommError peerID string
  | TssLibError "party list"
  | OtherError string

type_synonym 'a tres = "tss_error + 'a"

definition str_bytes :: "string \<Rightarrow> bytes" where
  "str_bytes s = map (\<lambda>c. word_of_nat (of_char c)) s"

record tss_lib =
  NewPartyID :: "string \<Rightarrow> string \<Rightarrow> nat \<Rightarrow> party"
  SortPartyIDs :: "party list \<Rightarrow> party list"
  DecodePeer :: "string \<Rightarrow> peerID tres"
  PeerString :: "peerID \<Rightarrow> string"

record TssMessage =
  tmsg_MsgBytes :: bytes
  tmsg_IsBroadcast :: bool

record StartMessage =
  smsg_Params :: bytes

definition MarshalTssMessage :: "(TssMessage \<Rightarrow> bytes tres) \<Rightarrow> bytes \<Rightarrow> bool \<Rightarrow> bytes tres" where
  "MarshalTssMessage Marshal msgBytes isBroadcast =
     Marshal \<lparr>tmsg_MsgBytes = msgBytes, tmsg_IsBroadcast = isBroadcast\<rparr>"

definition UnmarshalTssMessage :: "(bytes \<Rightarrow> TssMessage tres) \<Rightarrow> bytes \<Rightarrow> TssMessage tres" where
  "UnmarshalTssMessage Unmarshal msgBytes = Unmarshal msgBytes"

definition MarshalStartMessage :: "(StartMessage \<Rightarrow> bytes tres) \<Rightarrow> bytes \<Rightarrow> bytes tres" where
  "MarshalStartMessage Marshal params = Marshal \<lparr>smsg_Params = params\<rparr>"

definition UnmarshalStartMessage :: "(bytes \<Rightarrow> StartMessage tres) \<Rightarrow> bytes \<Rightarrow> StartMessage tres" where
  "UnmarshalStartMessage Unmarshal msgBytes = Unmarshal msgBytes"

section \<open>Peers and parties\<close>

definition CreatePartyID :: "tss_lib \<Rightarrow> string \<Rightarrow> party" where
  "CreatePartyID lib peerID = NewPartyID lib peerID peerID (SetBytes (str_bytes peerID))"

fun PeersFromParties :: "tss_lib \<Rightarrow> party list \<Rightarrow> peerID list tres" where
  "PeersFromParties lib [] = Inr []"
| "PeersFromParties lib (party # parties) =
     and_then (DecodePeer lib (pt_Id party)) (\<lambda>p.
     and_then (PeersFromParties lib parties) (\<lambda>ps. Inr (p # ps)))"

definition PartiesFromPeers :: "tss_lib \<Rightarrow> peerID list \<Rightarrow> party list" where
  "PartiesFromPeers lib peers = SortPartyIDs lib (map (\<lambda>p. CreatePartyID lib (PeerString lib p)) peers)"

fun PeersFromIDS :: "tss_lib \<Rightarrow> string list \<Rightarrow> peerID list tres" where
  "PeersFromIDS lib [] = Inr []"
| "PeersFromIDS lib (i # ids) =
     and_then (DecodePeer lib i) (\<lambda>p. and_then (PeersFromIDS lib ids) (\<lambda>ps. Inr (p # ps)))"

definition ExcludePeers :: "peerID list \<Rightarrow> peerID list \<Rightarrow> peerID list" where
  "ExcludePeers peers excludedPeers = filter (\<lambda>p. p \<notin> set excludedPeers) peers"

definition PeersIntersection :: "peerID list \<Rightarrow> peerID list \<Rightarrow> peerID list" where
  "PeersIntersection oldPeers newPeers = filter (\<lambda>p. p \<in> set newPeers) oldPeers"

definition PopulatePartyStore :: "(string \<rightharpoonup> party) \<Rightarrow> party list \<Rightarrow> (string \<rightharpoonup> party)" where
  "PopulatePartyStore store parties = fold (\<lambda>p st. st(pt_Id p \<mapsto> p)) parties store"

section \<open>The message loops of a process\<close>

datatype 'e loop_event = Event 'e | CtxDone

text \<open>
  Inbound messages go to the local party, in the name of the party registered for the
  sender, or of none. The result is \<open>None\<close> while the loop waits.
\<close>

fun ProcessInboundMessages ::
  "(bytes \<Rightarrow> TssMessage tres) \<Rightarrow> (peerID \<Rightarrow> string) \<Rightarrow>
   ('st \<Rightarrow> bytes \<Rightarrow> party option \<Rightarrow> bool \<Rightarrow> nat \<Rightarrow> unit tres \<times> 'st) \<Rightarrow> string \<Rightarrow> (string \<rightharpoonup> party) \<Rightarrow>
   'st \<Rightarrow> peerID WrappedMessage loop_event list \<Rightarrow> unit tres option \<times> 'st" where
  "ProcessInboundMessages Unmarshal pretty Update SID PartyStore st [] = (None, st)"
| "ProcessInboundMessages Unmarshal pretty Update SID PartyStore st (CtxDone # es) = (Some (Inr ()), st)"
| "ProcessInboundMessages Unmarshal pretty Update SID PartyStore st (Event wMsg # es) =
     (case UnmarshalTssMessage Unmarshal (w_Payload wMsg) of
        Inl err \<Rightarrow> (Some (Inl err), st)
      | Inr msg \<Rightarrow>
     (case Update st (tmsg_MsgBytes msg) (PartyStore (pretty (w_From wMsg))) (tmsg_IsBroadcast msg)
             (SetBytes (str_bytes SID)) of
        (Inl err, st') \<Rightarrow> (Some (Inl err), st')
      | (Inr _, st') \<Rightarrow> ProcessInboundMessages Unmarshal pretty Update SID PartyStore st' es))"

record out_message =
  om_WireBytes :: "(bytes \<times> bool) tres"
  om_IsBroadcast :: bool
  om_To :: "party list"

definition BroadcastPeers :: "tss_lib \<Rightarrow> peerID list \<Rightarrow> out_message \<Rightarrow> peerID list tres" where
  "BroadcastPeers lib Peers msg =
     (if om_IsBroadcast msg then Inr Peers else PeersFromParties lib (om_To msg))"

text \<open>The messages put on the network; \<open>send\<close> is the broadcast of the communication layer.\<close>

fun ProcessOutboundMessages ::
  "tss_lib \<Rightarrow> (TssMessage \<Rightarrow> bytes tres) \<Rightarrow> (peerID list \<Rightarrow> bytes \<Rightarrow> MessageType \<Rightarrow> string \<Rightarrow> unit tres) \<Rightarrow>
   peerID list \<Rightarrow> string \<Rightarrow> MessageType \<Rightarrow> out_message loop_event list \<Rightarrow>
   unit tres option \<times> (peerID list \<times> bytes) list" where
  "ProcessOutboundMessages lib Marshal send Peers SID messageType [] = (None, [])"
| "ProcessOutboundMessages lib Marshal send Peers SID messageType (CtxDone # es) = (Some (Inr ()), [])"
| "ProcessOutboundMessages lib Marshal send Peers SID messageType (Event msg # es) =
     (case and_then (om_WireBytes msg) (\<lambda>(wireBytes, isBroadcast).
           and_then (MarshalTssMessage Marshal wireBytes isBroadcast) (\<lambda>msgBytes.
           and_then (BroadcastPeers lib Peers msg) (\<lambda>peers. Inr (peers, msgBytes)))) of
        Inl err \<Rightarrow> (Some (Inl err), [])
      | Inr (peers, msgBytes) \<Rightarrow>
     (case send peers msgBytes messageType SID of
        Inl err \<Rightarrow> (Some (Inl err), [(peers, msgBytes)])
      | Inr _ \<Rightarrow>
          (let (r, out) = ProcessOutboundMessages lib Marshal send Peers SID messageType es
           in (r, (peers, msgBytes) # out))))"

section \<open>ECDSA signing\<close>

record 'k Signing =
  sg_host :: peerID
  sg_SID :: string
  sg_Peers :: "peerID list"
  sg_key :: "'k ECDSAKeyshare"
  sg_msg :: nat
  sg_coordinator :: bool
  sg_PartyStore :: "string \<rightharpoonup> party"

text \<open>
  The constructor takes the key share lock while it reads the key share; it waits (\<open>None\<close>)
  while keygen or resharing holds it.
\<close>

definition NewSigning ::
  "(keyshare_store \<Rightarrow> 'k ECDSAKeyshare res) \<Rightarrow> keyshare_store \<Rightarrow> nat \<Rightarrow> string \<Rightarrow> peerID \<Rightarrow>
   ('k Signing res \<times> keyshare_store) option" where
  "NewSigning GetKeyshare ks msg sessionID host =
     (case LockKeyshare ks of
        None \<Rightarrow> None
      | Some locked \<Rightarrow>
          Some (and_then (GetKeyshare locked) (\<lambda>key.
                  Inr \<lparr>sg_host = host, sg_SID = sessionID, sg_Peers = ek_Peers key, sg_key = key,
                       sg_msg = msg, sg_coordinator = False, sg_PartyStore = Map.empty\<rparr>),
                case UnlockKeyshare locked of Inr ks' \<Rightarrow> ks' | Inl _ \<Rightarrow> locked))"

definition Signing_readyParticipants :: "'k Signing \<Rightarrow> peerID list \<Rightarrow> peerID list" where
  "Signing_readyParticipants s readyPeers = filter (\<lambda>p. p \<in> set (ek_Peers (sg_key s))) readyPeers"

definition Signing_Ready :: "'k Signing \<Rightarrow> peerID list \<Rightarrow> peerID list \<Rightarrow> bool tres" where
  "Signing_Ready s readyPeers excludedPeers =
     Inr (int (length (Signing_readyParticipants s readyPeers)) = ek_Threshold (sg_key s) + 1)"

definition Signing_ValidCoordinators :: "'k Signing \<Rightarrow> peerID list" where
  "Signing_ValidCoordinators s = ek_Peers (sg_key s)"

text \<open>The loop that fills the subset up to \<open>n\<close> peers.\<close>

fun fill_subset :: "int \<Rightarrow> peerID list \<Rightarrow> peerID list \<Rightarrow> peerID list" where
  "fill_subset n acc [] = acc"
| "fill_subset n acc (p # ps) =
     (if int (length (acc @ [p])) = n then acc @ [p] else fill_subset n (acc @ [p]) ps)"

definition Signing_subset :: "peer_hash \<Rightarrow> 'k Signing \<Rightarrow> peerID list \<Rightarrow> peerID list" where
  "Signing_subset h s readyPeers =
     fill_subset (ek_Threshold (sg_key s) + 1) []
       (GetPeerIDs (SortPeersForSession h (Signing_readyParticipants s readyPeers) (sg_SID s)))"

definition Signing_StartParams ::
  "peer_hash \<Rightarrow> (peerID list \<Rightarrow> bytes) \<Rightarrow> 'k Signing \<Rightarrow> peerID list \<Rightarrow> bytes" where
  "Signing_StartParams h Marshal s readyPeers = Marshal (Signing_subset h s readyPeers)"

definition Signing_unmarshallStartParams ::
  "(bytes \<Rightarrow> peerID list tres) \<Rightarrow> bytes \<Rightarrow> peerID list tres" where
  "Signing_unmarshallStartParams Unmarshal paramBytes = Unmarshal paramBytes"

text \<open>
  \<open>Run\<close> up to the start of the local party: the process with its peers fixed to the subset and
  its parties' store, to which a repeated run adds, and the sorted parties that the tss library is
  started with.
\<close>

definition Signing_Run ::
  "peer_hash \<Rightarrow> tss_lib \<Rightarrow> (bytes \<Rightarrow> peerID list tres) \<Rightarrow> bool \<Rightarrow> bytes \<Rightarrow> 'k Signing \<Rightarrow>
   ('k Signing \<times> party list) tres" where
  "Signing_Run h lib Unmarshal coordinator params s =
     and_then (Signing_unmarshallStartParams Unmarshal params) (\<lambda>peerSubset.
     if \<not> IsParticipant h (sg_host s) peerSubset then Inl (SubsetError (sg_host s))
     else
       (let parties = PartiesFromPeers lib peerSubset
        in Inr (s\<lparr>sg_coordinator := coordinator, sg_Peers := peerSubset,
                  sg_PartyStore := PopulatePartyStore (sg_PartyStore s) parties\<rparr>, parties)))"

text \<open>What the end of the protocol puts on the result channel: the signature, or nil.\<close>

definition Signing_processEndMessage :: "'k Signing \<Rightarrow> 'sig loop_event \<Rightarrow> 'sig option option" where
  "Signing_processEndMessage s e =
     (case e of
        CtxDone \<Rightarrow> None
      | Event sig \<Rightarrow> Some (if sg_coordinator s then Some sig else None))"

text \<open>The monitor compares what the party waits for at two consecutive ticks.\<close>

fun monitorSigning :: "'w list \<Rightarrow> 'w list loop_event list \<Rightarrow> unit tres option" where
  "monitorSigning waitingFor [] = None"
| "monitorSigning waitingFor (CtxDone # es) = Some (Inr ())"
| "monitorSigning waitingFor (Event current # es) =
     (if waitingFor \<noteq> [] \<and> current = waitingFor then Some (Inl (CommError '''' ''waiting for peers''))
      else monitorSigning current es)"

definition Signing_Retryable :: bool where "Signing_Retryable = True"

section \<open>ECDSA key generation\<close>

record Keygen =
  kg_host :: peerID
  kg_SID :: string
  kg_Peers :: "peerID list"
  kg_threshold :: int

definition NewKeygen :: "string \<Rightarrow> int \<Rightarrow> peerID \<Rightarrow> peerID list \<Rightarrow> Keygen" where
  "NewKeygen sessionID threshold host peerstore =
     \<lparr>kg_host = host, kg_SID = sessionID, kg_Peers = peerstore, kg_threshold = threshold\<rparr>"

text \<open>
  \<open>Run\<close> takes the key share lock and builds the parties from the peer store as it is then.
  \<open>None\<close>: the lock is held by somebody else.
\<close>

definition Keygen_Run ::
  "tss_lib \<Rightarrow> peerID list \<Rightarrow> keyshare_store \<Rightarrow> Keygen \<Rightarrow>
   (keyshare_store \<times> party list \<times> (string \<rightharpoonup> party)) option" where
  "Keygen_Run lib peerstore ks k =
     (case LockKeyshare ks of
        None \<Rightarrow> None
      | Some locked \<Rightarrow>
          (let parties = PartiesFromPeers lib peerstore
           in Some (locked, parties, PopulatePartyStore Map.empty parties)))"

definition Keygen_Stop :: "keyshare_store \<Rightarrow> keyshare_store res" where
  "Keygen_Stop ks = UnlockKeyshare ks"

definition Keygen_Ready :: "peerID list \<Rightarrow> peerID list \<Rightarrow> peerID list \<Rightarrow> bool tres" where
  "Keygen_Ready peerstore readyPeers excludedPeers =
     (if 0 < length excludedPeers then Inl (OtherError ''error'')
      else Inr (length readyPeers = length peerstore))"

definition Keygen_ValidCoordinators :: "peerID list \<Rightarrow> peerID list" where
  "Keygen_ValidCoordinators peerstore = peerstore"

definition Keygen_StartParams :: "peerID list \<Rightarrow> bytes" where
  "Keygen_StartParams readyPeers = []"

definition Keygen_processEndMessage ::
  "(keyshare_store \<Rightarrow> 'k ECDSAKeyshare \<Rightarrow> unit res \<times> keyshare_store) \<Rightarrow> keyshare_store \<Rightarrow> Keygen \<Rightarrow>
   'k loop_event \<Rightarrow> unit res \<times> keyshare_store" where
  "Keygen_processEndMessage StoreKeyshare ks k e =
     (case e of
        CtxDone \<Rightarrow> (Inr (), ks)
      | Event key \<Rightarrow> StoreKeyshare ks (NewECDSAKeyshare key (kg_threshold k) (kg_Peers k)))"

definition Keygen_Retryable :: bool where "Keygen_Retryable = False"

section \<open>ECDSA resharing\<close>

record startParams =
  sp_OldThreshold :: int
  sp_OldSubset :: "peerID list"

record 'k Resharing =
  rs_host :: peerID
  rs_SID :: string
  rs_Peers :: "peerID list"
  rs_key :: "'k ECDSAKeyshare"
  rs_newThreshold :: int

text \<open>The constructor takes the lock and keeps it; a relayer without a key share has an empty one.\<close>

definition NewResharing ::
  "(keyshare_store \<Rightarrow> 'k ECDSAKeyshare res) \<Rightarrow> 'k \<Rightarrow> keyshare_store \<Rightarrow> string \<Rightarrow> int \<Rightarrow> peerID \<Rightarrow> peerID list \<Rightarrow>
   ('k Resharing \<times> keyshare_store) option" where
  "NewResharing GetKeyshare emptyKey ks sessionID threshold host peerstore =
     (case LockKeyshare ks of
        None \<Rightarrow> None
      | Some locked \<Rightarrow>
          Some (\<lparr>rs_host = host, rs_SID = sessionID, rs_Peers = peerstore,
                  rs_key = (case GetKeyshare locked of
                      Inl _ \<Rightarrow> \<lparr>ek_Key = emptyKey, ek_Threshold = 0, ek_Peers = []\<rparr>
                    | Inr key \<Rightarrow> key),
                  rs_newThreshold = threshold\<rparr>, locked))"

definition Resharing_Stop :: "keyshare_store \<Rightarrow> keyshare_store res" where
  "Resharing_Stop ks = UnlockKeyshare ks"

definition Resharing_Ready :: "peerID list \<Rightarrow> peerID list \<Rightarrow> peerID list \<Rightarrow> bool tres" where
  "Resharing_Ready peerstore readyPeers excludedPeers = Inr (length readyPeers = length peerstore)"

definition Resharing_ValidCoordinators :: "peer_hash \<Rightarrow> peerID list \<Rightarrow> 'k Resharing \<Rightarrow> peerID list" where
  "Resharing_ValidCoordinators h peerstore r =
     filter (\<lambda>p. \<exists>q \<in> set (ek_Peers (rs_key r)). Pretty h q = Pretty h p) peerstore"

definition Resharing_StartParams ::
  "(startParams \<Rightarrow> bytes) \<Rightarrow> peerID list \<Rightarrow> 'k Resharing \<Rightarrow> peerID list \<Rightarrow> bytes" where
  "Resharing_StartParams Marshal peerstore r readyPeers =
     Marshal \<lparr>sp_OldThreshold = ek_Threshold (rs_key r),
       sp_OldSubset = PeersIntersection (ek_Peers (rs_key r)) peerstore\<rparr>"

text \<open>
  The check sorts the received subset and the peers of the key share in place; both sorted
  slices are visible to the caller.
\<close>

definition validateStartParams ::
  "peerID list \<Rightarrow> 'k Resharing \<Rightarrow> startParams \<Rightarrow> (startParams \<times> 'k Resharing) tres" where
  "validateStartParams peerstore r params =
     (if sp_OldThreshold params \<le> 0 then Inl (OtherError ''threshold too small'')
      else if int (length (sp_OldSubset params)) < sp_OldThreshold params
        then Inl (OtherError ''threshold bigger then subset'')
      else
        (let params' = params\<lparr>sp_OldSubset := sort (sp_OldSubset params)\<rparr>;
             keyPeers = sort (ek_Peers (rs_key r));
             r' = r\<lparr>rs_key := (rs_key r)\<lparr>ek_Peers := keyPeers\<rparr>\<rparr>
         in if length keyPeers \<noteq> 0 \<and> sp_OldSubset params' \<noteq> PeersIntersection keyPeers peerstore
            then Inl (OtherError ''invalid peers subset in start params'')
            else Inr (params', r')))"

definition Resharing_unmarshallStartParams ::
  "(bytes \<Rightarrow> startParams tres) \<Rightarrow> peerID list \<Rightarrow> 'k Resharing \<Rightarrow> bytes \<Rightarrow> (startParams \<times> 'k Resharing) tres" where
  "Resharing_unmarshallStartParams Unmarshal peerstore r paramBytes =
     and_then (Unmarshal paramBytes) (\<lambda>params. validateStartParams peerstore r params)"

text \<open>
  \<open>sortParties\<close>: the old parties keep the front of the slice, every other party gets the next
  index. Writing behind the end of the slice panics.
\<close>

fun place_parties ::
  "peer_hash \<Rightarrow> tss_lib \<Rightarrow> peerID list \<Rightarrow> party list \<Rightarrow> nat \<Rightarrow> party list \<Rightarrow> party list res" where
  "place_parties h lib oldPeers acc index [] = Inr acc"
| "place_parties h lib oldPeers acc index (party # parties) =
     (let peerID = (case DecodePeer lib (pt_Id party) of Inr p \<Rightarrow> p | Inl _ \<Rightarrow> '''') in
      if IsParticipant h peerID oldPeers then place_parties h lib oldPeers acc index parties
      else if length acc \<le> index then Inl (Panic ''index out of range'')
      else place_parties h lib oldPeers (acc[index := party\<lparr>pt_Index := int index\<rparr>]) (Suc index) parties)"

text \<open>
  The slice before the loop: as many places as there are parties, the first ones filled by
  \<open>copy\<close>; the places still empty hold the nil party.
\<close>

definition copied_parties :: "party \<Rightarrow> party list \<Rightarrow> party list \<Rightarrow> party list" where
  "copied_parties nilParty parties oldParties =
     take (length parties) oldParties @ replicate (length parties - length oldParties) nilParty"

definition sortParties ::
  "peer_hash \<Rightarrow> tss_lib \<Rightarrow> party \<Rightarrow> party list \<Rightarrow> party list \<Rightarrow> party list res" where
  "sortParties h lib nilParty parties oldParties =
     place_parties h lib (case PeersFromParties lib oldParties of Inr ps \<Rightarrow> ps | Inl _ \<Rightarrow> [])
       (copied_parties nilParty parties oldParties) (length oldParties) parties"

definition Resharing_Run ::
  "peer_hash \<Rightarrow> tss_lib \<Rightarrow> party \<Rightarrow> (bytes \<Rightarrow> startParams tres) \<Rightarrow> peerID list \<Rightarrow> bytes \<Rightarrow> 'k Resharing \<Rightarrow>
   (startParams \<times> 'k Resharing \<times> party list \<times> party list res) tres" where
  "Resharing_Run h lib nilParty Unmarshal peerstore params r =
     and_then (Resharing_unmarshallStartParams Unmarshal peerstore r params) (\<lambda>(sp, r').
     let oldParties = PartiesFromPeers lib (sp_OldSubset sp) in
     Inr (sp, r', oldParties, sortParties h lib nilParty (PartiesFromPeers lib peerstore) oldParties))"

definition Resharing_processEndMessage ::
  "(keyshare_store \<Rightarrow> 'k ECDSAKeyshare \<Rightarrow> unit res \<times> keyshare_store) \<Rightarrow> keyshare_store \<Rightarrow> 'k Resharing \<Rightarrow>
   'k loop_event \<Rightarrow> unit res \<times> keyshare_store" where
  "Resharing_processEndMessage StoreKeyshare ks r e =
     (case e of
        CtxDone \<Rightarrow> (Inr (), ks)
      | Event key \<Rightarrow> StoreKeyshare ks (NewECDSAKeyshare key (rs_newThreshold r) (rs_Peers r)))"

definition Resharing_Retryable :: bool where "Resharing_Retryable = False"

section \<open>The signing subset\<close>

lemma fill_subset_take:
  "0 < n \<Longrightarrow> int (length acc) < n \<Longrightarrow> fill_subset n acc ps = acc @ take (nat n - length acc) ps"
proof (induction ps arbitrary: acc)
  case (Cons p ps)
  show ?case
  proof (cases "int (length (acc @ [p])) = n")
    case True
    then have "nat n - length acc = Suc 0" by auto
    with True show ?thesis by simp
  next
    case False
    with Cons.prems have lt: "int (length (acc @ [p])) < n" by simp
    then have "nat n - length acc = Suc (nat n - length (acc @ [p]))" by simp
    moreover have "fill_subset n acc (p # ps) = fill_subset n (acc @ [p]) ps" using False by simp
    ultimately show ?thesis using Cons.IH [OF Cons.prems(1) lt] by simp
  qed
qed simp

lemma distinct_SortPeersForSession:
  "distinct peers \<Longrightarrow> distinct (GetPeerIDs (SortPeersForSession h peers sid))"
proof -
  assume d: "distinct peers"
  have "mset (GetPeerIDs (SortPeersForSession h peers sid)) = mset peers"
    by (simp add: GetPeerIDs_def SortPeersForSession_def toPeerMsg_def image_mset.compositionality comp_def)
  with d show ?thesis by (metis mset_eq_imp_distinct_iff)
qed

lemma GetPeerIDs_sorted:
  "set (GetPeerIDs (SortPeersForSession h peers sid)) = set peers"
  "length (GetPeerIDs (SortPeersForSession h peers sid)) = length peers"
  using set_SortPeersForSession [of h peers sid] by (simp_all add: GetPeerIDs_def)

text \<open>The rule behind the ECDSA and the FROST signing processes.\<close>

lemma signing_subset_rule:
  fixes keyPeers ready :: "peerID list" and t :: int and h :: peer_hash and sid :: string
  defines "part \<equiv> filter (\<lambda>p. p \<in> set keyPeers) ready"
  assumes "distinct ready" "0 \<le> t" "t + 1 \<le> int (length part)"
  defines "sub \<equiv> fill_subset (t + 1) [] (GetPeerIDs (SortPeersForSession h part sid))"
  shows "distinct sub" "int (length sub) = t + 1" "set sub \<subseteq> set ready \<inter> set keyPeers"
    "int (length part) = t + 1 \<Longrightarrow> set sub = set ready \<inter> set keyPeers"
proof -
  let ?s = "GetPeerIDs (SortPeersForSession h part sid)"
  have sub: "sub = take (nat (t + 1)) ?s"
    unfolding sub_def using assms(3) by (simp add: fill_subset_take)
  have part: "set part = set ready \<inter> set keyPeers" by (auto simp: part_def)
  have "distinct part" unfolding part_def using assms(2) by simp
  then show "distinct sub" unfolding sub by (simp add: distinct_SortPeersForSession)
  show "int (length sub) = t + 1"
    unfolding sub using assms(3,4) GetPeerIDs_sorted(2) [of h part sid] by simp
  show "set sub \<subseteq> set ready \<inter> set keyPeers"
    unfolding sub part [symmetric] using set_take_subset GetPeerIDs_sorted(1) by metis
  show "set sub = set ready \<inter> set keyPeers" if "int (length part) = t + 1"
    unfolding sub part [symmetric] using that GetPeerIDs_sorted [of h part sid] by simp
qed

text \<open>
  C18. The subset that signs: from any list of at least threshold + 1 ready peers that hold
  a key share, the coordinator picks exactly threshold + 1 of them, without repetition, and
  nobody else; if it starts as soon as the process reports to be ready, the subset is the set
  of all ready key holders.
\<close>

theorem signing_subset_spec:
  assumes "distinct ready" "0 \<le> ek_Threshold (sg_key s)"
    and "ek_Threshold (sg_key s) + 1 \<le> int (length (Signing_readyParticipants s ready))"
  shows "distinct (Signing_subset h s ready) \<and>
     int (length (Signing_subset h s ready)) = ek_Threshold (sg_key s) + 1 \<and>
     set (Signing_subset h s ready) \<subseteq> set ready \<inter> set (ek_Peers (sg_key s)) \<and>
     (Signing_Ready s ready excluded = Inr True \<longrightarrow>
        set (Signing_subset h s ready) = set ready \<inter> set (ek_Peers (sg_key s)))"
  using signing_subset_rule [OF assms(1,2) assms(3) [unfolded Signing_readyParticipants_def], of h "sg_SID s"]
  by (simp add: Signing_subset_def Signing_Ready_def Signing_readyParticipants_def)

definition example_signing :: "unit Signing" where
  "example_signing = \<lparr>sg_host = ''a'', sg_SID = ''1-1'', sg_Peers = [], sg_key = NewECDSAKeyshare () 1 [''a'', ''b'', ''c''],
     sg_msg = 0, sg_coordinator = True, sg_PartyStore = Map.empty\<rparr>"

theorem signing_subset_spec_witness:
  "set (Signing_subset example_hash example_signing [''a'', ''x'', ''c'']) = {''a'', ''c''}"
  using signing_subset_spec [of "[''a'', ''x'', ''c'']" example_signing example_hash "[]"]
  by (auto simp: example_signing_def Signing_Ready_def Signing_readyParticipants_def NewECDSAKeyshare_def)

text \<open>
  The subset does not depend on the order in which the ready messages arrived, as long
  as no two peers have the same hash for the session.
\<close>

theorem signing_subset_order_independent:
  assumes "mset ready = mset ready'" "tie_free h (sg_SID s) ready"
  shows "Signing_subset h s ready = Signing_subset h s ready'"
proof -
  have "mset (Signing_readyParticipants s ready) = mset (Signing_readyParticipants s ready')"
    using assms(1) by (simp add: Signing_readyParticipants_def)
  moreover have "tie_free h (sg_SID s) (Signing_readyParticipants s ready)"
    using assms(2) by (auto simp: tie_free_def inj_on_def Signing_readyParticipants_def)
  ultimately show ?thesis
    by (simp add: Signing_subset_def SortPeersForSession_perm)
qed

theorem signing_subset_order_independent_witness:
  "Signing_subset example_hash example_signing [''a'', ''c''] = Signing_subset example_hash example_signing [''c'', ''a'']"
  by (rule signing_subset_order_independent)
    (simp_all add: tie_free_def inj_on_def peerHash_def toPeerMsg_def example_hash_def SetBytes_def
      example_signing_def)

section \<open>Resharing\<close>

lemma sort_eq_iff: "sort xs = sort ys \<longleftrightarrow> mset xs = mset (ys :: 'a :: linorder list)"
  by (metis mset_sort properties_for_sort sorted_sort)

lemma PeersIntersection_sort: "PeersIntersection (sort kp) ps = sort (PeersIntersection kp ps)"
  by (simp add: PeersIntersection_def filter_sort)

text \<open>
  Exactly which start parameters a relayer accepts for resharing: a positive threshold
  that the subset is large enough for, and, if the relayer holds a key share, a subset that
  consists of precisely the peers of that key share which are still in the peer store, in
  any order. A relayer without a key share cannot check the subset and accepts any.
\<close>

theorem resharing_params_accepted_iff:
  "is_ok (validateStartParams peerstore r params) \<longleftrightarrow>
     0 < sp_OldThreshold params \<and> sp_OldThreshold params \<le> int (length (sp_OldSubset params)) \<and>
     (ek_Peers (rs_key r) = [] \<or>
      mset (sp_OldSubset params) = mset (PeersIntersection (ek_Peers (rs_key r)) peerstore))"
proof -
  have "sort (sp_OldSubset params) = PeersIntersection (sort (ek_Peers (rs_key r))) peerstore \<longleftrightarrow>
      mset (sp_OldSubset params) = mset (PeersIntersection (ek_Peers (rs_key r)) peerstore)"
    unfolding PeersIntersection_sort by (rule sort_eq_iff)
  moreover have "sort (ek_Peers (rs_key r)) = [] \<longleftrightarrow> ek_Peers (rs_key r) = []"
    by (metis length_0_conv length_sort)
  ultimately show ?thesis by (auto simp: validateStartParams_def Let_def)
qed

theorem resharing_params_accepted_iff_witness:
  "is_ok (validateStartParams [''c'', ''b'', ''a''] \<lparr>rs_host = ''a'', rs_SID = ''s'', rs_Peers = [], rs_key = NewECDSAKeyshare () 1 [''a'', ''b''],
       rs_newThreshold = 2\<rparr> \<lparr>sp_OldThreshold = 1, sp_OldSubset = [''b'', ''a'']\<rparr>) \<and>
   \<not> is_ok (validateStartParams [''c'', ''b'', ''a''] \<lparr>rs_host = ''a'', rs_SID = ''s'', rs_Peers = [], rs_key = NewECDSAKeyshare () 1 [''a'', ''b''],
       rs_newThreshold = 2\<rparr> \<lparr>sp_OldThreshold = 1, sp_OldSubset = [''c'', ''a'']\<rparr>)"
  unfolding resharing_params_accepted_iff by (simp add: NewECDSAKeyshare_def PeersIntersection_def)

section \<open>Indices of the new committee\<close>

text \<open>The loop, for parties whose identifiers decode.\<close>

definition party_peer :: "tss_lib \<Rightarrow> party \<Rightarrow> peerID" where
  "party_peer lib party = (case DecodePeer lib (pt_Id party) of Inr p \<Rightarrow> p | Inl _ \<Rightarrow> '''')"

definition new_parties :: "peer_hash \<Rightarrow> tss_lib \<Rightarrow> peerID list \<Rightarrow> party list \<Rightarrow> party list" where
  "new_parties h lib oldPeers parties = filter (\<lambda>p. \<not> IsParticipant h (party_peer lib p) oldPeers) parties"

fun indexed_from :: "nat \<Rightarrow> party list \<Rightarrow> party list" where
  "indexed_from i [] = []"
| "indexed_from i (p # ps) = p\<lparr>pt_Index := int i\<rparr> # indexed_from (Suc i) ps"

lemma length_indexed_from [simp]: "length (indexed_from i ps) = length ps"
  by (induction ps arbitrary: i) auto

lemma place_parties_spec:
  "length front = index \<Longrightarrow> length tail1 = length (new_parties h lib oldPeers parties) \<Longrightarrow>
   place_parties h lib oldPeers (front @ tail1) index parties
     = Inr (front @ indexed_from index (new_parties h lib oldPeers parties))"
proof (induction parties arbitrary: front tail1 index)
  case (Cons p parties)
  show ?case
  proof (cases "IsParticipant h (party_peer lib p) oldPeers")
    case True
    with Cons.prems Cons.IH [of front index tail1] show ?thesis
      by (simp add: new_parties_def party_peer_def Let_def)
  next
    case False
    with Cons.prems obtain b tail2 where tail1: "tail1 = b # tail2"
      by (cases tail1) (auto simp: new_parties_def)
    let ?front = "front @ [p\<lparr>pt_Index := int index\<rparr>]"
    have upd: "(front @ tail1)[index := p\<lparr>pt_Index := int index\<rparr>] = ?front @ tail2"
      using Cons.prems(1) [symmetric] tail1 by simp
    have "place_parties h lib oldPeers (?front @ tail2) (Suc index) parties
       = Inr (?front @ indexed_from (Suc index) (new_parties h lib oldPeers parties))"
      by (rule Cons.IH) (use Cons.prems tail1 False in \<open>simp_all add: new_parties_def\<close>)
    then show ?thesis
      using False Cons.prems(1) tail1 upd
      by (simp add: new_parties_def party_peer_def Let_def)
  qed
qed (simp add: new_parties_def)

text \<open>
  The committee after resharing: when all old parties are among the parties of the peer
  store, every old party keeps its place and index at the front, the parties that join follow
  with consecutive indices starting at the number of old parties, and every party of the peer
  store occurs.
\<close>

theorem sort_parties_spec:
  assumes "PeersFromParties lib old = Inr oldPeers"
    and "length parties = length old + length (new_parties h lib oldPeers parties)"
  shows "sortParties h lib nilParty parties old
           = Inr (old @ indexed_from (length old) (new_parties h lib oldPeers parties))"
  using place_parties_spec [of old "length old"
      "replicate (length parties - length old) nilParty" h lib oldPeers parties] assms
  by (simp add: sortParties_def copied_parties_def)

definition example_tss_lib :: tss_lib where
  "example_tss_lib = \<lparr>NewPartyID = (\<lambda>i m k. \<lparr>pt_Id = i, pt_Moniker = m, pt_Key = k, pt_Index = -1\<rparr>),
     SortPartyIDs = id, DecodePeer = Inr, PeerString = id\<rparr>"

theorem sort_parties_spec_witness:
  "map (\<lambda>p. (pt_Id p, pt_Index p))
     (projr (sortParties example_hash example_tss_lib (CreatePartyID example_tss_lib '''')
        (PartiesFromPeers example_tss_lib [''a'', ''b'', ''c''])
        [(CreatePartyID example_tss_lib ''a'')\<lparr>pt_Index := 0\<rparr>, (CreatePartyID example_tss_lib ''c'')\<lparr>pt_Index := 1\<rparr>]))
   = [(''a'', 0), (''c'', 1), (''b'', 2)]"
  using sort_parties_spec [of example_tss_lib
      "[(CreatePartyID example_tss_lib ''a'')\<lparr>pt_Index := 0\<rparr>, (CreatePartyID example_tss_lib ''c'')\<lparr>pt_Index := 1\<rparr>]"
      "[''a'', ''c'']" "PartiesFromPeers example_tss_lib [''a'', ''b'', ''c'']" example_hash
      "CreatePartyID example_tss_lib ''''"]
  by (simp add: example_tss_lib_def CreatePartyID_def PartiesFromPeers_def new_parties_def party_peer_def
      example_hash_def)

section \<open>Key generation, resharing and signing exclude each other\<close>

lemma ECDSA_GetKeyshare_unlocked [simp]:
  "ECDSA_GetKeyshare fs (ks\<lparr>ks_locked := b\<rparr>) = ECDSA_GetKeyshare fs ks"
  by (simp add: ECDSA_GetKeyshare_def)

context ecdsa_files
begin

lemma reshared_key_signs:
  assumes "ks_locked ks"
    and "Resharing_processEndMessage (ECDSA_StoreKeyshare fs) ks r (Event key) = (Inr (), ks1)"
    and "Resharing_Stop ks1 = Inr ks2"
  shows "NewSigning (ECDSA_GetKeyshare fs) ks1 msg sid host = None \<and>
     (\<exists>s. NewSigning (ECDSA_GetKeyshare fs) ks2 msg sid host = Some (Inr s, ks2) \<and>
        sg_key s = NewECDSAKeyshare key (rs_newThreshold r) (rs_Peers r))"
proof -
  have put: "ECDSA_StoreKeyshare fs ks (NewECDSAKeyshare key (rs_newThreshold r) (rs_Peers r)) = (Inr (), ks1)"
    using assms(2) by (simp add: Resharing_processEndMessage_def)
  have l: "ks_locked ks1" using ecdsa.put_keeps_lock [OF put] assms(1) by simp
  with assms(3) have ks2: "ks2 = ks1\<lparr>ks_locked := False\<rparr>"
    by (simp add: Resharing_Stop_def UnlockKeyshare_def)
  show ?thesis
    using l ecdsa_get_put [OF put] by (simp add: NewSigning_def LockKeyshare_def ks2 UnlockKeyshare_def)
qed

end


definition example_resharing :: "unit Resharing" where
  "example_resharing = \<lparr>rs_host = ''a'', rs_SID = ''resharing-7'', rs_Peers = [''a'', ''b'', ''c''],
     rs_key = NewECDSAKeyshare () 1 [''a'', ''b''], rs_newThreshold = 2\<rparr>"


end
