(* ===== verification/Tss_Frost.thy ===== *)
theory Tss_Frost
  imports Tss
begin

text \<open>
  The FROST processes (\<open>tss/frost\<close>) used for Bitcoin: signing with a tweaked key, key
  generation and refresh. They share the ready and subset rules with the ECDSA processes;
  lemma \<open>Frost_subset_eq\<close> makes this precise. The protocol handler of multi-party-sig, the
  curve arithmetic and JSON are arguments.
\<close>

section \<open>Message loops\<close>

record frost_message =
  fm_Broadcast :: bool
  fm_To :: string
  fm_Bytes :: "bytes tres"

definition PartyIDSFromPeers :: "(peerID \<Rightarrow> string) \<Rightarrow> peerID list \<Rightarrow> string list" where
  "PartyIDSFromPeers str peers = map str (remdups peers)"

text \<open>
  The inbound loop hands over what the protocol handler accepts; the result lists the
  accepted messages.
\<close>

fun Frost_ProcessInboundMessages ::
  "(bytes \<Rightarrow> 'm tres) \<Rightarrow> ('m \<Rightarrow> bool) \<Rightarrow> peerID WrappedMessage loop_event list \<Rightarrow>
   unit tres option \<times> 'm list" where
  "Frost_ProcessInboundMessages Unmarshal CanAccept [] = (None, [])"
| "Frost_ProcessInboundMessages Unmarshal CanAccept (CtxDone # es) = (Some (Inr ()), [])"
| "Frost_ProcessInboundMessages Unmarshal CanAccept (Event wMsg # es) =
     (case Unmarshal (w_Payload wMsg) of
        Inl err \<Rightarrow> (Some (Inl err), [])
      | Inr msg \<Rightarrow>
          (let (r, acc) = Frost_ProcessInboundMessages Unmarshal CanAccept es
           in (r, if CanAccept msg then msg # acc else acc)))"

definition Frost_BroadcastPeers :: "tss_lib \<Rightarrow> peerID list \<Rightarrow> frost_message \<Rightarrow> peerID list tres" where
  "Frost_BroadcastPeers lib Peers msg =
     (if fm_Broadcast msg then Inr Peers
      else if fm_To msg = '''' then Inr Peers
      else and_then (DecodePeer lib (fm_To msg)) (\<lambda>p. Inr [p]))"

text \<open>The outbound loop; \<open>None\<close> as a message is the closed channel of the handler.\<close>

fun Frost_ProcessOutboundMessages ::
  "tss_lib \<Rightarrow> (peerID list \<Rightarrow> bytes \<Rightarrow> MessageType \<Rightarrow> string \<Rightarrow> unit tres) \<Rightarrow> peerID list \<Rightarrow> string \<Rightarrow>
   MessageType \<Rightarrow> frost_message option loop_event list \<Rightarrow>
   unit tres option \<times> (peerID list \<times> bytes) list \<times> bool" where
  "Frost_ProcessOutboundMessages lib send Peers SID messageType [] = (None, [], False)"
| "Frost_ProcessOutboundMessages lib send Peers SID messageType (CtxDone # es) = (Some (Inr ()), [], False)"
| "Frost_ProcessOutboundMessages lib send Peers SID messageType (Event None # es) = (Some (Inr ()), [], True)"
| "Frost_ProcessOutboundMessages lib send Peers SID messageType (Event (Some msg) # es) =
     (case and_then (fm_Bytes msg) (\<lambda>b. and_then (Frost_BroadcastPeers lib Peers msg) (\<lambda>ps. Inr (ps, b))) of
        Inl err \<Rightarrow> (Some (Inl err), [], False)
      | Inr (peers, msgBytes) \<Rightarrow>
     (case send peers msgBytes messageType SID of
        Inl err \<Rightarrow> (Some (Inl err), [(peers, msgBytes)], False)
      | Inr _ \<Rightarrow>
          (let (r, out, finished) = Frost_ProcessOutboundMessages lib send Peers SID messageType es
           in (r, (peers, msgBytes) # out, finished))))"

section \<open>Signing\<close>

record ('s, 'pt) FrostSigning =
  fsg_host :: peerID
  fsg_SID :: string
  fsg_Peers :: "peerID list"
  fsg_key :: "('s, 'pt) FrostKeyshare"
  fsg_id :: int
  fsg_msg :: bytes

text \<open>The key share is read under the lock and its key is derived with the tweak.\<close>

definition Frost_NewSigning ::
  "(keyshare_store \<Rightarrow> ('s, 'pt) FrostKeyshare res) \<Rightarrow> (string \<Rightarrow> bytes res) \<Rightarrow> (bytes \<Rightarrow> 's res) \<Rightarrow>
   (('s, 'pt) TaprootConfig \<Rightarrow> 's \<Rightarrow> ('s, 'pt) TaprootConfig res) \<Rightarrow>
   keyshare_store \<Rightarrow> int \<Rightarrow> bytes \<Rightarrow> string \<Rightarrow> string \<Rightarrow> peerID \<Rightarrow>
   (('s, 'pt) FrostSigning res \<times> keyshare_store) option" where
  "Frost_NewSigning GetKeyshare HexDecode UnmarshalScal Derive ks i msg tweak sessionID host =
     (case LockKeyshare ks of
        None \<Rightarrow> None
      | Some locked \<Rightarrow>
          Some (and_then (GetKeyshare locked) (\<lambda>key.
                and_then (HexDecode tweak) (\<lambda>tweakBytes.
                and_then (UnmarshalScal tweakBytes) (\<lambda>h.
                and_then (Derive (fk_Key key) h) (\<lambda>derived.
                  Inr \<lparr>fsg_host = host, fsg_SID = sessionID, fsg_Peers = fk_Peers key,
                       fsg_key = key\<lparr>fk_Key := derived\<rparr>, fsg_id = i, fsg_msg = msg\<rparr>)))),
                case UnlockKeyshare locked of Inr ks' \<Rightarrow> ks' | Inl _ \<Rightarrow> locked))"

definition Frost_readyParticipants :: "('s, 'pt) FrostSigning \<Rightarrow> peerID list \<Rightarrow> peerID list" where
  "Frost_readyParticipants s readyPeers = filter (\<lambda>p. p \<in> set (fk_Peers (fsg_key s))) readyPeers"

definition Frost_Ready :: "('s, 'pt) FrostSigning \<Rightarrow> peerID list \<Rightarrow> peerID list \<Rightarrow> bool tres" where
  "Frost_Ready s readyPeers excludedPeers =
     Inr (int (length (Frost_readyParticipants s readyPeers)) = fk_Threshold (fsg_key s) + 1)"

definition Frost_ValidCoordinators :: "('s, 'pt) FrostSigning \<Rightarrow> peerID list" where
  "Frost_ValidCoordinators s = fk_Peers (fsg_key s)"

definition Frost_subset :: "peer_hash \<Rightarrow> ('s, 'pt) FrostSigning \<Rightarrow> peerID list \<Rightarrow> peerID list" where
  "Frost_subset h s readyPeers =
     fill_subset (fk_Threshold (fsg_key s) + 1) []
       (GetPeerIDs (SortPeersForSession h (Frost_readyParticipants s readyPeers) (fsg_SID s)))"

definition Frost_StartParams ::
  "peer_hash \<Rightarrow> (peerID list \<Rightarrow> bytes) \<Rightarrow> ('s, 'pt) FrostSigning \<Rightarrow> peerID list \<Rightarrow> bytes" where
  "Frost_StartParams h Marshal s readyPeers = Marshal (Frost_subset h s readyPeers)"

definition Frost_unmarshallStartParams :: "(bytes \<Rightarrow> peerID list tres) \<Rightarrow> bytes \<Rightarrow> peerID list tres" where
  "Frost_unmarshallStartParams Unmarshal paramBytes = Unmarshal paramBytes"

text \<open>
  \<open>Run\<close> up to the start of the protocol handler. Unlike the ECDSA process it replaces its
  peers before it checks that it takes part.
\<close>

definition Frost_Run ::
  "peer_hash \<Rightarrow> (peerID \<Rightarrow> string) \<Rightarrow> (bytes \<Rightarrow> peerID list tres) \<Rightarrow> bytes \<Rightarrow> ('s, 'pt) FrostSigning \<Rightarrow>
   (string list) tres \<times> ('s, 'pt) FrostSigning" where
  "Frost_Run h str Unmarshal params s =
     (case Frost_unmarshallStartParams Unmarshal params of
        Inl err \<Rightarrow> (Inl err, s)
      | Inr peerSubset \<Rightarrow>
          (let s' = s\<lparr>fsg_Peers := peerSubset\<rparr> in
           if \<not> IsParticipant h (fsg_host s) peerSubset then (Inl (SubsetError (fsg_host s)), s')
           else (Inr (PartyIDSFromPeers str peerSubset), s')))"

text \<open>Every participant, not only the coordinator, hands the signature to the executor.\<close>

definition Frost_processEndMessage ::
  "('s, 'pt) FrostSigning \<Rightarrow> 'sig tres loop_event \<Rightarrow> (int \<times> 'sig) option tres" where
  "Frost_processEndMessage s e =
     (case e of
        CtxDone \<Rightarrow> Inr None
      | Event result \<Rightarrow> and_then result (\<lambda>sig. Inr (Some (fsg_id s, sig))))"

definition Frost_Signing_Retryable :: bool where "Frost_Signing_Retryable = True"

section \<open>Key generation\<close>

text \<open>The constructor takes the lock and keeps it until \<open>Stop\<close>.\<close>

definition Frost_NewKeygen ::
  "keyshare_store \<Rightarrow> string \<Rightarrow> int \<Rightarrow> peerID \<Rightarrow> peerID list \<Rightarrow> (Keygen \<times> keyshare_store) option" where
  "Frost_NewKeygen ks sessionID threshold host peerstore =
     (case LockKeyshare ks of
        None \<Rightarrow> None
      | Some locked \<Rightarrow> Some (\<lparr>kg_host = host, kg_SID = sessionID, kg_Peers = peerstore,
                              kg_threshold = threshold\<rparr>, locked))"

definition Frost_Keygen_Run :: "(peerID \<Rightarrow> string) \<Rightarrow> peerID list \<Rightarrow> Keygen \<Rightarrow> string list" where
  "Frost_Keygen_Run str peerstore k = PartyIDSFromPeers str (peerstore @ [kg_host k])"

definition Frost_Keygen_Stop :: "keyshare_store \<Rightarrow> keyshare_store res" where
  "Frost_Keygen_Stop ks = UnlockKeyshare ks"

definition Frost_Keygen_Ready :: "peerID list \<Rightarrow> peerID list \<Rightarrow> peerID list \<Rightarrow> bool tres" where
  "Frost_Keygen_Ready peerstore readyPeers excludedPeers =
     (if 0 < length excludedPeers then Inl (OtherError ''error'')
      else Inr (length readyPeers = length peerstore))"

definition Frost_Keygen_ValidCoordinators :: "Keygen \<Rightarrow> peerID list" where
  "Frost_Keygen_ValidCoordinators k = kg_Peers k"

definition Frost_Keygen_processEndMessage ::
  "(keyshare_store \<Rightarrow> ('s, 'pt) FrostKeyshare \<Rightarrow> unit res \<times> keyshare_store) \<Rightarrow> keyshare_store \<Rightarrow> Keygen \<Rightarrow>
   ('s, 'pt) TaprootConfig res loop_event \<Rightarrow> unit res \<times> keyshare_store" where
  "Frost_Keygen_processEndMessage StoreKeyshare ks k e =
     (case e of
        CtxDone \<Rightarrow> (Inr (), ks)
      | Event (Inl err) \<Rightarrow> (Inl err, ks)
      | Event (Inr config) \<Rightarrow> StoreKeyshare ks (NewFrostKeyshare config (kg_threshold k) (kg_Peers k)))"

section \<open>Refresh\<close>

record 'pt frost_startParams =
  fsp_PublicKey :: bytes
  fsp_VerificationShares :: "(string \<times> 'pt) list"

record ('s, 'pt) FrostResharing =
  frs_host :: peerID
  frs_SID :: string
  frs_Peers :: "peerID list"
  frs_key :: "('s, 'pt) FrostKeyshare"
  frs_newThreshold :: int

definition Frost_NewResharing ::
  "(keyshare_store \<Rightarrow> ('s, 'pt) FrostKeyshare res) \<Rightarrow> 's \<Rightarrow> (peerID \<Rightarrow> string) \<Rightarrow> keyshare_store \<Rightarrow> string \<Rightarrow> int \<Rightarrow>
   peerID \<Rightarrow> peerID list \<Rightarrow> (('s, 'pt) FrostResharing \<times> keyshare_store) option" where
  "Frost_NewResharing GetKeyshare zeroScalar pretty ks sessionID threshold host peerstore =
     (case LockKeyshare ks of
        None \<Rightarrow> None
      | Some locked \<Rightarrow>
          (let key = (case GetKeyshare locked of
               Inl _ \<Rightarrow> \<lparr>fk_Key = \<lparr>tc_ID = pretty host, tc_Threshold = threshold, tc_PrivateShare = zeroScalar,
                           tc_PublicKey = [], tc_ChainKey = [], tc_VerificationShares = []\<rparr>,
                         fk_Threshold = 0, fk_Peers = []\<rparr>
             | Inr key \<Rightarrow> key)
           in Some (\<lparr>frs_host = host, frs_SID = sessionID, frs_Peers = peerstore,
                     frs_key = key\<lparr>fk_Key := (fk_Key key)\<lparr>tc_Threshold := threshold\<rparr>\<rparr>,
                     frs_newThreshold = threshold\<rparr>, locked)))"

text \<open>A share for every party that has none, added at the end.\<close>

fun add_missing_shares :: "'pt \<Rightarrow> string list \<Rightarrow> (string \<times> 'pt) list \<Rightarrow> (string \<times> 'pt) list" where
  "add_missing_shares newPoint [] shares = shares"
| "add_missing_shares newPoint (k # ks) shares =
     add_missing_shares newPoint ks
       (case map_of shares k of None \<Rightarrow> shares @ [(k, newPoint)] | Some _ \<Rightarrow> shares)"

definition Frost_Resharing_Run ::
  "'pt \<Rightarrow> (peerID \<Rightarrow> string) \<Rightarrow> (bytes \<Rightarrow> 'pt frost_startParams tres) \<Rightarrow> peerID list \<Rightarrow> bytes \<Rightarrow>
   ('s, 'pt) FrostResharing \<Rightarrow> (('s, 'pt) FrostResharing \<times> string list) tres" where
  "Frost_Resharing_Run newPoint str Unmarshal peerstore params r =
     and_then (Unmarshal params) (\<lambda>sp.
     let key = fk_Key (frs_key r);
         key' = (if tc_VerificationShares key = []
                 then key\<lparr>tc_VerificationShares := fsp_VerificationShares sp, tc_PublicKey := fsp_PublicKey sp\<rparr>
                 else key);
         partyIds = PartyIDSFromPeers str (peerstore @ [frs_host r]);
         key'' = key'\<lparr>tc_VerificationShares := add_missing_shares newPoint partyIds (tc_VerificationShares key')\<rparr>
     in Inr (r\<lparr>frs_key := (frs_key r)\<lparr>fk_Key := key''\<rparr>\<rparr>, partyIds))"

definition Frost_Resharing_Stop :: "keyshare_store \<Rightarrow> keyshare_store res" where
  "Frost_Resharing_Stop ks = UnlockKeyshare ks"

definition Frost_Resharing_Ready :: "peerID list \<Rightarrow> peerID list \<Rightarrow> peerID list \<Rightarrow> bool tres" where
  "Frost_Resharing_Ready peerstore readyPeers excludedPeers = Inr (length readyPeers = length peerstore)"

definition Frost_Resharing_ValidCoordinators :: "('s, 'pt) FrostResharing \<Rightarrow> peerID list" where
  "Frost_Resharing_ValidCoordinators r = fk_Peers (frs_key r)"

definition Frost_Resharing_StartParams ::
  "('pt frost_startParams \<Rightarrow> bytes) \<Rightarrow> ('s, 'pt) FrostResharing \<Rightarrow> peerID list \<Rightarrow> bytes" where
  "Frost_Resharing_StartParams Marshal r readyPeers =
     Marshal \<lparr>fsp_PublicKey = tc_PublicKey (fk_Key (frs_key r)),
       fsp_VerificationShares = tc_VerificationShares (fk_Key (frs_key r))\<rparr>"

definition Frost_Resharing_processEndMessage ::
  "(keyshare_store \<Rightarrow> ('s, 'pt) FrostKeyshare \<Rightarrow> unit res \<times> keyshare_store) \<Rightarrow> keyshare_store \<Rightarrow>
   ('s, 'pt) FrostResharing \<Rightarrow> ('s, 'pt) TaprootConfig res loop_event \<Rightarrow> unit res \<times> keyshare_store" where
  "Frost_Resharing_processEndMessage StoreKeyshare ks r e =
     (case e of
        CtxDone \<Rightarrow> (Inr (), ks)
      | Event (Inl err) \<Rightarrow> (Inl err, ks)
      | Event (Inr config) \<Rightarrow> StoreKeyshare ks (NewFrostKeyshare config (frs_newThreshold r) (frs_Peers r)))"

section \<open>The FROST subset\<close>

text \<open>
  FROST signing sessions follow the same rule for the signing subset as ECDSA sessions with
  the same committee, threshold and session identifier.
\<close>

lemma Frost_subset_eq:
  assumes "ek_Peers (sg_key s) = fk_Peers (fsg_key f)" "ek_Threshold (sg_key s) = fk_Threshold (fsg_key f)"
    "sg_SID s = fsg_SID f"
  shows "Frost_subset h f ready = Signing_subset h s ready"
    "Frost_Ready f ready excluded = Signing_Ready s ready excluded"
  using assms
  by (simp_all add: Frost_subset_def Signing_subset_def Frost_Ready_def Signing_Ready_def
      Frost_readyParticipants_def Signing_readyParticipants_def)

lemma map_of_add_missing:
  "map_of (add_missing_shares np ks shares) k =
     (case map_of shares k of Some v \<Rightarrow> Some v | None \<Rightarrow> if k \<in> set ks then Some np else None)"
proof (induction ks arbitrary: shares)
  case (Cons x ks)
  then show ?case by (auto simp: map_add_def split: option.splits)
qed (auto split: option.splits)

end
