(* ===== verification/Coordinator.thy ===== *)
theory Coordinator
  imports Tss_Frost
begin

text \<open>
  The session coordinator (\<open>tss/coordinator.go\<close>). On the elected relayer it collects ready
  peers and starts the processes; on the others it answers the coordinator and waits for
  the start message; after a failure that can be retried it elects a new coordinator. Each
  \<open>select\<close> loop is a function of the sequence of events it receives, which returns its result
  (\<open>None\<close> while it waits) and the actions it performs. The tss processes are records with the
  operations of the \<open>TssProcess\<close> interface; running them is an argument, whose result is
  \<open>None\<close> while they are running.
\<close>

section \<open>Processes, events, actions\<close>

record tss_process =
  pr_SessionID :: string
  pr_Ready :: "peerID list \<Rightarrow> peerID list \<Rightarrow> bool tres"
  pr_StartParams :: "peerID list \<Rightarrow> bytes"
  pr_Retryable :: bool
  pr_ValidCoordinators :: "peerID list"

datatype coord_action =
    BroadcastInitiate
  | BroadcastStart bytes
  | RunProcesses bool bytes
  | SendReady peerID
  | ReleaseSession string
  | StopProcess string

datatype init_event = ReadyMsg peerID | InitiateTick | InitiateDone

datatype wait_event = InitiateMsg peerID | StartMsg peerID bytes | WaitTimeout | WaitDone

datatype watch_event = FailMsg peerID | WatchTimeout | WatchDone

section \<open>The coordinating relayer\<close>

definition add_ready :: "peerID list \<Rightarrow> peerID list \<Rightarrow> peerID \<Rightarrow> peerID list" where
  "add_ready excludedPeers readyPeers p =
     (if p \<notin> set excludedPeers \<and> p \<notin> set readyPeers then readyPeers @ [p] else readyPeers)"

fun initiate_loop ::
  "(bytes \<Rightarrow> bytes tres) \<Rightarrow> (bool \<Rightarrow> bytes \<Rightarrow> unit tres option) \<Rightarrow> tss_process \<Rightarrow> peerID list \<Rightarrow> peerID list \<Rightarrow>
   init_event list \<Rightarrow> unit tres option \<times> coord_action list" where
  "initiate_loop marshalStart run p excluded ready [] = (None, [])"
| "initiate_loop marshalStart run p excluded ready (InitiateDone # es) = (Some (Inr ()), [])"
| "initiate_loop marshalStart run p excluded ready (InitiateTick # es) =
     (let (r, acts) = initiate_loop marshalStart run p excluded ready es in (r, BroadcastInitiate # acts))"
| "initiate_loop marshalStart run p excluded ready (ReadyMsg from # es) =
     (let ready' = add_ready excluded ready from in
      case pr_Ready p ready' excluded of
        Inl err \<Rightarrow> (Some (Inl err), [])
      | Inr False \<Rightarrow> initiate_loop marshalStart run p excluded ready' es
      | Inr True \<Rightarrow>
          (case marshalStart (pr_StartParams p ready') of
             Inl err \<Rightarrow> (Some (Inl err), [])
           | Inr startMsgBytes \<Rightarrow>
               (run True (pr_StartParams p ready'),
                [BroadcastStart startMsgBytes, RunProcesses True (pr_StartParams p ready')])))"

definition initiate ::
  "(bytes \<Rightarrow> bytes tres) \<Rightarrow> (bool \<Rightarrow> bytes \<Rightarrow> unit tres option) \<Rightarrow> peerID \<Rightarrow> tss_process \<Rightarrow> peerID list \<Rightarrow>
   init_event list \<Rightarrow> unit tres option \<times> coord_action list" where
  "initiate marshalStart run host p excluded es =
     (let (r, acts) = initiate_loop marshalStart run p excluded [host] es
      in (r, BroadcastInitiate # acts))"

section \<open>The other relayers\<close>

text \<open>An empty coordinator accepts messages from everybody.\<close>

fun waitForStart ::
  "(bytes \<Rightarrow> StartMessage tres) \<Rightarrow> (bool \<Rightarrow> bytes \<Rightarrow> unit tres option) \<Rightarrow> peerID \<Rightarrow> wait_event list \<Rightarrow>
   unit tres option \<times> coord_action list" where
  "waitForStart unmarshalStart run coordinator [] = (None, [])"
| "waitForStart unmarshalStart run coordinator (InitiateMsg from # es) =
     (if coordinator \<noteq> '''' \<and> from \<noteq> coordinator then waitForStart unmarshalStart run coordinator es
      else (let (r, acts) = waitForStart unmarshalStart run coordinator es in (r, SendReady from # acts)))"
| "waitForStart unmarshalStart run coordinator (StartMsg from payload # es) =
     (if coordinator \<noteq> '''' \<and> from \<noteq> coordinator then waitForStart unmarshalStart run coordinator es
      else (case UnmarshalStartMessage unmarshalStart payload of
              Inl err \<Rightarrow> (Some (Inl err), [])
            | Inr msg \<Rightarrow> (run False (smsg_Params msg), [RunProcesses False (smsg_Params msg)])))"
| "waitForStart unmarshalStart run coordinator (WaitTimeout # es) =
     (Some (Inl (CoordinatorError coordinator)), [])"
| "waitForStart unmarshalStart run coordinator (WaitDone # es) = (Some (Inr ()), [])"

text \<open>The watcher gives up on a fail message of the coordinator and on the process timeout.\<close>

fun Coordinator_watchExecution ::
  "peer_hash \<Rightarrow> string \<Rightarrow> peerID \<Rightarrow> watch_event list \<Rightarrow> unit tres option" where
  "Coordinator_watchExecution h sessionID coordinator [] = None"
| "Coordinator_watchExecution h sessionID coordinator (WatchTimeout # es) =
     Some (Inl (OtherError ''tss process timed out after 15m0s''))"
| "Coordinator_watchExecution h sessionID coordinator (WatchDone # es) = Some (Inr ())"
| "Coordinator_watchExecution h sessionID coordinator (FailMsg from # es) =
     (if Pretty h from \<noteq> Pretty h coordinator then Coordinator_watchExecution h sessionID coordinator es
      else Some (Inl (OtherError (''tss fail message received for process '' @ sessionID))))"

section \<open>Starting and retrying\<close>

definition start ::
  "peer_hash \<Rightarrow> (bytes \<Rightarrow> bytes tres) \<Rightarrow> (bytes \<Rightarrow> StartMessage tres) \<Rightarrow> (bool \<Rightarrow> bytes \<Rightarrow> unit tres option) \<Rightarrow>
   peerID \<Rightarrow> tss_process \<Rightarrow> peerID \<Rightarrow> peerID list \<Rightarrow> init_event list \<Rightarrow> wait_event list \<Rightarrow>
   unit tres option \<times> coord_action list" where
  "start h marshalStart unmarshalStart run host p coordinator excluded inits waits =
     (if Pretty h coordinator = Pretty h host then initiate marshalStart run host p excluded inits
      else waitForStart unmarshalStart run coordinator waits)"

text \<open>What the error handling does next.\<close>

datatype retry_plan = RetryExcluding "peerID list" | WaitForNewStart | GiveUp tss_error

definition error_plan :: "tss_lib \<Rightarrow> tss_error \<Rightarrow> retry_plan" where
  "error_plan lib err =
     (case err of
        CoordinatorError p \<Rightarrow> RetryExcluding [p]
      | CommError _ _ \<Rightarrow> RetryExcluding []
      | TssLibError culprits \<Rightarrow>
          (case PeersFromParties lib culprits of Inl e \<Rightarrow> GiveUp e | Inr ps \<Rightarrow> RetryExcluding ps)
      | SubsetError _ \<Rightarrow> WaitForNewStart
      | OtherError _ \<Rightarrow> GiveUp err)"

text \<open>
  A retry runs a bully election among the valid coordinators that are not excluded;
  \<open>elected\<close> is its outcome.
\<close>

definition retry_peers :: "tss_process \<Rightarrow> peerID list \<Rightarrow> peerID list" where
  "retry_peers p excluded = ExcludePeers (pr_ValidCoordinators p) excluded"

definition retry ::
  "peer_hash \<Rightarrow> (bytes \<Rightarrow> bytes tres) \<Rightarrow> (bytes \<Rightarrow> StartMessage tres) \<Rightarrow> (bool \<Rightarrow> bytes \<Rightarrow> unit tres option) \<Rightarrow>
   (peerID list \<Rightarrow> peerID tres) \<Rightarrow> peerID \<Rightarrow> tss_process \<Rightarrow> peerID list \<Rightarrow> init_event list \<Rightarrow> wait_event list \<Rightarrow>
   unit tres option \<times> coord_action list" where
  "retry h marshalStart unmarshalStart run elect host p excluded inits waits =
     (case elect (retry_peers p excluded) of
        Inl err \<Rightarrow> (Some (Inl err), [])
      | Inr coordinator \<Rightarrow> start h marshalStart unmarshalStart run host p coordinator excluded inits waits)"

text \<open>
  The surroundings of a coordinator. \<open>co_run\<close> runs the tss processes and \<open>co_elect\<close> the bully
  election; \<open>co_join\<close> combines the results of the two goroutines of a pool, which ends when
  both have ended.
\<close>

record coordinator_env =
  co_hash :: peer_hash
  co_lib :: tss_lib
  co_marshalStart :: "bytes \<Rightarrow> bytes tres"
  co_unmarshalStart :: "bytes \<Rightarrow> StartMessage tres"
  co_run :: "bool \<Rightarrow> bytes \<Rightarrow> unit tres option"
  co_elect :: "peerID list \<Rightarrow> peerID tres"
  co_join :: "unit tres \<Rightarrow> unit tres \<Rightarrow> unit tres"
  co_host :: peerID

text \<open>What arrives while one pool is running.\<close>

record session_events =
  se_inits :: "init_event list"
  se_waits :: "wait_event list"
  se_watch :: "watch_event list"

definition with_watcher ::
  "coordinator_env \<Rightarrow> string \<Rightarrow> peerID \<Rightarrow> watch_event list \<Rightarrow> unit tres option \<times> coord_action list \<Rightarrow>
   unit tres option \<times> coord_action list" where
  "with_watcher env sessionID coordinator es task =
     (case (fst task, Coordinator_watchExecution (co_hash env) sessionID coordinator es) of
        (Some r, Some w) \<Rightarrow> (Some (co_join env r w), snd task)
      | _ \<Rightarrow> (None, snd task))"

definition handleError ::
  "coordinator_env \<Rightarrow> tss_process \<Rightarrow> session_events \<Rightarrow> tss_error \<Rightarrow> unit tres option \<times> coord_action list" where
  "handleError env p ev err =
     (case error_plan (co_lib env) err of
        GiveUp e \<Rightarrow> (Some (Inl e), [])
      | RetryExcluding excludedPeers \<Rightarrow>
          with_watcher env (pr_SessionID p) '''' (se_watch ev)
            (retry (co_hash env) (co_marshalStart env) (co_unmarshalStart env) (co_run env) (co_elect env) (co_host env) p
               excludedPeers (se_inits ev) (se_waits ev))
      | WaitForNewStart \<Rightarrow>
          with_watcher env (pr_SessionID p) '''' (se_watch ev)
            (waitForStart (co_unmarshalStart env) (co_run env) '''' (se_waits ev)))"

text \<open>
  \<open>Execute\<close>; \<open>ev\<close> are the events of the first pool and \<open>ev'\<close> those of the error handling. While
  it has not returned (\<open>None\<close>) the session is pending. The deferred function runs on every path but
  the early return for a session that is already pending.
\<close>

definition Execute ::
  "coordinator_env \<Rightarrow> session_events \<Rightarrow> session_events \<Rightarrow> (string \<Rightarrow> bool) \<Rightarrow> tss_process list \<Rightarrow>
   unit tres option \<times> (string \<Rightarrow> bool) \<times> coord_action list" where
  "Execute env ev ev' pending processes =
     (case processes of
        [] \<Rightarrow> (Some (Inl (OtherError ''index out of range'')), pending, [])
      | p # _ \<Rightarrow>
     (let sessionID = pr_SessionID p in
      if pending sessionID then (Some (Inl (OtherError ''process already pending'')), pending, [])
      else
        (let coordinator = StaticCoordinator (co_hash env) sessionID (pr_ValidCoordinators p);
             (r, acts) = with_watcher env sessionID coordinator (se_watch ev)
               (start (co_hash env) (co_marshalStart env) (co_unmarshalStart env) (co_run env) (co_host env) p coordinator []
                  (se_inits ev) (se_waits ev));
             (r', acts') =
               (case r of
                  None \<Rightarrow> (None, [])
                | Some (Inr _) \<Rightarrow> (Some (Inr ()), [])
                | Some (Inl err) \<Rightarrow> if \<not> pr_Retryable p then (Some (Inl err), []) else handleError env p ev' err)
         in case r' of
              None \<Rightarrow> (None, pending(sessionID := True), acts @ acts')
            | Some result \<Rightarrow>
                (Some result, pending(sessionID := False),
                 acts @ acts' @ [ReleaseSession sessionID] @ map (StopProcess \<circ> pr_SessionID) processes))))"

section \<open>The processes behind the interface\<close>

definition signing_process ::
  "peer_hash \<Rightarrow> (peerID list \<Rightarrow> bytes) \<Rightarrow> 'k Signing \<Rightarrow> tss_process" where
  "signing_process h Marshal s =
     \<lparr>pr_SessionID = sg_SID s, pr_Ready = Signing_Ready s, pr_StartParams = Signing_StartParams h Marshal s,
      pr_Retryable = Signing_Retryable, pr_ValidCoordinators = Signing_ValidCoordinators s\<rparr>"

definition keygen_process :: "peerID list \<Rightarrow> Keygen \<Rightarrow> tss_process" where
  "keygen_process peerstore k =
     \<lparr>pr_SessionID = kg_SID k, pr_Ready = Keygen_Ready peerstore, pr_StartParams = Keygen_StartParams,
      pr_Retryable = Keygen_Retryable, pr_ValidCoordinators = Keygen_ValidCoordinators peerstore\<rparr>"

definition resharing_process ::
  "peer_hash \<Rightarrow> (startParams \<Rightarrow> bytes) \<Rightarrow> peerID list \<Rightarrow> 'k Resharing \<Rightarrow> tss_process" where
  "resharing_process h Marshal peerstore r =
     \<lparr>pr_SessionID = rs_SID r, pr_Ready = Resharing_Ready peerstore,
      pr_StartParams = Resharing_StartParams Marshal peerstore r, pr_Retryable = Resharing_Retryable,
      pr_ValidCoordinators = Resharing_ValidCoordinators h peerstore r\<rparr>"

section \<open>Starting a session\<close>

text \<open>What the list of ready peers always looks like.\<close>

definition ready_inv :: "peerID \<Rightarrow> peerID list \<Rightarrow> peerID list \<Rightarrow> bool" where
  "ready_inv host excluded ready \<longleftrightarrow>
     distinct ready \<and> ready \<noteq> [] \<and> hd ready = host \<and> (\<forall>q \<in> set (tl ready). q \<notin> set excluded)"

lemma ready_inv_init: "ready_inv host excluded [host]"
  by (simp add: ready_inv_def)

lemma ready_inv_add: "ready_inv host excluded ready \<Longrightarrow> ready_inv host excluded (add_ready excluded ready q)"
  by (auto simp: ready_inv_def add_ready_def)

lemma set_add_ready: "set (add_ready excluded ready q) \<subseteq> insert q (set ready)"
  by (auto simp: add_ready_def)

lemma initiate_loop_start:
  assumes "initiate_loop ms run p excluded ready es = (r, acts)" "RunProcesses c params \<in> set acts"
    and "ready_inv host excluded ready"
  shows "\<exists>ready'. c \<and> ready_inv host excluded ready' \<and> set ready' \<subseteq> set ready \<union> {q. ReadyMsg q \<in> set es} \<and>
     pr_Ready p ready' excluded = Inr True \<and> params = pr_StartParams p ready' \<and> r = run True params \<and>
     (\<exists>b. ms params = Inr b \<and> BroadcastStart b \<in> set acts)"
  using assms
proof (induction ms run p excluded ready es arbitrary: acts rule: initiate_loop.induct)
  case (4 ms run p excluded ready q es)
  let ?ready = "add_ready excluded ready q"
  have inv: "ready_inv host excluded ?ready" using 4(4) by (rule ready_inv_add)
  show ?case
  proof (cases "pr_Ready p ?ready excluded")
    case (Inl e)
    with 4(2,3) show ?thesis by simp
  next
    case ready: (Inr b)
    show ?thesis
    proof (cases b)
      case False
      with 4(2) ready have step: "initiate_loop ms run p excluded ?ready es = (r, acts)" by simp
      have "\<exists>ready'. c \<and> ready_inv host excluded ready' \<and>
          set ready' \<subseteq> set ?ready \<union> {q. ReadyMsg q \<in> set es} \<and>
          pr_Ready p ready' excluded = Inr True \<and> params = pr_StartParams p ready' \<and> r = run True params \<and>
          (\<exists>b. ms params = Inr b \<and> BroadcastStart b \<in> set acts)"
        by (rule 4(1)) (use ready False step 4(3) inv in simp_all)
      then show ?thesis using set_add_ready [of excluded ready q] by fastforce
    next
      case True
      with 4(2,3) ready obtain m where "ms (pr_StartParams p ?ready) = Inr m"
        by (cases "ms (pr_StartParams p ?ready)") auto
      with True 4(2,3) ready inv set_add_ready [of excluded ready q] show ?thesis
        by (intro exI [of _ ?ready]) (auto simp: Let_def)
    qed
  qed
qed (auto split: prod.splits)

text \<open>
  C13. Who may be in a session: a coordinating relayer starts the processes only with
  parameters computed from a list of ready peers for which the process declared itself
  ready; the list starts with the relayer itself, has no repetition, and every other peer in
  it sent a ready message and is not excluded. The start message is broadcast with the same
  parameters.
\<close>

theorem initiate_start_params:
  assumes "initiate ms run host p excluded es = (r, acts)" "RunProcesses c params \<in> set acts"
  shows "\<exists>ready. c \<and> ready_inv host excluded ready \<and> (\<forall>q \<in> set ready. q = host \<or> ReadyMsg q \<in> set es) \<and>
     pr_Ready p ready excluded = Inr True \<and> params = pr_StartParams p ready \<and> r = run True params \<and>
     (\<exists>b. ms params = Inr b \<and> BroadcastStart b \<in> set acts)"
proof -
  from assms obtain acts' where
    loop: "initiate_loop ms run p excluded [host] es = (r, acts')" "acts = BroadcastInitiate # acts'"
    by (auto simp: initiate_def split: prod.splits)
  with assms(2) have "RunProcesses c params \<in> set acts'" by simp
  from initiate_loop_start [OF loop(1) this ready_inv_init] loop(2) show ?thesis by fastforce
qed

definition example_process :: tss_process where
  "example_process = signing_process example_hash (\<lambda>ps. str_bytes (concat ps)) example_signing"

theorem initiate_start_params_witness:
  "\<exists>r acts ready. initiate Inr (\<lambda>_ _. Some (Inr ())) ''a'' example_process [''x''] [InitiateTick, ReadyMsg ''x'', ReadyMsg ''c''] = (r, acts) \<and>
     RunProcesses True (pr_StartParams example_process ready) \<in> set acts \<and> ready_inv ''a'' [''x''] ready"
proof -
  let ?params = "pr_StartParams example_process [''a'', ''c'']"
  let ?acts = "[BroadcastInitiate, BroadcastInitiate, BroadcastStart ?params, RunProcesses True ?params]"
  have run: "initiate Inr (\<lambda>_ _. Some (Inr ())) ''a'' example_process [''x''] [InitiateTick, ReadyMsg ''x'', ReadyMsg ''c'']
      = (Some (Inr ()), ?acts)"
    by (simp add: initiate_def example_process_def signing_process_def add_ready_def Signing_Ready_def
        Signing_readyParticipants_def example_signing_def NewECDSAKeyshare_def Let_def)
  have "RunProcesses True ?params \<in> set ?acts" by simp
  from initiate_start_params [OF run this] run show ?thesis by fastforce
qed

section \<open>A signing session starts\<close>

definition key_count :: "'k Signing \<Rightarrow> peerID list \<Rightarrow> int" where
  "key_count s ready = int (length (Signing_readyParticipants s ready))"

lemma key_count_add: "key_count s (add_ready excluded ready q) \<le> key_count s ready + 1"
  by (simp add: key_count_def add_ready_def Signing_readyParticipants_def)

lemma set_fold_add_ready:
  "set (fold (\<lambda>q ready. add_ready excluded ready q) qs ready) = set ready \<union> {q \<in> set qs. q \<notin> set excluded}"
  by (induction qs arbitrary: ready) (auto simp: add_ready_def)

fun ready_senders :: "init_event list \<Rightarrow> peerID list" where
  "ready_senders [] = []"
| "ready_senders (ReadyMsg q # es) = q # ready_senders es"
| "ready_senders (_ # es) = ready_senders es"

text \<open>If nothing is started, fewer than threshold + 1 key holders reported.\<close>

lemma initiate_loop_waits:
  assumes "\<forall>params. is_ok (ms params)" "InitiateDone \<notin> set es"
    and "key_count s ready \<le> ek_Threshold (sg_key s)"
    and "\<forall>params. RunProcesses True params \<notin> set (snd (initiate_loop ms run (signing_process h M s) excluded ready es))"
  shows "key_count s (fold (\<lambda>q ready. add_ready excluded ready q) (ready_senders es) ready) \<le> ek_Threshold (sg_key s)"
  using assms(2-)
proof (induction es arbitrary: ready)
  case (Cons e es)
  show ?case
  proof (cases e)
    case (ReadyMsg q)
    let ?ready = "add_ready excluded ready q"
    show ?thesis
    proof (cases "key_count s ?ready = ek_Threshold (sg_key s) + 1")
      case True
      obtain b where "ms (Signing_StartParams h M s ?ready) = Inr b"
        using assms(1) by (metis is_ok_simps(2) sum.exhaust)
      with True Cons.prems(3) ReadyMsg have False
        by (simp add: signing_process_def Signing_Ready_def key_count_def Let_def)
      then show ?thesis ..
    next
      case False
      with Cons.prems(2) key_count_add [of s excluded ready q]
      have "key_count s ?ready \<le> ek_Threshold (sg_key s)" by simp
      moreover have "\<forall>params. RunProcesses True params \<notin>
          set (snd (initiate_loop ms run (signing_process h M s) excluded ?ready es))"
        using False Cons.prems(3) ReadyMsg
        by (simp add: signing_process_def Signing_Ready_def key_count_def Let_def)
      ultimately show ?thesis using Cons.IH Cons.prems(1) ReadyMsg by simp
    qed
  next
    case InitiateTick
    with Cons show ?thesis by (simp add: case_prod_beta)
  next
    case InitiateDone
    with Cons.prems(1) show ?thesis by simp
  qed
qed simp

text \<open>
  C14. A signing session does start: if, before the session is cancelled, threshold other
  key holders that are not excluded have reported ready, in whatever order and however often,
  then the coordinating relayer, itself a key holder, has started the processes. In
  particular the exact comparison with threshold + 1 is never overtaken.
\<close>

theorem signing_session_starts:
  assumes "\<forall>params. is_ok (ms params)" "InitiateDone \<notin> set es"
    and "host \<in> set (ek_Peers (sg_key s))" "1 \<le> ek_Threshold (sg_key s)"
    and "ek_Threshold (sg_key s) \<le>
           int (card ({q. ReadyMsg q \<in> set es} \<inter> set (ek_Peers (sg_key s)) - set excluded - {host}))"
  shows "\<exists>params. RunProcesses True params \<in> set (snd (initiate ms run host (signing_process h M s) excluded es))"
proof (rule ccontr)
  assume none: "\<not> (\<exists>params. RunProcesses True params \<in> set (snd (initiate ms run host (signing_process h M s) excluded es)))"
  let ?t = "ek_Threshold (sg_key s)"
  let ?final = "fold (\<lambda>q ready. add_ready excluded ready q) (ready_senders es) [host]"
  have senders: "set (ready_senders es) = {q. ReadyMsg q \<in> set es}"
    by (induction es rule: ready_senders.induct) auto
  have "key_count s [host] \<le> ?t"
    using assms(4) by (simp add: key_count_def Signing_readyParticipants_def)
  moreover have "\<forall>params. RunProcesses True params \<notin>
      set (snd (initiate_loop ms run (signing_process h M s) excluded [host] es))"
    using none by (simp add: initiate_def case_prod_beta)
  ultimately have le: "key_count s ?final \<le> ?t"
    using initiate_loop_waits [OF assms(1,2)] by blast
  let ?others = "{q. ReadyMsg q \<in> set es} \<inter> set (ek_Peers (sg_key s)) - set excluded - {host}"
  have sub: "insert host ?others \<subseteq> set (Signing_readyParticipants s ?final)"
    using assms(3) by (auto simp: Signing_readyParticipants_def set_fold_add_ready senders)
  have "card (insert host ?others) = Suc (card ?others)"
    by (rule card_insert_disjoint) simp_all
  moreover have "card (insert host ?others) \<le> card (set (Signing_readyParticipants s ?final))"
    by (rule card_mono [OF _ sub]) simp
  moreover have "card (set (Signing_readyParticipants s ?final)) \<le> length (Signing_readyParticipants s ?final)"
    by (rule card_length)
  ultimately show False using le assms(5) unfolding key_count_def by linarith
qed

theorem signing_session_starts_witness:
  "\<exists>params. RunProcesses True params \<in> set (snd (initiate Inr (\<lambda>_ _. Some (Inr ())) ''a''
     (signing_process example_hash (\<lambda>_. []) example_signing) [] [ReadyMsg ''x'', InitiateTick, ReadyMsg ''b'']))"
proof (rule signing_session_starts)
  have "{q. ReadyMsg q \<in> set [ReadyMsg ''x'', InitiateTick, ReadyMsg ''b'']} = {''x'', ''b''}" by auto
  then show "ek_Threshold (sg_key example_signing) \<le>
     int (card ({q. ReadyMsg q \<in> set [ReadyMsg ''x'', InitiateTick, ReadyMsg ''b'']} \<inter>
        set (ek_Peers (sg_key example_signing)) - set [] - {''a''}))"
    by (simp add: example_signing_def NewECDSAKeyshare_def)
qed (simp_all add: example_signing_def NewECDSAKeyshare_def)

section \<open>Following the coordinator\<close>

lemma waitForStart_ready:
  "c \<noteq> '''' \<Longrightarrow> SendReady q \<in> set (snd (waitForStart us run c es)) \<Longrightarrow> q = c"
  by (induction us run c es rule: waitForStart.induct)
    (auto simp: case_prod_beta split: if_splits sum.splits)

lemma waitForStart_run:
  "c \<noteq> '''' \<Longrightarrow> RunProcesses b params \<in> set (snd (waitForStart us run c es)) \<Longrightarrow>
   \<not> b \<and> fst (waitForStart us run c es) = run False params \<and>
   (\<exists>payload msg. StartMsg c payload \<in> set es \<and> us payload = Inr msg \<and> params = smsg_Params msg)"
proof (induction us run c es rule: waitForStart.induct)
  case (3 us run c q payload es)
  show ?case
  proof (cases "q = c")
    case False
    with 3 show ?thesis by auto
  next
    case True
    with 3(3) show ?thesis
      by (cases "us payload") (auto simp: UnmarshalStartMessage_def)
  qed
next
  case (2 us run c q es)
  then show ?case by (cases "q = c") (auto simp: case_prod_beta)
qed simp_all

text \<open>
  C15. A relayer that is not the coordinator follows only the coordinator: it announces that
  it is ready to nobody else, and it runs the processes only with the parameters of a start
  message that the coordinator sent.
\<close>

theorem wait_for_start_obeys_coordinator:
  assumes "c \<noteq> ''''" "waitForStart us run c es = (r, acts)"
  shows "(\<forall>q. SendReady q \<in> set acts \<longrightarrow> q = c) \<and>
     (\<forall>b params. RunProcesses b params \<in> set acts \<longrightarrow>
        \<not> b \<and> r = run False params \<and>
        (\<exists>payload msg. StartMsg c payload \<in> set es \<and> us payload = Inr msg \<and> params = smsg_Params msg))"
proof -
  have "acts = snd (waitForStart us run c es)" "r = fst (waitForStart us run c es)" using assms(2) by simp_all
  then show ?thesis
    using waitForStart_ready [OF assms(1)] waitForStart_run [OF assms(1)] by blast
qed

theorem wait_for_start_obeys_coordinator_witness:
  "\<exists>r acts. waitForStart (\<lambda>b. Inr \<lparr>smsg_Params = b\<rparr>) (\<lambda>_ _. Some (Inr ())) ''c''
      [InitiateMsg ''x'', InitiateMsg ''c'', StartMsg ''x'' [6], StartMsg ''c'' [7]] = (r, acts) \<and>
     acts = [SendReady ''c'', RunProcesses False [7]] \<and> (\<forall>q. SendReady q \<in> set acts \<longrightarrow> q = ''c'')"
proof -
  have run: "waitForStart (\<lambda>b. Inr \<lparr>smsg_Params = b\<rparr>) (\<lambda>_ _. Some (Inr ())) ''c''
      [InitiateMsg ''x'', InitiateMsg ''c'', StartMsg ''x'' [6], StartMsg ''c'' [7]]
      = (Some (Inr ()), [SendReady ''c'', RunProcesses False [7]])"
    by (simp add: UnmarshalStartMessage_def)
  from wait_for_start_obeys_coordinator [OF _ run] run show ?thesis by blast
qed

section \<open>Sessions end\<close>

lemma with_watcher_acts [simp]: "snd (with_watcher env s c es task) = snd task"
  by (simp add: with_watcher_def split: option.splits)

lemma Execute_cases:
  assumes "\<not> pending (pr_SessionID p)"
  obtains (running) acts where "Execute env ev ev' pending (p # ps) = (None, pending(pr_SessionID p := True), acts)"
  | (ended) result acts where "Execute env ev ev' pending (p # ps) = (Some result, pending(pr_SessionID p := False),
      acts @ ReleaseSession (pr_SessionID p) # map (StopProcess \<circ> pr_SessionID) (p # ps))"
proof -
  from assms have "(\<exists>acts. Execute env ev ev' pending (p # ps) = (None, pending(pr_SessionID p := True), acts)) \<or>
    (\<exists>result acts. Execute env ev ev' pending (p # ps) = (Some result, pending(pr_SessionID p := False),
      acts @ ReleaseSession (pr_SessionID p) # map (StopProcess \<circ> pr_SessionID) (p # ps)))"
    by (simp add: Execute_def Let_def split: prod.split option.split)
  then show thesis using running ended by blast
qed


definition example_env :: coordinator_env where
  "example_env = \<lparr>co_hash = example_hash, co_lib = undefined, co_marshalStart = Inr, co_unmarshalStart = (\<lambda>b. Inr \<lparr>smsg_Params = b\<rparr>),
     co_run = (\<lambda>_ _. Some (Inr ())), co_elect = (\<lambda>ps. Inr (hd ps)), co_join = (\<lambda>r w. case r of Inl e \<Rightarrow> Inl e | Inr _ \<Rightarrow> w),
     co_host = ''z''\<rparr>"


section \<open>Sessions terminate\<close>

text \<open>
  The timers of a pool have run out: the process timeout has reached the watcher, the coordinator
  timeout a waiting relayer, and the cancelled context a coordinating one.
\<close>

definition timed_out :: "session_events \<Rightarrow> bool" where
  "timed_out ev \<longleftrightarrow> InitiateDone \<in> set (se_inits ev) \<and> WaitTimeout \<in> set (se_waits ev) \<and> WatchTimeout \<in> set (se_watch ev)"

text \<open>Processes that were started return. Theory \<open>Tss_Run\<close> says when they do.\<close>

definition runs_return :: "(bool \<Rightarrow> bytes \<Rightarrow> unit tres option) \<Rightarrow> bool" where
  "runs_return run \<longleftrightarrow> (\<forall>c params. \<exists>r. run c params = Some r)"

lemma runs_returnD: "runs_return run \<Longrightarrow> \<exists>r. run c params = Some r"
  by (simp add: runs_return_def)

lemma initiate_loop_ends:
  "runs_return run \<Longrightarrow> InitiateDone \<in> set es \<Longrightarrow> fst (initiate_loop ms run p excluded ready es) \<noteq> None"
  by (induction ms run p excluded ready es rule: initiate_loop.induct)
    (auto simp: Let_def case_prod_beta runs_returnD split: sum.splits bool.splits)

lemma waitForStart_ends: "runs_return run \<Longrightarrow> WaitTimeout \<in> set es \<Longrightarrow> fst (waitForStart us run c es) \<noteq> None"
  by (induction us run c es rule: waitForStart.induct) (auto simp: case_prod_beta runs_returnD split: sum.splits)

lemma watch_ends: "WatchTimeout \<in> set es \<Longrightarrow> Coordinator_watchExecution h s c es \<noteq> None"
  by (induction h s c es rule: Coordinator_watchExecution.induct) auto

definition returned :: "'a option \<times> 'b \<Rightarrow> bool" where
  "returned t \<longleftrightarrow> fst t \<noteq> None"

lemma start_ends:
  "runs_return run \<Longrightarrow> timed_out ev \<Longrightarrow> returned (start h ms us run host p c excluded (se_inits ev) (se_waits ev))"
  using initiate_loop_ends [of run "se_inits ev" ms p excluded "[host]"] waitForStart_ends [of run "se_waits ev" us c]
  by (auto simp: start_def initiate_def timed_out_def returned_def case_prod_beta)

lemma with_watcher_ends:
  "timed_out ev \<Longrightarrow> returned task \<Longrightarrow> returned (with_watcher env s c (se_watch ev) task)"
  using watch_ends [of "se_watch ev" "co_hash env" s c] by (auto simp: with_watcher_def timed_out_def returned_def)

lemma handleError_ends:
  assumes "runs_return (co_run env)" "timed_out ev"
  shows "returned (handleError env p ev err)"
proof -
  have "returned (waitForStart us (co_run env) c (se_waits ev))" for us c
    using assms waitForStart_ends by (simp add: returned_def timed_out_def)
  moreover have "returned (Some x, acts)" for x :: "unit tres" and acts :: "coord_action list" by (simp add: returned_def)
  ultimately show ?thesis
    by (auto simp: handleError_def retry_def intro!: with_watcher_ends start_ends assms split: retry_plan.split sum.split)
qed

lemma Execute_returns:
  assumes "runs_return (co_run env)" "timed_out ev" "timed_out ev'"
  shows "\<exists>result. fst (Execute env ev ev' pending processes) = Some result"
proof (cases processes)
  case (Cons p ps)
  let ?c = "StaticCoordinator (co_hash env) (pr_SessionID p) (pr_ValidCoordinators p)"
  have "returned (with_watcher env (pr_SessionID p) ?c (se_watch ev) (start (co_hash env) (co_marshalStart env) (co_unmarshalStart env)
      (co_run env) (co_host env) p ?c [] (se_inits ev) (se_waits ev)))"
    by (intro with_watcher_ends start_ends assms(1,2))
  moreover have "fst (handleError env p ev' err) \<noteq> None" for err
    using handleError_ends [OF assms(1,3)] by (simp add: returned_def)
  ultimately have "fst (Execute env ev ev' pending processes) \<noteq> None" using Cons
    by (auto simp: Execute_def Let_def case_prod_beta returned_def simp del: not_None_eq split: sum.split option.split)
  then show ?thesis by blast
qed (simp add: Execute_def)

text \<open>
  No session hangs: once the timers of the first pool and, if there is a retry, of the second pool have
  run out, the execution has returned, provided that the processes it has started return.
\<close>

theorem session_terminates:
  assumes "runs_return (co_run env)" "timed_out ev" "timed_out ev'"
  shows "\<exists>result. fst (Execute env ev ev' pending processes) = Some result"
  by (rule Execute_returns [OF assms])

theorem session_terminates_witness:
  "\<exists>result. fst (Execute example_env
      \<lparr>se_inits = [InitiateTick, InitiateDone], se_waits = [WaitTimeout], se_watch = [WatchTimeout]\<rparr>
      \<lparr>se_inits = [InitiateDone], se_waits = [WaitTimeout], se_watch = [WatchTimeout]\<rparr> (\<lambda>_. False) [example_process]) = Some result"
  by (rule session_terminates) (simp_all add: timed_out_def runs_return_def example_env_def)

end
