(* ===== verification/Tss_Run.thy ===== *)
theory Tss_Run
  imports Tss_Frost
begin

text \<open>
  Running a tss process (the \<open>Run\<close> methods of \<open>tss/ecdsa\<close> and \<open>tss/frost\<close>): setting up the local
  party, and the pool of goroutines that move messages, wait for the end of the protocol and watch
  for a party that is stuck. A run is a sequence of events in the order in which the goroutines take
  them; an event for a goroutine that has returned stays in its channel. The goroutines share a
  context: it is cancelled from outside, by a goroutine that fails, and by the \<open>Cancel\<close> that ends the
  goroutine for the end message and the monitor. The loops of these goroutines are those of theories
  \<open>Tss\<close> and \<open>Tss_Frost\<close>, taken one event at a time.
\<close>

section \<open>Pools of goroutines\<close>

datatype worker = Outbound | Inbound | EndMessage | Monitor

text \<open>\<open>Sending\<close> is a goroutine that waits for the receiver of an unbuffered channel.\<close>

datatype status = Running | Sending | Returned "unit tres"

record 's pool =
  pl_cancelled :: bool
  pl_status :: "worker \<Rightarrow> status"
  pl_errors :: "tss_error list"
  pl_state :: 's

definition workers :: "worker list" where
  "workers = [Outbound, Inbound, EndMessage, Monitor]"

text \<open>A pool without some of the goroutines is one in which these have returned.\<close>

definition start_pool :: "worker list \<Rightarrow> 's \<Rightarrow> 's pool" where
  "start_pool ws s =
     \<lparr>pl_cancelled = False, pl_status = (\<lambda>w. if w \<in> set ws then Running else Returned (Inr ())),
      pl_errors = [], pl_state = s\<rparr>"

definition cancel_pool :: "'s pool \<Rightarrow> 's pool" where
  "cancel_pool p = p\<lparr>pl_cancelled := True\<rparr>"

text \<open>A goroutine returns; an error cancels the context (\<open>WithCancelOnError\<close>).\<close>

definition finish :: "worker \<Rightarrow> unit tres \<Rightarrow> 's pool \<Rightarrow> 's pool" where
  "finish w r p =
     p\<lparr>pl_status := (pl_status p)(w := Returned r),
       pl_errors := pl_errors p @ (case r of Inl e \<Rightarrow> [e] | Inr _ \<Rightarrow> []),
       pl_cancelled := (pl_cancelled p \<or> \<not> is_ok r)\<rparr>"

text \<open>
  One turn of the loop of a goroutine: \<open>f\<close> changes the shared state and says whether the loop ends.
  With \<open>deferred\<close> the goroutine cancels the context when it returns.
\<close>

definition turn :: "worker \<Rightarrow> bool \<Rightarrow> ('s \<Rightarrow> unit tres option \<times> 's) \<Rightarrow> 's pool \<Rightarrow> 's pool" where
  "turn w deferred f p =
     (if pl_status p w \<noteq> Running then p
      else (case f (pl_state p) of
              (None, s) \<Rightarrow> p\<lparr>pl_state := s\<rparr>
            | (Some r, s) \<Rightarrow>
                (let p' = finish w r (p\<lparr>pl_state := s\<rparr>) in if deferred then cancel_pool p' else p')))"

text \<open>The select of a goroutine takes the branch of the cancelled context.\<close>

definition leave :: "worker \<Rightarrow> 's pool \<Rightarrow> 's pool" where
  "leave w p = (if pl_cancelled p then turn w False (\<lambda>s. (Some (Inr ()), s)) p else p)"

definition all_returned :: "'s pool \<Rightarrow> bool" where
  "all_returned p = list_all (\<lambda>w. case pl_status p w of Returned _ \<Rightarrow> True | _ \<Rightarrow> False) workers"

text \<open>\<open>Wait\<close>; how the pool combines several errors is an argument.\<close>

definition pool_wait :: "(tss_error list \<Rightarrow> tss_error) \<Rightarrow> 's pool \<Rightarrow> unit tres option" where
  "pool_wait join p =
     (if \<not> all_returned p then None
      else if pl_errors p = [] then Some (Inr ())
      else Some (Inl (join (pl_errors p))))"

section \<open>ECDSA processes\<close>

text \<open>
  The libraries: \<open>tl_Update\<close>, \<open>tl_Start\<close> and the constructors of the local party belong to tss-lib,
  \<open>tl_send\<close> is the broadcast of the communication layer.
\<close>

record 'st tss_env =
  tl_lib :: tss_lib
  tl_hash :: peer_hash
  tl_Marshal :: "TssMessage \<Rightarrow> bytes tres"
  tl_Unmarshal :: "bytes \<Rightarrow> TssMessage tres"
  tl_send :: "peerID list \<Rightarrow> bytes \<Rightarrow> MessageType \<Rightarrow> string \<Rightarrow> unit tres"
  tl_Update :: "'st \<Rightarrow> bytes \<Rightarrow> party option \<Rightarrow> bool \<Rightarrow> nat \<Rightarrow> unit tres \<times> 'st"
  tl_Start :: "'st \<Rightarrow> unit tres \<times> 'st"
  tl_join :: "tss_error list \<Rightarrow> tss_error"

text \<open>What a run works with: the local party, what was sent, the monitor's memory and \<open>'x\<close>, what the end changes.\<close>

record ('st, 'x) run_state =
  rn_party :: 'st
  rn_started :: "unit tres option"
  rn_sent :: "(peerID list \<times> bytes) list"
  rn_waitingFor :: "party list"
  rn_end :: 'x

text \<open>The fixed data of a process.\<close>

record run_base =
  rb_SID :: string
  rb_Peers :: "peerID list"
  rb_PartyStore :: "string \<rightharpoonup> party"
  rb_messageType :: MessageType

datatype 'e run_event =
    OutMsg out_message
  | InMsg "peerID WrappedMessage"
  | EndMsg 'e
  | MonitorTick "party list"
  | PartyStart
  | Leave worker
  | CancelRun

definition start_party :: "'st tss_env \<Rightarrow> ('st, 'x) run_state \<Rightarrow> ('st, 'x) run_state" where
  "start_party env s =
     (case rn_started s of
        Some _ \<Rightarrow> s
      | None \<Rightarrow> (let (r, st) = tl_Start env (rn_party s) in s\<lparr>rn_party := st, rn_started := Some r\<rparr>))"

fun run_step ::
  "'st tss_env \<Rightarrow> run_base \<Rightarrow> ('e \<Rightarrow> 'x \<Rightarrow> unit tres \<times> 'x) \<Rightarrow> 'e run_event \<Rightarrow>
   ('st, 'x) run_state pool \<Rightarrow> ('st, 'x) run_state pool" where
  "run_step env b onEnd (OutMsg m) p =
     turn Outbound False (\<lambda>s.
       let (r, out) = ProcessOutboundMessages (tl_lib env) (tl_Marshal env) (tl_send env) (rb_Peers b) (rb_SID b)
             (rb_messageType b) [Event m]
       in (r, s\<lparr>rn_sent := rn_sent s @ out\<rparr>)) p"
| "run_step env b onEnd (InMsg w) p =
     turn Inbound False (\<lambda>s.
       let (r, st) = ProcessInboundMessages (tl_Unmarshal env) (Pretty (tl_hash env)) (tl_Update env) (rb_SID b)
             (rb_PartyStore b) (rn_party s) [Event w]
       in (r, s\<lparr>rn_party := st\<rparr>)) p"
| "run_step env b onEnd (EndMsg e) p =
     turn EndMessage True (\<lambda>s. let (r, x) = onEnd e (rn_end s) in (Some r, s\<lparr>rn_end := x\<rparr>)) p"
| "run_step env b onEnd (MonitorTick current) p =
     turn Monitor True (\<lambda>s. (monitorSigning (rn_waitingFor s) [Event current], s\<lparr>rn_waitingFor := current\<rparr>)) p"
| "run_step env b onEnd PartyStart p = p\<lparr>pl_state := start_party env (pl_state p)\<rparr>"
| "run_step env b onEnd (Leave w) p = leave w p"
| "run_step env b onEnd CancelRun p = cancel_pool p"

definition run_pool ::
  "'st tss_env \<Rightarrow> run_base \<Rightarrow> ('e \<Rightarrow> 'x \<Rightarrow> unit tres \<times> 'x) \<Rightarrow> 'e run_event list \<Rightarrow>
   ('st, 'x) run_state pool \<Rightarrow> ('st, 'x) run_state pool" where
  "run_pool env b onEnd es p = fold (run_step env b onEnd) es p"

text \<open>\<open>Run\<close> returns an error of \<open>Party.Start\<close> at once, and otherwise what the pool returns.\<close>

definition run_result :: "'st tss_env \<Rightarrow> ('st, 'x) run_state pool \<Rightarrow> unit tres option" where
  "run_result env p =
     (case rn_started (pl_state p) of
        None \<Rightarrow> None
      | Some (Inl e) \<Rightarrow> Some (Inl e)
      | Some (Inr _) \<Rightarrow> pool_wait (tl_join env) p)"


text \<open>How a run ended, whether it subscribed to the messages of its session, and its pool if there was one.\<close>

record ('p, 'x) run_outcome =
  ro_result :: "unit tres option"
  ro_subscribed :: bool
  ro_pool :: "'p option"
  ro_end :: 'x

definition failed_run :: "tss_error \<Rightarrow> bool \<Rightarrow> 'x \<Rightarrow> ('p, 'x) run_outcome" where
  "failed_run err subscribed x =
     \<lparr>ro_result = Some (Inl err), ro_subscribed = subscribed, ro_pool = None, ro_end = x\<rparr>"

definition pool_run ::
  "'st tss_env \<Rightarrow> run_base \<Rightarrow> ('e \<Rightarrow> 'x \<Rightarrow> unit tres \<times> 'x) \<Rightarrow> worker list \<Rightarrow> 'st \<Rightarrow> 'x \<Rightarrow> 'e run_event list \<Rightarrow>
   (('st, 'x) run_state pool, 'x) run_outcome" where
  "pool_run env b onEnd ws party x es =
     (let p = run_pool env b onEnd es
            (start_pool ws \<lparr>rn_party = party, rn_started = None, rn_sent = [], rn_waitingFor = [], rn_end = x\<rparr>)
      in \<lparr>ro_result = run_result env p, ro_subscribed = True, ro_pool = Some p, ro_end = rn_end (pl_state p)\<rparr>)"

text \<open>
  Signing. \<open>newParameters\<close> and \<open>newLocalParty\<close> are the constructors of tss-lib; the end message is put
  on the result channel, \<open>rn_end\<close>.
\<close>

definition Signing_onEnd :: "'k Signing \<Rightarrow> 'sig \<Rightarrow> 'sig option list \<Rightarrow> unit tres \<times> 'sig option list" where
  "Signing_onEnd s sig results =
     (Inr (), results @ (case Signing_processEndMessage s (Event sig) of None \<Rightarrow> [] | Some r \<Rightarrow> [r]))"

definition Signing_base :: "'k Signing \<Rightarrow> run_base" where
  "Signing_base s = \<lparr>rb_SID = sg_SID s, rb_Peers = sg_Peers s, rb_PartyStore = sg_PartyStore s, rb_messageType = TssKeySignMsg\<rparr>"

definition Signing_RunPool ::
  "'st tss_env \<Rightarrow> (party list \<Rightarrow> party option \<Rightarrow> nat \<Rightarrow> int \<Rightarrow> 'tp tres) \<Rightarrow> (nat \<Rightarrow> 'tp \<Rightarrow> 'k \<Rightarrow> nat \<Rightarrow> nat \<Rightarrow> 'st tres) \<Rightarrow>
   (bytes \<Rightarrow> peerID list tres) \<Rightarrow> bool \<Rightarrow> bytes \<Rightarrow> 'k Signing \<Rightarrow> 'sig run_event list \<Rightarrow> (('st, 'sig option list) run_state pool, 'sig option list) run_outcome" where
  "Signing_RunPool env newParameters newLocalParty Unmarshal coordinator params s es =
     (case Signing_Run (tl_hash env) (tl_lib env) Unmarshal coordinator params s of
        Inl err \<Rightarrow> failed_run err False []
      | Inr (s', parties) \<Rightarrow>
     (case newParameters parties (sg_PartyStore s' (Pretty (tl_hash env) (sg_host s'))) (length parties)
             (ek_Threshold (sg_key s')) of
        Inl err \<Rightarrow> failed_run err False []
      | Inr tssParams \<Rightarrow>
     (case newLocalParty (sg_msg s') tssParams (ek_Key (sg_key s')) 0 (SetBytes (str_bytes (sg_SID s'))) of
        Inl err \<Rightarrow> failed_run err False []
      | Inr party \<Rightarrow>
          pool_run env (Signing_base s') (Signing_onEnd s') [Outbound, Inbound, EndMessage, Monitor] party [] es)))"

text \<open>
  Key generation and resharing. They hold the key share lock, so that \<open>rn_end\<close> is the store; both
  subscribe before they create the local party. Errors of the store become errors of the process.
\<close>

definition store_result :: "unit res \<times> keyshare_store \<Rightarrow> unit tres \<times> keyshare_store" where
  "store_result rs = ((case fst rs of Inr u \<Rightarrow> Inr u | Inl (Error e) \<Rightarrow> Inl (OtherError e) | Inl (Panic e) \<Rightarrow> Inl (OtherError e)), snd rs)"

definition Keygen_RunPool ::
  "'st tss_env \<Rightarrow> (party list \<Rightarrow> party option \<Rightarrow> nat \<Rightarrow> int \<Rightarrow> 'tp tres) \<Rightarrow> ('tp \<Rightarrow> nat \<Rightarrow> 'st tres) \<Rightarrow>
   (keyshare_store \<Rightarrow> 'k ECDSAKeyshare \<Rightarrow> unit res \<times> keyshare_store) \<Rightarrow> peerID list \<Rightarrow> keyshare_store \<Rightarrow> Keygen \<Rightarrow>
   'k run_event list \<Rightarrow> (('st, keyshare_store) run_state pool, keyshare_store) run_outcome option" where
  "Keygen_RunPool env newParameters newLocalParty StoreKeyshare peerstore ks k es =
     (case Keygen_Run (tl_lib env) peerstore ks k of
        None \<Rightarrow> None
      | Some (locked, parties, store) \<Rightarrow> Some
     (case newParameters parties (store (Pretty (tl_hash env) (kg_host k))) (length parties) (kg_threshold k) of
        Inl err \<Rightarrow> failed_run err False locked
      | Inr tssParams \<Rightarrow>
     (case newLocalParty tssParams (SetBytes (str_bytes (kg_SID k))) of
        Inl err \<Rightarrow> failed_run err True locked
      | Inr party \<Rightarrow>
          pool_run env \<lparr>rb_SID = kg_SID k, rb_Peers = kg_Peers k, rb_PartyStore = store, rb_messageType = TssKeyGenMsg\<rparr>
            (\<lambda>key ks. store_result (Keygen_processEndMessage StoreKeyshare ks k (Event key)))
            [Outbound, Inbound, EndMessage] party locked es)))"

text \<open>
  A resharing builds the new committee first; a panic there is a panic of the run. The peers of its
  key share were sorted in place by the check of the start parameters.
\<close>

definition Resharing_RunPool ::
  "'st tss_env \<Rightarrow> party \<Rightarrow> (party list \<Rightarrow> party list \<Rightarrow> party option \<Rightarrow> nat \<Rightarrow> int \<Rightarrow> nat \<Rightarrow> int \<Rightarrow> 'tp tres) \<Rightarrow>
   ('tp \<Rightarrow> 'k \<Rightarrow> nat \<Rightarrow> 'st tres) \<Rightarrow> (bytes \<Rightarrow> startParams tres) \<Rightarrow>
   (keyshare_store \<Rightarrow> 'k ECDSAKeyshare \<Rightarrow> unit res \<times> keyshare_store) \<Rightarrow> peerID list \<Rightarrow> keyshare_store \<Rightarrow> bytes \<Rightarrow>
   'k Resharing \<Rightarrow> 'k run_event list \<Rightarrow> (('st, keyshare_store) run_state pool, keyshare_store) run_outcome res" where
  "Resharing_RunPool env nilParty newParameters newLocalParty Unmarshal StoreKeyshare peerstore ks params r es =
     (case Resharing_Run (tl_hash env) (tl_lib env) nilParty Unmarshal peerstore params r of
        Inl err \<Rightarrow> Inr (failed_run err False ks)
      | Inr (sp, r', oldParties, newParties) \<Rightarrow>
     and_then newParties (\<lambda>parties.
       let store = PopulatePartyStore Map.empty parties in
       Inr (case newParameters oldParties parties (store (Pretty (tl_hash env) (rs_host r'))) (length oldParties)
                   (sp_OldThreshold sp) (length parties) (rs_newThreshold r') of
              Inl err \<Rightarrow> failed_run err False ks
            | Inr tssParams \<Rightarrow>
           (case newLocalParty tssParams (ek_Key (rs_key r')) (SetBytes (str_bytes (rs_SID r'))) of
              Inl err \<Rightarrow> failed_run err True ks
            | Inr party \<Rightarrow>
                pool_run env \<lparr>rb_SID = rs_SID r', rb_Peers = rs_Peers r', rb_PartyStore = store, rb_messageType = TssReshareMsg\<rparr>
                  (\<lambda>key ks. store_result (Resharing_processEndMessage StoreKeyshare ks r' (Event key)))
                  [Outbound, Inbound, EndMessage] party ks es))))"


section \<open>FROST processes\<close>

text \<open>
  The protocol handler \<open>'h\<close> of multi-party-sig: \<open>fv_CanAccept\<close> is asked by the inbound loop, which
  hands an accepted message to a goroutine of its own; that one calls \<open>fv_Accept\<close> some time later.
\<close>

record ('h, 'm) frost_env =
  fv_lib :: tss_lib
  fv_hash :: peer_hash
  fv_send :: "peerID list \<Rightarrow> bytes \<Rightarrow> MessageType \<Rightarrow> string \<Rightarrow> unit tres"
  fv_Unmarshal :: "bytes \<Rightarrow> 'm tres"
  fv_CanAccept :: "'h \<Rightarrow> 'm \<Rightarrow> bool"
  fv_Accept :: "'h \<Rightarrow> 'm \<Rightarrow> 'h"
  fv_join :: "tss_error list \<Rightarrow> tss_error"

record ('h, 'm, 'x) frost_state =
  fs_handler :: 'h
  fs_accepting :: "'m list"
  fs_sent :: "(peerID list \<times> bytes) list"
  fs_end :: 'x

datatype 'm frost_event =
    FIn "peerID WrappedMessage"
  | FAccept 'm
  | FOut "frost_message option"
  | FHandOver
  | FLeave worker
  | FCancel

text \<open>
  When the handler has closed its channel the outbound goroutine sends on the unbuffered channel
  \<open>Done\<close>; it returns when the goroutine for the end message receives it, which then asks for the result.
\<close>

definition close_outbound :: "'s pool \<Rightarrow> 's pool" where
  "close_outbound p = p\<lparr>pl_status := (pl_status p)(Outbound := Sending)\<rparr>"

fun frost_step ::
  "('h, 'm) frost_env \<Rightarrow> string \<Rightarrow> peerID list \<Rightarrow> MessageType \<Rightarrow> ('h \<Rightarrow> 'x \<Rightarrow> unit tres \<times> 'x) \<Rightarrow> 'm frost_event \<Rightarrow>
   ('h, 'm, 'x) frost_state pool \<Rightarrow> ('h, 'm, 'x) frost_state pool" where
  "frost_step env SID Peers messageType onEnd (FIn w) p =
     turn Inbound False (\<lambda>s.
       let (r, acc) = Frost_ProcessInboundMessages (fv_Unmarshal env) (fv_CanAccept env (fs_handler s)) [Event w]
       in (r, s\<lparr>fs_accepting := fs_accepting s @ acc\<rparr>)) p"
| "frost_step env SID Peers messageType onEnd (FAccept m) p =
     (let s = pl_state p in
      if m \<in> set (fs_accepting s)
      then p\<lparr>pl_state := s\<lparr>fs_accepting := remove1 m (fs_accepting s), fs_handler := fv_Accept env (fs_handler s) m\<rparr>\<rparr>
      else p)"
| "frost_step env SID Peers messageType onEnd (FOut m) p =
     (case Frost_ProcessOutboundMessages (fv_lib env) (fv_send env) Peers SID messageType [Event m] of
        (r, out, True) \<Rightarrow> if pl_status p Outbound = Running then close_outbound p else p
      | (r, out, False) \<Rightarrow> turn Outbound False (\<lambda>s. (r, s\<lparr>fs_sent := fs_sent s @ out\<rparr>)) p)"
| "frost_step env SID Peers messageType onEnd FHandOver p =
     (if pl_status p Outbound = Sending \<and> pl_status p EndMessage = Running
      then turn EndMessage True (\<lambda>s. let (r, x) = onEnd (fs_handler s) (fs_end s) in (Some r, s\<lparr>fs_end := x\<rparr>))
             (finish Outbound (Inr ()) p)
      else p)"
| "frost_step env SID Peers messageType onEnd (FLeave w) p = leave w p"
| "frost_step env SID Peers messageType onEnd FCancel p = cancel_pool p"

definition frost_pool ::
  "('h, 'm) frost_env \<Rightarrow> string \<Rightarrow> peerID list \<Rightarrow> MessageType \<Rightarrow> ('h \<Rightarrow> 'x \<Rightarrow> unit tres \<times> 'x) \<Rightarrow> 'h \<Rightarrow> 'x \<Rightarrow>
   'm frost_event list \<Rightarrow> (('h, 'm, 'x) frost_state pool, 'x) run_outcome" where
  "frost_pool env SID Peers messageType onEnd handler x es =
     (let p = fold (frost_step env SID Peers messageType onEnd) es
            (start_pool [Inbound, EndMessage, Outbound] \<lparr>fs_handler = handler, fs_accepting = [], fs_sent = [], fs_end = x\<rparr>)
      in \<lparr>ro_result = pool_wait (fv_join env) p, ro_subscribed = True, ro_pool = Some p, ro_end = fs_end (pl_state p)\<rparr>)"

definition Frost_Signing_onEnd ::
  "('h \<Rightarrow> 'sig tres) \<Rightarrow> ('s, 'pt) FrostSigning \<Rightarrow> 'h \<Rightarrow> (int \<times> 'sig) list \<Rightarrow> unit tres \<times> (int \<times> 'sig) list" where
  "Frost_Signing_onEnd Result s handler results =
     (case Frost_processEndMessage s (Event (Result handler)) of
        Inl err \<Rightarrow> (Inl err, results)
      | Inr None \<Rightarrow> (Inr (), results)
      | Inr (Some r) \<Rightarrow> (Inr (), results @ [r]))"

text \<open>\<open>newHandler\<close> is \<open>NewMultiHandler\<close> applied to the protocol of the process.\<close>

definition Frost_Signing_RunPool ::
  "('h, 'm) frost_env \<Rightarrow> (('s, 'pt) TaprootConfig \<Rightarrow> string list \<Rightarrow> bytes \<Rightarrow> bytes \<Rightarrow> 'h tres) \<Rightarrow> ('h \<Rightarrow> 'sig tres) \<Rightarrow>
   (bytes \<Rightarrow> peerID list tres) \<Rightarrow> bytes \<Rightarrow> ('s, 'pt) FrostSigning \<Rightarrow> 'm frost_event list \<Rightarrow>
   (('h, 'm, (int \<times> 'sig) list) frost_state pool, (int \<times> 'sig) list) run_outcome" where
  "Frost_Signing_RunPool env newHandler Result Unmarshal params s es =
     (case Frost_Run (fv_hash env) (PeerString (fv_lib env)) Unmarshal params s of
        (Inl err, s') \<Rightarrow> failed_run err False []
      | (Inr partyIds, s') \<Rightarrow>
     (case newHandler (fk_Key (fsg_key s')) partyIds (fsg_msg s') (str_bytes (fsg_SID s')) of
        Inl err \<Rightarrow> failed_run err True []
      | Inr handler \<Rightarrow>
          frost_pool env (fsg_SID s') (fsg_Peers s') TssKeySignMsg (Frost_Signing_onEnd Result s') handler [] es))"

definition Frost_Keygen_RunPool ::
  "('h, 'm) frost_env \<Rightarrow> (string \<Rightarrow> string list \<Rightarrow> int \<Rightarrow> bytes \<Rightarrow> 'h tres) \<Rightarrow> ('h \<Rightarrow> ('s, 'pt) TaprootConfig res) \<Rightarrow>
   (keyshare_store \<Rightarrow> ('s, 'pt) FrostKeyshare \<Rightarrow> unit res \<times> keyshare_store) \<Rightarrow> peerID list \<Rightarrow> keyshare_store \<Rightarrow> Keygen \<Rightarrow>
   'm frost_event list \<Rightarrow> (('h, 'm, keyshare_store) frost_state pool, keyshare_store) run_outcome" where
  "Frost_Keygen_RunPool env newHandler Result StoreKeyshare peerstore ks k es =
     (case newHandler (PeerString (fv_lib env) (kg_host k)) (Frost_Keygen_Run (PeerString (fv_lib env)) peerstore k)
             (kg_threshold k) (str_bytes (kg_SID k)) of
        Inl err \<Rightarrow> failed_run err True ks
      | Inr handler \<Rightarrow>
          frost_pool env (kg_SID k) (kg_Peers k) TssKeyGenMsg
            (\<lambda>h ks. store_result (Frost_Keygen_processEndMessage StoreKeyshare ks k (Event (Result h)))) handler ks es)"

definition Frost_Resharing_RunPool ::
  "('h, 'm) frost_env \<Rightarrow> 'pt \<Rightarrow> (('s, 'pt) TaprootConfig \<Rightarrow> string list \<Rightarrow> bytes \<Rightarrow> 'h tres) \<Rightarrow>
   ('h \<Rightarrow> ('s, 'pt) TaprootConfig res) \<Rightarrow> (bytes \<Rightarrow> 'pt frost_startParams tres) \<Rightarrow>
   (keyshare_store \<Rightarrow> ('s, 'pt) FrostKeyshare \<Rightarrow> unit res \<times> keyshare_store) \<Rightarrow> peerID list \<Rightarrow> keyshare_store \<Rightarrow> bytes \<Rightarrow>
   ('s, 'pt) FrostResharing \<Rightarrow> 'm frost_event list \<Rightarrow>
   (('h, 'm, keyshare_store) frost_state pool, keyshare_store) run_outcome" where
  "Frost_Resharing_RunPool env newPoint newHandler Result Unmarshal StoreKeyshare peerstore ks params r es =
     (case Frost_Resharing_Run newPoint (PeerString (fv_lib env)) Unmarshal peerstore params r of
        Inl err \<Rightarrow> failed_run err True ks
      | Inr (r', partyIds) \<Rightarrow>
     (case newHandler (fk_Key (frs_key r')) partyIds (str_bytes (frs_SID r')) of
        Inl err \<Rightarrow> failed_run err True ks
      | Inr handler \<Rightarrow>
          frost_pool env (frs_SID r') (frs_Peers r') TssReshareMsg
            (\<lambda>h ks. store_result (Frost_Resharing_processEndMessage StoreKeyshare ks r' (Event (Result h)))) handler ks es))"


section \<open>Stopping a process\<close>

text \<open>
  \<open>Stop\<close> removes the subscription of the run and cancels its context. Before the first run the identifier of
  the subscription is empty and \<open>Cancel\<close> does nothing. (The processes that change the key also release the
  lock of the key share store: \<open>Keygen_Stop\<close> and \<open>Resharing_Stop\<close>.)
\<close>

record ('c, 'p) stop_state =
  st_subscribers :: "'c subscribersMap"
  st_subscriptionID :: SubscriptionID
  st_pool :: "'p option"

definition Signing_Stop :: "('c, 's pool) stop_state \<Rightarrow> ('c, 's pool) stop_state" where
  "Signing_Stop st =
     st\<lparr>st_subscribers := UnSubscribeFrom (st_subscribers st) (st_subscriptionID st),
        st_pool := map_option cancel_pool (st_pool st)\<rparr>"

definition Frost_Signing_Stop :: "('c, 's pool) stop_state \<Rightarrow> ('c, 's pool) stop_state" where
  "Frost_Signing_Stop st =
     st\<lparr>st_subscribers := UnSubscribeFrom (st_subscribers st) (st_subscriptionID st),
        st_pool := map_option cancel_pool (st_pool st)\<rparr>"

section \<open>Goroutines that have returned, and a context that is cancelled, stay so\<close>

definition later :: "'s pool \<Rightarrow> 's pool \<Rightarrow> bool" where
  "later p p' \<longleftrightarrow> (pl_cancelled p \<longrightarrow> pl_cancelled p') \<and> (\<forall>w r. pl_status p w = Returned r \<longrightarrow> pl_status p' w = Returned r)"

lemma later_refl [simp]: "later p p"
  by (simp add: later_def)

lemma later_trans: "later p q \<Longrightarrow> later q r \<Longrightarrow> later p r"
  by (simp add: later_def)

lemma later_state [simp]: "later p (p\<lparr>pl_state := s\<rparr>)" "later p (cancel_pool p)"
  by (simp_all add: later_def cancel_pool_def)

lemma later_finish: "(\<And>r. pl_status p w \<noteq> Returned r) \<Longrightarrow> later p (finish w x p)"
  by (simp add: later_def finish_def)

lemma later_turn [simp]: "later p (turn w d f p)"
  by (auto simp: turn_def later_def finish_def cancel_pool_def Let_def split: prod.split option.split)

lemma later_leave [simp]: "later p (leave w p)"
  by (simp add: leave_def)

lemma later_run_step: "later p (run_step env b onEnd e p)"
  by (cases e) simp_all

lemma later_frost_step: "later p (frost_step env SID Peers mt onEnd e p)"
proof (cases e)
  case FHandOver
  have "later (finish Outbound (Inr ()) p) (turn EndMessage d f (finish Outbound (Inr ()) p))" for d f by simp
  moreover have "pl_status p Outbound = Sending \<Longrightarrow> later p (finish Outbound (Inr ()) p)"
    by (rule later_finish) simp
  ultimately show ?thesis using FHandOver later_trans by fastforce
next
  case (FOut m)
  then show ?thesis by (auto simp: later_def close_outbound_def later_turn [unfolded later_def] split: prod.split bool.split)
qed (simp_all add: Let_def)

lemma later_fold: "(\<And>e q. later q (step e q)) \<Longrightarrow> later p (fold step es p)"
  by (induction es arbitrary: p) (auto intro: later_trans)

lemma leave_returns:
  assumes "pl_cancelled p" "pl_status p w \<noteq> Sending"
  shows "\<exists>r. pl_status (leave w p) w = Returned r"
  using assms by (cases "pl_status p w") (auto simp: leave_def turn_def finish_def)

lemma all_returned_iff: "all_returned p \<longleftrightarrow> (\<forall>w. \<exists>r. pl_status p w = Returned r)"
proof -
  have "w \<in> set workers" for w by (cases w) (simp_all add: workers_def)
  moreover have "(case pl_status p w of Returned _ \<Rightarrow> True | _ \<Rightarrow> False) \<longleftrightarrow> (\<exists>r. pl_status p w = Returned r)" for w
    by (cases "pl_status p w") auto
  ultimately show ?thesis unfolding all_returned_def list_all_iff by blast
qed

text \<open>
  Once the context is cancelled, every goroutine whose select takes the branch of the context has
  returned, unless it is stuck in a send.
\<close>

lemma fold_leaves:
  assumes "\<And>e q. later q (step e q)" "\<And>q. step (lv w) q = leave w q"
    and "\<And>e q. pl_status q w \<noteq> Sending \<Longrightarrow> e \<in> set es \<Longrightarrow> pl_status (step e q) w \<noteq> Sending"
    and "pl_cancelled p" "pl_status p w \<noteq> Sending" "lv w \<in> set es"
  shows "\<exists>r. pl_status (fold step es p) w = Returned r"
  using assms(3-)
proof (induction es arbitrary: p)
  case (Cons e es)
  show ?case
  proof (cases "e = lv w")
    case True
    then have "\<exists>r. pl_status (step e p) w = Returned r" using leave_returns Cons.prems(2,3) assms(2) by metis
    moreover have "later (step e p) (fold step es (step e p))" by (rule later_fold [OF assms(1)])
    ultimately show ?thesis by (auto simp: later_def)
  next
    case False
    have "pl_cancelled (step e p)" using assms(1) Cons.prems(2) unfolding later_def by blast
    with False Cons show ?thesis by simp
  qed
qed simp


section \<open>ECDSA runs return\<close>

lemma run_step_not_sending: "pl_status p w \<noteq> Sending \<Longrightarrow> pl_status (run_step env b onEnd e p) w \<noteq> Sending"
  by (cases e) (auto simp: turn_def leave_def finish_def cancel_pool_def Let_def split: prod.split option.split)

lemma run_pool_leaves:
  assumes "pl_cancelled p" "\<And>w. pl_status p w \<noteq> Sending" "\<And>w. Leave w \<in> set es"
  shows "all_returned (run_pool env b onEnd es p)"
  unfolding all_returned_iff run_pool_def
  by (intro allI fold_leaves [where lv = Leave] later_run_step run_step_not_sending) (use assms in simp_all)

lemma run_pool_not_sending: "(\<And>w. pl_status p w \<noteq> Sending) \<Longrightarrow> pl_status (run_pool env b onEnd es p) w \<noteq> Sending"
  unfolding run_pool_def by (induction es arbitrary: p) (simp_all add: run_step_not_sending)

lemma run_pool_cancelled: "CancelRun \<in> set es \<Longrightarrow> pl_cancelled (run_pool env b onEnd es p)"
proof (induction es arbitrary: p)
  case (Cons e es)
  show ?case
  proof (cases "e = CancelRun")
    case True
    have "later (cancel_pool p) (run_pool env b onEnd es (cancel_pool p))"
      unfolding run_pool_def by (rule later_fold [OF later_run_step])
    then show ?thesis using True by (simp add: run_pool_def later_def cancel_pool_def)
  qed (use Cons in \<open>simp add: run_pool_def\<close>)
qed simp

lemma start_party_started [simp]: "rn_started (start_party env s) \<noteq> None"
  by (auto simp: start_party_def split: option.split prod.split)

lemma turn_state: "pl_state (turn w d f p) = (if pl_status p w = Running then snd (f (pl_state p)) else pl_state p)"
  by (auto simp: turn_def finish_def cancel_pool_def Let_def split: prod.split option.split)

lemma leave_state [simp]: "pl_state (leave w p) = pl_state p"
  by (simp add: leave_def turn_state)

lemma cancel_state [simp]: "pl_state (cancel_pool p) = pl_state p"
  by (simp add: cancel_pool_def)

lemma run_step_started:
  "rn_started (pl_state p) \<noteq> None \<Longrightarrow> rn_started (pl_state (run_step env b onEnd e p)) = rn_started (pl_state p)"
  by (cases e) (auto simp: turn_state start_party_def split: prod.split option.split)

lemma run_pool_started:
  "PartyStart \<in> set es \<or> rn_started (pl_state p) \<noteq> None \<Longrightarrow> rn_started (pl_state (run_pool env b onEnd es p)) \<noteq> None"
proof (induction es arbitrary: p)
  case (Cons e es)
  have "PartyStart \<in> set es \<or> rn_started (pl_state (run_step env b onEnd e p)) \<noteq> None"
    using Cons.prems run_step_started [of p env b onEnd e] by (cases e) auto
  from Cons.IH [OF this] show ?case by (simp add: run_pool_def)
qed (simp add: run_pool_def)

lemma run_result_returned: "all_returned p \<Longrightarrow> rn_started (pl_state p) \<noteq> None \<Longrightarrow> run_result env p \<noteq> None"
  by (auto simp: run_result_def pool_wait_def split: option.split sum.split)

lemma start_pool_not_sending [simp]: "pl_status (start_pool ws s) w \<noteq> Sending"
  by (simp add: start_pool_def)

lemma pool_run_returns:
  assumes "CancelRun \<in> set es" "PartyStart \<in> set (es @ es')" "\<And>w. Leave w \<in> set es'"
  shows "\<exists>r. ro_result (pool_run env b onEnd ws party x (es @ es')) = Some r"
proof -
  define p where "p = start_pool ws \<lparr>rn_party = party, rn_started = None, rn_sent = [], rn_waitingFor = [], rn_end = x\<rparr>"
  have split: "run_pool env b onEnd (es @ es') p = run_pool env b onEnd es' (run_pool env b onEnd es p)"
    by (simp add: run_pool_def)
  have "all_returned (run_pool env b onEnd (es @ es') p)"
    unfolding split by (rule run_pool_leaves)
      (use assms in \<open>auto simp: run_pool_cancelled p_def run_pool_not_sending\<close>)
  then have "run_result env (run_pool env b onEnd (es @ es') p) \<noteq> None"
    by (rule run_result_returned) (rule run_pool_started, use assms(2) in simp)
  then show ?thesis by (auto simp: pool_run_def Let_def p_def [symmetric])
qed

lemma Signing_RunPool_returns:
  assumes "CancelRun \<in> set es" "PartyStart \<in> set (es @ es')" "\<And>w. Leave w \<in> set es'"
  shows "\<exists>r. ro_result (Signing_RunPool env newParameters newLocalParty Unmarshal coordinator params s (es @ es')) = Some r"
  using pool_run_returns [OF assms]
  by (auto simp: Signing_RunPool_def failed_run_def split: sum.split)

text \<open>
  A signing run that is cancelled returns: once the context of a run is cancelled (the execution has
  timed out, the coordinator has failed, or the relayer stops) and every goroutine has seen it, \<open>Run\<close> has
  a result, whatever else happened before, between and after, and whatever the tss library does.
\<close>

theorem signing_run_returns:
  assumes "CancelRun \<in> set es" "PartyStart \<in> set (es @ es')" "\<And>w. Leave w \<in> set es'"
  shows "\<exists>r. ro_result (Signing_RunPool env newParameters newLocalParty Unmarshal coordinator params s (es @ es')) = Some r"
  using pool_run_returns [OF assms]
  by (auto simp: Signing_RunPool_def failed_run_def split: sum.split)


definition example_tss_env :: "unit tss_env" where
  "example_tss_env =
     \<lparr>tl_lib = example_tss_lib, tl_hash = example_hash, tl_Marshal = (\<lambda>m. Inr (tmsg_MsgBytes m)),
      tl_Unmarshal = (\<lambda>b. Inr \<lparr>tmsg_MsgBytes = b, tmsg_IsBroadcast = True\<rparr>), tl_send = (\<lambda>_ _ _ _. Inr ()),
      tl_Update = (\<lambda>st _ _ _ _. (Inr (), st)), tl_Start = (\<lambda>st. (Inr (), st)), tl_join = hd\<rparr>"

theorem signing_run_returns_witness:
  "\<exists>r. ro_result (Signing_RunPool example_tss_env (\<lambda>_ _ _ _. Inr ()) (\<lambda>_ _ _ _ _. Inr ()) (\<lambda>_. Inr [''a'', ''c'']) True [] example_signing
     ([PartyStart, MonitorTick [], CancelRun, EndMsg ()] @ [Leave Outbound, Leave Inbound, Leave EndMessage, Leave Monitor])) = Some r"
proof (rule signing_run_returns)
  show "Leave w \<in> set [Leave Outbound, Leave Inbound, Leave EndMessage, Leave Monitor]" for w by (cases w) simp_all
qed simp_all

text \<open>
  \<open>Stop\<close> of a signing process: if it never ran nothing changes; if it runs, its channel is no longer
  subscribed, nobody else's subscription changes, and the run returns as soon as its goroutines have seen
  the cancelled context.
\<close>

lemma stopped_before_run:
  assumes "st_subscriptionID st = ''''" "st_pool st = None"
  shows "Signing_Stop st = st" "Frost_Signing_Stop st = st"
  using assms by (simp_all add: Signing_Stop_def Frost_Signing_Stop_def UnSubscribeFrom_def Unwrap_def)

theorem stopped_signing_returns:
  assumes "CHR ''-'' \<notin> set SID" "dec (unat (word_of_int now :: uint32)) \<notin> fst ` set (ms SID TssKeySignMsg)"
    and "SubscribeTo now ms SID TssKeySignMsg channel = (subID, ms')"
    and "Signing_Stop \<lparr>st_subscribers = ms', st_subscriptionID = subID, st_pool = Some (run_pool env b onEnd es (start_pool ws s))\<rparr> = st"
    and "PartyStart \<in> set (es @ es')" "\<And>w. Leave w \<in> set es'"
  shows "st_subscribers st = ms \<and> (\<exists>r. run_result env (run_pool env b onEnd es' (the (st_pool st))) = Some r)"
proof -
  let ?p = "run_pool env b onEnd es (start_pool ws s)"
  have st: "st_subscribers st = UnSubscribeFrom ms' subID" "st_pool st = Some (cancel_pool ?p)"
    using assms(4) by (auto simp: Signing_Stop_def)
  have "UnSubscribeFrom ms' subID = ms"
    using subscription_removed [OF assms(1) _ assms(2,3)] by (simp add: TssKeySignMsg_def Unknown_def)
  moreover have "run_result env (run_pool env b onEnd es' (cancel_pool ?p)) \<noteq> None"
  proof (rule run_result_returned)
    show "all_returned (run_pool env b onEnd es' (cancel_pool ?p))"
      by (rule run_pool_leaves) (use assms(6) in \<open>simp_all add: cancel_pool_def run_pool_not_sending\<close>)
    have "PartyStart \<in> set es' \<or> rn_started (pl_state (cancel_pool ?p)) \<noteq> None"
      using assms(5) run_pool_started [of es "start_pool ws s" env b onEnd] by auto
    then show "rn_started (pl_state (run_pool env b onEnd es' (cancel_pool ?p))) \<noteq> None" by (rule run_pool_started)
  qed
  ultimately show ?thesis using st by auto
qed

section \<open>The end of a run\<close>

lemma run_step_end_kept:
  "pl_status p EndMessage = Returned r \<Longrightarrow> rn_end (pl_state (run_step env b onEnd e p)) = rn_end (pl_state p)"
  by (cases e) (auto simp: turn_state start_party_def split: prod.split option.split)

lemma run_pool_end_kept:
  "pl_status p EndMessage = Returned r \<Longrightarrow> rn_end (pl_state (run_pool env b onEnd es p)) = rn_end (pl_state p)"
proof (induction es arbitrary: p)
  case (Cons e es)
  have "pl_status (run_step env b onEnd e p) EndMessage = Returned r"
    using later_run_step [of p env b onEnd e] Cons.prems by (simp add: later_def)
  from Cons.IH [OF this] run_step_end_kept [OF Cons.prems] show ?case by (simp add: run_pool_def)
qed (simp add: run_pool_def)

text \<open>The end message is processed at most once.\<close>

lemma run_pool_end:
  "rn_end (pl_state (run_pool env b onEnd es p)) = rn_end (pl_state p) \<or>
   (\<exists>e. EndMsg e \<in> set es \<and> rn_end (pl_state (run_pool env b onEnd es p)) = snd (onEnd e (rn_end (pl_state p))))"
proof (induction es arbitrary: p)
  case (Cons a es)
  let ?q = "run_step env b onEnd a p"
  have step: "run_pool env b onEnd (a # es) p = run_pool env b onEnd es ?q" by (simp add: run_pool_def)
  show ?case
  proof (cases "rn_end (pl_state ?q) = rn_end (pl_state p)")
    case True
    with Cons.IH [of ?q] show ?thesis unfolding step by auto
  next
    case False
    then obtain e where a: "a = EndMsg e"
      by (cases a) (auto simp: turn_state start_party_def split: prod.splits option.splits if_splits)
    with False have running: "pl_status p EndMessage = Running" by (auto simp: turn_state split: if_splits)
    then have "\<exists>r. pl_status ?q EndMessage = Returned r"
      using a by (auto simp: turn_def finish_def cancel_pool_def Let_def split: prod.split)
    then have "rn_end (pl_state (run_pool env b onEnd (a # es) p)) = rn_end (pl_state ?q)"
      unfolding step using run_pool_end_kept by blast
    moreover have "rn_end (pl_state ?q) = snd (onEnd e (rn_end (pl_state p)))"
      using a running by (simp add: turn_state case_prod_beta)
    ultimately show ?thesis using a by auto
  qed
qed (simp add: run_pool_def)

lemma pool_run_end:
  "ro_end (pool_run env b onEnd ws party x es) = x \<or>
   (\<exists>e. EndMsg e \<in> set es \<and> ro_end (pool_run env b onEnd ws party x es) = snd (onEnd e x))"
  using run_pool_end [of env b onEnd es "start_pool ws \<lparr>rn_party = party, rn_started = None, rn_sent = [], rn_waitingFor = [], rn_end = x\<rparr>"]
  by (simp add: pool_run_def Let_def start_pool_def)

text \<open>
  A signing run puts at most one value on the result channel: on the coordinator a signature that the
  protocol produced, on the other relayers nil.
\<close>

theorem signing_run_result:
  "ro_end (Signing_RunPool env newParameters newLocalParty Unmarshal coordinator params s es) = [] \<or>
   (\<exists>sig. EndMsg sig \<in> set es \<and>
      ro_end (Signing_RunPool env newParameters newLocalParty Unmarshal coordinator params s es) =
        [if coordinator then Some sig else None])"
proof (cases "Signing_Run (tl_hash env) (tl_lib env) Unmarshal coordinator params s")
  case (Inr r)
  obtain s' parties where r: "r = (s', parties)" by fastforce
  with Inr have c: "sg_coordinator s' = coordinator"
    by (auto simp: Signing_Run_def Let_def split: if_splits)
  have "snd (Signing_onEnd s' sig []) = [if coordinator then Some sig else None]" for sig
    by (simp add: Signing_onEnd_def Signing_processEndMessage_def c)
  then have "ro_end (pool_run env (Signing_base s') (Signing_onEnd s') ws party [] es) = [] \<or>
     (\<exists>sig. EndMsg sig \<in> set es \<and> ro_end (pool_run env (Signing_base s') (Signing_onEnd s') ws party [] es) =
        [if coordinator then Some sig else None])" for ws party
    using pool_run_end [of env "Signing_base s'" "Signing_onEnd s'" ws party "[]" es] by metis
  then show ?thesis
    using Inr r by (simp add: Signing_RunPool_def failed_run_def split: sum.split split del: if_split)
qed (simp add: Signing_RunPool_def failed_run_def)

text \<open>
  A key generation or resharing run writes the key share store at most once, and then with the
  result of its own protocol, the threshold it was asked for and its committee.
\<close>

theorem keygen_run_stores:
  assumes "Keygen_RunPool env newParameters newLocalParty StoreKeyshare peerstore ks k es = Some outcome"
  shows "ro_end outcome = ks\<lparr>ks_locked := True\<rparr> \<or>
    (\<exists>key. EndMsg key \<in> set es \<and>
       ro_end outcome = snd (StoreKeyshare (ks\<lparr>ks_locked := True\<rparr>) (NewECDSAKeyshare key (kg_threshold k) (kg_Peers k))))"
proof -
  from assms obtain parties store where "Keygen_Run (tl_lib env) peerstore ks k = Some (ks\<lparr>ks_locked := True\<rparr>, parties, store)"
    by (auto simp: Keygen_RunPool_def Keygen_Run_def LockKeyshare_def Let_def split: if_splits option.splits)
  moreover have "snd (store_result (Keygen_processEndMessage StoreKeyshare x k (Event key))) =
      snd (StoreKeyshare x (NewECDSAKeyshare key (kg_threshold k) (kg_Peers k)))" for x key
    by (simp add: store_result_def Keygen_processEndMessage_def)
  ultimately show ?thesis
    using assms pool_run_end [of env _ "\<lambda>key ks. store_result (Keygen_processEndMessage StoreKeyshare ks k (Event key))"
        "[Outbound, Inbound, EndMessage]" _ "ks\<lparr>ks_locked := True\<rparr>" es]
    by (auto simp: Keygen_RunPool_def failed_run_def split: sum.splits)
qed


theorem keygen_run_stores_witness:
  "\<exists>outcome. Keygen_RunPool example_tss_env (\<lambda>_ _ _ _. Inr ()) (\<lambda>_ _. Inr ()) (\<lambda>ks key. (Inr (), ks\<lparr>ks_file := Some [1]\<rparr>)) [''a'', ''b'']
       (NewKeyshareStore None) (NewKeygen ''keygen-1'' 1 ''a'' [''a'', ''b'']) [PartyStart, EndMsg (), EndMsg ()] = Some outcome \<and>
     ks_locked (ro_end outcome)"
proof -
  obtain outcome where run: "Keygen_RunPool example_tss_env (\<lambda>_ _ _ _. Inr ()) (\<lambda>_ _. Inr ()) (\<lambda>ks key. (Inr (), ks\<lparr>ks_file := Some [1]\<rparr>))
      [''a'', ''b''] (NewKeyshareStore None) (NewKeygen ''keygen-1'' 1 ''a'' [''a'', ''b'']) [PartyStart, EndMsg (), EndMsg ()] = Some outcome"
    by (simp add: Keygen_RunPool_def Keygen_Run_def LockKeyshare_def NewKeyshareStore_def Let_def)
  from keygen_run_stores [OF run] run show ?thesis by auto
qed

text \<open>The same for resharing.\<close>

lemma resharing_run_stores:
  assumes "Resharing_RunPool env nilParty newParameters newLocalParty Unmarshal StoreKeyshare peerstore ks params r es = Inr outcome"
  shows "ro_end outcome = ks \<or>
    (\<exists>key. EndMsg key \<in> set es \<and>
       ro_end outcome = snd (StoreKeyshare ks (NewECDSAKeyshare key (rs_newThreshold r) (rs_Peers r))))"
proof (cases "Resharing_Run (tl_hash env) (tl_lib env) nilParty Unmarshal peerstore params r")
  case (Inl err)
  with assms show ?thesis by (auto simp: Resharing_RunPool_def failed_run_def)
next
  case (Inr x)
  then obtain sp r' oldParties newParties where x: "x = (sp, r', oldParties, newParties)"
    and r': "rs_newThreshold r' = rs_newThreshold r" "rs_Peers r' = rs_Peers r"
    by (cases x) (auto simp: Resharing_Run_def Resharing_unmarshallStartParams_def validateStartParams_def Let_def split: if_splits)
  have "snd (store_result (Resharing_processEndMessage StoreKeyshare ks r' (Event key))) =
      snd (StoreKeyshare ks (NewECDSAKeyshare key (rs_newThreshold r) (rs_Peers r)))" for key
    by (simp add: store_result_def Resharing_processEndMessage_def r')
  then have ended: "ro_end (pool_run env base (\<lambda>key ks. store_result (Resharing_processEndMessage StoreKeyshare ks r' (Event key))) ws party ks es) = ks \<or>
     (\<exists>key. EndMsg key \<in> set es \<and>
       ro_end (pool_run env base (\<lambda>key ks. store_result (Resharing_processEndMessage StoreKeyshare ks r' (Event key))) ws party ks es) =
         snd (StoreKeyshare ks (NewECDSAKeyshare key (rs_newThreshold r) (rs_Peers r))))" for base ws party
    using pool_run_end [of env base "\<lambda>key ks. store_result (Resharing_processEndMessage StoreKeyshare ks r' (Event key))" ws party ks es]
    by metis
  from assms Inr x obtain parties where "newParties = Inr parties" by (auto simp: Resharing_RunPool_def)
  with assms Inr x ended show ?thesis
    by (auto simp: Resharing_RunPool_def failed_run_def Let_def split: sum.splits)
qed

section \<open>Who receives the messages of a session\<close>

lemma run_pool_sent:
  assumes "(ps, m) \<in> set (rn_sent (pl_state (run_pool env b onEnd es p)))"
  shows "(ps, m) \<in> set (rn_sent (pl_state p)) \<or> (\<exists>om. OutMsg om \<in> set es \<and> BroadcastPeers (tl_lib env) (rb_Peers b) om = Inr ps)"
  using assms
proof (induction es arbitrary: p)
  case (Cons e es)
  let ?q = "run_step env b onEnd e p"
  have "(ps, m) \<in> set (rn_sent (pl_state ?q)) \<or> (\<exists>om. OutMsg om \<in> set es \<and> BroadcastPeers (tl_lib env) (rb_Peers b) om = Inr ps)"
    by (rule Cons.IH) (use Cons.prems in \<open>simp add: run_pool_def\<close>)
  moreover have "(ps, m) \<in> set (rn_sent (pl_state p)) \<or> (\<exists>om. e = OutMsg om \<and> BroadcastPeers (tl_lib env) (rb_Peers b) om = Inr ps)"
    if "(ps, m) \<in> set (rn_sent (pl_state ?q))"
    using that
    by (cases e) (auto simp: turn_state start_party_def and_then_Inr_iff split: prod.splits option.splits if_splits sum.splits)
  ultimately show ?case by auto
qed (simp add: run_pool_def)

lemma PeersFromParties_subset:
  assumes "PeersFromParties lib parties = Inr ps" "\<And>q. q \<in> set parties \<Longrightarrow> \<exists>p \<in> S. DecodePeer lib (pt_Id q) = Inr p"
  shows "set ps \<subseteq> S"
  using assms by (induction lib parties arbitrary: ps rule: PeersFromParties.induct) (fastforce simp: and_then_Inr_iff)+

lemma Signing_RunPool_started:
  assumes "ro_pool (Signing_RunPool env newParameters newLocalParty Unmarshal coordinator params s es) = Some p"
  obtains s' parties party where "Signing_Run (tl_hash env) (tl_lib env) Unmarshal coordinator params s = Inr (s', parties)"
    "p = run_pool env (Signing_base s') (Signing_onEnd s') es
      (start_pool [Outbound, Inbound, EndMessage, Monitor] \<lparr>rn_party = party, rn_started = None, rn_sent = [], rn_waitingFor = [], rn_end = []\<rparr>)"
  using assms by (auto simp: Signing_RunPool_def failed_run_def pool_run_def Let_def split: sum.splits)

text \<open>
  C19. The messages of a signing run stay in the subset that the start parameters name: if the tss library
  addresses only parties of the subset, every message that the run puts on the network goes to members of the
  subset only.
\<close>

theorem signing_messages_stay_in_subset:
  assumes "Unmarshal params = Inr peerSubset"
    and "ro_pool (Signing_RunPool env newParameters newLocalParty Unmarshal coordinator params s es) = Some p"
    and "(ps, m) \<in> set (rn_sent (pl_state p))"
    and "\<And>om q. OutMsg om \<in> set es \<Longrightarrow> q \<in> set (om_To om) \<Longrightarrow> \<exists>r \<in> set peerSubset. DecodePeer (tl_lib env) (pt_Id q) = Inr r"
  shows "set ps \<subseteq> set peerSubset"
proof -
  from Signing_RunPool_started [OF assms(2)] obtain s' parties party where
    run: "Signing_Run (tl_hash env) (tl_lib env) Unmarshal coordinator params s = Inr (s', parties)"
    and p: "p = run_pool env (Signing_base s') (Signing_onEnd s') es
      (start_pool [Outbound, Inbound, EndMessage, Monitor] \<lparr>rn_party = party, rn_started = None, rn_sent = [], rn_waitingFor = [], rn_end = []\<rparr>)" .
  from run assms(1) have s': "sg_Peers s' = peerSubset"
    by (auto simp: Signing_Run_def Signing_unmarshallStartParams_def Let_def split: if_splits)
  from run_pool_sent [OF assms(3) [unfolded p]] obtain om where
    om: "OutMsg om \<in> set es" "BroadcastPeers (tl_lib env) peerSubset om = Inr ps"
    by (auto simp: start_pool_def Signing_base_def s')
  show ?thesis
  proof (cases "om_IsBroadcast om")
    case False
    with om have "PeersFromParties (tl_lib env) (om_To om) = Inr ps" by (simp add: BroadcastPeers_def)
    then show ?thesis by (rule PeersFromParties_subset) (rule assms(4) [OF om(1)])
  qed (use om(2) in \<open>simp add: BroadcastPeers_def\<close>)
qed


theorem signing_messages_stay_in_subset_witness:
  "\<exists>p. ro_pool (Signing_RunPool example_tss_env (\<lambda>_ _ _ _. Inr ()) (\<lambda>_ _ _ _ _. Inr ()) (\<lambda>_. Inr [''a'', ''c'']) True [] example_signing
       [PartyStart, OutMsg \<lparr>om_WireBytes = Inr ([7], True), om_IsBroadcast = True, om_To = []\<rparr> :: unit run_event]) = Some p \<and>
     rn_sent (pl_state p) = [([''a'', ''c''], [7])] \<and> set [''a'', ''c''] \<subseteq> set [''a'', ''c'']"
proof -
  let ?es = "[PartyStart, OutMsg \<lparr>om_WireBytes = Inr ([7], True), om_IsBroadcast = True, om_To = []\<rparr>] :: unit run_event list"
  let ?run = "Signing_RunPool example_tss_env (\<lambda>_ _ _ _. Inr ()) (\<lambda>_ _ _ _ _. Inr ()) (\<lambda>_. Inr [''a'', ''c'']) True [] example_signing ?es"
  have "\<exists>p. ro_pool ?run = Some p \<and> rn_sent (pl_state p) = [([''a'', ''c''], [7])]"
    by (simp add: Signing_RunPool_def Signing_Run_def Signing_unmarshallStartParams_def example_signing_def example_tss_env_def
        example_hash_def pool_run_def run_pool_def start_pool_def turn_def start_party_def BroadcastPeers_def MarshalTssMessage_def
        Signing_base_def NewECDSAKeyshare_def Let_def)
  then obtain p where p: "ro_pool ?run = Some p" "rn_sent (pl_state p) = [([''a'', ''c''], [7])]" by blast
  have "set [''a'', ''c''] \<subseteq> set [''a'', ''c'']"
    by (rule signing_messages_stay_in_subset [OF _ p(1), of "[''a'', ''c'']" _ "[7]"]) (use p(2) in auto)
  with p show ?thesis by blast
qed

section \<open>A party that is stuck\<close>

text \<open>While the context is not cancelled nothing has failed, and the protocol has not ended.\<close>

definition undisturbed :: "'s pool \<Rightarrow> bool" where
  "undisturbed p \<longleftrightarrow> (pl_cancelled p \<or> pl_errors p = [] \<and> pl_status p EndMessage = Running \<and> pl_status p Monitor = Running)"

lemma undisturbed_step: "undisturbed p \<Longrightarrow> undisturbed (run_step env b onEnd e p)"
  by (cases e)
    (auto simp: undisturbed_def turn_def leave_def finish_def cancel_pool_def Let_def is_ok_def split: prod.split option.split sum.split)

lemma undisturbed_pool: "undisturbed p \<Longrightarrow> undisturbed (run_pool env b onEnd es p)"
  unfolding run_pool_def by (induction es arbitrary: p) (simp_all add: undisturbed_step)

lemma leave_errors [simp]: "pl_errors (leave w p) = pl_errors p"
  by (simp add: leave_def turn_def finish_def)

lemma run_pool_leaves_errors:
  "pl_errors (run_pool env b onEnd (map Leave ws) p) = pl_errors p"
  "pl_state (run_pool env b onEnd (map Leave ws) p) = pl_state p"
  unfolding run_pool_def by (induction ws arbitrary: p) simp_all

text \<open>
  A signing party that waits for the same peers at two ticks of the monitor in a row makes the run
  fail with a communication error, which the coordinator answers with a retry.
\<close>

theorem stuck_signing_fails:
  assumes "p = run_pool env b onEnd es (start_pool workers s)" "\<not> pl_cancelled p"
    and "rn_waitingFor (pl_state p) = w" "w \<noteq> []" "rn_started (pl_state p) = Some (Inr u)"
  shows "run_result env (run_pool env b onEnd (MonitorTick w # map Leave workers) p) =
    Some (Inl (tl_join env [CommError '''' ''waiting for peers'']))"
proof -
  let ?q = "run_step env b onEnd (MonitorTick w) p" and ?r = "run_pool env b onEnd (MonitorTick w # map Leave workers) p"
  have "undisturbed (start_pool workers s)" by (simp add: undisturbed_def start_pool_def workers_def)
  then have "undisturbed p" unfolding assms(1) by (rule undisturbed_pool)
  with assms(2) have p: "pl_errors p = []" "pl_status p Monitor = Running" by (auto simp: undisturbed_def)
  with assms(3,4) have q: "pl_errors ?q = [CommError '''' ''waiting for peers'']" "pl_cancelled ?q"
    "rn_started (pl_state ?q) = rn_started (pl_state p)"
    by (auto simp: turn_def finish_def cancel_pool_def)
  have r: "?r = run_pool env b onEnd (map Leave workers) ?q" by (simp add: run_pool_def)
  have "Leave v \<in> set (map Leave workers)" for v by (cases v) (simp_all add: workers_def)
  moreover have "pl_status ?q v \<noteq> Sending" for v
    by (rule run_step_not_sending) (simp add: assms(1) run_pool_not_sending)
  ultimately have "all_returned ?r" unfolding r by (intro run_pool_leaves q(2))
  with q assms(5) show ?thesis
    by (simp add: run_result_def pool_wait_def r run_pool_leaves_errors)
qed

theorem stuck_signing_fails_witness:
  "run_result example_tss_env (run_pool example_tss_env (Signing_base example_signing) (Signing_onEnd example_signing)
      (MonitorTick [CreatePartyID example_tss_lib ''b''] # map Leave workers)
      (run_pool example_tss_env (Signing_base example_signing) (Signing_onEnd example_signing)
         ([PartyStart, MonitorTick [CreatePartyID example_tss_lib ''b'']] :: unit run_event list)
         (start_pool workers \<lparr>rn_party = (), rn_started = None, rn_sent = [], rn_waitingFor = [], rn_end = []\<rparr>)))
   = Some (Inl (CommError '''' ''waiting for peers''))"
  by (subst stuck_signing_fails [OF refl])
    (simp_all add: run_pool_def start_pool_def turn_def start_party_def example_tss_env_def workers_def)

section \<open>FROST runs\<close>

text \<open>
  The goroutine for the end message is gone while the outbound goroutine offers the end of the
  protocol: nobody will ever receive it.
\<close>

definition stuck :: "'s pool \<Rightarrow> bool" where
  "stuck p \<longleftrightarrow> pl_status p Outbound = Sending \<and> (\<exists>r. pl_status p EndMessage = Returned r)"

lemma stuck_turn: "stuck p \<Longrightarrow> stuck (turn w d f p)"
  by (auto simp: stuck_def turn_def finish_def cancel_pool_def Let_def split: prod.split option.split)

lemma stuck_step: "stuck p \<Longrightarrow> stuck (frost_step env SID Peers mt onEnd e p)"
  by (cases e) (auto simp: leave_def cancel_pool_def Let_def stuck_turn split: prod.split bool.split, auto simp: stuck_def)

lemma stuck_forever: "stuck p \<Longrightarrow> stuck (fold (frost_step env SID Peers mt onEnd) es p)"
  by (induction es arbitrary: p) (simp_all add: stuck_step)

lemma stuck_never_returns: "stuck p \<Longrightarrow> pool_wait join p = None"
  by (auto simp: stuck_def pool_wait_def all_returned_iff) (metis status.distinct(5))


lemma close_stuck:
  assumes "pl_status p EndMessage = Returned r" "pl_status p Outbound = Running"
  shows "stuck (frost_step env SID Peers mt onEnd (FOut None) p)"
  using assms by (simp add: stuck_def close_outbound_def)

lemma frost_pool_stuck:
  assumes "p = fold (frost_step env SID Peers mt onEnd) es
      (start_pool [Inbound, EndMessage, Outbound] \<lparr>fs_handler = handler, fs_accepting = [], fs_sent = [], fs_end = x\<rparr>)"
    and "pl_status p EndMessage = Returned r" "pl_status p Outbound = Running"
  shows "ro_result (frost_pool env SID Peers mt onEnd handler x (es @ FOut None # es')) = None"
proof -
  have "stuck (fold (frost_step env SID Peers mt onEnd) es' (frost_step env SID Peers mt onEnd (FOut None) p))"
    by (rule stuck_forever [OF close_stuck [OF assms(2,3)]])
  then show ?thesis by (simp add: frost_pool_def Let_def assms(1) stuck_never_returns del: frost_step.simps)
qed

lemma Frost_Signing_RunPool_stuck:
  assumes "ro_pool (Frost_Signing_RunPool env newHandler Result Unmarshal params f es) = Some p"
    and "pl_status p EndMessage = Returned r" "pl_status p Outbound = Running"
  shows "ro_result (Frost_Signing_RunPool env newHandler Result Unmarshal params f (es @ FOut None # es')) = None"
proof -
  from assms(1) obtain partyIds s' handler where run:
    "Frost_Run (fv_hash env) (PeerString (fv_lib env)) Unmarshal params f = (Inr partyIds, s')"
    "newHandler (fk_Key (fsg_key s')) partyIds (fsg_msg s') (str_bytes (fsg_SID s')) = Inr handler"
    by (auto simp: Frost_Signing_RunPool_def failed_run_def split: prod.splits sum.splits)
  with assms(1) have "p = fold (frost_step env (fsg_SID s') (fsg_Peers s') TssKeySignMsg (Frost_Signing_onEnd Result s')) es
      (start_pool [Inbound, EndMessage, Outbound] \<lparr>fs_handler = handler, fs_accepting = [], fs_sent = [], fs_end = []\<rparr>)"
    by (simp add: Frost_Signing_RunPool_def frost_pool_def Let_def)
  from frost_pool_stuck [OF this assms(2,3)] run show ?thesis by (simp add: Frost_Signing_RunPool_def)
qed

text \<open>
  A FROST run may hang for ever: if the context is cancelled and the goroutine for the end message has
  left, while the outbound goroutine takes the closed channel of the handler instead of the cancelled
  context, then \<open>Run\<close> never returns, whatever happens later.
\<close>

theorem frost_run_hangs:
  assumes "p = fold (frost_step env SID Peers mt onEnd) es
      (start_pool [Inbound, EndMessage, Outbound] \<lparr>fs_handler = handler, fs_accepting = [], fs_sent = [], fs_end = x\<rparr>)"
    and "pl_status p EndMessage = Returned r" "pl_status p Outbound = Running"
  shows "ro_result (frost_pool env SID Peers mt onEnd handler x (es @ FOut None # es')) = None"
  by (rule frost_pool_stuck [OF assms])

definition example_frost_env :: "(unit, unit) frost_env" where
  "example_frost_env =
     \<lparr>fv_lib = example_tss_lib, fv_hash = example_hash, fv_send = (\<lambda>_ _ _ _. Inr ()), fv_Unmarshal = (\<lambda>_. Inr ()),
      fv_CanAccept = (\<lambda>_ _. True), fv_Accept = (\<lambda>h _. h), fv_join = hd\<rparr>"

theorem frost_run_hangs_witness:
  "ro_result (frost_pool example_frost_env ''s'' [''a''] TssKeySignMsg (\<lambda>_ n. (Inr (), n)) () (0 :: nat)
     ([FCancel, FLeave EndMessage] @ FOut None # [FHandOver, FLeave Outbound, FLeave Inbound])) = None"
  by (rule frost_run_hangs [OF refl])
    (simp_all add: start_pool_def cancel_pool_def leave_def turn_def finish_def)

text \<open>If the handler stays open, a cancelled run returns.\<close>

lemma frost_step_not_sending:
  "pl_status p w \<noteq> Sending \<Longrightarrow> e \<noteq> FOut None \<Longrightarrow> pl_status (frost_step env SID Peers mt onEnd e p) w \<noteq> Sending"
proof (cases e)
  case (FOut m)
  assume "pl_status p w \<noteq> Sending" "e \<noteq> FOut None"
  with FOut show ?thesis
    by (cases m) (auto simp: turn_def finish_def Let_def split: prod.split option.split sum.split)
qed (auto simp: turn_def leave_def finish_def cancel_pool_def Let_def split: prod.split option.split)

lemma frost_fold_not_sending:
  "(\<And>w. pl_status p w \<noteq> Sending) \<Longrightarrow> FOut None \<notin> set es \<Longrightarrow>
   pl_status (fold (frost_step env SID Peers mt onEnd) es p) w \<noteq> Sending"
proof (induction es arbitrary: p)
  case (Cons e es)
  have "pl_status (frost_step env SID Peers mt onEnd e p) v \<noteq> Sending" for v
    by (rule frost_step_not_sending) (use Cons.prems in auto)
  with Cons show ?case by simp
qed simp

lemma frost_fold_cancelled: "FCancel \<in> set es \<Longrightarrow> pl_cancelled (fold (frost_step env SID Peers mt onEnd) es p)"
proof (induction es arbitrary: p)
  case (Cons e es)
  have "later (frost_step env SID Peers mt onEnd e p) (fold (frost_step env SID Peers mt onEnd) es (frost_step env SID Peers mt onEnd e p))"
    by (rule later_fold [OF later_frost_step])
  with Cons show ?case by (cases "e = FCancel") (simp_all add: later_def cancel_pool_def)
qed simp

theorem frost_run_returns:
  assumes "FCancel \<in> set es" "FOut None \<notin> set (es @ es')" "\<And>w. FLeave w \<in> set es'"
  shows "\<exists>r. ro_result (frost_pool env SID Peers mt onEnd handler x (es @ es')) = Some r"
proof -
  define p where "p = fold (frost_step env SID Peers mt onEnd) es
      (start_pool [Inbound, EndMessage, Outbound] \<lparr>fs_handler = handler, fs_accepting = [], fs_sent = [], fs_end = x\<rparr>)"
  have c: "pl_cancelled p" unfolding p_def by (rule frost_fold_cancelled [OF assms(1)])
  have s: "pl_status p w \<noteq> Sending" for w
    unfolding p_def by (rule frost_fold_not_sending) (use assms(2) in simp_all)
  have "\<exists>r. pl_status (fold (frost_step env SID Peers mt onEnd) es' p) w = Returned r" for w
    by (rule fold_leaves [where lv = FLeave, OF later_frost_step _ frost_step_not_sending c s assms(3)])
      (use assms(2) in auto)
  then have "all_returned (fold (frost_step env SID Peers mt onEnd) es' p)" by (simp add: all_returned_iff)
  then show ?thesis by (auto simp: frost_pool_def Let_def p_def pool_wait_def)
qed


theorem frost_run_returns_witness:
  "\<exists>r. ro_result (frost_pool example_frost_env ''s'' [''a''] TssKeySignMsg (\<lambda>_ n. (Inr (), n)) () (0 :: nat)
     ([FCancel] @ [FLeave Outbound, FLeave Inbound, FLeave EndMessage, FLeave Monitor])) = Some r"
proof (rule frost_run_returns)
  show "FLeave w \<in> set [FLeave Outbound, FLeave Inbound, FLeave EndMessage, FLeave Monitor]" for w by (cases w) simp_all
qed simp_all

text \<open>
  An undisturbed run ends with the protocol: when the handler has closed its channel, the end of the
  protocol is handed over, its result is processed, and the run returns.
\<close>

theorem frost_run_completes:
  assumes "p = fold (frost_step env SID Peers mt onEnd) es
      (start_pool [Inbound, EndMessage, Outbound] \<lparr>fs_handler = handler, fs_accepting = [], fs_sent = [], fs_end = x\<rparr>)"
    and "pl_status p Outbound = Running" "pl_status p EndMessage = Running" "pl_status p Inbound = Running"
    and "pl_errors p = []" "pl_status p Monitor = Returned (Inr ())"
    and "onEnd (fs_handler (pl_state p)) (fs_end (pl_state p)) = (r, y)"
  shows "ro_result (frost_pool env SID Peers mt onEnd handler x (es @ [FOut None, FHandOver, FLeave Inbound])) =
      Some (case r of Inr _ \<Rightarrow> Inr () | Inl e \<Rightarrow> Inl (fv_join env [e])) \<and>
    ro_end (frost_pool env SID Peers mt onEnd handler x (es @ [FOut None, FHandOver, FLeave Inbound])) = y"
  using assms(2-)
  by (simp add: frost_pool_def Let_def assms(1) [symmetric] close_outbound_def turn_def leave_def finish_def cancel_pool_def
      pool_wait_def all_returned_def workers_def split: sum.split)

end
