(* ===== verification/Session.thy ===== *)
theory Session
  imports Coordinator Tss_Run
begin

text \<open>
  Agreement within a session. The coordinator (\<open>tss/coordinator.go\<close>) relies on the tss processes
  through the \<open>TssProcess\<close> interface; locale \<open>quorum_process\<close> states what the signing processes
  promise behind it, and is interpreted for the ECDSA and the FROST process. On top of it: the
  relayers of a signing session run with the same parameters, and these name a quorum of relayers
  that are ready.
\<close>

definition frost_signing_process ::
  "peer_hash \<Rightarrow> (peerID list \<Rightarrow> bytes) \<Rightarrow> ('s, 'pt) FrostSigning \<Rightarrow> tss_process" where
  "frost_signing_process h Marshal s =
     \<lparr>pr_SessionID = fsg_SID s, pr_Ready = Frost_Ready s, pr_StartParams = Frost_StartParams h Marshal s,
      pr_Retryable = Frost_Signing_Retryable, pr_ValidCoordinators = Frost_ValidCoordinators s\<rparr>"

section \<open>The start message\<close>

lemma initiate_loop_broadcast:
  assumes "initiate_loop ms run p excluded ready es = (r, acts)" "RunProcesses c params \<in> set acts" "BroadcastStart b \<in> set acts"
  shows "ms params = Inr b"
  using assms
proof (induction ms run p excluded ready es arbitrary: acts rule: initiate_loop.induct)
  case (3 ms run p excluded ready es)
  obtain r' acts' where loop: "initiate_loop ms run p excluded ready es = (r', acts')" by fastforce
  with 3 show ?case by auto
next
  case (4 ms run p excluded ready q es)
  then show ?case by (auto simp: Let_def split: sum.splits bool.splits)
qed auto


lemma waitForStart_follows:
  assumes "c \<noteq> ''''" "waitForStart us run c es = (r, acts)" "RunProcesses b params \<in> set acts"
  obtains payload msg where "StartMsg c payload \<in> set es" "us payload = Inr msg" "params = smsg_Params msg"
  using waitForStart_run [of c b params us run es] assms by auto

section \<open>The contract of a signing process\<close>

text \<open>When a process says that it is ready, its parameters name a quorum of ready key holders.\<close>

locale quorum_process =
  fixes p :: tss_process and decode :: "bytes \<Rightarrow> peerID list tres" and quorum :: int and holders :: "peerID set"
  assumes ready_params: "distinct ready \<Longrightarrow> pr_Ready p ready excluded = Inr True \<Longrightarrow>
      \<exists>subset. decode (pr_StartParams p ready) = Inr subset \<and> distinct subset \<and> int (length subset) = quorum \<and>
        set subset = set ready \<inter> holders"
begin

lemma started_with_quorum:
  assumes "initiate_loop ms run p excluded [host] es = (r, acts)" "RunProcesses c params \<in> set acts"
  shows "\<exists>subset. decode params = Inr subset \<and> distinct subset \<and> int (length subset) = quorum \<and> set subset \<subseteq> holders \<and>
    (\<forall>q \<in> set subset. q = host \<or> ReadyMsg q \<in> set es \<and> q \<notin> set excluded)"
proof -
  from initiate_loop_start [OF assms ready_inv_init] obtain ready where
    r: "ready_inv host excluded ready" "set ready \<subseteq> {host} \<union> {q. ReadyMsg q \<in> set es}"
      "pr_Ready p ready excluded = Inr True" "params = pr_StartParams p ready" by auto
  from r(1) have d: "distinct ready" "\<forall>q \<in> set ready. q = host \<or> q \<notin> set excluded"
    by (cases ready; auto simp: ready_inv_def)+
  from ready_params [OF d(1) r(3)] r(2,4) d(2) show ?thesis by fastforce
qed

text \<open>A relayer that follows the coordinator runs with the same parameters.\<close>

lemma agreement:
  assumes codec: "\<And>ps b. ms ps = Inr b \<Longrightarrow> us b = Inr \<lparr>smsg_Params = ps\<rparr>" and "c \<noteq> ''''"
    and coordinator: "initiate ms run c p excluded es = (r, acts)" "RunProcesses True params \<in> set acts"
    and other: "waitForStart us run' c es' = (r', acts')" "RunProcesses b params' \<in> set acts'"
    and authentic: "\<And>payload. StartMsg c payload \<in> set es' \<Longrightarrow> BroadcastStart payload \<in> set acts"
  shows "params' = params \<and>
    (\<exists>sub. decode params = Inr sub \<and> distinct sub \<and> int (length sub) = quorum \<and> set sub \<subseteq> holders \<and>
       (\<forall>q \<in> set sub. q = c \<or> ReadyMsg q \<in> set es \<and> q \<notin> set excluded))"
proof -
  from coordinator obtain acts1 where
    loop: "initiate_loop ms run p excluded [c] es = (r, acts1)" "acts = BroadcastInitiate # acts1"
    by (auto simp: initiate_def split: prod.splits)
  with coordinator(2) have run: "RunProcesses True params \<in> set acts1" by simp
  from waitForStart_follows [OF assms(2) other] obtain payload msg where
    start: "StartMsg c payload \<in> set es'" "us payload = Inr msg" "params' = smsg_Params msg" .
  from authentic [OF start(1)] loop(2) have "BroadcastStart payload \<in> set acts1" by simp
  from initiate_loop_broadcast [OF loop(1) run this] codec start(2,3) have "params' = params" by force
  with started_with_quorum [OF loop(1) run] show ?thesis by blast
qed

end

text \<open>
  Both signing processes keep the contract, for any codec of the start parameters that gives back
  what it was given.
\<close>

lemma subset_of_ready:
  fixes t :: int and h :: peer_hash and sid :: string and keyPeers ready :: "peerID list"
  assumes "distinct ready" "int (length (filter (\<lambda>p. p \<in> set keyPeers) ready)) = t + 1"
  defines "sub \<equiv> fill_subset (t + 1) [] (GetPeerIDs (SortPeersForSession h (filter (\<lambda>p. p \<in> set keyPeers) ready) sid))"
  shows "distinct sub \<and> int (length sub) = t + 1 \<and> set sub = set ready \<inter> set keyPeers"
proof (cases "0 \<le> t")
  case True
  with signing_subset_rule [OF assms(1) this, of keyPeers h sid] assms(2) show ?thesis unfolding sub_def by simp
next
  case False
  with assms(2) have "length (filter (\<lambda>p. p \<in> set keyPeers) ready) = 0" "t + 1 = 0" by linarith+
  then have "filter (\<lambda>p. p \<in> set keyPeers) ready = []" "t + 1 = 0" by simp_all
  then show ?thesis
    unfolding sub_def by (auto simp: GetPeerIDs_def SortPeersForSession_def filter_empty_conv)
qed

locale params_codec =
  fixes Marshal :: "peerID list \<Rightarrow> bytes" and Unmarshal :: "bytes \<Rightarrow> peerID list tres"
  assumes params_roundtrip: "Unmarshal (Marshal ps) = Inr ps"

sublocale params_codec \<subseteq> ecdsa: quorum_process "signing_process h Marshal s" Unmarshal
    "ek_Threshold (sg_key s) + 1" "set (ek_Peers (sg_key s))" for h s
proof
  fix ready excluded
  assume "distinct ready" "pr_Ready (signing_process h Marshal s) ready excluded = Inr True"
  then show "\<exists>subset. Unmarshal (pr_StartParams (signing_process h Marshal s) ready) = Inr subset \<and> distinct subset \<and>
      int (length subset) = ek_Threshold (sg_key s) + 1 \<and> set subset = set ready \<inter> set (ek_Peers (sg_key s))"
    using subset_of_ready
    by (simp add: signing_process_def Signing_Ready_def Signing_StartParams_def Signing_subset_def
        Signing_readyParticipants_def params_roundtrip)
qed

sublocale params_codec \<subseteq> frost: quorum_process "frost_signing_process h Marshal f" Unmarshal
    "fk_Threshold (fsg_key f) + 1" "set (fk_Peers (fsg_key f))" for h f
proof
  fix ready excluded
  assume "distinct ready" "pr_Ready (frost_signing_process h Marshal f) ready excluded = Inr True"
  then show "\<exists>subset. Unmarshal (pr_StartParams (frost_signing_process h Marshal f) ready) = Inr subset \<and> distinct subset \<and>
      int (length subset) = fk_Threshold (fsg_key f) + 1 \<and> set subset = set ready \<inter> set (fk_Peers (fsg_key f))"
    using subset_of_ready
    by (simp add: frost_signing_process_def Frost_Ready_def Frost_StartParams_def Frost_subset_def
        Frost_readyParticipants_def params_roundtrip)
qed

context params_codec
begin

lemmas ecdsa_agreement = ecdsa.agreement
lemmas frost_agreement = frost.agreement

end

text \<open>A codec: two bytes for every character and one at the end of every identifier.\<close>

definition marshal_ids :: "peerID list \<Rightarrow> bytes" where
  "marshal_ids ps = concat (map (\<lambda>p. concat (map (\<lambda>c. [0, word_of_nat (of_char c)]) p) @ [1]) ps)"

fun unmarshal_ids :: "string \<Rightarrow> bytes \<Rightarrow> peerID list tres" where
  "unmarshal_ids acc [] = Inr []"
| "unmarshal_ids acc [b] = and_then (unmarshal_ids [] []) (\<lambda>ps. Inr (acc # ps))"
| "unmarshal_ids acc (b # c # bs) =
     (if b = 0 then unmarshal_ids (acc @ [char_of (unat c)]) bs
      else and_then (unmarshal_ids [] (c # bs)) (\<lambda>ps. Inr (acc # ps)))"

lemma char_of_byte [simp]: "char_of (unat (word_of_nat (of_char c) :: 8 word)) = c"
proof -
  have "(of_char c :: nat) < 256" by (cases c) (simp add: of_char_def horner_sum_bit_eq_take_bit [symmetric])
  then show ?thesis by (simp add: unat_of_nat take_bit_eq_mod)
qed

lemma unmarshal_id: "unmarshal_ids acc (concat (map (\<lambda>c. [0, word_of_nat (of_char c)]) p) @ bs) = unmarshal_ids (acc @ p) bs"
  by (induction p arbitrary: acc) auto

lemma unmarshal_end: "unmarshal_ids acc (1 # bs) = and_then (unmarshal_ids [] bs) (\<lambda>ps. Inr (acc # ps))"
  by (cases bs) auto

interpretation ids: params_codec marshal_ids "unmarshal_ids []"
proof
  show "unmarshal_ids [] (marshal_ids ps) = Inr ps" for ps
    by (induction ps) (simp_all add: marshal_ids_def unmarshal_id unmarshal_end del: unmarshal_ids.simps(2,3))
qed

section \<open>Agreement\<close>

text \<open>What a relayer makes of start parameters.\<close>

lemma Signing_Run_subset:
  assumes "Unmarshal params = Inr sub"
  shows "Signing_Run h lib Unmarshal coordinator params s =
    (if IsParticipant h (sg_host s) sub
     then Inr (s\<lparr>sg_coordinator := coordinator, sg_Peers := sub,
              sg_PartyStore := PopulatePartyStore (sg_PartyStore s) (PartiesFromPeers lib sub)\<rparr>, PartiesFromPeers lib sub)
     else Inl (SubsetError (sg_host s)))"
  using assms by (simp add: Signing_Run_def Signing_unmarshallStartParams_def Let_def)

text \<open>
  C12. The relayers of a signing session agree on who signs. Let one relayer coordinate the session and
  start the processes, and let another relayer that waits for this coordinator run its processes,
  after start messages that really come from the coordinator. Then both run with the same parameters. These
  name threshold + 1 different key holders, each of them the coordinator itself or a relayer that
  reported ready and is not excluded. Every relayer that they name builds its parties from exactly this
  list, and every other one leaves the session with a subset error.
\<close>

theorem signing_sessions_agree:
  assumes "params_codec Marshal Unmarshal" "\<And>ps b. ms ps = Inr b \<Longrightarrow> us b = Inr \<lparr>smsg_Params = ps\<rparr>" "c \<noteq> ''''"
    and coordinator: "initiate ms run c (signing_process h Marshal s) excluded es = (r, acts)" "RunProcesses True params \<in> set acts"
    and other: "waitForStart us run' c es' = (r', acts')" "RunProcesses b params' \<in> set acts'"
    and authentic: "\<And>payload. StartMsg c payload \<in> set es' \<Longrightarrow> BroadcastStart payload \<in> set acts"
  shows "params' = params \<and>
    (\<exists>sub. Unmarshal params = Inr sub \<and> distinct sub \<and> int (length sub) = ek_Threshold (sg_key s) + 1 \<and>
       set sub \<subseteq> set (ek_Peers (sg_key s)) \<and>
       (\<forall>q \<in> set sub. q = c \<or> ReadyMsg q \<in> set es \<and> q \<notin> set excluded) \<and>
       (\<forall>lib t. Signing_Run h lib Unmarshal b params' t =
          (if IsParticipant h (sg_host t) sub
           then Inr (t\<lparr>sg_coordinator := b, sg_Peers := sub,
              sg_PartyStore := PopulatePartyStore (sg_PartyStore t) (PartiesFromPeers lib sub)\<rparr>, PartiesFromPeers lib sub)
           else Inl (SubsetError (sg_host t)))))"
proof -
  from params_codec.ecdsa_agreement [OF assms] obtain sub where same: "params' = params" and
    sub: "Unmarshal params = Inr sub" "distinct sub" "int (length sub) = ek_Threshold (sg_key s) + 1"
      "set sub \<subseteq> set (ek_Peers (sg_key s))" "\<forall>q \<in> set sub. q = c \<or> ReadyMsg q \<in> set es \<and> q \<notin> set excluded" by blast
  have "\<forall>lib t. Signing_Run h lib Unmarshal b params' t =
      (if IsParticipant h (sg_host t) sub
       then Inr (t\<lparr>sg_coordinator := b, sg_Peers := sub,
              sg_PartyStore := PopulatePartyStore (sg_PartyStore t) (PartiesFromPeers lib sub)\<rparr>, PartiesFromPeers lib sub)
       else Inl (SubsetError (sg_host t)))"
    unfolding same by (intro allI Signing_Run_subset sub(1))
  with same sub show ?thesis by blast
qed

theorem signing_sessions_agree_witness:
  "\<exists>params. waitForStart (\<lambda>b. Inr \<lparr>smsg_Params = b\<rparr>) (\<lambda>_ _. None) ''a''
       [InitiateMsg ''a'', StartMsg ''a'' params] = (None, [SendReady ''a'', RunProcesses False params]) \<and>
     (\<exists>sub. unmarshal_ids [] params = Inr sub \<and> distinct sub \<and> int (length sub) = 2 \<and> set sub \<subseteq> {''a'', ''b'', ''c''})"
proof -
  let ?p = "signing_process example_hash marshal_ids example_signing"
  let ?us = "\<lambda>b. Inr \<lparr>smsg_Params = b\<rparr> :: StartMessage tres"
  define params where "params = pr_StartParams ?p [''a'', ''c'']"
  let ?acts = "[BroadcastInitiate, BroadcastStart params, RunProcesses True params]"
  have run: "initiate Inr (\<lambda>_ _. None) ''a'' ?p [] [ReadyMsg ''c''] = (None, ?acts)"
    by (simp add: initiate_def signing_process_def add_ready_def Signing_Ready_def params_def
        Signing_readyParticipants_def example_signing_def NewECDSAKeyshare_def Let_def)
  have wait: "waitForStart ?us (\<lambda>_ _. None) ''a'' [InitiateMsg ''a'', StartMsg ''a'' params]
      = (None, [SendReady ''a'', RunProcesses False params])"
    by (simp add: UnmarshalStartMessage_def)
  have "\<exists>sub. unmarshal_ids [] params = Inr sub \<and> distinct sub \<and> int (length sub) = 2 \<and> set sub \<subseteq> {''a'', ''b'', ''c''}"
    using signing_sessions_agree [OF ids.params_codec_axioms _ _ run _ wait, of params False params]
    by (auto simp: example_signing_def NewECDSAKeyshare_def)
  with wait show ?thesis by blast
qed

text \<open>FROST sessions agree in the same way.\<close>

theorem frost_sessions_agree:
  assumes "params_codec Marshal Unmarshal" "\<And>ps b. ms ps = Inr b \<Longrightarrow> us b = Inr \<lparr>smsg_Params = ps\<rparr>" "c \<noteq> ''''"
    and "initiate ms run c (frost_signing_process h Marshal f) excluded es = (r, acts)" "RunProcesses True params \<in> set acts"
    and "waitForStart us run' c es' = (r', acts')" "RunProcesses b params' \<in> set acts'"
    and "\<And>payload. StartMsg c payload \<in> set es' \<Longrightarrow> BroadcastStart payload \<in> set acts"
  shows "params' = params \<and>
    (\<exists>sub. Unmarshal params = Inr sub \<and> distinct sub \<and> int (length sub) = fk_Threshold (fsg_key f) + 1 \<and>
       set sub \<subseteq> set (fk_Peers (fsg_key f)) \<and> (\<forall>q \<in> set sub. q = c \<or> ReadyMsg q \<in> set es \<and> q \<notin> set excluded))"
  by (rule params_codec.frost_agreement [OF assms])


section \<open>Signing sessions end\<close>



text \<open>While a process that was started does not return, the execution does not either.\<close>

lemma Execute_runs:
  assumes "\<not> pending (pr_SessionID p)"
    and "fst (start (co_hash env) (co_marshalStart env) (co_unmarshalStart env) (co_run env) (co_host env) p
      (StaticCoordinator (co_hash env) (pr_SessionID p) (pr_ValidCoordinators p)) [] (se_inits ev) (se_waits ev)) = None"
  shows "fst (Execute env ev ev' pending (p # ps)) = None \<and> fst (snd (Execute env ev ev' pending (p # ps))) = pending(pr_SessionID p := True)"
  using assms by (simp add: Execute_def with_watcher_def Let_def)

text \<open>
  C22. A FROST session may block its relayer: a relayer that has followed the start message of its coordinator
  into a run that is stuck stays in the execution for ever, although all its timers run out; the session stays
  pending, so that it cannot be executed again.
\<close>

theorem frost_session_hangs:
  assumes "p = frost_signing_process h Marshal f"
    and "c = StaticCoordinator (co_hash env) (pr_SessionID p) (pr_ValidCoordinators p)"
    and "\<not> pending (pr_SessionID p)" "Pretty (co_hash env) c \<noteq> Pretty (co_hash env) (co_host env)"
    and "se_waits ev = StartMsg c payload # waits" "co_unmarshalStart env payload = Inr \<lparr>smsg_Params = params\<rparr>"
    and "co_run env False params =
      ro_result (Frost_Signing_RunPool fenv newHandler Result Unmarshal params f (es @ FOut None # es'))"
    and "ro_pool (Frost_Signing_RunPool fenv newHandler Result Unmarshal params f es) = Some pool"
    and "pl_status pool EndMessage = Returned r" "pl_status pool Outbound = Running"
  shows "fst (Execute env ev ev' pending [p]) = None \<and> fst (snd (Execute env ev ev' pending [p])) (pr_SessionID p)"
proof -
  have "ro_result (Frost_Signing_RunPool fenv newHandler Result Unmarshal params f (es @ FOut None # es')) = None"
    by (rule Frost_Signing_RunPool_stuck [OF assms(8-10)])
  with assms(7) have "co_run env False params = None" by simp
  then have "fst (start (co_hash env) (co_marshalStart env) (co_unmarshalStart env) (co_run env) (co_host env) p
      (StaticCoordinator (co_hash env) (pr_SessionID p) (pr_ValidCoordinators p)) [] (se_inits ev) (se_waits ev)) = None"
    using assms(4-6) unfolding assms(2) [symmetric] by (simp add: start_def UnmarshalStartMessage_def)
  from Execute_runs [of pending p, OF assms(3) this] show ?thesis by simp
qed


definition example_frost :: "(unit, unit) FrostSigning" where
  "example_frost = \<lparr>fsg_host = ''z'', fsg_SID = ''1-1'', fsg_Peers = [],
     fsg_key = \<lparr>fk_Key = \<lparr>tc_ID = '''', tc_Threshold = 1, tc_PrivateShare = (), tc_PublicKey = [], tc_ChainKey = [], tc_VerificationShares = []\<rparr>,
       fk_Threshold = 1, fk_Peers = [''a'']\<rparr>, fsg_id = 0, fsg_msg = []\<rparr>"

theorem frost_session_hangs_witness:
  "\<exists>env c p. fst (Execute env \<lparr>se_inits = [], se_waits = [StartMsg c [1], WaitTimeout], se_watch = [WatchTimeout]\<rparr>
       \<lparr>se_inits = [], se_waits = [WaitTimeout], se_watch = [WatchTimeout]\<rparr> (\<lambda>_. False) [p]) = None"
proof -
  let ?run = "\<lambda>es. Frost_Signing_RunPool example_frost_env (\<lambda>_ _ _ _. Inr ()) (\<lambda>_. Inr ()) (\<lambda>_. Inr [''a'', ''z'']) [1] example_frost es"
  let ?es = "[FCancel, FLeave EndMessage]" and ?es' = "[FHandOver, FLeave Outbound, FLeave Inbound]"
  let ?p = "frost_signing_process example_hash marshal_ids example_frost"
  let ?c = "StaticCoordinator example_hash (pr_SessionID ?p) (pr_ValidCoordinators ?p)"
  define env where "env = example_env\<lparr>co_run := (\<lambda>_ _. ro_result (?run (?es @ FOut None # ?es')))\<rparr>"
  let ?ev = "\<lparr>se_inits = [], se_waits = [StartMsg ?c [1], WaitTimeout], se_watch = [WatchTimeout]\<rparr>"
  let ?ev' = "\<lparr>se_inits = [], se_waits = [WaitTimeout], se_watch = [WatchTimeout]\<rparr>"
  have other: "Pretty (co_hash env) (StaticCoordinator (co_hash env) (pr_SessionID ?p) (pr_ValidCoordinators ?p))
      \<noteq> Pretty (co_hash env) (co_host env)"
    by (simp add: frost_signing_process_def example_frost_def Frost_ValidCoordinators_def StaticCoordinator_def SortPeersForSession_def
        toPeerMsg_def example_hash_def env_def example_env_def)
  have "\<exists>pool r. ro_pool (?run ?es) = Some pool \<and> pl_status pool EndMessage = Returned r \<and> pl_status pool Outbound = Running"
    by (simp add: Frost_Signing_RunPool_def Frost_Run_def Frost_unmarshallStartParams_def example_frost_def example_frost_env_def
        example_hash_def frost_pool_def Let_def start_pool_def cancel_pool_def leave_def turn_def finish_def)
  then obtain pool r where pool: "ro_pool (?run ?es) = Some pool" "pl_status pool EndMessage = Returned r" "pl_status pool Outbound = Running"
    by blast
  have c: "?c = StaticCoordinator (co_hash env) (pr_SessionID ?p) (pr_ValidCoordinators ?p)"
    and start: "co_unmarshalStart env [1] = Inr \<lparr>smsg_Params = [1]\<rparr>"
    and run: "co_run env False [1] = ro_result (?run (?es @ FOut None # ?es'))"
    and waits: "se_waits ?ev = StartMsg (StaticCoordinator (co_hash env) (pr_SessionID ?p) (pr_ValidCoordinators ?p)) [1] # [WaitTimeout]"
    by (simp_all add: env_def example_env_def)
  have "fst (Execute env ?ev ?ev' (\<lambda>_. False) [?p]) = None"
    by (rule frost_session_hangs [where pending = "\<lambda>_. False", THEN conjunct1, OF refl refl _ other waits start run pool]) simp
  then show ?thesis by blast
qed

end
