(* ===== verification/Evm_Deposit_Handlers.thy ===== *)
theory Evm_Deposit_Handlers
  imports Relayer_Data
begin

text \<open>
  EVM deposit handlers (\<open>chains/evm/listener/depositHandlers\<close>): they cut the calldata of a
  deposit event into the payload of a transfer message. Slicing is Go's: it panics outside
  the capacity, and a length read from the calldata is first truncated to 64 bits. The
  ABI codec, the hex parser and the bridge contract's handler lookup belong to other
  packages and are arguments.
\<close>

section \<open>The go-ethereum functions the handlers call\<close>

record 't go_ethereum =
  LeftPadBytes :: "bytes \<Rightarrow> nat \<Rightarrow> bytes"
  NewType :: "string \<Rightarrow> 't res"
  UnpackValues :: "(string \<times> 't) list \<Rightarrow> bytes \<Rightarrow> iface list res"
  PackValues :: "(string \<times> 't) list \<Rightarrow> iface list \<Rightarrow> bytes res"

text \<open>What \<open>common.LeftPadBytes\<close> documents: it zero-pads a slice on the left up to a length.\<close>

definition pads_left :: "'t go_ethereum \<Rightarrow> bool" where
  "pads_left lib \<longleftrightarrow> LeftPadBytes lib = left_pad"

section \<open>ERC-20 and native transfers\<close>

definition OPTIONAL_REVERT_GAS :: nat where
  "OPTIONAL_REVERT_GAS = 100000"

text \<open>\<open>copy(calldata[a:b], src)\<close> for a range inside the slice.\<close>

definition copy_into :: "gslice \<Rightarrow> nat \<Rightarrow> nat \<Rightarrow> bytes \<Rightarrow> gslice" where
  "copy_into s a b src =
     (let n = min (b - a) (length src)
      in s\<lparr>elems := take a (elems s) @ take n src @ drop (a + n) (elems s)\<rparr>)"

definition transfer_message ::
  "uint8 \<Rightarrow> uint8 \<Rightarrow> uint64 \<Rightarrow> bytes32 \<Rightarrow> metadata \<Rightarrow> iface list \<Rightarrow> TransferType \<Rightarrow> string \<Rightarrow> int
     \<Rightarrow> message" where
  "transfer_message sourceID destID nonce resourceID metadata payload typ messageID timestamp =
     NewMessage sourceID destID
       (MTransfer \<lparr>tmd_DepositNonce = nonce, tmd_ResourceId = resourceID, tmd_Metadata = metadata,
          tmd_Payload = payload, tmd_Type = typ\<rparr>)
       messageID TransferMessageType timestamp"

definition Erc20_HandleDeposit ::
  "'t go_ethereum \<Rightarrow> uint8 \<Rightarrow> uint8 \<Rightarrow> uint64 \<Rightarrow> bytes32 \<Rightarrow> gslice \<Rightarrow> gslice \<Rightarrow> string \<Rightarrow> int \<Rightarrow> message res" where
  "Erc20_HandleDeposit lib sourceID destID nonce resourceID calldata handlerResponse messageID timestamp =
     (if slice_len calldata < 84 then Inl (Error ''invalid calldata length: less than 84 bytes'')
      else
        and_then (if slice_len handlerResponse > 0 then subslice handlerResponse 0 32
                  else subslice calldata 0 32) (\<lambda>amount.
        and_then (subslice calldata 32 64) (\<lambda>lengthBytes.
        let recipientAddressLength = int64 (int (SetBytes lengthBytes)) in
        and_then (subslice calldata 64 (int64 (64 + recipientAddressLength))) (\<lambda>recipientAddress.
        if slice_len calldata > int64 (96 + recipientAddressLength) then
          and_then (subslice calldata (int64 (64 + recipientAddressLength))
                      (int64 (96 + recipientAddressLength))) (\<lambda>feeBytes.
          let maxFee = SetBytes feeBytes + OPTIONAL_REVERT_GAS;
              calldata' = copy_into calldata (nat (int64 (64 + recipientAddressLength)))
                (nat (int64 (96 + recipientAddressLength))) (LeftPadBytes lib (Bytes maxFee) 32)
          in and_then (slice_from calldata' (int64 (64 + recipientAddressLength))) (\<lambda>optional.
             Inr (transfer_message sourceID destID nonce resourceID
                    [(''gasLimit'', IUint64 (of_nat maxFee))]
                    [IBytes amount, IBytes recipientAddress, IBytes optional]
                    FungibleTransfer messageID timestamp)))
        else
          Inr (transfer_message sourceID destID nonce resourceID []
                 [IBytes amount, IBytes recipientAddress] FungibleTransfer messageID timestamp)))))"

section \<open>ERC-721\<close>

definition Erc721_HandleDeposit ::
  "uint8 \<Rightarrow> uint8 \<Rightarrow> uint64 \<Rightarrow> bytes32 \<Rightarrow> gslice \<Rightarrow> gslice \<Rightarrow> string \<Rightarrow> int \<Rightarrow> message res" where
  "Erc721_HandleDeposit sourceID destID nonce resourceID calldata handlerResponse messageID timestamp =
     (if slice_len calldata < 64 then Inl (Error ''invalid calldata length: less than 84 bytes'')
      else
        and_then (subslice calldata 0 32) (\<lambda>tokenId.
        and_then (subslice calldata 32 64) (\<lambda>lengthBytes.
        let recipientAddressLength = int64 (int (SetBytes lengthBytes));
            recipientEnd = int64 (64 + recipientAddressLength) in
        and_then (subslice calldata 64 recipientEnd) (\<lambda>recipientAddress.
        and_then (subslice calldata recipientEnd (int64 (recipientEnd + 32))) (\<lambda>metadataLengthBytes.
        let metadataLength = SetBytes metadataLengthBytes;
            metadataStart = int64 (recipientEnd + 32) in
        and_then (if metadataLength > 0
                  then subslice calldata metadataStart
                         (int64 (metadataStart + int64 (int metadataLength)))
                  else Inr []) (\<lambda>metadata.
        Inr (transfer_message sourceID destID nonce resourceID []
               [IBytes tokenId, IBytes recipientAddress, IBytes metadata]
               NonFungibleTransfer messageID timestamp)))))))"

section \<open>ERC-1155\<close>

definition GetErc1155Type :: "'t go_ethereum \<Rightarrow> (string \<times> 't) list res" where
  "GetErc1155Type lib =
     and_then (NewType lib ''uint256[]'') (\<lambda>tokenIDsType.
     and_then (NewType lib ''uint256[]'') (\<lambda>amountsType.
     and_then (NewType lib ''bytes'') (\<lambda>recipientType.
     and_then (NewType lib ''bytes'') (\<lambda>transferDataType.
     Inr [(''tokenIDs'', tokenIDsType), (''amounts'', amountsType),
          (''recipient'', recipientType), (''transferData'', transferDataType)]))))"

definition Erc1155_HandleDeposit ::
  "'t go_ethereum \<Rightarrow>
   uint8 \<Rightarrow> uint8 \<Rightarrow> uint64 \<Rightarrow> bytes32 \<Rightarrow> gslice \<Rightarrow> gslice \<Rightarrow> string \<Rightarrow> int \<Rightarrow> message res" where
  "Erc1155_HandleDeposit lib sourceID destID nonce resourceID calldata
       handlerResponse messageID timestamp =
     and_then (GetErc1155Type lib) (\<lambda>erc1155Type.
     and_then (UnpackValues lib erc1155Type (elems calldata)) (\<lambda>decodedCallData.
     and_then (payload_at decodedCallData 0) (\<lambda>p0.
     and_then (payload_at decodedCallData 1) (\<lambda>p1.
     and_then (payload_at decodedCallData 2) (\<lambda>p2.
     and_then (payload_at decodedCallData 3) (\<lambda>p3.
     Inr (transfer_message sourceID destID nonce resourceID [] [p0, p1, p2, p3]
            SemiFungibleTransfer messageID timestamp)))))))"

section \<open>Permissionless generic calls\<close>

text \<open>
  The lengths here are read from one or two bytes, so the 64-bit sums of the code cannot
  wrap and are written as plain sums.
\<close>

definition PermissionlessGeneric_HandleDeposit ::
  "uint8 \<Rightarrow> uint8 \<Rightarrow> uint64 \<Rightarrow> bytes32 \<Rightarrow> gslice \<Rightarrow> gslice \<Rightarrow> string \<Rightarrow> int \<Rightarrow> message res" where
  "PermissionlessGeneric_HandleDeposit sourceID destID nonce resourceID calldata handlerResponse
       messageID timestamp =
     (if slice_len calldata < 76 then Inl (Error ''invalid calldata length: less than 76 bytes'')
      else
        and_then (subslice calldata 0 32) (\<lambda>maxFee.
        and_then (subslice calldata 32 34) (\<lambda>functionSigLen.
        let functionSigEnd = 34 + int (SetBytes functionSigLen) in
        and_then (subslice calldata 34 functionSigEnd) (\<lambda>functionSig.
        and_then (subslice calldata functionSigEnd (functionSigEnd + 1)) (\<lambda>contractAddressLen.
        let contractAddressEnd = functionSigEnd + 1 + int (SetBytes contractAddressLen) in
        and_then (subslice calldata (functionSigEnd + 1) contractAddressEnd) (\<lambda>contractAddress.
        and_then (subslice calldata contractAddressEnd (contractAddressEnd + 1)) (\<lambda>depositorLen.
        let depositorEnd = contractAddressEnd + 1 + int (SetBytes depositorLen) in
        and_then (subslice calldata (contractAddressEnd + 1) depositorEnd) (\<lambda>depositorAddress.
        and_then (slice_from calldata depositorEnd) (\<lambda>executionData.
        Inr (transfer_message sourceID destID nonce resourceID
               [(''gasLimit'', IUint64 (word_of_int (int64 (int (SetBytes maxFee)))))]
               [IBytes functionSig, IBytes contractAddress, IBytes maxFee, IBytes depositorAddress,
                IBytes executionData]
               PermissionlessGenericTransfer messageID timestamp))))))))))"

section \<open>Dispatch by handler address\<close>

datatype deposit_handler = Erc20Handler | Erc721Handler | Erc1155Handler | PermissionlessHandler

definition run_handler ::
  "'t go_ethereum \<Rightarrow> deposit_handler \<Rightarrow>
   uint8 \<Rightarrow> uint8 \<Rightarrow> uint64 \<Rightarrow> bytes32 \<Rightarrow> gslice \<Rightarrow> gslice \<Rightarrow> string \<Rightarrow> int \<Rightarrow> message res" where
  "run_handler lib h =
     (case h of
        Erc20Handler \<Rightarrow> Erc20_HandleDeposit lib
      | Erc721Handler \<Rightarrow> Erc721_HandleDeposit
      | Erc1155Handler \<Rightarrow> Erc1155_HandleDeposit lib
      | PermissionlessHandler \<Rightarrow> PermissionlessGeneric_HandleDeposit)"

type_synonym 'a DepositHandlers = "('a \<times> deposit_handler) list"

definition NewETHDepositHandler :: "'a DepositHandlers" where
  "NewETHDepositHandler = []"

definition RegisterDepositHandler ::
  "(string \<Rightarrow> 'a) \<Rightarrow> 'a DepositHandlers \<Rightarrow> string \<Rightarrow> deposit_handler \<Rightarrow> 'a DepositHandlers" where
  "RegisterDepositHandler HexToAddress handlers handlerAddress handler =
     (if handlerAddress = '''' then handlers
      else (HexToAddress handlerAddress, handler) # handlers)"

definition matchAddressWithHandlerFunc :: "'a DepositHandlers \<Rightarrow> 'a \<Rightarrow> deposit_handler res" where
  "matchAddressWithHandlerFunc handlers handlerAddress =
     (case map_of handlers handlerAddress of
        None \<Rightarrow> Inl (Error ''no corresponding deposit handler for this address exists'')
      | Some hf \<Rightarrow> Inr hf)"

definition ETHDepositHandler_HandleDeposit ::
  "'t go_ethereum \<Rightarrow>
   (bytes32 \<Rightarrow> 'a res) \<Rightarrow> 'a DepositHandlers \<Rightarrow>
   uint8 \<Rightarrow> uint8 \<Rightarrow> uint64 \<Rightarrow> bytes32 \<Rightarrow> gslice \<Rightarrow> gslice \<Rightarrow> string \<Rightarrow> int \<Rightarrow> message res" where
  "ETHDepositHandler_HandleDeposit lib GetHandlerAddressForResourceID handlers
       sourceID destID depositNonce resourceID calldata handlerResponse messageID timestamp =
     and_then (GetHandlerAddressForResourceID resourceID) (\<lambda>handlerAddr.
     and_then (matchAddressWithHandlerFunc handlers handlerAddr) (\<lambda>depositHandler.
     run_handler lib depositHandler sourceID destID depositNonce resourceID
       calldata handlerResponse messageID timestamp))"

section \<open>What every handler's message carries over\<close>

lemmas evm_deposit_handlers [deposit_handler_defs] = Erc20_HandleDeposit_def Erc721_HandleDeposit_def Erc1155_HandleDeposit_def
  PermissionlessGeneric_HandleDeposit_def

lemma transfer_message_sel [simp]:
  "m_Source (transfer_message s d n r md p t i ts) = s"
  "m_Destination (transfer_message s d n r md p t i ts) = d"
  "m_ID (transfer_message s d n r md p t i ts) = i"
  "m_Type (transfer_message s d n r md p t i ts) = TransferMessageType"
  "m_Timestamp (transfer_message s d n r md p t i ts) = ts"
  "m_Data (transfer_message s d n r md p t i ts) =
     MTransfer \<lparr>tmd_DepositNonce = n, tmd_ResourceId = r, tmd_Metadata = md, tmd_Payload = p, tmd_Type = t\<rparr>"
  by (simp_all add: transfer_message_def NewMessage_def)

lemma run_handler_envelope:
  assumes "run_handler lib h s d n r cd hr i ts = Inr m"
  shows "\<exists>md p t. m = transfer_message s d n r md p t i ts"
  using assms
  by (cases h) (auto simp: run_handler_def deposit_handler_defs Let_def split: if_splits)

lemma register_lookup:
  "addr \<noteq> '''' \<Longrightarrow>
   matchAddressWithHandlerFunc (RegisterDepositHandler H hs addr h) a =
     (if a = H addr then Inr h else matchAddressWithHandlerFunc hs a)"
  by (simp add: matchAddressWithHandlerFunc_def RegisterDepositHandler_def)

section \<open>Well-formed calldata\<close>

text \<open>The deposit formats the bridge contracts emit.\<close>

definition erc20_calldata :: "bytes \<Rightarrow> bytes \<Rightarrow> bytes \<Rightarrow> bytes" where
  "erc20_calldata amount recipient rest =
     amount @ left_pad (Bytes (length recipient)) 32 @ recipient @ rest"

definition erc721_calldata :: "bytes \<Rightarrow> bytes \<Rightarrow> bytes \<Rightarrow> bytes" where
  "erc721_calldata tokenId recipient metadata =
     tokenId @ left_pad (Bytes (length recipient)) 32 @ recipient
       @ left_pad (Bytes (length metadata)) 32 @ metadata"

definition generic_calldata :: "bytes \<Rightarrow> bytes \<Rightarrow> bytes \<Rightarrow> bytes \<Rightarrow> bytes \<Rightarrow> bytes" where
  "generic_calldata maxFee functionSig contract depositor executionData =
     maxFee @ left_pad (Bytes (length functionSig)) 2 @ functionSig
       @ [of_nat (length contract)] @ contract @ [of_nat (length depositor)] @ depositor
       @ executionData"

lemma length_field32: "n < 2 ^ 63 \<Longrightarrow> length (left_pad (Bytes n) 32) = 32"
proof -
  assume n: "n < 2 ^ 63"
  have "(2 :: nat) ^ 63 \<le> 256 ^ 32" by simp
  with n show ?thesis by (intro length_pad_Bytes) linarith
qed

lemma unat_of_nat_byte: "n < 256 \<Longrightarrow> unat (of_nat n :: byte) = n"
  by (simp add: unat_of_nat)

lemma int64_small: "0 \<le> x \<Longrightarrow> x < 2 ^ 63 \<Longrightarrow> int64 x = x"
  by simp

text \<open>Reading the two leading 32-byte words and the address of a transfer.\<close>

lemma head_fields:
  assumes "elems cd = a @ left_pad (Bytes (length r)) 32 @ r @ rest"
    and "length a = 32" "length r < 2 ^ 62"
  shows "subslice cd 0 32 = Inr a"
    and "subslice cd 32 64 = Inr (left_pad (Bytes (length r)) 32)"
    and "subslice cd 64 (64 + int (length r)) = Inr r"
    and "slice_len cd = 64 + int (length r) + int (length rest)"
proof -
  have w: "length (left_pad (Bytes (length r)) 32) = 32"
    using assms(3) by (intro length_field32) simp
  let ?w = "left_pad (Bytes (length r)) 32"
  show "subslice cd 0 32 = Inr a"
    by (rule subslice_append3 [where pre = "[]" and post = "?w @ r @ rest @ spare cd"])
      (use assms in simp_all)
  show "subslice cd 32 64 = Inr ?w"
    by (rule subslice_append3 [where pre = a and post = "r @ rest @ spare cd"])
      (use assms w in simp_all)
  show "subslice cd 64 (64 + int (length r)) = Inr r"
    by (rule subslice_append3 [where pre = "a @ ?w" and post = "rest @ spare cd"])
      (use assms w in simp_all)
  show "slice_len cd = 64 + int (length r) + int (length rest)"
    using assms w by (simp add: slice_len_def)
qed

lemma erc20_plain:
  assumes "elems cd = erc20_calldata amount recipient rest" "elems hr = []"
    and "length amount = 32" "20 \<le> length recipient" "length recipient < 2 ^ 62"
    and "length rest \<le> 32"
  shows "Erc20_HandleDeposit lib s d n r cd hr i ts =
     Inr (transfer_message s d n r [] [IBytes amount, IBytes recipient] FungibleTransfer i ts)"
proof -
  note f = head_fields [OF assms(1) [unfolded erc20_calldata_def] assms(3,5)]
  have "int64 (int (length recipient)) = int (length recipient)"
    "int64 (64 + int (length recipient)) = 64 + int (length recipient)"
    "int64 (96 + int (length recipient)) = 96 + int (length recipient)"
    using assms(5) by (simp_all add: int64_small)
  with f assms show ?thesis
    by (simp add: Erc20_HandleDeposit_def slice_len_def [of hr])
qed

lemma copy_into_middle:
  assumes "elems cd = pre @ fee @ opt" "length fee = 32" "length new = 32"
  shows "elems (copy_into cd (length pre) (length pre + 32) new) = pre @ new @ opt"
  using assms by (simp add: copy_into_def)

lemma erc20_optional:
  assumes "pads_left lib" "elems cd = erc20_calldata amount recipient (fee @ opt)" "elems hr = []"
    and "length amount = 32" "20 \<le> length recipient" "length recipient < 2 ^ 62"
    and "length fee = 32" "opt \<noteq> []" "SetBytes fee + OPTIONAL_REVERT_GAS < 256 ^ 32"
  shows "Erc20_HandleDeposit lib s d n r cd hr i ts =
     Inr (transfer_message s d n r
       [(''gasLimit'', IUint64 (of_nat (SetBytes fee + OPTIONAL_REVERT_GAS)))]
       [IBytes amount, IBytes recipient,
        IBytes (left_pad (Bytes (SetBytes fee + OPTIONAL_REVERT_GAS)) 32 @ opt)]
       FungibleTransfer i ts)"
proof -
  let ?w = "left_pad (Bytes (length recipient)) 32"
  let ?new = "left_pad (Bytes (SetBytes fee + OPTIONAL_REVERT_GAS)) 32"
  let ?a = "64 + int (length recipient)" and ?b = "96 + int (length recipient)"
  let ?pre = "amount @ ?w @ recipient"
  note f = head_fields [OF assms(2) [unfolded erc20_calldata_def] assms(4,6)]
  have w: "length ?w = 32" using assms(6) by (intro length_field32) simp
  have cd: "elems cd = ?pre @ fee @ opt" using assms(2) by (simp add: erc20_calldata_def)
  have new: "length ?new = 32" using length_pad_Bytes assms(9) by blast
  have pre: "length ?pre = nat ?a" "length ?pre + 32 = nat ?b" using w assms(4) by simp_all
  have fee: "subslice cd ?a ?b = Inr fee"
    by (rule subslice_append3 [where pre = ?pre and post = "opt @ spare cd"])
      (use cd w assms in simp_all)
  define cd' where "cd' = copy_into cd (nat ?a) (nat ?b) ?new"
  have cd': "elems cd' = ?pre @ ?new @ opt"
    using copy_into_middle [OF cd assms(7) new] pre by (simp add: cd'_def)
  have tail: "slice_from cd' ?a = Inr (?new @ opt)"
    unfolding slice_from_def
    by (rule subslice_append3 [where pre = ?pre and post = "spare cd'"])
      (use cd' w new assms in \<open>simp_all add: slice_len_def\<close>)
  have "int64 (int (length recipient)) = int (length recipient)" "int64 ?a = ?a" "int64 ?b = ?b"
    using assms(6) by (simp_all add: int64_small)
  with f fee tail assms show ?thesis
    by (simp add: pads_left_def Erc20_HandleDeposit_def slice_len_def [of hr] Let_def cd'_def)
qed

lemma erc721_ok:
  assumes "elems cd = erc721_calldata tokenId recipient metadata"
    and "length tokenId = 32" "length recipient < 2 ^ 61" "length metadata < 2 ^ 61"
  shows "Erc721_HandleDeposit s d n r cd hr i ts =
     Inr (transfer_message s d n r [] [IBytes tokenId, IBytes recipient, IBytes metadata]
       NonFungibleTransfer i ts)"
proof -
  let ?w = "left_pad (Bytes (length recipient)) 32"
  let ?m = "left_pad (Bytes (length metadata)) 32"
  let ?a = "64 + int (length recipient)"
  have f: "subslice cd 0 32 = Inr tokenId" "subslice cd 32 64 = Inr ?w"
    "subslice cd 64 ?a = Inr recipient"
    "slice_len cd = ?a + int (length (?m @ metadata))"
    using head_fields [of cd tokenId recipient "?m @ metadata"] assms
    by (simp_all add: erc721_calldata_def)
  have w: "length ?w = 32" "length ?m = 32"
    by (rule length_field32; use assms(3,4) in simp)+
  have m: "subslice cd ?a (?a + 32) = Inr ?m"
    by (rule subslice_append3 [where pre = "tokenId @ ?w @ recipient" and post = "metadata @ spare cd"])
      (use assms w in \<open>simp_all add: erc721_calldata_def\<close>)
  have md: "subslice cd (?a + 32) (?a + 32 + int (length metadata)) = Inr metadata"
    by (rule subslice_append3 [where pre = "tokenId @ ?w @ recipient @ ?m" and post = "spare cd"])
      (use assms w in \<open>simp_all add: erc721_calldata_def\<close>)
  have "int64 (int (length recipient)) = int (length recipient)"
    "int64 (int (length metadata)) = int (length metadata)" "int64 ?a = ?a"
    "int64 (?a + 32) = ?a + 32"
    "int64 (?a + 32 + int (length metadata)) = ?a + 32 + int (length metadata)"
    using assms(3,4) by (simp_all add: int64_small)
  with f w m md show ?thesis
    by (cases "metadata = []") (simp_all add: Erc721_HandleDeposit_def Let_def)
qed

lemma generic_ok:
  assumes "elems cd = generic_calldata maxFee functionSig contract depositor executionData"
    and "length maxFee = 32" "length functionSig < 65536" "length contract < 256"
    and "length depositor < 256"
    and "76 \<le> length (elems cd)"
  shows "PermissionlessGeneric_HandleDeposit s d n r cd hr i ts =
     Inr (transfer_message s d n r
       [(''gasLimit'', IUint64 (word_of_int (int64 (int (SetBytes maxFee)))))]
       [IBytes functionSig, IBytes contract, IBytes maxFee, IBytes depositor, IBytes executionData]
       PermissionlessGenericTransfer i ts)"
proof -
  let ?w = "left_pad (Bytes (length functionSig)) 2"
  let ?c = "[of_nat (length contract)] :: bytes" and ?p = "[of_nat (length depositor)] :: bytes"
  let ?e1 = "34 + int (length functionSig)"
  let ?e2 = "?e1 + 1 + int (length contract)"
  let ?e3 = "?e2 + 1 + int (length depositor)"
  have w: "length ?w = 2" using assms(3) by (intro length_pad_Bytes) simp
  note cd = assms(1) [unfolded generic_calldata_def]
  have 1: "subslice cd 0 32 = Inr maxFee"
    by (rule subslice_append3 [where pre = "[]"]) (use cd assms w in simp_all)
  have 2: "subslice cd 32 34 = Inr ?w"
    by (rule subslice_append3 [where pre = maxFee]) (use cd assms w in simp_all)
  have 3: "subslice cd 34 ?e1 = Inr functionSig"
    by (rule subslice_append3 [where pre = "maxFee @ ?w"]) (use cd assms w in simp_all)
  have 4: "subslice cd ?e1 (?e1 + 1) = Inr ?c"
    by (rule subslice_append3 [where pre = "maxFee @ ?w @ functionSig"]) (use cd assms w in simp_all)
  have 5: "subslice cd (?e1 + 1) ?e2 = Inr contract"
    by (rule subslice_append3 [where pre = "maxFee @ ?w @ functionSig @ ?c"])
      (use cd assms w in simp_all)
  have 6: "subslice cd ?e2 (?e2 + 1) = Inr ?p"
    by (rule subslice_append3 [where pre = "maxFee @ ?w @ functionSig @ ?c @ contract"])
      (use cd assms w in simp_all)
  have 7: "subslice cd (?e2 + 1) ?e3 = Inr depositor"
    by (rule subslice_append3 [where pre = "maxFee @ ?w @ functionSig @ ?c @ contract @ ?p"])
      (use cd assms w in simp_all)
  have 8: "slice_from cd ?e3 = Inr executionData"
    unfolding slice_from_def
    by (rule subslice_append3
        [where pre = "maxFee @ ?w @ functionSig @ ?c @ contract @ ?p @ depositor"])
      (use cd assms w in \<open>simp_all add: slice_len_def\<close>)
  have v: "SetBytes ?c = length contract" "SetBytes ?p = length depositor"
    using assms(4,5) by (simp_all add: unat_of_nat_byte)
  have "slice_len cd \<ge> 76" using assms(6) by (simp add: slice_len_def)
  with 1 2 3 4 5 6 7 8 v show ?thesis
    by (simp add: PermissionlessGeneric_HandleDeposit_def Let_def)
qed

end
