(* ===== verification/Evm_Message_Handler.thy ===== *)
theory Evm_Message_Handler
  imports Evm_Deposit_Handlers Retry
begin

text \<open>
  EVM message handlers (\<open>chains/evm/executor/message-handler.go\<close>): they encode a transfer
  message as the proposal data the bridge contract executes, and serve retry requests. The
  round trips at the end say that what a deposit handler cut apart on the source chain is
  put together again byte for byte on the destination.
\<close>

section \<open>Encoding transfers\<close>

definition NewTransferProposal :: "TransferMessage \<Rightarrow> bytes \<Rightarrow> proposal" where
  "NewTransferProposal msg data =
     NewProposal (tm_Source msg) (tm_Destination msg)
       (PTransfer \<lparr>tpd_DepositNonce = tmd_DepositNonce (tm_Data msg),
          tpd_ResourceId = tmd_ResourceId (tm_Data msg),
          tpd_Metadata = tmd_Metadata (tm_Data msg), tpd_Data = data\<rparr>)
       (tm_ID msg) TransferProposalType"

definition PermissionlessGenericMessageHandler :: "'t go_ethereum \<Rightarrow> TransferMessage \<Rightarrow> proposal res" where
  "PermissionlessGenericMessageHandler lib msg =
     (let payload = tmd_Payload (tm_Data msg) in
      and_then (and_then (payload_at payload 0) (asBytes ''wrong function signature format''))
        (\<lambda>executeFunctionSignature.
      and_then (and_then (payload_at payload 1) (asBytes ''wrong contract address format''))
        (\<lambda>executeContractAddress.
      and_then (and_then (payload_at payload 2) (asBytes ''wrong max fee format'')) (\<lambda>maxFee.
      and_then (and_then (payload_at payload 3) (asBytes ''wrong depositor data format''))
        (\<lambda>depositor.
      and_then (and_then (payload_at payload 4) (asBytes ''wrong execution data format''))
        (\<lambda>executionData.
      Inr (NewTransferProposal msg
        (LeftPadBytes lib maxFee 32
         @ LeftPadBytes lib (Bytes (length executeFunctionSignature)) 2
         @ executeFunctionSignature
         @ [of_nat (length executeContractAddress)]
         @ executeContractAddress
         @ [of_nat (length depositor)]
         @ depositor
         @ executionData))))))))"

definition ERC20MessageHandler :: "'t go_ethereum \<Rightarrow> TransferMessage \<Rightarrow> proposal res" where
  "ERC20MessageHandler lib msg =
     (let payload = tmd_Payload (tm_Data msg) in
      if length payload \<noteq> 2 \<and> length payload \<noteq> 3
      then Inl (Error (''wrong payload length '' @ dec (length payload)))
      else
        and_then (and_then (payload_at payload 0) (asBytes ''wrong payload amount format'')) (\<lambda>amount.
        and_then (and_then (payload_at payload 1) (asBytes ''wrong payload recipient format''))
          (\<lambda>recipient.
        let data = LeftPadBytes lib amount 32 @ LeftPadBytes lib (Bytes (length recipient)) 32 @ recipient in
        if length payload = 3 then
          and_then (and_then (payload_at payload 2) (asBytes ''wrong optional message format''))
            (\<lambda>optionalMessage. Inr (NewTransferProposal msg (data @ optionalMessage)))
        else Inr (NewTransferProposal msg data))))"

definition ERC721MessageHandler :: "'t go_ethereum \<Rightarrow> TransferMessage \<Rightarrow> proposal res" where
  "ERC721MessageHandler lib msg =
     (let payload = tmd_Payload (tm_Data msg) in
      if length payload \<noteq> 3 then Inl (Error ''malformed payload. Len  of payload should be 3'')
      else
        and_then (and_then (payload_at payload 0) (asBytes ''wrong payload tokenID format'')) (\<lambda>tokenID.
        and_then (and_then (payload_at payload 1) (asBytes ''wrong payload recipient format''))
          (\<lambda>recipient.
        and_then (and_then (payload_at payload 2) (asBytes ''wrong payload metadata format''))
          (\<lambda>metadata.
        Inr (NewTransferProposal msg
          (LeftPadBytes lib tokenID 32
           @ LeftPadBytes lib (Bytes (length recipient)) 32 @ recipient
           @ LeftPadBytes lib (Bytes (length metadata)) 32 @ metadata))))))"

definition ERC1155MessageHandler ::
  "'t go_ethereum \<Rightarrow> TransferMessage
     \<Rightarrow> proposal res" where
  "ERC1155MessageHandler lib msg =
     (let payload = tmd_Payload (tm_Data msg) in
      if length payload \<noteq> 4 then Inl (Error ''malformed payload. Len  of payload should be 4'')
      else
        and_then (and_then (payload_at payload 0) (asBigInts ''wrong payload tokenID format'')) (\<lambda>_.
        and_then (and_then (payload_at payload 1) (asBigInts ''wrong payload amount format'')) (\<lambda>_.
        and_then (and_then (payload_at payload 2) (asBytes ''wrong payload recipient format''))
          (\<lambda>recipient.
        if length recipient \<noteq> 20
        then Inl (Error ''malformed payload. Len  of recipient should be 20'')
        else
          and_then (and_then (payload_at payload 3) (asBytes ''wrong payload transferData format'')) (\<lambda>_.
          and_then (GetErc1155Type lib) (\<lambda>erc1155Type.
          and_then (PackValues lib erc1155Type payload) (\<lambda>data.
          Inr (NewTransferProposal msg data))))))))"

definition GenericMessageHandler :: "'t go_ethereum \<Rightarrow> TransferMessage \<Rightarrow> proposal res" where
  "GenericMessageHandler lib msg =
     (let payload = tmd_Payload (tm_Data msg) in
      if length payload \<noteq> 1 then Inl (Error ''malformed payload. Len  of payload should be 1'')
      else
        and_then (and_then (payload_at payload 0) (asBytes ''wrong payload metadata format''))
          (\<lambda>metadata.
        Inr (NewTransferProposal msg
          (LeftPadBytes lib (Bytes (length metadata)) 32 @ metadata))))"

definition TransferMessageHandler_HandleMessage ::
  "'t go_ethereum \<Rightarrow> message
     \<Rightarrow> proposal res" where
  "TransferMessageHandler_HandleMessage lib msg =
     and_then (asTransferMessageData (m_Data msg)) (\<lambda>data.
     let transferMessage = \<lparr>tm_Source = m_Source msg, tm_Destination = m_Destination msg,
           tm_Data = data, tm_Type = m_Type msg, tm_ID = m_ID msg\<rparr> in
     if tmd_Type data = FungibleTransfer then ERC20MessageHandler lib transferMessage
     else if tmd_Type data = SemiFungibleTransfer
       then ERC1155MessageHandler lib transferMessage
     else if tmd_Type data = NonFungibleTransfer then ERC721MessageHandler lib transferMessage
     else if tmd_Type data = PermissionedGenericTransfer then GenericMessageHandler lib transferMessage
     else if tmd_Type data = PermissionlessGenericTransfer
       then PermissionlessGenericMessageHandler lib transferMessage
     else Inl (Error ''wrong message type passed while handling message''))"

section \<open>Retry requests\<close>

text \<open>
  The handler sends the selected deposits on the relayer's message channel; the third
  component of the result lists the batches it sends. It never returns a proposal.
\<close>

definition RetryMessageHandler_HandleMessage ::
  "('s \<Rightarrow> uint8 \<Rightarrow> uint8 \<Rightarrow> uint64 \<Rightarrow> PropStatus res) \<Rightarrow>
   ('s \<Rightarrow> uint8 \<Rightarrow> uint8 \<Rightarrow> uint64 \<Rightarrow> PropStatus \<Rightarrow> 's res) \<Rightarrow>
   int res \<Rightarrow> (int \<Rightarrow> int \<Rightarrow> (uint8 \<times> message list) list res) \<Rightarrow> int \<Rightarrow> 's \<Rightarrow> message \<Rightarrow>
   unit res \<times> 's \<times> message list list" where
  "RetryMessageHandler_HandleMessage status store LatestBlock ProcessDeposits blockConfirmations st msg =
     (case asRetryMessageData (m_Data msg) of
        Inl e \<Rightarrow> (Inl e, st, [])
      | Inr retryData \<Rightarrow>
     (case LatestBlock of
        Inl err \<Rightarrow> (Inl err, st, [])
      | Inr latestBlock \<Rightarrow>
          if \<not> (rmd_BlockHeight retryData + blockConfirmations < latestBlock)
          then (Inl (Error (''latest block '' @ dec_int latestBlock
                  @ '' higher than receipt block number + block confirmations ''
                  @ dec_int (rmd_BlockHeight retryData + blockConfirmations))), st, [])
          else
     (case ProcessDeposits (rmd_BlockHeight retryData) (rmd_BlockHeight retryData) of
        Inl err \<Rightarrow> (Inl err, st, [])
      | Inr domainDeposits \<Rightarrow>
     (case FilterDeposits status store st domainDeposits (rmd_ResourceID retryData)
             (rmd_DestinationDomainID retryData) of
        (Inl err, st') \<Rightarrow> (Inl err, st', [])
      | (Inr filteredDeposits, st') \<Rightarrow>
          if filteredDeposits = [] then (Inr (), st', [])
          else (Inr (), st', [filteredDeposits])))))"

section \<open>Round trips\<close>

lemmas evm_message_handlers [message_handler_defs] = PermissionlessGenericMessageHandler_def ERC20MessageHandler_def
  ERC721MessageHandler_def ERC1155MessageHandler_def GenericMessageHandler_def

text \<open>The data of the proposal that a deposit event ends up as, on the destination chain.\<close>

definition proposal_bytes ::
  "'t go_ethereum \<Rightarrow> message res
     \<Rightarrow> bytes res" where
  "proposal_bytes lib m =
     and_then m (\<lambda>msg.
     and_then (TransferMessageHandler_HandleMessage lib msg) (\<lambda>prop.
     and_then (asTransferProposalData (p_Data prop)) (\<lambda>d. Inr (tpd_Data d))))"

lemmas proposal_bytes_simps = pads_left_def proposal_bytes_def TransferMessageHandler_HandleMessage_def
  message_handler_defs Let_def payload_at_def NewTransferProposal_def NewProposal_def

text \<open>A library that pads as documented and whose ABI codec refuses everything.\<close>

definition example_lib :: "unit go_ethereum" where
  "example_lib = \<lparr>LeftPadBytes = left_pad, NewType = (\<lambda>_. Inl (Error ''type'')),
     UnpackValues = (\<lambda>_ _. Inl (Error ''unpack'')), PackValues = (\<lambda>_ _. Inl (Error ''pack''))\<rparr>"

lemma example_lib_pads [simp]: "pads_left example_lib"
  by (simp add: pads_left_def example_lib_def)

text \<open>
  A fungible deposit without an optional message arrives on an EVM destination exactly
  as it was made: the proposal data is the deposit calldata (amount, recipient length,
  recipient), up to 32 trailing bytes that the deposit handler ignores.
\<close>

theorem erc20_deposit_roundtrip:
  assumes "pads_left lib" "elems cd = erc20_calldata amount recipient rest" "elems hr = []"
    and "length amount = 32" "20 \<le> length recipient" "length recipient < 2 ^ 62"
    and "length rest \<le> 32"
  shows "proposal_bytes lib (Erc20_HandleDeposit lib s d n r cd hr i ts)
           = Inr (erc20_calldata amount recipient [])"
  using assms by (simp add: erc20_plain proposal_bytes_simps erc20_calldata_def)

theorem erc20_deposit_roundtrip_witness:
  "proposal_bytes example_lib
     (Erc20_HandleDeposit example_lib 1 2 5 [] (exact (erc20_calldata (replicate 32 9) (replicate 20 1) [])) (exact [])
        ''id'' 0) = Inr (erc20_calldata (replicate 32 9) (replicate 20 1) [])"
  by (rule erc20_deposit_roundtrip [where rest = "[]"]) simp_all

text \<open>
  With an optional message (more than 32 bytes behind the recipient) the proposal data
  is again the deposit calldata, except that the 32-byte execution fee in front of the
  message is raised by \<open>OPTIONAL_REVERT_GAS\<close>, and the gas limit recorded in the metadata is
  that raised fee.
\<close>

theorem erc20_optional_message_roundtrip:
  assumes "pads_left lib" "elems cd = erc20_calldata amount recipient (fee @ opt)" "elems hr = []"
    and "length amount = 32" "20 \<le> length recipient" "length recipient < 2 ^ 62"
    and "length fee = 32" "opt \<noteq> []" "SetBytes fee + OPTIONAL_REVERT_GAS < 256 ^ 32"
  shows "\<exists>fee' m. length fee' = 32 \<and> SetBytes fee' = SetBytes fee + OPTIONAL_REVERT_GAS \<and>
     Erc20_HandleDeposit lib s d n r cd hr i ts = Inr m \<and>
     proposal_bytes lib (Inr m) = Inr (erc20_calldata amount recipient (fee' @ opt)) \<and>
     map_of (tmd_Metadata (transfer_of m)) ''gasLimit'' = Some (IUint64 (of_nat (SetBytes fee')))"
proof -
  let ?fee = "left_pad (Bytes (SetBytes fee + OPTIONAL_REVERT_GAS)) 32"
  let ?m = "transfer_message s d n r
       [(''gasLimit'', IUint64 (of_nat (SetBytes fee + OPTIONAL_REVERT_GAS)))]
       [IBytes amount, IBytes recipient, IBytes (?fee @ opt)] FungibleTransfer i ts"
  have "length ?fee = 32" using length_pad_Bytes assms(9) by blast
  moreover have "proposal_bytes lib (Inr ?m)
      = Inr (erc20_calldata amount recipient (?fee @ opt))"
    using assms(1,4) by (simp add: proposal_bytes_simps erc20_calldata_def transfer_message_def NewMessage_def)
  ultimately show ?thesis using erc20_optional [OF assms]
    by (intro exI [of _ ?fee] exI [of _ ?m])
      (simp add: transfer_of_def transfer_message_def NewMessage_def)
qed

theorem erc20_optional_message_roundtrip_witness:
  "\<exists>fee' m. length fee' = 32 \<and> SetBytes fee' = SetBytes (replicate 32 0) + OPTIONAL_REVERT_GAS \<and>
     Erc20_HandleDeposit example_lib 1 2 5 []
       (exact (erc20_calldata (replicate 32 9) (replicate 20 1) (replicate 32 0 @ [7]))) (exact []) ''id'' 0
       = Inr m \<and>
     proposal_bytes example_lib (Inr m)
       = Inr (erc20_calldata (replicate 32 9) (replicate 20 1) (fee' @ [7])) \<and>
     map_of (tmd_Metadata (transfer_of m)) ''gasLimit'' = Some (IUint64 (of_nat (SetBytes fee')))"
  by (rule erc20_optional_message_roundtrip) (simp_all add: OPTIONAL_REVERT_GAS_def)

text \<open>
  An ERC-721 deposit arrives on an EVM destination byte for byte: token id, recipient
  and metadata with their length words.
\<close>

theorem erc721_deposit_roundtrip:
  assumes "pads_left lib" "elems cd = erc721_calldata tokenId recipient metadata"
    and "length tokenId = 32" "length recipient < 2 ^ 61" "length metadata < 2 ^ 61"
  shows "proposal_bytes lib (Erc721_HandleDeposit s d n r cd hr i ts)
           = Inr (elems cd)"
  using assms by (simp add: erc721_ok proposal_bytes_simps) (simp add: erc721_calldata_def)

theorem erc721_deposit_roundtrip_witness:
  "proposal_bytes example_lib
     (Erc721_HandleDeposit 1 2 5 [] (exact (erc721_calldata (replicate 32 9) (replicate 20 1) [3, 4]))
        (exact []) ''id'' 0) = Inr (erc721_calldata (replicate 32 9) (replicate 20 1) [3, 4])"
  using erc721_deposit_roundtrip [of example_lib "exact (erc721_calldata (replicate 32 9) (replicate 20 1) [3, 4])"
      "replicate 32 9" "replicate 20 1" "[3, 4]"]
  by simp

text \<open>
  A permissionless generic deposit arrives on an EVM destination byte for byte,
  whatever its execution data is: max fee, function signature, contract, depositor and
  execution data with their length prefixes.
\<close>

theorem permissionless_deposit_roundtrip:
  assumes "pads_left lib" "elems cd = generic_calldata maxFee functionSig contract depositor executionData"
    and "length maxFee = 32" "length functionSig < 65536" "length contract < 256"
    and "length depositor < 256" "76 \<le> length (elems cd)"
  shows "proposal_bytes lib (PermissionlessGeneric_HandleDeposit s d n r cd hr i ts)
           = Inr (elems cd)"
  using assms by (simp add: generic_ok proposal_bytes_simps) (simp add: generic_calldata_def)

theorem permissionless_deposit_roundtrip_witness:
  "proposal_bytes example_lib
     (PermissionlessGeneric_HandleDeposit 1 2 5 []
        (exact (generic_calldata (replicate 32 0) (replicate 4 1) (replicate 20 2) (replicate 20 3) [5]))
        (exact []) ''id'' 0)
     = Inr (generic_calldata (replicate 32 0) (replicate 4 1) (replicate 20 2) (replicate 20 3) [5])"
  using permissionless_deposit_roundtrip
    [of example_lib "exact (generic_calldata (replicate 32 0) (replicate 4 1) (replicate 20 2) (replicate 20 3) [5])"
      "replicate 32 0" "replicate 4 1" "replicate 20 2" "replicate 20 3" "[5]"]
  by (simp add: generic_calldata_def)

end
