(* ===== verification/Evm_Listener.thy ===== *)
theory Evm_Listener
  imports Evm_Message_Handler
begin

text \<open>
  The EVM listening side: reading contract events (\<open>chains/evm/calls/events\<close>) and turning
  deposit and retry events into messages (\<open>chains/evm/listener/eventHandlers/deposit.go\<close> and
  \<open>retry.go\<close>). The RPC client, the ABI decoder and the clock are fields of \<open>chain_client\<close>.
\<close>

section \<open>Events\<close>

definition DepositSig :: string where
  "DepositSig = ''Deposit(uint8,bytes32,uint64,address,bytes,bytes)''"
definition StartKeygenSig :: string where "StartKeygenSig = ''StartKeygen()''"
definition StartFrostKeygenSig :: string where "StartFrostKeygenSig = ''StartedFROSTKeygen()''"
definition KeyRefreshSig :: string where "KeyRefreshSig = ''KeyRefresh(string)''"
definition RetryV2Sig :: string where "RetryV2Sig = ''Retry(uint8,uint8,uint256,bytes32)''"
definition RetryV1Sig :: string where "RetryV1Sig = ''Retry(string)''"

record Refresh =
  rf_Hash :: string

record RetryV1Event =
  r1_TxHash :: string

record RetryV2Event =
  r2_SourceDomainID :: uint8
  r2_DestinationDomainID :: uint8
  r2_BlockHeight :: int
  r2_ResourceID :: bytes32

record 'a Deposit =
  d_DestinationDomainID :: uint8
  d_ResourceID :: bytes32
  d_DepositNonce :: uint64
  d_SenderAddress :: 'a
  d_Data :: gslice
  d_HandlerResponse :: gslice
  d_Timestamp :: int

record 'a Log =
  lg_Address :: 'a
  lg_Topics :: "bytes list"
  lg_Data :: bytes
  lg_BlockNumber :: uint64

record 'a Receipt =
  rc_BlockNumber :: int
  rc_Logs :: "'a Log list"

record ('a, 'h) chain_client =
  FetchEventLogs :: "'a \<Rightarrow> string \<Rightarrow> int \<Rightarrow> int \<Rightarrow> 'a Log list res"
  BlockTime :: "int \<Rightarrow> uint64 res"
  WaitAndReturnTxReceipt :: "'h \<Rightarrow> 'a Receipt res"
  LatestBlock :: "int res"
  UnpackDeposit :: "bytes \<Rightarrow> 'a Deposit res"
  UnpackRetryV1 :: "bytes \<Rightarrow> RetryV1Event res"
  UnpackRetryV2 :: "bytes \<Rightarrow> RetryV2Event res"
  UnpackKeyRefresh :: "bytes \<Rightarrow> Refresh res"
  HexToHash :: "string \<Rightarrow> 'h"
  HashHex :: "'h \<Rightarrow> string"
  BytesToAddress :: "bytes \<Rightarrow> 'a"
  Now :: int

section \<open>Fetching events\<close>

definition parseDeposit :: "('a, 'h) chain_client \<Rightarrow> 'a Log \<Rightarrow> 'a Deposit res" where
  "parseDeposit c dl =
     and_then (UnpackDeposit c (lg_Data dl)) (\<lambda>d.
     if length (lg_Topics dl) \<le> 1 then Inl (Panic ''index out of range'')
     else Inr (d\<lparr>d_SenderAddress := BytesToAddress c (lg_Topics dl ! 1),
                 d_Timestamp := (case BlockTime c (uint (lg_BlockNumber dl)) of
                    Inr t \<Rightarrow> int64 (uint t)
                  | Inl _ \<Rightarrow> Now c)\<rparr>))"

text \<open>A loop that logs an error and continues; a panic leaves it.\<close>

fun collect_logs :: "('l \<Rightarrow> 'e res) \<Rightarrow> 'l list \<Rightarrow> 'e list res" where
  "collect_logs parse [] = Inr []"
| "collect_logs parse (dl # logs) =
     (case parse dl of
        Inl (Error _) \<Rightarrow> collect_logs parse logs
      | Inl (Panic e) \<Rightarrow> Inl (Panic e)
      | Inr d \<Rightarrow> and_then (collect_logs parse logs) (\<lambda>ds. Inr (d # ds)))"

definition FetchDeposits ::
  "('a, 'h) chain_client \<Rightarrow> 'a \<Rightarrow> int \<Rightarrow> int \<Rightarrow> 'a Deposit list res" where
  "FetchDeposits c contractAddress startBlock endBlock =
     and_then (FetchEventLogs c contractAddress DepositSig startBlock endBlock) (\<lambda>logs.
     collect_logs (parseDeposit c) logs)"

text \<open>
  \<open>receipt.BlockNumber.Add(receipt.BlockNumber, n)\<close> updates the receipt in place, so the
  error message, which adds again, shows the block number with the confirmations twice.
\<close>

definition FetchRetryDepositEvents ::
  "('a, 'h) chain_client \<Rightarrow> RetryV1Event \<Rightarrow> 'a \<Rightarrow> int \<Rightarrow> 'a Deposit list res" where
  "FetchRetryDepositEvents c event bridgeAddress blockConfirmations =
     (let retryDepositTxHash = HexToHash c (r1_TxHash event) in
      case WaitAndReturnTxReceipt c retryDepositTxHash of
        Inl err \<Rightarrow> Inl (Error (''unable to fetch logs for retried deposit '' @ HashHex c retryDepositTxHash))
      | Inr receipt \<Rightarrow>
     (case LatestBlock c of
        Inl err \<Rightarrow> Inl err
      | Inr latestBlock \<Rightarrow>
          let blockNumber = rc_BlockNumber receipt + blockConfirmations in
          if \<not> blockNumber < latestBlock
          then Inl (Error (''latest block '' @ dec_int latestBlock
                 @ '' higher than receipt block number + block confirmations ''
                 @ dec_int (blockNumber + blockConfirmations)))
          else collect_logs (parseDeposit c)
                 (filter (\<lambda>lg. lg_Address lg = bridgeAddress) (rc_Logs receipt))))"

definition FetchRetryV1Events ::
  "('a, 'h) chain_client \<Rightarrow> 'a \<Rightarrow> int \<Rightarrow> int \<Rightarrow> RetryV1Event list res" where
  "FetchRetryV1Events c contractAddress startBlock endBlock =
     and_then (FetchEventLogs c contractAddress RetryV1Sig startBlock endBlock) (\<lambda>logs.
     collect_logs (\<lambda>dl. UnpackRetryV1 c (lg_Data dl)) logs)"

definition FetchRetryV2Events ::
  "('a, 'h) chain_client \<Rightarrow> 'a \<Rightarrow> int \<Rightarrow> int \<Rightarrow> RetryV2Event list res" where
  "FetchRetryV2Events c contractAddress startBlock endBlock =
     and_then (FetchEventLogs c contractAddress RetryV2Sig startBlock endBlock) (\<lambda>logs.
     collect_logs (\<lambda>dl. UnpackRetryV2 c (lg_Data dl)) logs)"

definition FetchKeygenEvents :: "('a, 'h) chain_client \<Rightarrow> 'a \<Rightarrow> int \<Rightarrow> int \<Rightarrow> 'a Log list res" where
  "FetchKeygenEvents c contractAddress startBlock endBlock =
     FetchEventLogs c contractAddress StartKeygenSig startBlock endBlock"

definition FetchFrostKeygenEvents ::
  "('a, 'h) chain_client \<Rightarrow> 'a \<Rightarrow> int \<Rightarrow> int \<Rightarrow> 'a Log list res" where
  "FetchFrostKeygenEvents c contractAddress startBlock endBlock =
     FetchEventLogs c contractAddress StartFrostKeygenSig startBlock endBlock"

definition UnpackRefresh :: "('a, 'h) chain_client \<Rightarrow> bytes \<Rightarrow> Refresh res" where
  "UnpackRefresh c data = UnpackKeyRefresh c data"

definition FetchRefreshEvents :: "('a, 'h) chain_client \<Rightarrow> 'a \<Rightarrow> int \<Rightarrow> int \<Rightarrow> Refresh list res" where
  "FetchRefreshEvents c contractAddress startBlock endBlock =
     and_then (FetchEventLogs c contractAddress KeyRefreshSig startBlock endBlock) (\<lambda>logs.
     collect_logs (\<lambda>re. UnpackRefresh c (lg_Data re)) logs)"

section \<open>The deposit event handler\<close>

type_synonym handle_deposit =
  "uint8 \<Rightarrow> uint8 \<Rightarrow> uint64 \<Rightarrow> bytes32 \<Rightarrow> gslice \<Rightarrow> gslice \<Rightarrow> string \<Rightarrow> int \<Rightarrow> message res"

definition deposit_messageID :: "uint8 \<Rightarrow> uint8 \<Rightarrow> int \<Rightarrow> int \<Rightarrow> string" where
  "deposit_messageID source destination startBlock endBlock =
     dec (unat source) @ ''-'' @ dec (unat destination) @ ''-'' @ dec_int startBlock @ ''-'' @ dec_int endBlock"

definition handle_event :: "handle_deposit \<Rightarrow> uint8 \<Rightarrow> string \<Rightarrow> 'a Deposit \<Rightarrow> message res" where
  "handle_event HandleDeposit domainID messageID d =
     HandleDeposit domainID (d_DestinationDomainID d) (d_DepositNonce d) (d_ResourceID d)
       (d_Data d) (d_HandlerResponse d) messageID (d_Timestamp d)"

definition ProcessDeposits ::
  "(int \<Rightarrow> int \<Rightarrow> 'a Deposit list res) \<Rightarrow> handle_deposit \<Rightarrow> uint8 \<Rightarrow> int \<Rightarrow> int \<Rightarrow>
   (uint8 \<times> message list) list res" where
  "ProcessDeposits Fetch HandleDeposit domainID startBlock endBlock =
     (case Fetch startBlock endBlock of
        Inl (Error err) \<Rightarrow> Inl (Error (''unable to fetch deposit events because of: '' @ err))
      | Inl (Panic e) \<Rightarrow> Inl (Panic e)
      | Inr deposits \<Rightarrow> Inr (group_loop (\<lambda>d. handle_event HandleDeposit domainID
            (deposit_messageID domainID (d_DestinationDomainID d) startBlock endBlock) d) [] deposits))"

text \<open>The batches that the spawned goroutines send on the message channel.\<close>

definition DepositEventHandler_HandleEvents ::
  "(int \<Rightarrow> int \<Rightarrow> 'a Deposit list res) \<Rightarrow> handle_deposit \<Rightarrow> uint8 \<Rightarrow> int \<Rightarrow> int \<Rightarrow>
   unit res \<times> message list list" where
  "DepositEventHandler_HandleEvents Fetch HandleDeposit domainID startBlock endBlock =
     (case ProcessDeposits Fetch HandleDeposit domainID startBlock endBlock of
        Inl err \<Rightarrow> (Inl err, [])
      | Inr domainDeposits \<Rightarrow> (Inr (), map snd domainDeposits))"

section \<open>The retry event handlers\<close>

definition retryV2_message :: "uint8 \<Rightarrow> int \<Rightarrow> RetryV2Event \<Rightarrow> message" where
  "retryV2_message domainID now e =
     NewMessage domainID (r2_SourceDomainID e)
       (MRetry \<lparr>rmd_SourceDomainID = r2_SourceDomainID e, rmd_DestinationDomainID = r2_DestinationDomainID e,
          rmd_BlockHeight = r2_BlockHeight e, rmd_ResourceID = r2_ResourceID e\<rparr>)
       (''retry-'' @ dec (unat (r2_SourceDomainID e)) @ ''-'' @ dec (unat (r2_DestinationDomainID e)))
       RetryMessageType now"

definition RetryV2_HandleEvents ::
  "(int \<Rightarrow> int \<Rightarrow> RetryV2Event list res) \<Rightarrow> uint8 \<Rightarrow> int \<Rightarrow> int \<Rightarrow> int \<Rightarrow> unit res \<times> message list list" where
  "RetryV2_HandleEvents Fetch domainID now startBlock endBlock =
     (case Fetch startBlock endBlock of
        Inl (Error err) \<Rightarrow> (Inl (Error (''unable to fetch retry v2 events because of: '' @ err)), [])
      | Inl (Panic e) \<Rightarrow> (Inl (Panic e), [])
      | Inr retryEvents \<Rightarrow> (Inr (), map (\<lambda>e. [retryV2_message domainID now e]) retryEvents))"

definition RetryV1_isExecuted ::
  "('s \<Rightarrow> uint8 \<Rightarrow> uint8 \<Rightarrow> uint64 \<Rightarrow> PropStatus res) \<Rightarrow>
   ('s \<Rightarrow> uint8 \<Rightarrow> uint8 \<Rightarrow> uint64 \<Rightarrow> PropStatus \<Rightarrow> 's res) \<Rightarrow> 's \<Rightarrow> message \<Rightarrow> bool res \<times> 's" where
  "RetryV1_isExecuted status store st msg =
     (case asTransferMessageData (m_Data msg) of
        Inl e \<Rightarrow> (Inl e, st)
      | Inr data \<Rightarrow>
     (case status st (m_Source msg) (m_Destination msg) (tmd_DepositNonce data) of
        Inl err \<Rightarrow> (Inl err, st)
      | Inr propStatus \<Rightarrow>
          if propStatus = ExecutedProp then (Inr True, st)
          else if propStatus = PendingProp then
            (case store st (m_Source msg) (m_Destination msg) (tmd_DepositNonce data) FailedProp of
               Inl err \<Rightarrow> (Inl err, st)
             | Inr st' \<Rightarrow> (Inr False, st'))
          else (Inr False, st)))"

text \<open>
  The loop over the deposits of one retry event. A deposit that cannot be handled makes the
  logging statement read the identifier of a nil message; the deferred \<open>recover\<close> of the
  enclosing function then ends the loop for this event, keeping what was collected.
\<close>

fun retryV1_deposits ::
  "('s \<Rightarrow> uint8 \<Rightarrow> uint8 \<Rightarrow> uint64 \<Rightarrow> PropStatus res) \<Rightarrow>
   ('s \<Rightarrow> uint8 \<Rightarrow> uint8 \<Rightarrow> uint64 \<Rightarrow> PropStatus \<Rightarrow> 's res) \<Rightarrow> ('a Deposit \<Rightarrow> message res) \<Rightarrow>
   's \<Rightarrow> (uint8 \<times> message list) list \<Rightarrow> 'a Deposit list \<Rightarrow> (uint8 \<times> message list) list \<times> 's" where
  "retryV1_deposits status store handle st acc [] = (acc, st)"
| "retryV1_deposits status store handle st acc (d # ds) =
     (case handle d of
        Inl _ \<Rightarrow> (acc, st)
      | Inr msg \<Rightarrow>
     (case RetryV1_isExecuted status store st msg of
        (Inl (Panic _), st') \<Rightarrow> (acc, st')
      | (Inl (Error _), st') \<Rightarrow> retryV1_deposits status store handle st' acc ds
      | (Inr True, st') \<Rightarrow> retryV1_deposits status store handle st' acc ds
      | (Inr False, st') \<Rightarrow>
          retryV1_deposits status store handle st' (append_at (m_Destination msg) msg acc) ds))"

fun retryV1_events ::
  "('s \<Rightarrow> uint8 \<Rightarrow> uint8 \<Rightarrow> uint64 \<Rightarrow> PropStatus res) \<Rightarrow>
   ('s \<Rightarrow> uint8 \<Rightarrow> uint8 \<Rightarrow> uint64 \<Rightarrow> PropStatus \<Rightarrow> 's res) \<Rightarrow> ('a Deposit \<Rightarrow> message res) \<Rightarrow>
   (RetryV1Event \<Rightarrow> 'a Deposit list res) \<Rightarrow> 's \<Rightarrow> (uint8 \<times> message list) list \<Rightarrow> RetryV1Event list
   \<Rightarrow> (uint8 \<times> message list) list \<times> 's" where
  "retryV1_events status store handle fetch st acc [] = (acc, st)"
| "retryV1_events status store handle fetch st acc (event # events) =
     (case fetch event of
        Inl _ \<Rightarrow> retryV1_events status store handle fetch st acc events
      | Inr deposits \<Rightarrow>
          (let (acc', st') = retryV1_deposits status store handle st acc deposits
           in retryV1_events status store handle fetch st' acc' events))"

definition RetryV1_HandleEvents ::
  "('s \<Rightarrow> uint8 \<Rightarrow> uint8 \<Rightarrow> uint64 \<Rightarrow> PropStatus res) \<Rightarrow>
   ('s \<Rightarrow> uint8 \<Rightarrow> uint8 \<Rightarrow> uint64 \<Rightarrow> PropStatus \<Rightarrow> 's res) \<Rightarrow>
   (int \<Rightarrow> int \<Rightarrow> RetryV1Event list res) \<Rightarrow> (RetryV1Event \<Rightarrow> 'a Deposit list res) \<Rightarrow> handle_deposit \<Rightarrow>
   uint8 \<Rightarrow> 's \<Rightarrow> int \<Rightarrow> int \<Rightarrow> unit res \<times> 's \<times> message list list" where
  "RetryV1_HandleEvents status store FetchRetryV1 FetchRetryDeposits HandleDeposit domainID st startBlock endBlock =
     (case FetchRetryV1 startBlock endBlock of
        Inl (Error err) \<Rightarrow> (Inl (Error (''unable to fetch retry events because of: '' @ err)), st, [])
      | Inl (Panic e) \<Rightarrow> (Inl (Panic e), st, [])
      | Inr retryEvents \<Rightarrow>
          (let (retriesByDomain, st') = retryV1_events status store
                 (\<lambda>d. handle_event HandleDeposit domainID
                    (''retry-'' @ deposit_messageID domainID (d_DestinationDomainID d) startBlock endBlock) d)
                 FetchRetryDeposits st [] retryEvents
           in (Inr (), st', map snd retriesByDomain)))"

section \<open>Deposits per destination\<close>

lemma eth_handler_envelope:
  assumes "ETHDepositHandler_HandleDeposit lib get hs s d n r cd hr i ts = Inr m"
  shows "m_Source m = s \<and> m_Destination m = d \<and> m_ID m = i \<and> m_Timestamp m = ts \<and> is_transfer m \<and>
         tmd_DepositNonce (transfer_of m) = n \<and> tmd_ResourceId (transfer_of m) = r"
proof -
  from assms obtain h where "run_handler lib h s d n r cd hr i ts = Inr m"
    by (auto simp: ETHDepositHandler_HandleDeposit_def)
  from run_handler_envelope [OF this] show ?thesis
    by (auto simp: is_transfer_def transfer_of_def)
qed

lemma filter_oks:
  assumes "\<And>d m. d \<in> set ds \<Longrightarrow> f d = Inr m \<Longrightarrow> P m = Q d"
    and "\<And>d. d \<in> set ds \<Longrightarrow> Q d \<Longrightarrow> f d = g d"
  shows "filter P (oks f ds) = oks g (filter Q ds)"
  using assms
proof (induction ds)
  case (Cons d ds)
  then have "filter P (oks f ds) = oks g (filter Q ds)" by simp
  with Cons.prems [of d] show ?case by (cases "f d") (auto split: sum.splits)
qed simp

text \<open>
  Processing the deposits of a block range loses and invents nothing: the messages
  kept for a destination are exactly those of the deposits to it, in order, with the ones
  left out whose handler fails; an error or a panic while one deposit is handled affects no
  other deposit. Domains occur once, and only with at least one message.
\<close>

theorem process_deposits_per_domain:
  fixes lib get hs
  defines "H \<equiv> ETHDepositHandler_HandleDeposit lib get hs"
  assumes "Fetch startBlock endBlock = Inr deposits"
  shows "\<exists>dd. ProcessDeposits Fetch H domainID startBlock endBlock = Inr dd \<and> grouped dd \<and>
     (\<forall>k. at_key dd k =
        oks (handle_event H domainID (deposit_messageID domainID k startBlock endBlock))
          (filter (\<lambda>d. d_DestinationDomainID d = k) deposits))"
proof -
  let ?f = "\<lambda>d. handle_event H domainID
              (deposit_messageID domainID (d_DestinationDomainID d) startBlock endBlock) d"
  have "filter (\<lambda>m. m_Destination m = k) (oks ?f deposits) =
      oks (handle_event H domainID (deposit_messageID domainID k startBlock endBlock))
        (filter (\<lambda>d. d_DestinationDomainID d = k) deposits)" for k
    by (rule filter_oks) (auto simp: handle_event_def H_def dest: eth_handler_envelope)
  with assms group_loop_grouped [of "[]" ?f deposits] show ?thesis
    by (simp add: ProcessDeposits_def group_loop_at_key)
qed

definition example_deposit_event :: "uint8 \<Rightarrow> bytes \<Rightarrow> unit Deposit" where
  "example_deposit_event dest data =
     \<lparr>d_DestinationDomainID = dest, d_ResourceID = replicate 32 3, d_DepositNonce = 5, d_SenderAddress = (),
      d_Data = exact data, d_HandlerResponse = exact [], d_Timestamp = 0\<rparr>"

definition example_eth_handler :: handle_deposit where
  "example_eth_handler =
     ETHDepositHandler_HandleDeposit example_lib (\<lambda>_. Inr (0 :: nat)) [(0, PermissionlessHandler)]"

theorem process_deposits_per_domain_witness:
  "\<exists>dd. ProcessDeposits (\<lambda>_ _. Inr [example_deposit_event 2 (replicate 76 0), example_deposit_event 3 [1]])
      example_eth_handler 1 10 12 = Inr dd \<and> length (at_key dd 2) = 1 \<and> at_key dd 3 = []"
proof -
  let ?ds = "[example_deposit_event 2 (replicate 76 0), example_deposit_event 3 [1]]"
  let ?E = "ETHDepositHandler_HandleDeposit example_lib (\<lambda>_. Inr (0 :: nat)) [(0, PermissionlessHandler)]"
  have short: "slice_len (d_Data (example_deposit_event 3 [1])) < 76"
    by (simp add: slice_len_def example_deposit_event_def)
  have ok: "is_ok (handle_event ?E 1 i (example_deposit_event 2 (replicate 76 0)))" for i
    by (simp add: is_ok_def handle_event_def ETHDepositHandler_HandleDeposit_def
        matchAddressWithHandlerFunc_def run_handler_def PermissionlessGeneric_HandleDeposit_def
        example_deposit_event_def subslice_def slice_from_def slice_len_def Let_def)
  have bad: "\<exists>e. handle_event ?E 1 i (example_deposit_event 3 [1]) = Inl e" for i
    using short by (simp add: handle_event_def ETHDepositHandler_HandleDeposit_def
        matchAddressWithHandlerFunc_def run_handler_def PermissionlessGeneric_HandleDeposit_def)
  have dest: "d_DestinationDomainID (example_deposit_event a b) = a" for a b
    by (simp add: example_deposit_event_def)
  obtain dd where dd: "ProcessDeposits (\<lambda>_ _. Inr ?ds) ?E 1 10 12 = Inr dd"
    "\<And>k. at_key dd k = oks (handle_event ?E 1 (deposit_messageID 1 k 10 12))
          (filter (\<lambda>d. d_DestinationDomainID d = k) ?ds)"
    using process_deposits_per_domain [of "\<lambda>_ _. Inr ?ds" 10 12 ?ds example_lib "\<lambda>_. Inr (0 :: nat)"
        "[(0, PermissionlessHandler)]" 1] by auto
  show ?thesis
    using dd ok [of "deposit_messageID 1 2 10 12"] bad [of "deposit_messageID 1 3 10 12"]
    by (auto simp: example_eth_handler_def dest is_ok_def split: sum.splits)
qed

section \<open>Confirmed retries\<close>

lemma collect_logs_set: "collect_logs parse ls = Inr ds \<Longrightarrow> d \<in> set ds \<Longrightarrow> \<exists>l \<in> set ls. parse l = Inr d"
  by (induction ls arbitrary: ds) (auto split: sum.splits go_error.splits)

text \<open>
  Deposits are taken from a retried transaction only once its block is confirmed, and
  only from logs that the bridge contract itself emitted.
\<close>

theorem retry_deposits_confirmed:
  assumes "FetchRetryDepositEvents c event bridge conf = Inr ds"
  shows "\<exists>receipt latest. WaitAndReturnTxReceipt c (HexToHash c (r1_TxHash event)) = Inr receipt \<and>
     LatestBlock c = Inr latest \<and> rc_BlockNumber receipt + conf < latest \<and>
     (\<forall>d \<in> set ds. \<exists>lg \<in> set (rc_Logs receipt). lg_Address lg = bridge \<and> parseDeposit c lg = Inr d)"
proof -
  from assms obtain receipt latest where
    r: "WaitAndReturnTxReceipt c (HexToHash c (r1_TxHash event)) = Inr receipt" "LatestBlock c = Inr latest"
      "rc_BlockNumber receipt + conf < latest"
      "collect_logs (parseDeposit c) (filter (\<lambda>lg. lg_Address lg = bridge) (rc_Logs receipt)) = Inr ds"
    by (auto simp: FetchRetryDepositEvents_def Let_def split: sum.splits if_splits)
  then show ?thesis using collect_logs_set [OF r(4)] by fastforce
qed

definition example_client :: "(unit, string) chain_client" where
  "example_client =
     \<lparr>FetchEventLogs = (\<lambda>_ _ _ _. Inr []), BlockTime = (\<lambda>_. Inr 7),
      WaitAndReturnTxReceipt = (\<lambda>_. Inr \<lparr>rc_BlockNumber = 10,
         rc_Logs = [\<lparr>lg_Address = (), lg_Topics = [[], [1]], lg_Data = [2], lg_BlockNumber = 10\<rparr>]\<rparr>),
      LatestBlock = Inr 16, UnpackDeposit = (\<lambda>_. Inr (example_deposit_event 2 [1])),
      UnpackRetryV1 = (\<lambda>_. Inl (Error [])), UnpackRetryV2 = (\<lambda>_. Inl (Error [])),
      UnpackKeyRefresh = (\<lambda>_. Inl (Error [])), HexToHash = id, HashHex = id, BytesToAddress = (\<lambda>_. ()),
      Now = 0\<rparr>"

theorem retry_deposits_confirmed_witness:
  "\<exists>ds receipt. FetchRetryDepositEvents example_client \<lparr>r1_TxHash = ''0x1''\<rparr> () 5 = Inr ds \<and> length ds = 1 \<and>
     WaitAndReturnTxReceipt example_client ''0x1'' = Inr receipt \<and> rc_BlockNumber receipt + 5 < 16"
proof -
  have "is_ok (FetchRetryDepositEvents example_client \<lparr>r1_TxHash = ''0x1''\<rparr> () 5)"
    by (simp add: FetchRetryDepositEvents_def example_client_def Let_def parseDeposit_def)
  then obtain ds where ds: "FetchRetryDepositEvents example_client \<lparr>r1_TxHash = ''0x1''\<rparr> () 5 = Inr ds"
    by (auto simp: is_ok_def split: sum.splits)
  moreover have "length ds = 1"
    using ds by (auto simp: FetchRetryDepositEvents_def example_client_def Let_def parseDeposit_def)
  ultimately show ?thesis using retry_deposits_confirmed [OF ds]
    by (auto simp: example_client_def)
qed

section \<open>Retry events\<close>

lemma RetryV1_isExecuted_eq: "RetryV1_isExecuted = isExecuted"
  by (intro ext) (simp add: RetryV1_isExecuted_def isExecuted_def)

text \<open>
  A deposit of a retried transaction that its handler rejects ends the processing of
  that transaction: neither it nor any later deposit of the transaction is retried, though
  they would have been handled in any other order.
\<close>

theorem retryV1_stops_at_rejected_deposit:
  assumes "handle d = Inl e"
  shows "retryV1_deposits status store handle st acc (ds @ d # ds')
           = retryV1_deposits status store handle st acc ds"
proof (induction ds arbitrary: st acc)
  case (Cons x ds)
  then show ?case
    by (auto split: sum.splits prod.splits go_error.splits bool.splits)
qed (simp add: assms)

theorem retryV1_stops_at_rejected_deposit_witness:
  "retryV1_deposits (PropStatus mem_get) (StorePropStatus mem_set)
      (\<lambda>d. if d_DestinationDomainID d = 3 then Inl (Error ''rejected'') else Inr (example_deposit 4))
      example_db [] ([] @ example_deposit_event 3 [] # [example_deposit_event 2 []]) = ([], example_db)"
  using retryV1_stops_at_rejected_deposit [of
      "\<lambda>d. if d_DestinationDomainID d = 3 then Inl (Error ''rejected'') else Inr (example_deposit 4)"
      "example_deposit_event 3 []" "Error ''rejected''" "PropStatus mem_get" "StorePropStatus mem_set"
      example_db "[]" "[]" "[example_deposit_event 2 []]"]
  by (simp add: example_deposit_event_def)

text \<open>What may be sent again: not executed, and not left pending.\<close>

definition retryable :: "('s \<Rightarrow> uint8 \<Rightarrow> uint8 \<Rightarrow> uint64 \<Rightarrow> PropStatus res) \<Rightarrow> 's \<Rightarrow> message \<Rightarrow> bool" where
  "retryable status st m \<longleftrightarrow>
     msg_status status st m \<noteq> Inr ExecutedProp \<and> msg_status status st m \<noteq> Inr PendingProp"

lemma retryable_unstuck: "only_unstuck status st st' \<Longrightarrow> retryable status st m \<Longrightarrow> retryable status st' m"
  unfolding retryable_def only_unstuck_def msg_status_def
  by (metis Inr_inject prop_status_neq)

definition all_messages :: "(uint8 \<times> message list) list \<Rightarrow> message set" where
  "all_messages dd = (\<Union>(k, ms) \<in> set dd. set ms)"

lemma all_messages_append_at: "all_messages (append_at k v m) = insert v (all_messages m)"
  by (induction k v m rule: append_at.induct) (auto simp: all_messages_def)

context prop_storer
begin

lemma retryV1_deposits_safe:
  "retryV1_deposits status store handle st acc ds = (acc', st') \<Longrightarrow>
   only_unstuck status st st' \<and> (\<forall>m \<in> all_messages acc' - all_messages acc. retryable status st' m) \<and>
   (grouped acc \<longrightarrow> grouped acc')"
proof (induction ds arbitrary: st acc)
  case (Cons d ds)
  show ?case
  proof (cases "handle d")
    case (Inl e)
    with Cons.prems show ?thesis by simp
  next
    case (Inr msg)
    obtain r st1 where x: "isExecuted status store st msg = (r, st1)" by fastforce
    have un: "only_unstuck status st st1" using isExecuted_only_unstuck [OF x] .
    show ?thesis
    proof (cases "r = Inr False")
      case True
      then have step: "retryV1_deposits status store handle st1 (append_at (m_Destination msg) msg acc) ds = (acc', st')"
        using Cons.prems Inr x by (simp add: RetryV1_isExecuted_eq)
      from Cons.IH [OF step] have IH: "only_unstuck status st1 st'"
        "\<forall>m \<in> all_messages acc' - insert msg (all_messages acc). retryable status st' m"
        "grouped acc \<longrightarrow> grouped acc'"
        by (auto simp: all_messages_append_at grouped_append_at)
      have "retryable status st1 msg" using isExecuted_False x True by (simp add: retryable_def)
      then have "retryable status st' msg" by (rule retryable_unstuck [OF IH(1)])
      moreover have "only_unstuck status st st'" using un IH(1) by (rule only_unstuck_trans)
      ultimately show ?thesis using IH(2,3) by blast
    next
      case False
      have "acc' = acc \<and> st' = st1 \<or> retryV1_deposits status store handle st1 acc ds = (acc', st')"
      proof (cases r)
        case e: (Inl e)
        with Cons.prems Inr x show ?thesis
          by (cases e) (simp_all add: RetryV1_isExecuted_eq)
      next
        case b: (Inr b)
        with False have "b" by (cases b) simp_all
        with Cons.prems Inr x b show ?thesis by (simp add: RetryV1_isExecuted_eq)
      qed
      then consider "acc' = acc" "st' = st1" | "retryV1_deposits status store handle st1 acc ds = (acc', st')"
        by blast
      then show ?thesis
      proof cases
        case 1
        with un show ?thesis by simp
      next
        case 2
        from Cons.IH [OF 2] only_unstuck_trans [OF un] show ?thesis by blast
      qed
    qed
  qed
qed (auto simp: only_unstuck_def)

lemma retryV1_events_safe:
  "retryV1_events status store handle fetch st acc es = (acc', st') \<Longrightarrow>
   only_unstuck status st st' \<and> (\<forall>m \<in> all_messages acc' - all_messages acc. retryable status st' m) \<and>
   (grouped acc \<longrightarrow> grouped acc')"
proof (induction es arbitrary: st acc)
  case (Cons e es)
  show ?case
  proof (cases "fetch e")
    case (Inl err)
    with Cons show ?thesis by simp
  next
    case (Inr ds)
    obtain acc1 st1 where x: "retryV1_deposits status store handle st acc ds = (acc1, st1)" by fastforce
    have step: "retryV1_events status store handle fetch st1 acc1 es = (acc', st')"
      using Cons.prems Inr x by simp
    have 1: "only_unstuck status st st1" "\<forall>m \<in> all_messages acc1 - all_messages acc. retryable status st1 m"
      "grouped acc \<longrightarrow> grouped acc1" using retryV1_deposits_safe [OF x] by blast+
    have 2: "only_unstuck status st1 st'" "\<forall>m \<in> all_messages acc' - all_messages acc1. retryable status st' m"
      "grouped acc1 \<longrightarrow> grouped acc'" using Cons.IH [OF step] by blast+
    have "only_unstuck status st st'" using 1(1) 2(1) by (rule only_unstuck_trans)
    moreover have "retryable status st' m" if "m \<in> all_messages acc' - all_messages acc" for m
      using that 1(2) 2(2) retryable_unstuck [OF 2(1), of m] by blast
    ultimately show ?thesis using 1(3) 2(3) by blast
  qed
qed (auto simp: only_unstuck_def)

end

context kv_store
begin

lemma kv_retryV1_safe:
  assumes "RetryV1_HandleEvents (PropStatus GetByKey) (StorePropStatus SetByKey) f g H domain st a b = (r, st', sent)"
  shows "only_unstuck (PropStatus GetByKey) st st' \<and>
     (\<forall>ms \<in> set sent. ms \<noteq> [] \<and> (\<exists>k. \<forall>m \<in> set ms. m_Destination m = k \<and> retryable (PropStatus GetByKey) st' m))"
proof (cases "f a b")
  case (Inl e)
  with assms show ?thesis by (cases e) (auto simp: RetryV1_HandleEvents_def)
next
  case (Inr evs)
  let ?h = "\<lambda>d. handle_event H domain (''retry-'' @ deposit_messageID domain (d_DestinationDomainID d) a b) d"
  obtain dd st1 where x: "retryV1_events (PropStatus GetByKey) (StorePropStatus SetByKey) ?h g st [] evs = (dd, st1)"
    by fastforce
  with assms Inr have r: "sent = map snd dd" "st' = st1" by (simp_all add: RetryV1_HandleEvents_def)
  from ps.retryV1_events_safe [OF x] show ?thesis
    unfolding r by (fastforce simp: all_messages_def grouped_def)
qed

end

text \<open>
  Handling the retry events of a block range sends, per destination, only deposits
  that the proposal store does not report as executed or pending when the handler returns,
  never an empty batch, and changes the store only by marking pending proposals failed.
\<close>

theorem retryV1_events_safe_to_send:
  assumes "kv_store GetByKey SetByKey"
    and "RetryV1_HandleEvents (PropStatus GetByKey) (StorePropStatus SetByKey) f g H domain st a b = (r, st', sent)"
  shows "only_unstuck (PropStatus GetByKey) st st' \<and>
     (\<forall>ms \<in> set sent. ms \<noteq> [] \<and> (\<exists>k. \<forall>m \<in> set ms. m_Destination m = k \<and> retryable (PropStatus GetByKey) st' m))"
  using kv_store.kv_retryV1_safe [OF assms] .

definition example_retry_run :: "unit res \<times> mem_db \<times> message list list" where
  "example_retry_run =
     RetryV1_HandleEvents (PropStatus mem_get) (StorePropStatus mem_set)
       (\<lambda>_ _. Inr [\<lparr>r1_TxHash = ''0x1''\<rparr>])
       (\<lambda>_. Inr [example_deposit_event 2 [3], example_deposit_event 2 [4]])
       (\<lambda>s d n r cd hr i ts. Inr (example_deposit (of_nat (unat (hd (elems cd)))))) 1 example_db 10 12"

theorem retryV1_events_safe_to_send_witness:
  "snd (snd example_retry_run) = [[example_deposit 4]] \<and>
   retryable (PropStatus mem_get) (fst (snd example_retry_run)) (example_deposit 4)"
proof -
  have run: "example_retry_run = (Inr (), example_db\<lparr>mem_entries := (KEY 1 2 4, FailedProp) # mem_entries example_db\<rparr>,
      [[example_deposit 4]])"
    by (simp add: example_retry_run_def RetryV1_HandleEvents_def handle_event_def example_deposit_event_def
        RetryV1_isExecuted_def example_deposit_def NewMessage_def PropStatus_def StorePropStatus_def
        mem_get_def mem_set_def KEY_eq_iff)
  from retryV1_events_safe_to_send [OF mem.kv_store_axioms run [unfolded example_retry_run_def]]
  show ?thesis unfolding run by simp
qed

end
