(* ===== verification/Topology.thy ===== *)
theory Topology
  imports Parsing Keyshare
begin

text \<open>
  The network topology (\<open>topology/\<close>) and what follows it: the connection gate
  (\<open>comm/p2p/gater.go\<close>) and the peer store of the host (\<open>comm/p2p/host.go\<close>). The HTTP client,
  SHA-256, the AES block function, JSON, the libp2p address parser and the file system are
  arguments; counter mode and the checks are modelled.
\<close>

section \<open>Topologies\<close>

record AddrInfo =
  ai_ID :: peerID
  ai_Addrs :: "string list"

record NetworkTopology =
  nt_Peers :: "AddrInfo list"
  nt_Threshold :: int

record RawTopology =
  raw_Peers :: "string list"
  raw_Threshold :: string

fun allowed_in :: "AddrInfo list \<Rightarrow> peerID \<Rightarrow> bool" where
  "allowed_in [] p = False"
| "allowed_in (a # as) p = (ai_ID a = p \<or> allowed_in as p)"

definition IsAllowedPeer :: "NetworkTopology \<Rightarrow> peerID \<Rightarrow> bool" where
  "IsAllowedPeer nt p = allowed_in (nt_Peers nt) p"

fun parse_peers :: "(string \<Rightarrow> AddrInfo res) \<Rightarrow> string list \<Rightarrow> AddrInfo list res" where
  "parse_peers AddrInfoFromString [] = Inr []"
| "parse_peers AddrInfoFromString (p # ps) =
     (case AddrInfoFromString p of
        Inl (Error err) \<Rightarrow> Inl (Error (''invalid peer address '' @ p @ '': '' @ err))
      | Inl (Panic e) \<Rightarrow> Inl (Panic e)
      | Inr a \<Rightarrow> and_then (parse_peers AddrInfoFromString ps) (\<lambda>as. Inr (a # as)))"

definition ProcessRawTopology :: "(string \<Rightarrow> AddrInfo res) \<Rightarrow> RawTopology \<Rightarrow> NetworkTopology res" where
  "ProcessRawTopology AddrInfoFromString rawTopology =
     and_then (parse_peers AddrInfoFromString (raw_Peers rawTopology)) (\<lambda>peers.
     case ParseInt0 0 (raw_Threshold rawTopology) of
       Inl e \<Rightarrow> Inl (Error ''unable to parse mpc threshold from topology'')
     | Inr threshold \<Rightarrow>
         if threshold < 1 then Inl (Error ''mpc threshold must be bigger then 0'')
         else Inr \<lparr>nt_Peers = peers, nt_Threshold = threshold\<rparr>)"

section \<open>Encryption\<close>

definition BlockSize :: nat where "BlockSize = 16"

text \<open>
  Counter mode: the key stream is the cipher of the initialisation vector, counted up as a
  128-bit big-endian number.
\<close>

definition ctr_block :: "(bytes \<Rightarrow> bytes) \<Rightarrow> bytes \<Rightarrow> nat \<Rightarrow> bytes" where
  "ctr_block block iv i = block (left_pad (Bytes ((SetBytes iv + i) mod 256 ^ BlockSize)) BlockSize)"

definition keystream :: "(bytes \<Rightarrow> bytes) \<Rightarrow> bytes \<Rightarrow> nat \<Rightarrow> bytes" where
  "keystream block iv n = take n (concat (map (ctr_block block iv) [0..<n]))"

unbundle bit_operations_syntax

definition XORKeyStream :: "(bytes \<Rightarrow> bytes) \<Rightarrow> bytes \<Rightarrow> bytes \<Rightarrow> bytes" where
  "XORKeyStream block iv src = map (\<lambda>(a, b). a XOR b) (zip src (keystream block iv (length src)))"

definition Decrypt :: "(bytes \<Rightarrow> bytes) \<Rightarrow> bytes \<Rightarrow> bytes res" where
  "Decrypt block ct =
     (if length ct < BlockSize then Inl (Panic ''slice bounds out of range'')
      else Inr (XORKeyStream block (take BlockSize ct) (drop BlockSize ct)))"

text \<open>\<open>rnd\<close> is the 16 random bytes, or the error of the random source.\<close>

definition Encrypt :: "(bytes \<Rightarrow> bytes) \<Rightarrow> bytes res \<Rightarrow> bytes \<Rightarrow> bytes res" where
  "Encrypt block rnd data = and_then rnd (\<lambda>iv. Inr (iv @ XORKeyStream block iv data))"

section \<open>The topology provider\<close>

record provider =
  pv_Get :: "string res"
  pv_Sha256 :: "bytes \<Rightarrow> bytes"
  pv_Block :: "bytes \<Rightarrow> bytes"
  pv_Unmarshal :: "bytes \<Rightarrow> RawTopology res"
  pv_AddrInfo :: "string \<Rightarrow> AddrInfo res"

definition Provider_NetworkTopology :: "provider \<Rightarrow> string \<Rightarrow> NetworkTopology res" where
  "Provider_NetworkTopology t hash =
     and_then (pv_Get t) (\<lambda>body.
     and_then (hex_decode (TrimSuffix body [CHR 0x0A])) (\<lambda>ct.
     let eh = hex_encode (pv_Sha256 t ct) in
     if hash \<noteq> '''' \<and> eh \<noteq> hash
     then Inl (Error (''topology hash '' @ eh @ '' not matching expected hash '' @ hash))
     else
       and_then (Decrypt (pv_Block t) ct) (\<lambda>unecryptedBody.
       and_then (pv_Unmarshal t unecryptedBody) (\<lambda>rawTopology.
       ProcessRawTopology (pv_AddrInfo t) rawTopology))))"

section \<open>The topology store\<close>

definition StoreTopology ::
  "NetworkTopology files \<Rightarrow> bytes option \<Rightarrow> NetworkTopology \<Rightarrow> unit res \<times> bytes option" where
  "StoreTopology fs file topology =
     (case OpenTrunc fs of
        Inl err \<Rightarrow> (Inl err, file)
      | Inr _ \<Rightarrow>
          (case MarshalJson fs topology of
             Inl err \<Rightarrow> (Inl err, Some [])
           | Inr kb \<Rightarrow> (let (written, r) = WriteFile fs kb in (r, Some written))))"

definition ReadTopology :: "NetworkTopology files \<Rightarrow> bytes option \<Rightarrow> NetworkTopology res" where
  "ReadTopology fs file =
     (case file of
        None \<Rightarrow> Inl (Error ''no such file'')
      | Some tb \<Rightarrow> UnmarshalJson fs tb)"

section \<open>The gate and the host\<close>

record ConnectionGate =
  cg_topology :: NetworkTopology

definition SetTopology :: "ConnectionGate \<Rightarrow> NetworkTopology \<Rightarrow> ConnectionGate" where
  "SetTopology cg topology = cg\<lparr>cg_topology := topology\<rparr>"

definition InterceptPeerDial :: "ConnectionGate \<Rightarrow> peerID \<Rightarrow> bool" where
  "InterceptPeerDial cg p = IsAllowedPeer (cg_topology cg) p"

definition InterceptSecured :: "ConnectionGate \<Rightarrow> peerID \<Rightarrow> bool" where
  "InterceptSecured cg p = IsAllowedPeer (cg_topology cg) p"

text \<open>
  The peer store of libp2p is an argument, with the operations the host uses. Reading the
  first address of a peer without addresses panics.
\<close>

record 'ps peerstore =
  ps_Peers :: "'ps \<Rightarrow> peerID list"
  ps_RemovePeer :: "'ps \<Rightarrow> peerID \<Rightarrow> 'ps"
  ps_ClearAddrs :: "'ps \<Rightarrow> peerID \<Rightarrow> 'ps"
  ps_AddAddr :: "'ps \<Rightarrow> peerID \<Rightarrow> string \<Rightarrow> 'ps"

fun remove_peers :: "'ps peerstore \<Rightarrow> 'ps \<Rightarrow> peerID list \<Rightarrow> 'ps" where
  "remove_peers lib h [] = h"
| "remove_peers lib h (p # ps) = remove_peers lib (ps_ClearAddrs lib (ps_RemovePeer lib h p) p) ps"

fun add_peers :: "'ps peerstore \<Rightarrow> 'ps \<Rightarrow> AddrInfo list \<Rightarrow> 'ps res" where
  "add_peers lib h [] = Inr h"
| "add_peers lib h (p # ps) =
     (case ai_Addrs p of
        [] \<Rightarrow> Inl (Panic ''index out of range'')
      | addr # _ \<Rightarrow> add_peers lib (ps_AddAddr lib h (ai_ID p) addr) ps)"

definition LoadPeers :: "'ps peerstore \<Rightarrow> 'ps \<Rightarrow> AddrInfo list \<Rightarrow> 'ps res" where
  "LoadPeers lib h peers = add_peers lib (remove_peers lib h (ps_Peers lib h)) peers"

text \<open>
  What the host relies on: removing a peer and clearing its addresses forgets this peer and
  no other, adding an address makes its peer known.
\<close>

definition peerstore_laws :: "'ps peerstore \<Rightarrow> bool" where
  "peerstore_laws lib \<longleftrightarrow>
     (\<forall>h p. set (ps_Peers lib (ps_ClearAddrs lib (ps_RemovePeer lib h p) p)) = set (ps_Peers lib h) - {p}) \<and>
     (\<forall>h p a. set (ps_Peers lib (ps_AddAddr lib h p a)) = insert p (set (ps_Peers lib h)))"

section \<open>Properties\<close>

lemma allowed_in_iff: "allowed_in as p \<longleftrightarrow> p \<in> ai_ID ` set as"
  by (induction as) auto

lemma IsAllowedPeer_iff: "IsAllowedPeer nt p \<longleftrightarrow> p \<in> ai_ID ` set (nt_Peers nt)"
  by (simp add: IsAllowedPeer_def allowed_in_iff)

lemma remove_peers_set:
  assumes "peerstore_laws lib"
  shows "set (ps_Peers lib (remove_peers lib h ps)) = set (ps_Peers lib h) - set ps"
  using assms by (induction lib h ps rule: remove_peers.induct) (auto simp: peerstore_laws_def)

lemma add_peers_ok:
  assumes "peerstore_laws lib" "\<forall>a \<in> set as. ai_Addrs a \<noteq> []"
  shows "\<exists>h'. add_peers lib h as = Inr h' \<and> set (ps_Peers lib h') = set (ps_Peers lib h) \<union> ai_ID ` set as"
  using assms
proof (induction as arbitrary: h)
  case (Cons a as)
  then obtain addr rest where addr: "ai_Addrs a = addr # rest"
    by (cases "ai_Addrs a") auto
  from Cons.IH [of "ps_AddAddr lib h (ai_ID a) addr"] Cons.prems addr show ?case
    by (auto simp: peerstore_laws_def)
qed simp

lemma LoadPeers_ok:
  assumes "peerstore_laws lib" "\<forall>a \<in> set as. ai_Addrs a \<noteq> []"
  shows "\<exists>h'. LoadPeers lib h as = Inr h' \<and> set (ps_Peers lib h') = ai_ID ` set as"
  using add_peers_ok [OF assms, of "remove_peers lib h (ps_Peers lib h)"]
  by (simp add: LoadPeers_def remove_peers_set [OF assms(1)])

lemma add_peers_panics: "\<exists>a \<in> set as. ai_Addrs a = [] \<Longrightarrow> is_panic (add_peers lib h as)"
  by (induction as arbitrary: h) (auto split: list.split)

lemma ProcessRawTopology_threshold: "ProcessRawTopology f raw = Inr t \<Longrightarrow> 1 \<le> nt_Threshold t"
  by (cases "ParseInt0 0 (raw_Threshold raw)")
    (auto simp: ProcessRawTopology_def split: if_splits)

lemma length_keystream:
  assumes "\<And>b. length (block b) = BlockSize"
  shows "length (keystream block iv n) = n"
proof -
  have "length (concat (map (ctr_block block iv) xs)) = BlockSize * length xs" for xs
    by (induction xs) (simp_all add: ctr_block_def assms)
  then show ?thesis by (simp add: keystream_def BlockSize_def)
qed

lemma XORKeyStream_twice:
  assumes "\<And>b. length (block b) = BlockSize"
  shows "XORKeyStream block iv (XORKeyStream block iv src) = src"
proof -
  have len: "length (keystream block iv (length src)) = length src"
    by (rule length_keystream) (rule assms)
  then show ?thesis
    by (auto simp: XORKeyStream_def xor.assoc intro!: nth_equalityI)
qed

text \<open>
  What the topology tooling encrypts, the relayer decrypts: for every block cipher with
  16-byte blocks, every random vector and every plaintext.
\<close>

theorem decrypt_encrypt:
  assumes "\<And>b. length (block b) = BlockSize" "length iv = BlockSize"
  shows "\<exists>ct. Encrypt block (Inr iv) data = Inr ct \<and> Decrypt block ct = Inr data"
  using assms(2) by (simp add: Encrypt_def Decrypt_def XORKeyStream_twice [OF assms(1)])

theorem decrypt_encrypt_witness:
  "\<exists>ct. Encrypt (\<lambda>b. replicate 16 7) (Inr (replicate 16 1)) [1, 2, 3] = Inr ct \<and>
     Decrypt (\<lambda>b. replicate 16 7) ct = Inr [1, 2, 3]"
  by (rule decrypt_encrypt) (simp_all add: BlockSize_def)

text \<open>
  A topology is used only if it is the announced one and usable: when an expected hash
  is given, the ciphertext that was fetched has exactly this hash, and the threshold is at
  least one.
\<close>

theorem topology_is_the_announced_one:
  assumes "Provider_NetworkTopology t hash = Inr nt" "hash \<noteq> ''''"
  shows "1 \<le> nt_Threshold nt \<and>
     (\<exists>body ct. pv_Get t = Inr body \<and> hex_decode (TrimSuffix body [CHR 0x0A]) = Inr ct \<and>
        hex_encode (pv_Sha256 t ct) = hash)"
  using assms
  by (auto simp: Provider_NetworkTopology_def Let_def dest: ProcessRawTopology_threshold split: if_splits)


definition example_addr :: "string \<Rightarrow> AddrInfo res" where
  "example_addr p = Inr \<lparr>ai_ID = p, ai_Addrs = [p]\<rparr>"

definition example_provider :: provider where
  "example_provider =
     \<lparr>pv_Get = Inr (hex_encode (replicate 16 1) @ [CHR 0x0A]), pv_Sha256 = (\<lambda>b. [170]), pv_Block = (\<lambda>b. replicate 16 7),
      pv_Unmarshal = (\<lambda>b. Inr \<lparr>raw_Peers = [''p'', ''q''], raw_Threshold = ''1''\<rparr>), pv_AddrInfo = example_addr\<rparr>"

lemma ParseInt0_one: "ParseInt0 0 ''1'' = Inr 1"
  by (simp add: ParseInt0_def ParseUint0_def base_prefix_def digit_value_def lower_def signed_value_def)

lemma example_provider_topology:
  "Provider_NetworkTopology example_provider ''aa'' =
     Inr \<lparr>nt_Peers = [\<lparr>ai_ID = ''p'', ai_Addrs = [''p'']\<rparr>, \<lparr>ai_ID = ''q'', ai_Addrs = [''q'']\<rparr>], nt_Threshold = 1\<rparr>"
proof -
  have "hex_decode (TrimSuffix (hex_encode (replicate 16 1) @ [CHR 0x0A]) [CHR 0x0A]) = Inr (replicate 16 1)"
    by code_simp
  moreover have "hex_encode [170] = ''aa''" by code_simp
  ultimately show ?thesis
    by (simp add: Provider_NetworkTopology_def example_provider_def Decrypt_def BlockSize_def
        ProcessRawTopology_def example_addr_def ParseInt0_one)
qed

theorem topology_is_the_announced_one_witness:
  "\<exists>nt ct. Provider_NetworkTopology example_provider ''aa'' = Inr nt \<and> 1 \<le> nt_Threshold nt \<and>
     hex_encode (pv_Sha256 example_provider ct) = ''aa''"
  using topology_is_the_announced_one [OF example_provider_topology] example_provider_topology by auto

text \<open>
  Installing a topology makes the network follow it: the gate then lets exactly the
  peers of the topology connect, in both directions, and the host knows exactly these peers.
\<close>

theorem topology_installs:
  assumes "peerstore_laws lib" "\<forall>a \<in> set (nt_Peers nt). ai_Addrs a \<noteq> []"
  shows "\<exists>h'. LoadPeers lib h (nt_Peers nt) = Inr h' \<and>
     (\<forall>p. (InterceptPeerDial (SetTopology cg nt) p \<longleftrightarrow> p \<in> set (ps_Peers lib h')) \<and>
          (InterceptSecured (SetTopology cg nt) p \<longleftrightarrow> p \<in> set (ps_Peers lib h')) \<and>
          (p \<in> set (ps_Peers lib h') \<longleftrightarrow> p \<in> ai_ID ` set (nt_Peers nt)))"
  using LoadPeers_ok [OF assms]
  by (fastforce simp: InterceptPeerDial_def InterceptSecured_def SetTopology_def IsAllowedPeer_iff)

definition list_peerstore :: "peerID list peerstore" where
  "list_peerstore =
     \<lparr>ps_Peers = (\<lambda>h. h), ps_RemovePeer = (\<lambda>h p. h), ps_ClearAddrs = (\<lambda>h p. removeAll p h), ps_AddAddr = (\<lambda>h p a. p # h)\<rparr>"

definition example_topology :: NetworkTopology where
  "example_topology = \<lparr>nt_Peers = [\<lparr>ai_ID = ''p'', ai_Addrs = [''addr'']\<rparr>], nt_Threshold = 1\<rparr>"

lemma list_peerstore_laws: "peerstore_laws list_peerstore"
  by (simp add: peerstore_laws_def list_peerstore_def)

theorem topology_installs_witness:
  "peerstore_laws list_peerstore \<and>
   (\<exists>h'. LoadPeers list_peerstore [''old''] (nt_Peers example_topology) = Inr h' \<and>
     InterceptPeerDial (SetTopology \<lparr>cg_topology = example_topology\<rparr> example_topology) ''p'' \<and>
     set (ps_Peers list_peerstore h') = {''p''})"
proof -
  have "\<forall>a \<in> set (nt_Peers example_topology). ai_Addrs a \<noteq> []" by (simp add: example_topology_def)
  from topology_installs [OF list_peerstore_laws this, of "[''old'']" "\<lparr>cg_topology = example_topology\<rparr>"]
  show ?thesis by (auto simp: list_peerstore_laws example_topology_def)
qed

text \<open>
  A peer whose address has no transport part is accepted by the topology but crashes
  the relayer when its peers are loaded.
\<close>

theorem peer_without_address_panics:
  assumes "a \<in> set (nt_Peers nt)" "ai_Addrs a = []"
  shows "is_panic (LoadPeers lib h (nt_Peers nt))"
  unfolding LoadPeers_def by (rule add_peers_panics) (use assms in blast)

theorem peer_without_address_panics_witness:
  "\<exists>nt. ProcessRawTopology (\<lambda>p. Inr \<lparr>ai_ID = p, ai_Addrs = []\<rparr>) \<lparr>raw_Peers = [''p''], raw_Threshold = ''1''\<rparr> = Inr nt \<and>
     is_panic (LoadPeers list_peerstore [] (nt_Peers nt))"
proof -
  have "ProcessRawTopology (\<lambda>p. Inr \<lparr>ai_ID = p, ai_Addrs = []\<rparr>) \<lparr>raw_Peers = [''p''], raw_Threshold = ''1''\<rparr> =
      Inr \<lparr>nt_Peers = [\<lparr>ai_ID = ''p'', ai_Addrs = []\<rparr>], nt_Threshold = 1\<rparr>"
    by (simp add: ProcessRawTopology_def ParseInt0_one)
  moreover have "is_panic (LoadPeers list_peerstore [] (nt_Peers \<lparr>nt_Peers = [\<lparr>ai_ID = ''p'', ai_Addrs = []\<rparr>], nt_Threshold = 1\<rparr>))"
    by (rule peer_without_address_panics [of "\<lparr>ai_ID = ''p'', ai_Addrs = []\<rparr>"]) simp_all
  ultimately show ?thesis by blast
qed

end
