(* ===== verification/Evm_Tss_Events.thy ===== *)
theory Evm_Tss_Events
  imports Evm_Listener Coordinator Topology
begin

text \<open>
  The event handlers that start key generation, FROST key generation and key refresh
  (\<open>chains/evm/listener/eventHandlers/tss.go\<close>). \<open>execute\<close> stands for \<open>Coordinator.Execute\<close> on the
  process: its outcome and the key share store it leaves. A handler returns \<open>None\<close> while it
  waits for the key share lock; otherwise its error, the state it leaves and the processes it
  handed to the coordinator.
\<close>

section \<open>Key generation\<close>

definition Keygen_sessionID :: "int \<Rightarrow> string" where
  "Keygen_sessionID block = ''keygen-'' @ dec_int block"

definition KeygenEventHandler_HandleEvents ::
  "('a, 'h) chain_client \<Rightarrow> (keyshare_store \<Rightarrow> 'k ECDSAKeyshare res) \<Rightarrow>
   (tss_process \<Rightarrow> keyshare_store \<Rightarrow> unit tres \<times> keyshare_store) \<Rightarrow> peerID \<Rightarrow> peerID list \<Rightarrow> int \<Rightarrow> 'a \<Rightarrow>
   keyshare_store \<Rightarrow> int \<Rightarrow> int \<Rightarrow> unit res \<times> keyshare_store \<times> tss_process list" where
  "KeygenEventHandler_HandleEvents c GetKeyshare execute host peers threshold bridgeAddress ks startBlock endBlock =
     (if (case GetKeyshare ks of Inr key \<Rightarrow> ek_Threshold key \<noteq> 0 | Inl _ \<Rightarrow> False) then (Inr (), ks, [])
      else
        (case FetchKeygenEvents c bridgeAddress startBlock endBlock of
           Inl (Error err) \<Rightarrow> (Inl (Error (''unable to fetch keygen events because of: '' @ err)), ks, [])
         | Inl (Panic e) \<Rightarrow> (Inl (Panic e), ks, [])
         | Inr [] \<Rightarrow> (Inr (), ks, [])
         | Inr (ev # _) \<Rightarrow>
             (let process = keygen_process peers
                    (NewKeygen (Keygen_sessionID (uint (lg_BlockNumber ev))) threshold host peers)
              in (Inr (), snd (execute process ks), [process]))))"

definition FrostKeygen_sessionID :: "int \<Rightarrow> string" where
  "FrostKeygen_sessionID block = ''frost-keygen-'' @ dec_int block"

definition frost_keygen_process :: "peerID list \<Rightarrow> Keygen \<Rightarrow> tss_process" where
  "frost_keygen_process peerstore k =
     \<lparr>pr_SessionID = kg_SID k, pr_Ready = Frost_Keygen_Ready peerstore, pr_StartParams = Keygen_StartParams,
      pr_Retryable = Keygen_Retryable, pr_ValidCoordinators = Frost_Keygen_ValidCoordinators k\<rparr>"

definition FrostKeygenEventHandler_HandleEvents ::
  "('a, 'h) chain_client \<Rightarrow>
   (tss_process \<Rightarrow> keyshare_store \<Rightarrow> unit tres \<times> keyshare_store) \<Rightarrow> peerID \<Rightarrow> peerID list \<Rightarrow> int \<Rightarrow> 'a \<Rightarrow>
   keyshare_store \<Rightarrow> int \<Rightarrow> int \<Rightarrow> (unit res \<times> keyshare_store \<times> tss_process list) option" where
  "FrostKeygenEventHandler_HandleEvents c execute host peers threshold contractAddress ks startBlock endBlock =
     (case FetchFrostKeygenEvents c contractAddress startBlock endBlock of
        Inl (Error err) \<Rightarrow> Some (Inl (Error (''unable to fetch keygen events because of: '' @ err)), ks, [])
      | Inl (Panic e) \<Rightarrow> Some (Inl (Panic e), ks, [])
      | Inr [] \<Rightarrow> Some (Inr (), ks, [])
      | Inr (ev # _) \<Rightarrow>
          (case Frost_NewKeygen ks (FrostKeygen_sessionID (uint (lg_BlockNumber ev))) threshold host peers of
             None \<Rightarrow> None
           | Some (k, locked) \<Rightarrow>
               (let process = frost_keygen_process peers k
                in Some (Inr (), snd (execute process locked), [process]))))"

section \<open>Key refresh\<close>

definition Resharing_sessionID :: "int \<Rightarrow> string" where
  "Resharing_sessionID block = ''resharing-'' @ dec_int block"

text \<open>What a refresh changes.\<close>

record 'ps refresh_state =
  rf_gate :: ConnectionGate
  rf_host :: 'ps
  rf_file :: "bytes option"
  rf_keyshare :: keyshare_store

text \<open>What the handler is built from; a missing topology provider is a nil interface.\<close>

record ('ps, 'k) refresh_env =
  re_provider :: "provider option"
  re_files :: "NetworkTopology files"
  re_peerstore :: "'ps peerstore"
  re_GetKeyshare :: "keyshare_store \<Rightarrow> 'k ECDSAKeyshare res"
  re_emptyKey :: 'k
  re_Marshal :: "startParams \<Rightarrow> bytes"
  re_hash :: peer_hash
  re_hostID :: peerID

definition fetch_topology :: "('ps, 'k) refresh_env \<Rightarrow> string \<Rightarrow> NetworkTopology res" where
  "fetch_topology env hash =
     (case re_provider env of
        None \<Rightarrow> Inl (Panic ''invalid memory address or nil pointer dereference'')
      | Some topologyProvider \<Rightarrow> Provider_NetworkTopology topologyProvider hash)"

text \<open>From a stored topology on: the gate, the host, the new process and its execution.\<close>

definition start_refresh ::
  "('ps, 'k) refresh_env \<Rightarrow> (tss_process \<Rightarrow> keyshare_store \<Rightarrow> unit tres \<times> keyshare_store) \<Rightarrow>
   'ps refresh_state \<Rightarrow> int \<Rightarrow> NetworkTopology \<Rightarrow> (unit res \<times> 'ps refresh_state \<times> tss_process list) option" where
  "start_refresh env execute st startBlock topology =
     (let gated = st\<lparr>rf_gate := SetTopology (rf_gate st) topology\<rparr> in
      case LoadPeers (re_peerstore env) (rf_host gated) (nt_Peers topology) of
        Inl e \<Rightarrow> Some (Inl e, gated, [])
      | Inr host \<Rightarrow>
          (let loaded = gated\<lparr>rf_host := host\<rparr>; peers = ps_Peers (re_peerstore env) host in
           case NewResharing (re_GetKeyshare env) (re_emptyKey env) (rf_keyshare loaded)
                  (Resharing_sessionID startBlock) (nt_Threshold topology) (re_hostID env) peers of
             None \<Rightarrow> None
           | Some (r, locked) \<Rightarrow>
               (let process = resharing_process (re_hash env) (re_Marshal env) peers r
                in Some (Inr (), loaded\<lparr>rf_keyshare := snd (execute process locked)\<rparr>, [process]))))"

definition RefreshEventHandler_HandleEvents ::
  "('a, 'h) chain_client \<Rightarrow> ('ps, 'k) refresh_env \<Rightarrow>
   (tss_process \<Rightarrow> keyshare_store \<Rightarrow> unit tres \<times> keyshare_store) \<Rightarrow> 'a \<Rightarrow> 'ps refresh_state \<Rightarrow> int \<Rightarrow> int \<Rightarrow>
   (unit res \<times> 'ps refresh_state \<times> tss_process list) option" where
  "RefreshEventHandler_HandleEvents c env execute bridgeAddress st startBlock endBlock =
     (case FetchRefreshEvents c bridgeAddress startBlock endBlock of
        Inl (Error err) \<Rightarrow> Some (Inl (Error (''unable to fetch keygen events because of: '' @ err)), st, [])
      | Inl (Panic e) \<Rightarrow> Some (Inl (Panic e), st, [])
      | Inr refreshEvents \<Rightarrow>
          if refreshEvents = [] then Some (Inr (), st, [])
          else
            (let hash = rf_Hash (last refreshEvents) in
             if hash = '''' then Some (Inr (), st, [])
             else
               (case fetch_topology env hash of
                  Inl (Panic e) \<Rightarrow> Some (Inl (Panic e), st, [])
                | Inl (Error _) \<Rightarrow> Some (Inr (), st, [])
                | Inr topology \<Rightarrow>
                    (case StoreTopology (re_files env) (rf_file st) topology of
                       (Inl (Panic e), file) \<Rightarrow> Some (Inl (Panic e), st\<lparr>rf_file := file\<rparr>, [])
                     | (Inl (Error _), file) \<Rightarrow> Some (Inr (), st\<lparr>rf_file := file\<rparr>, [])
                     | (Inr _, file) \<Rightarrow>
                         start_refresh env execute (st\<lparr>rf_file := file\<rparr>) startBlock topology))))"

section \<open>Properties\<close>

lemma add_peers_Error: "add_peers lib h as \<noteq> Inl (Error e)"
  by (induction as arbitrary: h) (auto split: list.split)

lemma LoadPeers_Error: "LoadPeers lib h as \<noteq> Inl (Error e)"
  by (simp add: LoadPeers_def add_peers_Error)


definition example_refresh_client :: "string \<Rightarrow> (unit, string) chain_client" where
  "example_refresh_client hash = example_client\<lparr>
     FetchEventLogs := (\<lambda>_ _ _ _. Inr [\<lparr>lg_Address = (), lg_Topics = [], lg_Data = [], lg_BlockNumber = 3\<rparr>]),
     UnpackKeyRefresh := (\<lambda>_. Inr \<lparr>rf_Hash = hash\<rparr>)\<rparr>"

definition example_refresh_env :: "(peerID list, unit) refresh_env" where
  "example_refresh_env =
     \<lparr>re_provider = Some example_provider,
      re_files = \<lparr>OpenTrunc = Inr (), WriteFile = (\<lambda>b. (b, Inr ())), MarshalJson = (\<lambda>_. Inr [1]),
                   UnmarshalJson = (\<lambda>_. Inl (Error []))\<rparr>,
      re_peerstore = list_peerstore, re_GetKeyshare = (\<lambda>_. Inl (Error [])), re_emptyKey = (),
      re_Marshal = (\<lambda>_. []), re_hash = example_hash, re_hostID = ''p''\<rparr>"

definition example_refresh_state :: "peerID list refresh_state" where
  "example_refresh_state =
     \<lparr>rf_gate = \<lparr>cg_topology = example_topology\<rparr>, rf_host = [''p''], rf_file = None, rf_keyshare = NewKeyshareStore None\<rparr>"

lemma example_refresh_events:
  "FetchRefreshEvents (example_refresh_client hash) () n m = Inr [\<lparr>rf_Hash = hash\<rparr>]"
  by (simp add: FetchRefreshEvents_def example_refresh_client_def UnpackRefresh_def)

lemmas example_refresh =
  RefreshEventHandler_HandleEvents_def example_refresh_events example_refresh_env_def example_refresh_state_def
  start_refresh_def StoreTopology_def LoadPeers_def list_peerstore_def NewResharing_def LockKeyshare_def
  NewKeyshareStore_def Let_def fetch_topology_def


text \<open>
  Nothing else changes the network: when no resharing is started and the handler does
  not panic, the gate, the peers of the host and the key share are as before.
\<close>

theorem refresh_without_resharing_changes_nothing:
  assumes "RefreshEventHandler_HandleEvents c env execute bridge st startBlock endBlock = Some (r, st', [])"
    and "\<not> is_panic r"
  shows "rf_gate st' = rf_gate st \<and> rf_host st' = rf_host st \<and> rf_keyshare st' = rf_keyshare st"
  using assms
  by (auto simp: RefreshEventHandler_HandleEvents_def start_refresh_def Let_def is_panic_def LoadPeers_Error
      split: sum.splits go_error.splits if_splits prod.splits option.splits)

theorem refresh_without_resharing_changes_nothing_witness:
  "\<exists>r st'. RefreshEventHandler_HandleEvents (example_refresh_client '''') example_refresh_env
       (\<lambda>_ ks. (Inr (), ks)) () example_refresh_state 5 9 = Some (r, st', []) \<and> \<not> is_panic r \<and>
     rf_gate st' = \<lparr>cg_topology = example_topology\<rparr>"
proof -
  have run: "RefreshEventHandler_HandleEvents (example_refresh_client '''') example_refresh_env
       (\<lambda>_ ks. (Inr (), ks)) () example_refresh_state 5 9 = Some (Inr (), example_refresh_state, [])"
    by (simp add: RefreshEventHandler_HandleEvents_def example_refresh_events)
  from refresh_without_resharing_changes_nothing [OF run] run show ?thesis
    by (auto simp: is_panic_def example_refresh_state_def)
qed

text \<open>Without a topology provider a refresh event that names a hash crashes the relayer.\<close>

lemma refresh_without_provider_panics:
  assumes "re_provider env = None" "FetchRefreshEvents c bridge startBlock endBlock = Inr events" "events \<noteq> []"
    and "rf_Hash (last events) \<noteq> ''''"
  shows "RefreshEventHandler_HandleEvents c env execute bridge st startBlock endBlock =
    Some (Inl (Panic ''invalid memory address or nil pointer dereference''), st, [])"
  using assms by (simp add: RefreshEventHandler_HandleEvents_def fetch_topology_def Let_def)

text \<open>
  A relayer that already holds an ECDSA key share never generates a key again, whatever
  the chain says.
\<close>

theorem keygen_not_repeated:
  assumes "GetKeyshare ks = Inr key" "ek_Threshold key \<noteq> 0"
  shows "KeygenEventHandler_HandleEvents c GetKeyshare execute host peers threshold bridge ks startBlock endBlock =
     (Inr (), ks, [])"
  using assms by (simp add: KeygenEventHandler_HandleEvents_def)

theorem keygen_not_repeated_witness:
  "KeygenEventHandler_HandleEvents example_client (\<lambda>_. Inr (NewECDSAKeyshare () 1 [''a'', ''b'']))
     (\<lambda>_ ks. (Inr (), ks)) ''a'' [''a'', ''b''] 1 () (NewKeyshareStore None) 5 9 = (Inr (), NewKeyshareStore None, [])"
  by (rule keygen_not_repeated [of _ _ "NewECDSAKeyshare () 1 [''a'', ''b'']"])
    (simp_all add: NewECDSAKeyshare_def)

end
