(* ===== verification/Key_Lock.thy ===== *)
theory Key_Lock
  imports Session Evm_Tss_Events
begin

text \<open>
  The key share lock across a whole key change. ECDSA key generation takes the lock when its process
  runs; resharing and FROST key generation take it when their process is created; all of them release it in
  \<open>Stop\<close>, which the coordinator calls at the end of every execution. Here the actions of an execution
  (\<open>tss/coordinator.go\<close>) are combined with the effect that the process gives them.
\<close>

section \<open>The effect of an execution on the lock\<close>

text \<open>
  The effect of one action: \<open>None\<close> blocks, \<open>Inl\<close> is a crash. \<open>lockOnRun\<close> says whether the process takes
  the lock when it runs.
\<close>

definition lock_effect :: "bool \<Rightarrow> coord_action \<Rightarrow> keyshare_store \<Rightarrow> keyshare_store res option" where
  "lock_effect lockOnRun a ks =
     (case a of
        RunProcesses _ _ \<Rightarrow> if lockOnRun then map_option Inr (LockKeyshare ks) else Some (Inr ks)
      | StopProcess _ \<Rightarrow> Some (UnlockKeyshare ks)
      | _ \<Rightarrow> Some (Inr ks))"

fun lock_effects :: "bool \<Rightarrow> coord_action list \<Rightarrow> keyshare_store \<Rightarrow> keyshare_store res option" where
  "lock_effects lockOnRun [] ks = Some (Inr ks)"
| "lock_effects lockOnRun (a # acts) ks =
     (case lock_effect lockOnRun a ks of
        None \<Rightarrow> None
      | Some (Inl e) \<Rightarrow> Some (Inl e)
      | Some (Inr ks') \<Rightarrow> lock_effects lockOnRun acts ks')"

lemma lock_effects_append:
  "lock_effects b (xs @ ys) ks =
     (case lock_effects b xs ks of None \<Rightarrow> None | Some (Inl e) \<Rightarrow> Some (Inl e) | Some (Inr ks') \<Rightarrow> lock_effects b ys ks')"
  by (induction b xs ks rule: lock_effects.induct) (auto split: option.split sum.split)

section \<open>The actions of an execution\<close>

fun is_run :: "coord_action \<Rightarrow> bool" where
  "is_run (RunProcesses _ _) = True"
| "is_run _ = False"

fun is_stop :: "coord_action \<Rightarrow> bool" where
  "is_stop (StopProcess _) = True"
| "is_stop _ = False"

text \<open>Starting a session stops no process and runs the processes at most once, at the end.\<close>

definition starting :: "coord_action list \<Rightarrow> bool" where
  "starting acts \<longleftrightarrow> (\<exists>before after. acts = before @ after \<and> (\<forall>a \<in> set before. \<not> is_run a \<and> \<not> is_stop a) \<and>
     (after = [] \<or> (\<exists>c params. after = [RunProcesses c params])))"

lemma starting_simps [simp]:
  "starting []" "starting [RunProcesses c params]"
  "\<not> is_run a \<Longrightarrow> \<not> is_stop a \<Longrightarrow> starting acts \<Longrightarrow> starting (a # acts)"
proof -
  show "starting []" by (simp add: starting_def)
  show "starting [RunProcesses c params]" unfolding starting_def by (intro exI [of _ "[]"] exI [of _ "[RunProcesses c params]"]) simp
  assume "\<not> is_run a" "\<not> is_stop a" "starting acts"
  then obtain before after where "acts = before @ after" "\<forall>x \<in> set before. \<not> is_run x \<and> \<not> is_stop x"
    "after = [] \<or> (\<exists>c params. after = [RunProcesses c params])" by (auto simp: starting_def)
  with \<open>\<not> is_run a\<close> \<open>\<not> is_stop a\<close> show "starting (a # acts)"
    unfolding starting_def by (intro exI [of _ "a # before"] exI [of _ after]) auto
qed

lemma initiate_loop_starting: "starting (snd (initiate_loop ms run p excluded ready es))"
  by (induction ms run p excluded ready es rule: initiate_loop.induct)
    (auto simp: Let_def case_prod_beta split: sum.split bool.split)

lemma waitForStart_starting: "starting (snd (waitForStart us run c es))"
  by (induction us run c es rule: waitForStart.induct) (auto simp: case_prod_beta split: sum.split)

lemma start_starting: "starting (snd (start h ms us run host p c excluded inits waits))"
  using initiate_loop_starting waitForStart_starting by (simp add: start_def initiate_def case_prod_beta)

lemma lock_effects_quiet:
  "\<forall>a \<in> set acts. \<not> is_run a \<and> \<not> is_stop a \<Longrightarrow> lock_effects b acts ks = Some (Inr ks)"
proof (induction acts)
  case (Cons a acts)
  then show ?case by (cases a) (simp_all add: lock_effect_def)
qed simp

lemma lock_effects_starting:
  assumes "starting acts"
  shows "lock_effects b acts ks =
    (if b \<and> (\<exists>a \<in> set acts. is_run a) then map_option Inr (LockKeyshare ks) else Some (Inr ks))"
proof -
  from assms obtain before after where a: "acts = before @ after" "\<forall>a \<in> set before. \<not> is_run a \<and> \<not> is_stop a"
    "after = [] \<or> (\<exists>c params. after = [RunProcesses c params])" by (auto simp: starting_def)
  from a(3) show ?thesis
    using a(2) unfolding a(1) lock_effects_append lock_effects_quiet [OF a(2)]
    by (auto simp: lock_effect_def split: option.split)
qed

text \<open>An execution of a process that is not retried: what starts it, then the end of the session.\<close>

lemma Execute_actions:
  assumes "Execute env ev ev' pending [p] = (Some r, pending', acts)" "\<not> pending (pr_SessionID p)" "\<not> pr_Retryable p"
  obtains acts0 where "starting acts0" "acts = acts0 @ [ReleaseSession (pr_SessionID p), StopProcess (pr_SessionID p)]"
proof -
  let ?c = "StaticCoordinator (co_hash env) (pr_SessionID p) (pr_ValidCoordinators p)"
  let ?task = "start (co_hash env) (co_marshalStart env) (co_unmarshalStart env) (co_run env) (co_host env) p ?c []
    (se_inits ev) (se_waits ev)"
  obtain r0 acts0 where w: "with_watcher env (pr_SessionID p) ?c (se_watch ev) ?task = (r0, acts0)" by fastforce
  then have "acts0 = snd ?task" using with_watcher_acts by (metis snd_conv)
  with start_starting have "starting acts0" by simp
  moreover from assms w have "acts = acts0 @ [ReleaseSession (pr_SessionID p), StopProcess (pr_SessionID p)]"
    by (auto simp: Execute_def Let_def split: option.splits sum.splits)
  ultimately show thesis by (rule that)
qed


section \<open>Key changes and the lock\<close>



text \<open>
  Key generation that was never started must not be stopped: if the coordinator of the session does not
  start it (it timed out, or the execution failed before), the \<open>Stop\<close> at the end of the execution unlocks a lock that the
  process does not hold. If nobody holds it, the relayer crashes; if another key change holds it, that one loses it, and
  signing processes can be created while the key is being changed.
\<close>

theorem unstarted_keygen_unlocks:
  assumes "Execute env ev ev' pending [keygen_process peers k] = (Some result, pending', acts)" "\<not> pending (kg_SID k)"
    and "\<And>c params. RunProcesses c params \<notin> set acts"
  shows "lock_effects True acts ks =
    Some (if ks_locked ks then Inr (ks\<lparr>ks_locked := False\<rparr>) else Inl (Panic ''sync: unlock of unlocked mutex''))"
proof -
  let ?p = "keygen_process peers k"
  have p: "pr_SessionID ?p = kg_SID k" "\<not> pr_Retryable ?p" by (simp_all add: keygen_process_def Keygen_Retryable_def)
  have "\<not> pending (pr_SessionID ?p)" using p(1) assms(2) by simp
  from Execute_actions [OF assms(1) this p(2)] obtain acts0 where
    a: "starting acts0" "acts = acts0 @ [ReleaseSession (kg_SID k), StopProcess (kg_SID k)]" unfolding p(1) .
  have "\<not> is_run a" if "a \<in> set acts0" for a using assms(3) a(2) that by (cases a) auto
  with a show ?thesis
    by (simp add: lock_effects_append lock_effects_starting lock_effect_def UnlockKeyshare_def)
qed

theorem unstarted_keygen_unlocks_witness:
  "\<exists>result pending' acts.
     Execute example_env \<lparr>se_inits = [], se_waits = [InitiateMsg ''a'', WaitTimeout], se_watch = [WatchDone]\<rparr>
       \<lparr>se_inits = [], se_waits = [], se_watch = []\<rparr> (\<lambda>_. False) [keygen_process [''a''] (NewKeygen ''keygen-5'' 1 ''z'' [''a''])]
       = (Some result, pending', acts) \<and>
     lock_effects True acts (NewKeyshareStore None) = Some (Inl (Panic ''sync: unlock of unlocked mutex''))"
proof -
  let ?ev = "\<lparr>se_inits = [], se_waits = [InitiateMsg ''a'', WaitTimeout], se_watch = [WatchDone]\<rparr>"
  let ?none = "\<lparr>se_inits = [], se_waits = [], se_watch = []\<rparr>"
  let ?k = "NewKeygen ''keygen-5'' 1 ''z'' [''a'']"
  have "Execute example_env ?ev ?none (\<lambda>_. False) [keygen_process [''a''] ?k]
      = (Some (Inl (CoordinatorError ''a'')), (\<lambda>_. False)(''keygen-5'' := False),
         [SendReady ''a'', ReleaseSession ''keygen-5'', StopProcess ''keygen-5''])" (is "?run = (Some ?r, ?pending, ?acts)")
    by (simp add: Execute_def Let_def with_watcher_def start_def example_env_def keygen_process_def NewKeygen_def Keygen_ValidCoordinators_def
        StaticCoordinator_def SortPeersForSession_def toPeerMsg_def example_hash_def Keygen_Retryable_def)
  then obtain result pending' acts where e: "?run = (Some result, pending', acts)" "acts = ?acts" by blast
  then have "RunProcesses c params \<notin> set acts" for c params by simp
  with unstarted_keygen_unlocks [OF e(1), of "NewKeyshareStore None"] e show ?thesis
    by (auto simp: NewKeyshareStore_def)
qed

text \<open>Started key generation leaves the lock as it was.\<close>

theorem started_keygen_releases_lock:
  assumes "Execute env ev ev' pending [keygen_process peers k] = (Some result, pending', acts)" "\<not> pending (kg_SID k)"
    and "RunProcesses c params \<in> set acts" "\<not> ks_locked ks"
  shows "lock_effects True acts ks = Some (Inr ks)"
proof -
  let ?p = "keygen_process peers k"
  have p: "pr_SessionID ?p = kg_SID k" "\<not> pr_Retryable ?p" by (simp_all add: keygen_process_def Keygen_Retryable_def)
  have "\<not> pending (pr_SessionID ?p)" using p(1) assms(2) by simp
  from Execute_actions [OF assms(1) this p(2)] obtain acts0 where
    a: "starting acts0" "acts = acts0 @ [ReleaseSession (kg_SID k), StopProcess (kg_SID k)]" unfolding p(1) .
  then have "\<exists>a \<in> set acts0. is_run a" using assms(3) by force
  with a assms(4) show ?thesis
    by (simp add: lock_effects_append lock_effects_starting lock_effect_def UnlockKeyshare_def LockKeyshare_def)
qed

end
