(* ===== verification/Chains_Common.thy ===== *)
theory Chains_Common
  imports Relayer_Data
begin

text \<open>
  Code shared by the chains: the EIP-712 hash that the relayers sign
  (\<open>chains/proposal.go\<close>), the bridge contract wrapper that submits what was signed
  (\<open>chains/evm/calls/contracts/bridge/bridge.go\<close>) and the alignment of the starting block
  (\<open>chains/util.go\<close>). The typed-data hasher, Keccak, the hex encoder and the contract
  transport of go-ethereum and sygma-core are arguments.
\<close>

section \<open>Typed data\<close>

datatype typed_value =
    TBig int
  | TString string
  | TBytes bytes
  | TMap "(string \<times> typed_value) list"
  | TArray "typed_value list"

record TypedDataDomain =
  dom_Name :: string
  dom_ChainId :: int
  dom_Version :: string
  dom_VerifyingContract :: string

record TypedData =
  td_Types :: "(string \<times> (string \<times> string) list) list"
  td_PrimaryType :: string
  td_Domain :: TypedDataDomain
  td_Message :: "(string \<times> typed_value) list"

record eip712 =
  HashStruct :: "TypedData \<Rightarrow> string \<Rightarrow> (string \<times> typed_value) list \<Rightarrow> bytes res"
  DomainMap :: "TypedDataDomain \<Rightarrow> (string \<times> typed_value) list"
  Keccak256 :: "bytes \<Rightarrow> bytes"
  HexEncode :: "bytes \<Rightarrow> string"

definition formatProposal :: "eip712 \<Rightarrow> TransferProposal \<Rightarrow> typed_value" where
  "formatProposal lib prop =
     TMap [(''originDomainID'', TBig (uint (tp_Source prop))),
           (''depositNonce'', TBig (uint (tpd_DepositNonce (tp_Data prop)))),
           (''resourceID'', TString (HexEncode lib (tpd_ResourceId (tp_Data prop)))),
           (''data'', TBytes (tpd_Data (tp_Data prop)))]"

definition proposalsTypedData ::
  "eip712 \<Rightarrow> TransferProposal list \<Rightarrow> int \<Rightarrow> string \<Rightarrow> string \<Rightarrow> TypedData" where
  "proposalsTypedData lib proposals chainID verifContract bridgeVersion =
     \<lparr>td_Types =
        [(''EIP712Domain'',
            [(''name'', ''string''), (''version'', ''string''), (''chainId'', ''uint256''),
             (''verifyingContract'', ''address'')]),
         (''Proposal'',
            [(''originDomainID'', ''uint8''), (''depositNonce'', ''uint64''),
             (''resourceID'', ''bytes32''), (''data'', ''bytes'')]),
         (''Proposals'', [(''proposals'', ''Proposal[]'')])],
      td_PrimaryType = ''Proposals'',
      td_Domain = \<lparr>dom_Name = ''Bridge'', dom_ChainId = chainID, dom_Version = bridgeVersion,
                   dom_VerifyingContract = verifContract\<rparr>,
      td_Message = [(''proposals'', TArray (map (formatProposal lib) proposals))]\<rparr>"

definition ProposalsHash ::
  "eip712 \<Rightarrow> TransferProposal list \<Rightarrow> int \<Rightarrow> string \<Rightarrow> string \<Rightarrow> bytes res" where
  "ProposalsHash lib proposals chainID verifContract bridgeVersion =
     (let typedData = proposalsTypedData lib proposals chainID verifContract bridgeVersion in
      and_then (HashStruct lib typedData ''EIP712Domain'' (DomainMap lib (td_Domain typedData)))
        (\<lambda>domainSeparator.
      and_then (HashStruct lib typedData (td_PrimaryType typedData) (td_Message typedData))
        (\<lambda>typedDataHash.
      Inr (Keccak256 lib ([0x19, 0x01] @ domainSeparator @ typedDataHash)))))"

section \<open>The bridge contract\<close>

record BridgeProposal =
  OriginDomainID :: uint8
  ResourceID :: bytes32
  DepositNonce :: uint64
  BridgeData :: bytes

definition bridgeVersion :: string where
  "bridgeVersion = ''3.1.0''"

datatype call_arg =
    AUint8 uint8
  | AUint64 uint64
  | ABigInt int
  | ABytes bytes
  | AString string
  | AProposalData TransferProposalData
  | AProposals "BridgeProposal list"

text \<open>Values a contract call returns and the conversions \<open>abi.ConvertType\<close> is used for.\<close>

datatype 'a call_value = VBool bool | VAddress 'a

record ('a, 'o) contract =
  ExecuteTransaction :: "string \<Rightarrow> 'o \<Rightarrow> call_arg list \<Rightarrow> string res"
  CallContract :: "string \<Rightarrow> call_arg list \<Rightarrow> 'a call_value list res"
  ChainID :: "int res"
  ContractAddressHex :: string

definition toBridgeProposal :: "TransferProposal \<Rightarrow> BridgeProposal" where
  "toBridgeProposal prop =
     \<lparr>OriginDomainID = tp_Source prop, ResourceID = tpd_ResourceId (tp_Data prop),
      DepositNonce = tpd_DepositNonce (tp_Data prop), BridgeData = tpd_Data (tp_Data prop)\<rparr>"

definition Bridge_ExecuteProposal ::
  "('a, 'o) contract \<Rightarrow> TransferProposal \<Rightarrow> bytes \<Rightarrow> 'o \<Rightarrow> string res" where
  "Bridge_ExecuteProposal c proposal signature opts =
     ExecuteTransaction c ''executeProposal'' opts
       [AUint8 (tp_Source proposal), AUint64 (tpd_DepositNonce (tp_Data proposal)),
        AProposalData (tp_Data proposal), ABytes (tpd_ResourceId (tp_Data proposal)), ABytes signature]"

definition Bridge_ExecuteProposals ::
  "('a, 'o) contract \<Rightarrow> TransferProposal list \<Rightarrow> bytes \<Rightarrow> 'o \<Rightarrow> string res" where
  "Bridge_ExecuteProposals c proposals signature opts =
     ExecuteTransaction c ''executeProposals'' opts
       [AProposals (map toBridgeProposal proposals), ABytes signature]"

definition Bridge_ProposalsHash ::
  "eip712 \<Rightarrow> ('a, 'o) contract \<Rightarrow> TransferProposal list \<Rightarrow> bytes res" where
  "Bridge_ProposalsHash lib c proposals =
     and_then (ChainID c) (\<lambda>chainID.
     ProposalsHash lib proposals (int64 chainID) (ContractAddressHex c) bridgeVersion)"

definition Bridge_IsProposalExecuted :: "('a, 'o) contract \<Rightarrow> TransferProposal \<Rightarrow> bool res" where
  "Bridge_IsProposalExecuted c p =
     and_then (CallContract c ''isProposalExecuted''
        [AUint8 (tp_Source p), ABigInt (uint (tpd_DepositNonce (tp_Data p)))]) (\<lambda>res.
     case res of
       VBool b # _ \<Rightarrow> Inr b
     | VAddress _ # _ \<Rightarrow> Inl (Panic ''abi conversion'')
     | [] \<Rightarrow> Inl (Panic ''index out of range''))"

definition Bridge_GetHandlerAddressForResourceID ::
  "('a, 'o) contract \<Rightarrow> bytes32 \<Rightarrow> 'a res" where
  "Bridge_GetHandlerAddressForResourceID c resourceID =
     and_then (CallContract c ''_resourceIDToHandlerAddress'' [ABytes resourceID]) (\<lambda>res.
     case res of
       VAddress a # _ \<Rightarrow> Inr a
     | VBool _ # _ \<Rightarrow> Inl (Panic ''abi conversion'')
     | [] \<Rightarrow> Inl (Panic ''index out of range''))"

definition Bridge_Retry :: "('a, 'o) contract \<Rightarrow> string \<Rightarrow> 'o \<Rightarrow> string res" where
  "Bridge_Retry c hashHex opts = ExecuteTransaction c ''retry'' opts [AString hashHex]"

section \<open>The starting block\<close>

definition CalculateStartingBlock :: "int option \<Rightarrow> int option \<Rightarrow> int res" where
  "CalculateStartingBlock startBlock blockConfirmations =
     (case (startBlock, blockConfirmations) of
        (Some s, Some c) \<Rightarrow>
          if c = 0 then Inl (Panic ''division by zero'') else Inr (s - s mod \<bar>c\<bar>)
      | _ \<Rightarrow> Inl (Error ''startBlock or blockConfirmations can not be nill when calculating CalculateStartingBlock''))"

section \<open>What is signed is what is executed\<close>

lemma formatProposal_eq_iff:
  assumes "inj (HexEncode lib)"
  shows "formatProposal lib p = formatProposal lib q \<longleftrightarrow> toBridgeProposal p = toBridgeProposal q"
proof -
  have "HexEncode lib a = HexEncode lib b \<longleftrightarrow> a = b" for a b
    using assms by (simp add: inj_eq)
  then show ?thesis
    by (auto simp: formatProposal_def toBridgeProposal_def intro: unsigned_word_eqI)
qed

lemma map_formatProposal_eq_iff:
  assumes "inj (HexEncode lib)"
  shows "map (formatProposal lib) ps = map (formatProposal lib) qs
     \<longleftrightarrow> map toBridgeProposal ps = map toBridgeProposal qs"
proof (induction ps arbitrary: qs)
  case (Cons p ps)
  then show ?case by (cases qs) (auto simp: formatProposal_eq_iff [OF assms])
qed auto

text \<open>
  C4. The relayers sign exactly what the bridge contract is asked to execute. The typed
  message that is hashed for a batch determines, and is determined by, the list of bridge
  proposals submitted for that batch, in order; so two batches that submit the same bridge
  proposals have the same hash, and batches that submit different ones hash different
  messages. The hex encoder is assumed to be injective.
\<close>

theorem signed_message_is_executed_message:
  assumes "inj (HexEncode lib)"
  shows "(td_Message (proposalsTypedData lib ps c v b) = td_Message (proposalsTypedData lib qs c v b)
            \<longleftrightarrow> map toBridgeProposal ps = map toBridgeProposal qs) \<and>
         (map toBridgeProposal ps = map toBridgeProposal qs \<longrightarrow>
            ProposalsHash lib ps c v b = ProposalsHash lib qs c v b)"
  by (simp add: map_formatProposal_eq_iff [OF assms, symmetric] proposalsTypedData_def
      ProposalsHash_def)

text \<open>A hasher for examples: it concatenates, and writes one character per byte.\<close>

definition example_eip712 :: eip712 where
  "example_eip712 = \<lparr>HashStruct = (\<lambda>_ _ _. Inr [1]), DomainMap = (\<lambda>_. []), Keccak256 = id,
     HexEncode = map (\<lambda>b. char_of (unat b))\<rparr>"

lemma inj_char_of_byte: "inj (\<lambda>b :: byte. char_of (unat b))"
proof (rule injI)
  fix x y :: byte
  assume "(char_of (unat x) :: char) = char_of (unat y)"
  then have "unat x mod 256 = unat y mod 256"
    by (metis of_char_of)
  then show "x = y"
    using unat_byte_less [of x] unat_byte_less [of y] by (simp add: unat_eq_iff_byte)
qed

definition example_proposal :: "uint64 \<Rightarrow> metadata \<Rightarrow> TransferProposal" where
  "example_proposal nonce md =
     \<lparr>tp_Source = 1, tp_Destination = 2,
      tp_Data = \<lparr>tpd_DepositNonce = nonce, tpd_ResourceId = replicate 32 3, tpd_Metadata = md,
                 tpd_Data = [1, 2, 3]\<rparr>,
      tp_Type = TransferProposalType, tp_MessageID = ''1-2-7-7''\<rparr>"

theorem signed_message_is_executed_message_witness:
  "td_Message (proposalsTypedData example_eip712 [example_proposal 5 []] 1 ''0x'' bridgeVersion)
     \<noteq> td_Message (proposalsTypedData example_eip712 [example_proposal 6 []] 1 ''0x'' bridgeVersion) \<and>
   ProposalsHash example_eip712 [example_proposal 5 []] 1 ''0x'' bridgeVersion =
     ProposalsHash example_eip712 [example_proposal 5 [(''gasLimit'', IUint64 9)]] 1 ''0x'' bridgeVersion"
proof -
  have inj: "inj (HexEncode example_eip712)"
    by (simp add: example_eip712_def inj_char_of_byte)
  show ?thesis
    using signed_message_is_executed_message
        [OF inj, of "[example_proposal 5 []]" 1 "''0x''" bridgeVersion "[example_proposal 6 []]"]
      signed_message_is_executed_message
        [OF inj, of "[example_proposal 5 []]" 1 "''0x''" bridgeVersion
           "[example_proposal 5 [(''gasLimit'', IUint64 9)]]"]
    by (simp add: toBridgeProposal_def example_proposal_def)
qed

text \<open>
  Aligning the starting block never skips a block: the result is the largest multiple
  of the interval that is not above the configured block, so it lies less than one interval
  below it.
\<close>

theorem starting_block_aligned:
  assumes "0 < c"
  shows "\<exists>b. CalculateStartingBlock (Some s) (Some c) = Inr b \<and> c dvd b \<and> b \<le> s \<and> s < b + c"
  using assms pos_mod_bound [of c s] pos_mod_sign [of c s]
  by (intro exI [of _ "s - s mod c"]) (simp add: CalculateStartingBlock_def dvd_minus_mod)

theorem starting_block_aligned_witness:
  "\<exists>b. CalculateStartingBlock (Some 104) (Some 5) = Inr b \<and> 5 dvd b \<and> b \<le> 104 \<and> 104 < b + 5"
  using starting_block_aligned [of 5 104] by simp

end
