(* ===== verification/Evm_Executor.thy ===== *)
theory Evm_Executor
  imports Evm_Deposit_Handlers Chains_Common
begin

text \<open>
  The EVM executor (\<open>chains/evm/executor/executor.go\<close>): it groups the proposals that are not
  executed yet into batches, has each batch signed in a session of its own and watches
  until the batch is executed. The bridge contract, the signing processes and the
  coordinator are arguments; the select loop of \<open>watchExecution\<close> is a function of the
  sequence of events the loop receives.
\<close>

section \<open>Batches\<close>

record Batch =
  b_proposals :: "TransferProposal list"
  b_gasLimit :: uint64

definition toTransferProposal :: "proposal \<Rightarrow> TransferProposal res" where
  "toTransferProposal prop =
     and_then (asTransferProposalData (p_Data prop)) (\<lambda>d.
     Inr \<lparr>tp_Source = p_Source prop, tp_Destination = p_Destination prop, tp_Data = d,
          tp_Type = p_Type prop, tp_MessageID = p_MessageID prop\<rparr>)"

definition propGasLimit :: "uint64 \<Rightarrow> TransferProposal \<Rightarrow> uint64 res" where
  "propGasLimit transferGasCost prop =
     (case map_of (tpd_Metadata (tp_Data prop)) ''gasLimit'' of
        None \<Rightarrow> Inr transferGasCost
      | Some (IUint64 l) \<Rightarrow> Inr (l + transferGasCost)
      | Some _ \<Rightarrow> Inl conversion_panic)"

definition emptyBatch :: Batch where
  "emptyBatch = \<lparr>b_proposals = [], b_gasLimit = 0\<rparr>"

text \<open>The loop body for one proposal: the batches closed by it and the current batch after it.\<close>

definition batch_step ::
  "(TransferProposal \<Rightarrow> bool res) \<Rightarrow> uint64 \<Rightarrow> uint64 \<Rightarrow> Batch \<Rightarrow> proposal \<Rightarrow> (Batch list \<times> Batch) res" where
  "batch_step IsProposalExecuted transferGasCost transactionMaxGas currentBatch prop =
     and_then (toTransferProposal prop) (\<lambda>transferProposal.
     and_then (IsProposalExecuted transferProposal) (\<lambda>isExecuted.
     if isExecuted then Inr ([], currentBatch)
     else
       and_then (propGasLimit transferGasCost transferProposal) (\<lambda>gas.
       let charged = currentBatch\<lparr>b_gasLimit := b_gasLimit currentBatch + gas\<rparr> in
       if transactionMaxGas \<le> b_gasLimit charged
       then Inr ([charged], emptyBatch\<lparr>b_proposals := [transferProposal]\<rparr>)
       else Inr ([], charged\<lparr>b_proposals := b_proposals charged @ [transferProposal]\<rparr>))))"

fun batch_loop ::
  "(TransferProposal \<Rightarrow> bool res) \<Rightarrow> uint64 \<Rightarrow> uint64 \<Rightarrow> Batch \<Rightarrow> proposal list \<Rightarrow> Batch list res" where
  "batch_loop IsProposalExecuted cost maxGas cur [] = Inr [cur]"
| "batch_loop IsProposalExecuted cost maxGas cur (prop # props) =
     and_then (batch_step IsProposalExecuted cost maxGas cur prop) (\<lambda>(closed, cur').
     and_then (batch_loop IsProposalExecuted cost maxGas cur' props) (\<lambda>batches.
     Inr (closed @ batches)))"

definition proposalBatches ::
  "(TransferProposal \<Rightarrow> bool res) \<Rightarrow> uint64 \<Rightarrow> uint64 \<Rightarrow> proposal list \<Rightarrow> Batch list res" where
  "proposalBatches IsProposalExecuted transferGasCost transactionMaxGas proposals =
     batch_loop IsProposalExecuted transferGasCost transactionMaxGas emptyBatch proposals"

fun areProposalsExecuted :: "(TransferProposal \<Rightarrow> bool res) \<Rightarrow> TransferProposal list \<Rightarrow> bool" where
  "areProposalsExecuted IsProposalExecuted [] = True"
| "areProposalsExecuted IsProposalExecuted (prop # props) =
     (case IsProposalExecuted prop of
        Inr True \<Rightarrow> areProposalsExecuted IsProposalExecuted props
      | _ \<Rightarrow> False)"

section \<open>Submitting a batch\<close>

record SignatureData =
  sd_R :: bytes
  sd_S :: bytes
  sd_SignatureRecovery :: bytes

definition batchSignature :: "(bytes \<Rightarrow> nat \<Rightarrow> bytes) \<Rightarrow> SignatureData \<Rightarrow> bytes res" where
  "batchSignature LeftPad sd =
     (let sig = LeftPad (sd_R sd) 32 @ LeftPad (sd_S sd) 32 @ sd_SignatureRecovery sd in
      if sig = [] then Inl (Panic ''index out of range'')
      else Inr (butlast sig @ [last sig + 27]))"

definition executeBatch ::
  "(bytes \<Rightarrow> nat \<Rightarrow> bytes) \<Rightarrow> (TransferProposal list \<Rightarrow> bytes \<Rightarrow> uint64 \<Rightarrow> string res) \<Rightarrow>
   Batch \<Rightarrow> SignatureData \<Rightarrow> string res" where
  "executeBatch LeftPad ExecuteProposals batch signatureData =
     and_then (batchSignature LeftPad signatureData) (\<lambda>sig.
     ExecuteProposals (b_proposals batch) sig (b_gasLimit batch))"

section \<open>Watching a session\<close>

text \<open>
  What the select loop receives: a signature (or nil) with the answer the bridge gives if a
  batch is submitted then, a tick of the execution check with what the bridge answers at
  that moment, the signing timeout, or the cancellation of the context.
\<close>

datatype watch_event =
    SigResult "SignatureData option" "TransferProposal list \<Rightarrow> bytes \<Rightarrow> uint64 \<Rightarrow> string res"
  | Ticker "TransferProposal \<Rightarrow> bool res"
  | Timeout
  | CtxDone

datatype watch_action =
    CancelExecution
  | Submit "TransferProposal list" bytes uint64
  | BroadcastTssFail string

text \<open>
  The result is \<open>None\<close> while the loop is still waiting. Leaving the function runs the
  deferred \<open>cancelExecution\<close>.
\<close>

fun watchExecution ::
  "(bytes \<Rightarrow> nat \<Rightarrow> bytes) \<Rightarrow> Batch \<Rightarrow> string \<Rightarrow> watch_event list \<Rightarrow> unit res option \<times> watch_action list"
where
  "watchExecution LeftPad batch sessionID [] = (None, [])"
| "watchExecution LeftPad batch sessionID (SigResult None bridge # es) =
     (let (r, acts) = watchExecution LeftPad batch sessionID es in (r, CancelExecution # acts))"
| "watchExecution LeftPad batch sessionID (SigResult (Some sd) bridge # es) =
     (case batchSignature LeftPad sd of
        Inl e \<Rightarrow> (Some (Inl e), [CancelExecution, CancelExecution])
      | Inr sig \<Rightarrow>
     (case executeBatch LeftPad bridge batch sd of
        Inl err \<Rightarrow> (Some (Inl err),
          [CancelExecution, Submit (b_proposals batch) sig (b_gasLimit batch),
           BroadcastTssFail sessionID, CancelExecution])
      | Inr hash \<Rightarrow>
          (let (r, acts) = watchExecution LeftPad batch sessionID es
           in (r, CancelExecution # Submit (b_proposals batch) sig (b_gasLimit batch) # acts))))"
| "watchExecution LeftPad batch sessionID (Ticker isExecuted # es) =
     (if areProposalsExecuted isExecuted (b_proposals batch) then (Some (Inr ()), [CancelExecution])
      else watchExecution LeftPad batch sessionID es)"
| "watchExecution LeftPad batch sessionID (Timeout # es) =
     (Some (Inl (Error ''execution timed out in 30m0s'')), [CancelExecution])"
| "watchExecution LeftPad batch sessionID (CtxDone # es) = (Some (Inr ()), [CancelExecution])"

section \<open>Executing proposals\<close>

record SigningSession =
  ss_msg :: nat
  ss_messageID :: string
  ss_sessionID :: string
  ss_batch :: Batch

text \<open>
  The sessions the loop over the batches starts. Each runs in a goroutine of its own, so an
  error in one does not stop the others. \<open>NewSigning\<close> may refuse.
\<close>

definition batch_session ::
  "(TransferProposal list \<Rightarrow> bytes res) \<Rightarrow> (SigningSession \<Rightarrow> unit res) \<Rightarrow> nat \<Rightarrow> Batch \<Rightarrow> SigningSession res" where
  "batch_session hash NewSigning i batch =
     (let messageID = tp_MessageID (hd (b_proposals batch)) in
      and_then (hash (b_proposals batch)) (\<lambda>propHash.
      let session = \<lparr>ss_msg = SetBytes propHash, ss_messageID = messageID,
            ss_sessionID = messageID @ ''-'' @ dec i, ss_batch = batch\<rparr> in
      and_then (NewSigning session) (\<lambda>_. Inr session)))"

fun sessions_from ::
  "(TransferProposal list \<Rightarrow> bytes res) \<Rightarrow> (SigningSession \<Rightarrow> unit res) \<Rightarrow> nat \<Rightarrow> Batch list \<Rightarrow>
   SigningSession res list" where
  "sessions_from hash NewSigning i [] = []"
| "sessions_from hash NewSigning i (batch # batches) =
     (if b_proposals batch = [] then sessions_from hash NewSigning (Suc i) batches
      else batch_session hash NewSigning i batch # sessions_from hash NewSigning (Suc i) batches)"

text \<open>
  \<open>Execute\<close>: the result of every goroutine, given what the coordinator and the watcher of a
  session return together.
\<close>

definition Executor_Execute ::
  "(TransferProposal \<Rightarrow> bool res) \<Rightarrow> (TransferProposal list \<Rightarrow> bytes res) \<Rightarrow>
   (SigningSession \<Rightarrow> unit res) \<Rightarrow> (SigningSession \<Rightarrow> unit res) \<Rightarrow> uint64 \<Rightarrow> uint64 \<Rightarrow> proposal list
   \<Rightarrow> unit res list res" where
  "Executor_Execute IsProposalExecuted hash NewSigning runSession transferGasCost transactionMaxGas
       proposals =
     and_then (proposalBatches IsProposalExecuted transferGasCost transactionMaxGas proposals)
       (\<lambda>batches. Inr (map (\<lambda>s. and_then s runSession) (sessions_from hash NewSigning 0 batches)))"

section \<open>Batching partitions the open proposals\<close>

text \<open>The proposals of a request that the bridge reports as not executed, in order.\<close>

definition open_proposals :: "(TransferProposal \<Rightarrow> bool res) \<Rightarrow> proposal list \<Rightarrow> TransferProposal list" where
  "open_proposals I props = filter (\<lambda>p. I p = Inr False) (map (projr \<circ> toTransferProposal) props)"

text \<open>A proposal the loop can process: its data, its status and its gas limit can be read.\<close>

definition readable_proposal :: "(TransferProposal \<Rightarrow> bool res) \<Rightarrow> proposal \<Rightarrow> bool" where
  "readable_proposal I prop =
     (case toTransferProposal prop of
        Inl _ \<Rightarrow> False
      | Inr p \<Rightarrow> (case I p of
          Inl _ \<Rightarrow> False
        | Inr executed \<Rightarrow> executed \<or> is_ok (propGasLimit 0 p)))"

lemma propGasLimit_ok_iff: "is_ok (propGasLimit c p) \<longleftrightarrow> is_ok (propGasLimit 0 p)"
  by (simp add: propGasLimit_def split: option.splits iface.splits)

lemma batch_step_ok_iff: "is_ok (batch_step I c m cur prop) \<longleftrightarrow> readable_proposal I prop"
proof (cases "toTransferProposal prop")
  case (Inr p)
  then show ?thesis
    by (cases "I p"; cases "propGasLimit c p")
      (use propGasLimit_ok_iff [of c p] in
        \<open>auto simp: batch_step_def readable_proposal_def Let_def\<close>)
qed (simp add: batch_step_def readable_proposal_def)

lemma batch_loop_ok_iff: "is_ok (batch_loop I c m cur props) \<longleftrightarrow> (\<forall>prop \<in> set props. readable_proposal I prop)"
proof (induction props arbitrary: cur)
  case (Cons q props)
  show ?case
  proof (cases "batch_step I c m cur q")
    case (Inl e)
    then show ?thesis using batch_step_ok_iff [of I c m cur q] by simp
  next
    case (Inr x)
    then obtain closed cur' where x: "x = (closed, cur')" by (cases x)
    with Inr have "readable_proposal I q" using batch_step_ok_iff [of I c m cur q] by simp
    with Inr x Cons [of cur'] show ?thesis
      by (cases "batch_loop I c m cur' props") simp_all
  qed
qed simp

lemma batch_step_cases:
  assumes "batch_step I c m cur prop = Inr (closed, cur')"
  obtains (skip) p where "toTransferProposal prop = Inr p" "I p = Inr True" "closed = []" "cur' = cur"
  | (add) p gas where "toTransferProposal prop = Inr p" "I p = Inr False" "propGasLimit c p = Inr gas"
      "b_gasLimit cur + gas < m" "closed = []"
      "cur' = \<lparr>b_proposals = b_proposals cur @ [p], b_gasLimit = b_gasLimit cur + gas\<rparr>"
  | (close) p gas where "toTransferProposal prop = Inr p" "I p = Inr False" "propGasLimit c p = Inr gas"
      "m \<le> b_gasLimit cur + gas" "closed = [cur\<lparr>b_gasLimit := b_gasLimit cur + gas\<rparr>]"
      "cur' = \<lparr>b_proposals = [p], b_gasLimit = 0\<rparr>"
proof -
  from assms obtain p e where p: "toTransferProposal prop = Inr p" "I p = Inr e"
    by (auto simp: batch_step_def)
  show thesis
  proof (cases e)
    case True
    with assms p show thesis by (intro skip) (auto simp: batch_step_def)
  next
    case False
    with assms p obtain gas where g: "propGasLimit c p = Inr gas" by (auto simp: batch_step_def)
    show thesis
    proof (cases "m \<le> b_gasLimit cur + gas")
      case True
      with assms p g False show thesis by (intro close) (auto simp: batch_step_def emptyBatch_def)
    next
      case small: False
      with assms p g False show thesis by (intro add) (auto simp: batch_step_def not_le)
    qed
  qed
qed

lemma batch_loop_Cons_cases:
  assumes "batch_loop I c m cur (prop # props) = Inr bs"
  obtains closed cur' bs' where "batch_step I c m cur prop = Inr (closed, cur')"
    "batch_loop I c m cur' props = Inr bs'" "bs = closed @ bs'"
  using assms that by auto

lemma batch_loop_concat:
  "batch_loop I c m cur props = Inr bs \<Longrightarrow>
   concat (map b_proposals bs) = b_proposals cur @ open_proposals I props"
proof (induction props arbitrary: cur bs)
  case (Cons q props)
  from Cons.prems show ?case
  proof (cases rule: batch_loop_Cons_cases)
    case (1 closed cur' bs')
    from 1(1) show ?thesis
      by (cases rule: batch_step_cases) (use 1 Cons.IH in \<open>auto simp: open_proposals_def\<close>)
  qed
qed (simp add: open_proposals_def)

lemma batch_loop_nonempty:
  "batch_loop I c m cur props = Inr bs \<Longrightarrow>
   \<exists>b bs'. bs = b # bs' \<and> (b_proposals cur \<noteq> [] \<longrightarrow> b_proposals b \<noteq> []) \<and> (\<forall>b' \<in> set bs'. b_proposals b' \<noteq> [])"
proof (induction props arbitrary: cur bs)
  case (Cons q props)
  from Cons.prems show ?case
  proof (cases rule: batch_loop_Cons_cases)
    case (1 closed cur' bs')
    from 1(1) show ?thesis
      by (cases rule: batch_step_cases) (use 1 Cons.IH [OF 1(2)] in auto)
  qed
qed simp

text \<open>
  C5. Batching is a partition: it succeeds exactly when the status and the gas limit of
  every proposal can be read, and then the batches, put one after the other, are the
  proposals that are not executed yet, each once and in the order of the request; only the
  first batch can be empty.
\<close>

theorem batches_partition_open_proposals:
  "is_ok (proposalBatches I c m props) = (\<forall>prop \<in> set props. readable_proposal I prop) \<and>
   (\<forall>bs. proposalBatches I c m props = Inr bs \<longrightarrow>
      concat (map b_proposals bs) = open_proposals I props \<and>
      (\<forall>b \<in> set (tl bs). b_proposals b \<noteq> []))"
  using batch_loop_concat [of I c m emptyBatch props] batch_loop_nonempty [of I c m emptyBatch props]
  by (auto simp: proposalBatches_def batch_loop_ok_iff emptyBatch_def dest: spec)

definition example_open :: "uint64 \<Rightarrow> proposal" where
  "example_open nonce = NewProposal 1 2 (PTransfer (tp_Data (example_proposal nonce []))) ''1-2-7-7'' TransferProposalType"

theorem batches_partition_open_proposals_witness:
  "\<exists>bs. proposalBatches (\<lambda>p. Inr (tpd_DepositNonce (tp_Data p) = 2)) 60 100 [example_open 1, example_open 2, example_open 3] = Inr bs \<and>
     concat (map b_proposals bs) = [example_proposal 1 [], example_proposal 3 []]"
proof -
  let ?I = "\<lambda>p. Inr (tpd_DepositNonce (tp_Data p) = 2) :: bool res"
  let ?ps = "[example_open 1, example_open 2, example_open 3]"
  have ok: "is_ok (proposalBatches ?I 60 100 ?ps)"
    by (simp add: proposalBatches_def batch_step_def emptyBatch_def example_open_def NewProposal_def
        toTransferProposal_def propGasLimit_def example_proposal_def)
  have "open_proposals ?I ?ps = [example_proposal 1 [], example_proposal 3 []]"
    by (simp add: open_proposals_def example_open_def NewProposal_def toTransferProposal_def example_proposal_def)
  with ok batches_partition_open_proposals [of ?I 60 100 ?ps] show ?thesis
    by (cases "proposalBatches ?I 60 100 ?ps") auto
qed

section \<open>Gas accounting\<close>

definition gasOf :: "uint64 \<Rightarrow> TransferProposal \<Rightarrow> uint64" where
  "gasOf c p = projr (propGasLimit c p)"

lemma gasOf_Inr: "propGasLimit c p = Inr gas \<Longrightarrow> gasOf c p = gas"
  by (simp add: gasOf_def)

fun gas_accounting :: "uint64 \<Rightarrow> uint64 \<Rightarrow> bool \<Rightarrow> Batch list \<Rightarrow> bool" where
  "gas_accounting c m first [] = True"
| "gas_accounting c m first [b] =
     (b_gasLimit b = sum_list (map (gasOf c) (if first then b_proposals b else tl (b_proposals b))))"
| "gas_accounting c m first (b # b' # bs) =
     (b_gasLimit b = sum_list (map (gasOf c) (if first then b_proposals b else tl (b_proposals b)))
        + gasOf c (hd (b_proposals b')) \<and>
      m \<le> b_gasLimit b \<and> gas_accounting c m False (b' # bs))"

lemma batch_loop_gas:
  "batch_loop I c m cur props = Inr bs \<Longrightarrow>
   b_gasLimit cur = sum_list (map (gasOf c) (if first then b_proposals cur else tl (b_proposals cur))) \<Longrightarrow>
   first \<or> b_proposals cur \<noteq> [] \<Longrightarrow>
   gas_accounting c m first bs \<and> (b_proposals cur \<noteq> [] \<longrightarrow> hd (b_proposals (hd bs)) = hd (b_proposals cur))"
proof (induction props arbitrary: cur bs first)
  case (Cons q props)
  from Cons.prems(1) show ?case
  proof (cases rule: batch_loop_Cons_cases)
    case (1 closed cur' bs')
    from 1(1) show ?thesis
    proof (cases rule: batch_step_cases)
      case (skip p)
      with 1 Cons show ?thesis by simp
    next
      case (add p gas)
      then show ?thesis using 1 Cons.IH [OF 1(2), of first] Cons.prems(2,3)
        by (auto simp: gasOf_Inr)
    next
      case (close p gas)
      then have "gas_accounting c m False bs' \<and> hd (b_proposals (hd bs')) = p"
        using Cons.IH [OF 1(2), of False] by simp
      moreover obtain b bs'' where "bs' = b # bs''" using batch_loop_nonempty [OF 1(2)] by auto
      ultimately show ?thesis using close 1 Cons.prems(2) by (simp add: gasOf_Inr)
    qed
  qed
qed auto

text \<open>
  How the gas limits of the batches come about. The proposal that makes a batch reach
  the maximum is moved to the next batch, but its gas stays charged to the batch it left:
  every batch that is not the last one carries the gas of its own proposals and of the
  first proposal of the next batch, and this is at least the transaction maximum; every
  batch after the first lacks the gas of its own first proposal.
\<close>

theorem batch_gas_limits:
  assumes "proposalBatches I c m props = Inr bs"
  shows "gas_accounting c m True bs"
  using batch_loop_gas [OF assms [unfolded proposalBatches_def], of True]
  by (simp add: emptyBatch_def)

theorem batch_gas_limits_witness:
  "map (length \<circ> b_proposals) (projr (proposalBatches (\<lambda>_. Inr False) 60 100 [example_open 1, example_open 2])) = [1, 1] \<and>
   map b_gasLimit (projr (proposalBatches (\<lambda>_. Inr False) 60 100 [example_open 1, example_open 2])) = [120, 0] \<and>
   gas_accounting 60 100 True (projr (proposalBatches (\<lambda>_. Inr False) 60 100 [example_open 1, example_open 2]))"
proof -
  let ?p = "\<lambda>n. example_proposal n []"
  have r: "proposalBatches (\<lambda>_. Inr False) 60 100 [example_open 1, example_open 2]
     = Inr [\<lparr>b_proposals = [?p 1], b_gasLimit = 120\<rparr>, \<lparr>b_proposals = [?p 2], b_gasLimit = 0\<rparr>]"
    by (simp add: proposalBatches_def batch_step_def emptyBatch_def example_open_def NewProposal_def
        toTransferProposal_def propGasLimit_def example_proposal_def)
  from batch_gas_limits [OF r] show ?thesis unfolding r by simp
qed

section \<open>Submission\<close>

lemma batchSignature_layout:
  assumes "length (sd_R sd) \<le> 32" "length (sd_S sd) \<le> 32" "sd_SignatureRecovery sd = [v]"
  shows "batchSignature left_pad sd = Inr (left_pad (sd_R sd) 32 @ left_pad (sd_S sd) 32 @ [v + 27])"
  using assms by (simp add: batchSignature_def butlast_append)

text \<open>
  A batch is submitted with the 65-byte signature the contract expects: \<open>R\<close> and \<open>S\<close> in
  32 bytes each and the recovery id 0 or 1 as 27 or 28, together with the batch's own
  proposals and gas limit.
\<close>

theorem execute_batch_signature:
  assumes "pads_left lib" "length (sd_R sd) \<le> 32" "length (sd_S sd) \<le> 32"
    and "sd_SignatureRecovery sd = [v]" "v = 0 \<or> v = 1"
  shows "\<exists>sig. executeBatch (LeftPadBytes lib) submit batch sd = submit (b_proposals batch) sig (b_gasLimit batch)
     \<and> length sig = 65 \<and> SetBytes (take 32 sig) = SetBytes (sd_R sd)
     \<and> SetBytes (take 32 (drop 32 sig)) = SetBytes (sd_S sd) \<and> sig ! 64 = (if v = 0 then 27 else 28)"
proof -
  have r: "length (left_pad (sd_R sd) 32) = 32" "length (left_pad (sd_S sd) 32) = 32"
    using assms by simp_all
  then show ?thesis using assms batchSignature_layout [OF assms(2-4)]
    by (intro exI [of _ "left_pad (sd_R sd) 32 @ left_pad (sd_S sd) 32 @ [v + 27]"])
      (auto simp: executeBatch_def pads_left_def nth_append)
qed

definition example_signature :: SignatureData where
  "example_signature = \<lparr>sd_R = replicate 31 5, sd_S = replicate 32 6, sd_SignatureRecovery = [1]\<rparr>"

theorem execute_batch_signature_witness:
  "\<exists>sig. executeBatch (LeftPadBytes \<lparr>LeftPadBytes = left_pad, NewType = (\<lambda>_. Inr ()), UnpackValues = (\<lambda>_ _. Inr []),
            PackValues = (\<lambda>_ _. Inr [])\<rparr>) (\<lambda>ps s g. Inr ''0x1'') emptyBatch example_signature = Inr ''0x1''
     \<and> length sig = 65 \<and> SetBytes (take 32 sig) = SetBytes (replicate 31 5)
     \<and> SetBytes (take 32 (drop 32 sig)) = SetBytes (replicate 32 6) \<and> sig ! 64 = 28"
  using execute_batch_signature [of "\<lparr>LeftPadBytes = left_pad, NewType = (\<lambda>_. Inr ()),
      UnpackValues = (\<lambda>_ _. Inr []), PackValues = (\<lambda>_ _. Inr [])\<rparr>" example_signature 1
      "\<lambda>ps s g. Inr ''0x1''" emptyBatch]
  by (simp add: example_signature_def pads_left_def)

section \<open>Watching\<close>

lemma areProposalsExecuted_iff: "areProposalsExecuted f ps \<longleftrightarrow> (\<forall>p \<in> set ps. f p = Inr True)"
  by (induction f ps rule: areProposalsExecuted.induct) (auto split: sum.splits bool.splits)

lemma executeBatch_signed:
  "batchSignature lp sd = Inr sig \<Longrightarrow>
   executeBatch lp submit b sd = submit (b_proposals b) sig (b_gasLimit b)"
  by (simp add: executeBatch_def)

lemma watch_submissions:
  "Submit ps sig g \<in> set (snd (watchExecution lp b s es)) \<Longrightarrow>
   ps = b_proposals b \<and> g = b_gasLimit b \<and>
   (\<exists>sd br. SigResult (Some sd) br \<in> set es \<and> batchSignature lp sd = Inr sig)"
proof (induction lp b s es rule: watchExecution.induct)
  case (3 lp b s sd br es)
  show ?case
  proof (cases "batchSignature lp sd")
    case (Inl e)
    with 3 show ?thesis by simp
  next
    case sig: (Inr x)
    show ?thesis
    proof (cases "br (b_proposals b) x (b_gasLimit b)")
      case (Inl e)
      with 3 sig show ?thesis by (auto simp: executeBatch_signed)
    next
      case (Inr h)
      then have run: "executeBatch lp br b sd = Inr h" using sig by (simp add: executeBatch_signed)
      have "snd (watchExecution lp b s (SigResult (Some sd) br # es))
         = CancelExecution # Submit (b_proposals b) x (b_gasLimit b) # snd (watchExecution lp b s es)"
        using run sig by (simp add: case_prod_beta)
      with 3(2) consider "Submit ps sig g = Submit (b_proposals b) x (b_gasLimit b)"
        | "Submit ps sig g \<in> set (snd (watchExecution lp b s es))" by auto
      then show ?thesis
      proof cases
        case 1
        with sig show ?thesis by auto
      next
        case 2
        with 3(1) [OF sig run] show ?thesis by auto
      qed
    qed
  qed
qed (auto split: prod.splits if_splits)

lemma watch_returns:
  "watchExecution lp b s es = (r, acts) \<Longrightarrow>
   (r = Some (Inr ()) \<longrightarrow> CtxDone \<in> set es \<or>
      (\<exists>f. Ticker f \<in> set es \<and> (\<forall>p \<in> set (b_proposals b). f p = Inr True))) \<and>
   (Timeout \<in> set es \<longrightarrow> r \<noteq> None) \<and>
   (\<forall>x. BroadcastTssFail x \<in> set acts \<longrightarrow> x = s \<and> (\<exists>e. r = Some (Inl e)))"
proof (induction lp b s es arbitrary: r acts rule: watchExecution.induct)
  case (3 lp b s sd br es)
  show ?case
  proof (cases "batchSignature lp sd")
    case (Inl e)
    with 3 show ?thesis by auto
  next
    case sig: (Inr x)
    show ?thesis
    proof (cases "br (b_proposals b) x (b_gasLimit b)")
      case (Inl e)
      with 3 sig show ?thesis by (auto simp: executeBatch_signed)
    next
      case (Inr h)
      with 3 sig show ?thesis by (auto simp: executeBatch_signed split: prod.splits)
    qed
  qed
next
  case (4 lp b s f es)
  then show ?case
    by (auto simp: areProposalsExecuted_iff split: if_splits)
qed (auto split: prod.splits)

text \<open>A watcher that still waits goes on with the next events.\<close>

lemma watch_append:
  "fst (watchExecution lp b s es) = None \<Longrightarrow>
   watchExecution lp b s (es @ fs) = (fst (watchExecution lp b s fs), snd (watchExecution lp b s es) @ snd (watchExecution lp b s fs))"
proof (induction lp b s es rule: watchExecution.induct)
  case (3 lp b s sd br es)
  then show ?case
    by (cases "batchSignature lp sd"; cases "executeBatch lp br b sd") (auto simp: case_prod_beta)
qed (auto simp: case_prod_beta split: if_splits)

lemma watch_submits_signature:
  assumes "fst (watchExecution lp b s pre) = None" "batchSignature lp sd = Inr sig"
  shows "Submit (b_proposals b) sig (b_gasLimit b) \<in> set (snd (watchExecution lp b s (pre @ SigResult (Some sd) br # post)))"
  using assms by (cases "executeBatch lp br b sd") (auto simp: watch_append case_prod_beta)

text \<open>
  C7. The watcher of a session submits nothing but its own batch, each time with a
  signature that arrived on the session's channel, and it does submit when a signature arrives while
  it waits; it reports success only if the bridge
  confirmed every proposal of the batch at one check, or if the session was cancelled; the
  signing timeout always ends it; and it announces a failure to the other relayers, for
  its own session only, exactly when it then returns an error.
\<close>

theorem watch_execution_safe:
  assumes "watchExecution lp b s es = (r, acts)"
  shows "(\<forall>ps sig g. Submit ps sig g \<in> set acts \<longrightarrow> ps = b_proposals b \<and> g = b_gasLimit b \<and>
            (\<exists>sd br. SigResult (Some sd) br \<in> set es \<and> batchSignature lp sd = Inr sig)) \<and>
         (\<forall>pre sd br post sig. es = pre @ SigResult (Some sd) br # post \<longrightarrow> fst (watchExecution lp b s pre) = None \<longrightarrow>
            batchSignature lp sd = Inr sig \<longrightarrow> Submit (b_proposals b) sig (b_gasLimit b) \<in> set acts) \<and>
         (r = Some (Inr ()) \<longrightarrow> CtxDone \<in> set es \<or>
            (\<exists>f. Ticker f \<in> set es \<and> (\<forall>p \<in> set (b_proposals b). f p = Inr True))) \<and>
         (Timeout \<in> set es \<longrightarrow> r \<noteq> None) \<and>
         (\<forall>x. BroadcastTssFail x \<in> set acts \<longrightarrow> x = s \<and> (\<exists>e. r = Some (Inl e)))"
proof -
  have "Submit (b_proposals b) sig (b_gasLimit b) \<in> set acts"
    if "es = pre @ SigResult (Some sd) br # post" "fst (watchExecution lp b s pre) = None" "batchSignature lp sd = Inr sig"
    for pre sd br post sig
    using watch_submits_signature [OF that(2,3), of br post] assms that(1) by simp
  with watch_submissions [of _ _ _ lp b s es] watch_returns [OF assms] assms show ?thesis by simp
qed

theorem watch_execution_safe_witness:
  "\<exists>r acts. watchExecution left_pad emptyBatch ''s''
      [SigResult None (\<lambda>_ _ _. Inr []), SigResult (Some example_signature) (\<lambda>_ _ _. Inl (Error ''rejected''))] = (r, acts)
    \<and> BroadcastTssFail ''s'' \<in> set acts \<and> (\<exists>e. r = Some (Inl e))"
proof -
  let ?es = "[SigResult None (\<lambda>_ _ _. Inr []),
     SigResult (Some example_signature) (\<lambda>_ _ _. Inl (Error ''rejected''))]"
  obtain r acts where w: "watchExecution left_pad emptyBatch ''s'' ?es = (r, acts)"
    by (cases "watchExecution left_pad emptyBatch ''s'' ?es")
  moreover have "BroadcastTssFail ''s'' \<in> set acts"
    using w batchSignature_layout [of example_signature 1]
    by (auto simp: example_signature_def executeBatch_def)
  ultimately show ?thesis using watch_execution_safe [OF w] by blast
qed

section \<open>Sessions\<close>

definition session_batches :: "nat \<Rightarrow> Batch list \<Rightarrow> (nat \<times> Batch) list" where
  "session_batches i bs = filter (\<lambda>(j, b). b_proposals b \<noteq> []) (zip [i..<i + length bs] bs)"

lemma sessions_from_eq:
  "sessions_from hash new i bs = map (\<lambda>(j, b). batch_session hash new j b) (session_batches i bs)"
proof (induction bs arbitrary: i)
  case (Cons b bs)
  have "[i..<i + length (b # bs)] = i # [Suc i..<Suc i + length bs]"
    using upt_conv_Cons [of i "i + Suc (length bs)"] by simp
  with Cons show ?case by (simp add: session_batches_def)
qed (simp add: session_batches_def)

lemma batch_session_Inr:
  "batch_session hash new i b = Inr s \<Longrightarrow>
   ss_sessionID s = ss_messageID s @ ''-'' @ dec i \<and> ss_batch s = b \<and>
   (\<exists>h. hash (b_proposals b) = Inr h \<and> ss_msg s = SetBytes h)"
  by (auto simp: batch_session_def Let_def)

lemma session_batches_index:
  "sorted_wrt (<) (map fst (session_batches i bs))"
proof -
  have "sorted_wrt (<) (map fst (zip [i..<i + length bs] bs))"
    by (simp add: sorted_wrt_upt)
  then show ?thesis
    unfolding session_batches_def sorted_wrt_map by (rule sorted_wrt_filter)
qed

lemma session_ids_distinct:
  assumes "sessions_from hash new i bs = map Inr ss"
  shows "distinct (map ss_sessionID ss) \<and> map ss_batch ss = map snd (session_batches i bs)"
proof -
  let ?jb = "session_batches i bs"
  have len: "length ss = length ?jb"
    using arg_cong [OF assms, of length] by (simp add: sessions_from_eq)
  have s: "ss_sessionID (ss ! k) = ss_messageID (ss ! k) @ ''-'' @ dec (fst (?jb ! k)) \<and>
      ss_batch (ss ! k) = snd (?jb ! k)" if "k < length ss" for k
    using arg_cong [OF assms, of "\<lambda>xs. xs ! k"] that len batch_session_Inr [of hash new "fst (?jb ! k)" "snd (?jb ! k)" "ss ! k"]
    by (simp add: sessions_from_eq case_prod_beta)
  have lt: "fst (?jb ! j) < fst (?jb ! k)" if "j < k" "k < length ss" for j k
    using session_batches_index [of i bs] that len
    by (simp add: sorted_wrt_iff_nth_less)
  have ids: "fst (?jb ! j) = fst (?jb ! k)"
    if "j < length ss" "k < length ss" "ss_sessionID (ss ! j) = ss_sessionID (ss ! k)" for j k
  proof -
    have "ss_messageID (ss ! j) @ CHR ''-'' # dec (fst (?jb ! j)) = ss_messageID (ss ! k) @ CHR ''-'' # dec (fst (?jb ! k))"
      using s [OF that(1)] s [OF that(2)] that(3) by simp
    from dec_suffix_inj [OF this] show ?thesis by simp
  qed
  have "distinct (map ss_sessionID ss)"
    unfolding distinct_conv_nth
  proof (intro allI impI notI)
    fix j k
    assume jk: "j < length (map ss_sessionID ss)" "k < length (map ss_sessionID ss)" "j \<noteq> k"
      and "map ss_sessionID ss ! j = map ss_sessionID ss ! k"
    then have "fst (?jb ! j) = fst (?jb ! k)" by (intro ids) simp_all
    with jk lt [of j k] lt [of k j] show False by (cases "j < k") auto
  qed
  moreover have "map ss_batch ss = map snd ?jb"
    by (rule nth_equalityI) (use s len in auto)
  ultimately show ?thesis by simp
qed

lemma session_batches_concat:
  "concat (map (b_proposals \<circ> snd) (session_batches i bs)) = concat (map b_proposals bs)"
proof (induction bs arbitrary: i)
  case (Cons b bs)
  have "[i..<i + length (b # bs)] = i # [Suc i..<Suc i + length bs]"
    using upt_conv_Cons [of i "i + Suc (length bs)"] by simp
  with Cons [of "Suc i"] show ?case by (auto simp: session_batches_def)
qed (simp add: session_batches_def)



end
