(* ===== verification/Btc_Listener.thy ===== *)
theory Btc_Listener
  imports Btc_Executor Floats
begin

text \<open>
  The Bitcoin listener (\<open>chains/btc/listener\<close>) and the message handlers of the Bitcoin
  executor (\<open>chains/btc/executor/message-handler.go\<close>): reading deposits from the outputs of a
  transaction, where amounts arrive as floating point numbers, turning them into messages,
  going through the blocks one by one, and turning messages into payments.
\<close>

text \<open>\<open>int64(vout.Value * 1e8)\<close>.\<close>

definition satoshis :: "float64 \<Rightarrow> int" where
  "satoshis v = float_to_int (float_mul v (100000000, 0))"

section \<open>Decoding deposits\<close>

definition WitnessV1Taproot :: string where "WitnessV1Taproot = ''witness_v1_taproot''"
definition OP_RETURN :: string where "OP_RETURN = ''nulldata''"

record Vout =
  vo_Value :: float64
  vo_Type :: string
  vo_Hex :: string
  vo_Address :: string

record TxRawResult =
  tr_Hash :: string
  tr_Vout :: "Vout list"
  tr_Blocktime :: int

record Deposit =
  dp_ResourceID :: bytes32
  dp_SenderAddress :: string
  dp_Amount :: int
  dp_Data :: string

text \<open>What the loop over the outputs accumulates.\<close>

record decoding =
  de_amount :: int
  de_feeAmount :: int
  de_isBridgeDeposit :: bool
  de_data :: string
  de_resourceID :: bytes32

definition read_data :: "Vout \<Rightarrow> string \<Rightarrow> string res" where
  "read_data vout data =
     (if vo_Type vout = OP_RETURN then
        and_then (hex_decode (vo_Hex vout)) (\<lambda>opReturnData.
        if length opReturnData < 2 then Inl (Panic ''slice bounds out of range'')
        else Inr (map (char_of \<circ> unat) (drop 2 opReturnData)))
      else Inr data)"

definition decode_vout :: "('a \<Rightarrow> string) \<Rightarrow> 'a Resource \<Rightarrow> 'a \<Rightarrow> decoding \<Rightarrow> Vout \<Rightarrow> decoding res" where
  "decode_vout str resource feeAddress d vout =
     and_then (read_data vout (de_data d)) (\<lambda>data.
     let d1 = d\<lparr>de_data := data\<rparr>;
         d2 = (if str (rc_Address resource) = vo_Address vout
               then d1\<lparr>de_isBridgeDeposit := True, de_resourceID := rc_ResourceID resource,
                       de_amount := (if vo_Type vout = WitnessV1Taproot then de_amount d1 + satoshis (vo_Value vout)
                                     else de_amount d1)\<rparr>
               else d1)
     in Inr (if str feeAddress = vo_Address vout
             then d2\<lparr>de_feeAmount := de_feeAmount d2 + satoshis (vo_Value vout)\<rparr> else d2))"

fun decode_vouts :: "('a \<Rightarrow> string) \<Rightarrow> 'a Resource \<Rightarrow> 'a \<Rightarrow> decoding \<Rightarrow> Vout list \<Rightarrow> decoding res" where
  "decode_vouts str resource feeAddress d [] = Inr d"
| "decode_vouts str resource feeAddress d (vout # vouts) =
     and_then (decode_vout str resource feeAddress d vout) (\<lambda>d'. decode_vouts str resource feeAddress d' vouts)"

definition no_deposit :: decoding where
  "no_deposit = \<lparr>de_amount = 0, de_feeAmount = 0, de_isBridgeDeposit = False, de_data = '''', de_resourceID = replicate 32 0\<rparr>"

text \<open>\<open>Inr None\<close>: not a deposit for this resource.\<close>

definition DecodeDepositEvent :: "('a \<Rightarrow> string) \<Rightarrow> TxRawResult \<Rightarrow> 'a Resource \<Rightarrow> 'a \<Rightarrow> Deposit option res" where
  "DecodeDepositEvent str evt resource feeAddress =
     and_then (decode_vouts str resource feeAddress no_deposit (tr_Vout evt)) (\<lambda>d.
     if \<not> de_isBridgeDeposit d \<or> de_feeAmount d < rc_FeeAmount resource then Inr None
     else Inr (Some \<lparr>dp_ResourceID = de_resourceID d, dp_SenderAddress = '''', dp_Amount = de_amount d, dp_Data = de_data d\<rparr>))"

definition SliceTo32Bytes :: "bytes \<Rightarrow> bytes32" where
  "SliceTo32Bytes inp = take 32 inp @ replicate (32 - length inp) 0"

section \<open>Messages for deposits\<close>

text \<open>\<open>HexToAddress\<close> is the address parser of go-ethereum.\<close>

definition BtcDepositHandler_HandleDeposit ::
  "(string \<Rightarrow> bytes) \<Rightarrow> uint8 \<Rightarrow> uint64 \<Rightarrow> bytes32 \<Rightarrow> int \<Rightarrow> string \<Rightarrow> int \<Rightarrow> int \<Rightarrow> message res" where
  "BtcDepositHandler_HandleDeposit HexToAddress sourceID depositNonce resourceID amount data blockNumber timestamp =
     (let parsedData = split_on (CHR ''_'') data; evmAdd = HexToAddress (parsedData ! 0) in
      if length parsedData < 2 then Inl (Panic ''index out of range'')
      else
        and_then (ParseUint10 8 (parsedData ! 1)) (\<lambda>destDomainID.
        Inr (NewMessage sourceID (of_nat destDomainID)
          (MTransfer \<lparr>tmd_DepositNonce = depositNonce, tmd_ResourceId = resourceID, tmd_Metadata = [],
             tmd_Payload = [IBytes (Bytes (nat \<bar>amount * 10 ^ 10\<bar>)), IBytes evmAdd], tmd_Type = FungibleTransfer\<rparr>)
          (dec (unat sourceID) @ ''-'' @ dec destDomainID @ ''-'' @ dec_int blockNumber)
          TransferMessageType timestamp)))"

unbundle bit_operations_syntax

definition CalculateNonce :: "(bytes \<Rightarrow> bytes) \<Rightarrow> int \<Rightarrow> string \<Rightarrow> uint64" where
  "CalculateNonce Sha256 blockNumber transactionHash =
     (let hashBytes = Sha256 (map (of_nat \<circ> of_char) (dec_int blockNumber @ ''-'' @ transactionHash))
      in fold (\<lambda>i result. result XOR of_nat (SetBytes (take 8 (drop (i * 8) hashBytes)))) [0..<4] 0)"

text \<open>
  The function that handles one transaction: the resources (a Go map, in some order) are
  tried one after the other; the first deposit, error or panic ends it.
\<close>

record 'a btc_listener =
  li_String :: "'a \<Rightarrow> string"
  li_HexToAddress :: "string \<Rightarrow> bytes"
  li_Sha256 :: "bytes \<Rightarrow> bytes"
  li_domainID :: uint8
  li_feeAddress :: 'a
  li_resources :: "'a Resource list"

fun event_message :: "'a btc_listener \<Rightarrow> int \<Rightarrow> TxRawResult \<Rightarrow> 'a Resource list \<Rightarrow> message option res" where
  "event_message li blockNumber evt [] = Inr None"
| "event_message li blockNumber evt (resource # resources) =
     and_then (DecodeDepositEvent (li_String li) evt resource (li_feeAddress li)) (\<lambda>r.
     case r of
       None \<Rightarrow> event_message li blockNumber evt resources
     | Some d \<Rightarrow>
         and_then (BtcDepositHandler_HandleDeposit (li_HexToAddress li) (li_domainID li)
             (CalculateNonce (li_Sha256 li) blockNumber (tr_Hash evt)) (dp_ResourceID d) (dp_Amount d) (dp_Data d)
             blockNumber (tr_Blocktime evt)) (\<lambda>m. Inr (Some m)))"

fun group_messages ::
  "(TxRawResult \<Rightarrow> message option res) \<Rightarrow> (uint8 \<times> message list) list \<Rightarrow> TxRawResult list \<Rightarrow>
   (uint8 \<times> message list) list" where
  "group_messages f domainDeposits [] = domainDeposits"
| "group_messages f domainDeposits (evt # evts) =
     (case f evt of
        Inr (Some m) \<Rightarrow> group_messages f (append_at (m_Destination m) m domainDeposits) evts
      | _ \<Rightarrow> group_messages f domainDeposits evts)"

text \<open>The two requests to the node: the hash of a block, and the block with its transactions.\<close>

record 'h btc_node =
  GetBlockHash :: "int \<Rightarrow> 'h res"
  GetBlockTxs :: "'h \<Rightarrow> TxRawResult list res"

definition FetchEvents :: "'h btc_node \<Rightarrow> int \<Rightarrow> TxRawResult list res" where
  "FetchEvents node startBlock = and_then (GetBlockHash node (int64 startBlock)) (GetBlockTxs node)"

definition Btc_ProcessDeposits ::
  "'h btc_node \<Rightarrow> 'a btc_listener \<Rightarrow> int \<Rightarrow> (uint8 \<times> message list) list res" where
  "Btc_ProcessDeposits node li blockNumber =
     and_then (FetchEvents node blockNumber) (\<lambda>evts.
     Inr (group_messages (\<lambda>evt. event_message li blockNumber evt (li_resources li)) [] evts))"

definition Btc_HandleEvents ::
  "'h btc_node \<Rightarrow> 'a btc_listener \<Rightarrow> int \<Rightarrow> message list list res" where
  "Btc_HandleEvents node li blockNumber =
     and_then (Btc_ProcessDeposits node li blockNumber) (\<lambda>domainDeposits. Inr (map snd domainDeposits))"

section \<open>Going through the blocks\<close>

text \<open>
  One round of the loop: whether the context is done, the head the node reports (or an
  error), what each handler returns for a block, and whether the block could be stored.
\<close>

record poll =
  po_done :: bool
  po_head :: "int res"
  po_handlers :: "(int \<Rightarrow> unit res) list"
  po_store :: "unit res"

datatype listen_action = Handled nat int | Stored int | StoreFailed int

fun run_handlers :: "nat \<Rightarrow> int \<Rightarrow> (int \<Rightarrow> unit res) list \<Rightarrow> bool \<times> listen_action list" where
  "run_handlers i block [] = (True, [])"
| "run_handlers i block (h # hs) =
     (case h block of
        Inl _ \<Rightarrow> (False, [Handled i block])
      | Inr _ \<Rightarrow> (let (ok, acts) = run_handlers (Suc i) block hs in (ok, Handled i block # acts)))"

fun ListenToEvents :: "int \<Rightarrow> int option \<Rightarrow> poll list \<Rightarrow> int option \<times> listen_action list" where
  "ListenToEvents confirmations startBlock [] = (startBlock, [])"
| "ListenToEvents confirmations startBlock (p # ps) =
     (if po_done p then (startBlock, [])
      else
        (case po_head p of
           Inl _ \<Rightarrow> ListenToEvents confirmations startBlock ps
         | Inr head \<Rightarrow>
             (let block = (case startBlock of None \<Rightarrow> head | Some b \<Rightarrow> b) in
              if head - block < confirmations then ListenToEvents confirmations (Some block) ps
              else
                (let (ok, acts) = run_handlers 0 block (po_handlers p) in
                 if \<not> ok
                 then (let (s, acts') = ListenToEvents confirmations (Some block) ps in (s, acts @ acts'))
                 else
                   (let (s, acts') = ListenToEvents confirmations (Some (block + 1)) ps
                    in (s, acts @ (case po_store p of Inr _ \<Rightarrow> Stored block | Inl _ \<Rightarrow> StoreFailed block) # acts'))))))"

section \<open>Message handlers\<close>

definition Btc_ERC20MessageHandler :: "TransferMessage \<Rightarrow> proposal res" where
  "Btc_ERC20MessageHandler msg =
     (let payload = tmd_Payload (tm_Data msg) in
      if length payload \<noteq> 2 then Inl (Error ''malformed payload. Len  of payload should be 2'')
      else
        and_then (and_then (payload_at payload 0) (asBytes ''wrong payload amount format'')) (\<lambda>amount.
        and_then (and_then (payload_at payload 1) (asBytes ''wrong payload recipient format'')) (\<lambda>recipient.
        let bigAmount = SetBytes amount div 10 ^ 10 in
        Inr (NewProposal (tm_Source msg) (tm_Destination msg)
          (PBtc \<lparr>btpd_Amount = of_nat bigAmount, btpd_Recipient = map (char_of \<circ> unat) recipient,
             btpd_DepositNonce = tmd_DepositNonce (tm_Data msg), btpd_ResourceId = tmd_ResourceId (tm_Data msg)\<rparr>)
          (tm_ID msg) TransferProposalType))))"

definition FungibleMessageHandler_HandleMessage :: "message \<Rightarrow> proposal res" where
  "FungibleMessageHandler_HandleMessage msg =
     and_then (asTransferMessageData (m_Data msg)) (\<lambda>data.
     let transferMessage = \<lparr>tm_Source = m_Source msg, tm_Destination = m_Destination msg, tm_Data = data,
           tm_Type = m_Type msg, tm_ID = m_ID msg\<rparr> in
     if tmd_Type data = FungibleTransfer then Btc_ERC20MessageHandler transferMessage
     else Inl (Error ''wrong message type passed while handling message''))"

lemmas btc_message_handlers [message_handler_defs] = FungibleMessageHandler_HandleMessage_def Btc_ERC20MessageHandler_def

text \<open>The third component lists the batches that are sent on the message channel.\<close>

definition Btc_RetryMessageHandler_HandleMessage ::
  "'s get_status \<Rightarrow> 's set_status \<Rightarrow> int res \<Rightarrow> (int \<Rightarrow> (uint8 \<times> message list) list res) \<Rightarrow> int \<Rightarrow> 's \<Rightarrow> message \<Rightarrow>
   unit res \<times> 's \<times> message list list" where
  "Btc_RetryMessageHandler_HandleMessage status store head processDeposits confirmations st msg =
     (case asRetryMessageData (m_Data msg) of
        Inl e \<Rightarrow> (Inl e, st, [])
      | Inr retryData \<Rightarrow>
          (case head of
             Inl err \<Rightarrow> (Inl err, st, [])
           | Inr latestBlock \<Rightarrow>
               if latestBlock \<le> rmd_BlockHeight retryData + confirmations
               then (Inl (Error ''latest block higher than receipt block number + block confirmations''), st, [])
               else
                 (case processDeposits (rmd_BlockHeight retryData) of
                    Inl err \<Rightarrow> (Inl err, st, [])
                  | Inr domainDeposits \<Rightarrow>
                      (case FilterDeposits status store st domainDeposits (rmd_ResourceID retryData)
                              (rmd_DestinationDomainID retryData) of
                         (Inl err, st') \<Rightarrow> (Inl err, st', [])
                       | (Inr filtered, st') \<Rightarrow> (Inr (), st', if filtered = [] then [] else [filtered])))))"


section \<open>How far the amounts are off\<close>

text \<open>\<open>v\<close> is the amount of \<open>n\<close> satoshi as closely as a \<open>float64\<close> can say it.\<close>

definition represents :: "float64 \<Rightarrow> nat \<Rightarrow> bool" where
  "represents v n \<longleftrightarrow> \<bar>int (fst v) * 10 ^ 8 - int n * 2 ^ snd v\<bar> * 2 ^ 53 \<le> int n * 2 ^ snd v"

text \<open>
  C36. The amount of an output is read correctly up to one satoshi: for an output of \<open>n\<close> satoshi,
  up to all bitcoins there are, the conversion from the number in the node's answer gives \<open>n\<close>
  or \<open>n - 1\<close>, never more than was paid.
\<close>

theorem satoshis_off_by_one:
  assumes "represents v n" "n \<le> 21 * 10 ^ 14"
  shows "satoshis v \<in> {int n - 1, int n}"
proof -
  obtain m k where v: "v = (m, k)" by fastforce
  define P N R where "P = int m * 10 ^ 8" and "N = int n * 2 ^ k" and "R = int (round53 (m * 10 ^ 8))"
  have "\<bar>P - N\<bar> * 2 ^ 53 \<le> N" using assms(1) by (simp add: represents_def v P_def N_def)
  moreover have "\<bar>R - P\<bar> * 2 ^ 53 \<le> P" using round53_error [of "m * 10 ^ 8"] by (simp add: R_def P_def)
  moreover have "N \<le> 21 * 10 ^ 14 * 2 ^ k" using assms(2) unfolding N_def by (intro mult_right_mono) auto
  moreover have "0 \<le> N" by (simp add: N_def)
  moreover obtain K :: int where K: "K = 2 ^ k" "0 < K" by simp
  moreover obtain a b where ab: "a = \<bar>P - N\<bar>" "b = \<bar>R - P\<bar>" by simp
  moreover have "\<bar>R - N\<bar> \<le> a + b" "P \<le> N + a" unfolding ab by linarith+
  ultimately have "\<bar>R - N\<bar> < 2 ^ k" unfolding K(1) [symmetric] ab(1,2) [symmetric] by simp
  then have "(int n - 1) * 2 ^ k < R" "R < (int n + 1) * 2 ^ k" by (auto simp: N_def abs_less_iff algebra_simps)
  moreover have "0 \<le> R mod 2 ^ k" by simp
  with div_mult_mod_eq [of R "2 ^ k"] have "R div 2 ^ k * 2 ^ k \<le> R" by linarith
  ultimately have "R div 2 ^ k * 2 ^ k < (int n + 1) * 2 ^ k" "(int n - 1) * 2 ^ k \<le> R" by linarith+
  then have "int n - 1 \<le> R div 2 ^ k" "R div 2 ^ k < int n + 1"
    using zdiv_mono1 [of "(int n - 1) * 2 ^ k" R "2 ^ k"] by simp_all
  moreover have "satoshis v = R div 2 ^ k" by (simp add: satoshis_def float_to_int_def float_mul_def v R_def zdiv_int)
  ultimately show ?thesis by auto
qed

text \<open>
  And it does lose satoshi: an output of 0.29 bitcoin is read as 28999999 satoshi.
\<close>

definition amount_029 :: float64 where "amount_029 = (5224175567749775, 54)"

theorem satoshi_lost: "represents amount_029 29000000 \<and> satoshis amount_029 = 28999999"
proof
  show "represents amount_029 29000000" by (simp add: represents_def amount_029_def)
  have "bit_len 522417556774977500000000 = 79" by (simp add: bit_len.simps)
  then have "round53 522417556774977500000000 = 522417556774977468891136"
    by (simp add: round53_def Let_def)
  then show "satoshis amount_029 = 28999999"
    by (simp add: satoshis_def float_to_int_def float_mul_def amount_029_def)
qed

theorem satoshis_off_by_one_witness:
  "represents amount_029 29000000 \<and> satoshis amount_029 \<in> {28999999, 29000000}"
proof -
  have r: "represents amount_029 29000000" by (simp add: represents_def amount_029_def)
  from satoshis_off_by_one [OF r] r show ?thesis by simp
qed


section \<open>What counts as a deposit\<close>

definition to_bridge :: "('a \<Rightarrow> string) \<Rightarrow> 'a Resource \<Rightarrow> Vout \<Rightarrow> bool" where
  "to_bridge str resource v \<longleftrightarrow> str (rc_Address resource) = vo_Address v"

definition paid :: "(Vout \<Rightarrow> bool) \<Rightarrow> Vout list \<Rightarrow> int" where
  "paid P vs = sum_list (map (satoshis \<circ> vo_Value) (filter P vs))"

lemma decode_vouts_spec:
  assumes "decode_vouts str resource feeAddress d vs = Inr d'"
  shows "de_amount d' = de_amount d + paid (\<lambda>v. to_bridge str resource v \<and> vo_Type v = WitnessV1Taproot) vs \<and>
     de_feeAmount d' = de_feeAmount d + paid (\<lambda>v. str feeAddress = vo_Address v) vs \<and>
     (de_isBridgeDeposit d' \<longleftrightarrow> de_isBridgeDeposit d \<or> (\<exists>v \<in> set vs. to_bridge str resource v)) \<and>
     de_resourceID d' = (if \<exists>v \<in> set vs. to_bridge str resource v then rc_ResourceID resource else de_resourceID d)"
  using assms
proof (induction vs arbitrary: d)
  case (Cons v vs)
  from Cons.prems obtain d1 where d1: "decode_vout str resource feeAddress d v = Inr d1"
    "decode_vouts str resource feeAddress d1 vs = Inr d'" by auto
  have "de_amount d1 = de_amount d + paid (\<lambda>v. to_bridge str resource v \<and> vo_Type v = WitnessV1Taproot) [v] \<and>
    de_feeAmount d1 = de_feeAmount d + paid (\<lambda>v. str feeAddress = vo_Address v) [v] \<and>
    (de_isBridgeDeposit d1 \<longleftrightarrow> de_isBridgeDeposit d \<or> to_bridge str resource v) \<and>
    de_resourceID d1 = (if to_bridge str resource v then rc_ResourceID resource else de_resourceID d)"
    using d1(1)
    by (cases "str (rc_Address resource) = vo_Address v"; cases "str feeAddress = vo_Address v";
        cases "vo_Type v = WitnessV1Taproot") (auto simp: decode_vout_def to_bridge_def paid_def)
  with Cons.IH [OF d1(2)] show ?case by (simp add: paid_def)
qed (simp add: paid_def)

text \<open>
  A transaction is taken as a deposit for a resource only if one of its outputs pays
  the resource's address and its outputs to the fee address together reach the fee. The
  amount is then the sum of its taproot outputs to the resource's address, and the resource
  is the one of this address.
\<close>

theorem btc_deposit_decoded:
  assumes "DecodeDepositEvent str evt resource feeAddress = Inr (Some d)"
  shows "(\<exists>v \<in> set (tr_Vout evt). to_bridge str resource v) \<and>
     rc_FeeAmount resource \<le> paid (\<lambda>v. str feeAddress = vo_Address v) (tr_Vout evt) \<and>
     dp_Amount d = paid (\<lambda>v. to_bridge str resource v \<and> vo_Type v = WitnessV1Taproot) (tr_Vout evt) \<and>
     dp_ResourceID d = rc_ResourceID resource"
proof -
  from assms obtain d' where d': "decode_vouts str resource feeAddress no_deposit (tr_Vout evt) = Inr d'"
    "de_isBridgeDeposit d'" "rc_FeeAmount resource \<le> de_feeAmount d'"
    "d = \<lparr>dp_ResourceID = de_resourceID d', dp_SenderAddress = '''', dp_Amount = de_amount d', dp_Data = de_data d'\<rparr>"
    by (auto simp: DecodeDepositEvent_def not_less split: if_splits)
  from decode_vouts_spec [OF d'(1)] d'(2-) show ?thesis by (simp add: no_deposit_def)
qed

definition example_vouts :: "Vout list" where
  "example_vouts =
     [\<lparr>vo_Value = (1, 0), vo_Type = WitnessV1Taproot, vo_Hex = [], vo_Address = ''bridge''\<rparr>,
      \<lparr>vo_Value = (0, 0), vo_Type = OP_RETURN, vo_Hex = ''6a04415f3131'', vo_Address = []\<rparr>,
      \<lparr>vo_Value = (1, 1), vo_Type = WitnessV1Taproot, vo_Hex = [], vo_Address = ''fees''\<rparr>]"

definition example_evt :: TxRawResult where
  "example_evt = \<lparr>tr_Hash = ''tx'', tr_Vout = example_vouts, tr_Blocktime = 5\<rparr>"

lemma example_decoded:
  "DecodeDepositEvent (\<lambda>a. a) example_evt example_resource ''fees'' =
     Inr (Some \<lparr>dp_ResourceID = [3], dp_SenderAddress = '''', dp_Amount = 100000000, dp_Data = ''A_11''\<rparr>)"
proof -
  have "satoshis (1, 0) = 100000000" "satoshis (1, 1) = 50000000"
    by (simp_all add: satoshis_def float_to_int_def float_mul_def round53_def)
  moreover have "hex_decode ''6a04415f3131'' = Inr [106, 4, 65, 95, 49, 49]"
    "char_of (65 :: nat) = CHR ''A''" "char_of (95 :: nat) = CHR ''_''" "char_of (49 :: nat) = CHR ''1''" by code_simp+
  ultimately show ?thesis
    by (simp add: DecodeDepositEvent_def example_evt_def example_vouts_def example_resource_def no_deposit_def
        decode_vout_def read_data_def OP_RETURN_def WitnessV1Taproot_def)
qed

theorem btc_deposit_decoded_witness:
  "\<exists>d. DecodeDepositEvent (\<lambda>a. a) example_evt example_resource ''fees'' = Inr (Some d) \<and>
     dp_ResourceID d = rc_ResourceID example_resource \<and> dp_Amount d = 100000000"
  using btc_deposit_decoded [OF example_decoded] example_decoded by auto

section \<open>Messages per destination\<close>

fun some_messages :: "(TxRawResult \<Rightarrow> message option res) \<Rightarrow> TxRawResult list \<Rightarrow> message list" where
  "some_messages f [] = []"
| "some_messages f (e # es) = (case f e of Inr (Some m) \<Rightarrow> m # some_messages f es | _ \<Rightarrow> some_messages f es)"

lemma group_messages_at_key:
  "at_key (group_messages f acc es) k = at_key acc k @ filter (\<lambda>m. m_Destination m = k) (some_messages f es)"
  by (induction es arbitrary: acc) (auto split: sum.split option.split)

lemma group_messages_grouped: "grouped acc \<Longrightarrow> grouped (group_messages f acc es)"
  by (induction es arbitrary: acc) (auto split: sum.split option.split intro: grouped_append_at)

text \<open>
  Each block's deposits reach the relayer complete and sorted: the messages sent for
  a destination are exactly those of the transactions of the block that hold a deposit for
  it, in the order of the block; a transaction that cannot be handled, even one that makes
  the handler panic, costs no other transaction its message.
\<close>

theorem btc_process_deposits:
  assumes "FetchEvents node block = Inr evts"
  shows "\<exists>dd. Btc_ProcessDeposits node li block = Inr dd \<and> grouped dd \<and>
     Btc_HandleEvents node li block = Inr (map snd dd) \<and>
     (\<forall>k. at_key dd k = filter (\<lambda>m. m_Destination m = k)
        (some_messages (\<lambda>evt. event_message li block evt (li_resources li)) evts))"
  using assms
  by (auto simp: Btc_ProcessDeposits_def Btc_HandleEvents_def group_messages_at_key
      intro: group_messages_grouped)

definition example_btc_listener :: "string btc_listener" where
  "example_btc_listener = \<lparr>li_String = (\<lambda>a. a), li_HexToAddress = (\<lambda>_. replicate 20 1), li_Sha256 = (\<lambda>_. replicate 32 0),
     li_domainID = 4, li_feeAddress = ''fees'', li_resources = [example_resource]\<rparr>"

theorem btc_process_deposits_witness:
  "\<exists>dd. Btc_ProcessDeposits \<lparr>GetBlockHash = Inr, GetBlockTxs = (\<lambda>_. Inr [example_evt])\<rparr> example_btc_listener 9 = Inr dd \<and> grouped dd"
  using btc_process_deposits [of "\<lparr>GetBlockHash = Inr, GetBlockTxs = (\<lambda>_. Inr [example_evt])\<rparr>" 9 "[example_evt]" example_btc_listener]
  by (auto simp: FetchEvents_def)

section \<open>Decimals\<close>

lemma payload_bytes: "asBytes e (IBytes b) = Inr b"
  by simp

text \<open>
  Amounts keep their value between the chains: a Bitcoin deposit of \<open>n\<close> satoshi whose data
  names a recipient and a domain becomes a message with \<open>n\<close> times \<open>10\<^sup>1\<^sup>0\<close> base units for this
  domain, and a message of this amount handled for Bitcoin pays \<open>n\<close> satoshi again.
\<close>

theorem btc_amount_roundtrip:
  assumes "domain < 256" "CHR ''_'' \<notin> set recipient" "n < 2 ^ 64"
  shows "\<exists>m p data. BtcDepositHandler_HandleDeposit hta source nonce res (int n) (recipient @ ''_'' @ dec domain) block t = Inr m \<and>
     m_Destination m = of_nat domain \<and> m_Source m = source \<and>
     m_Data m = MTransfer \<lparr>tmd_DepositNonce = nonce, tmd_ResourceId = res, tmd_Metadata = [],
       tmd_Payload = [IBytes (Bytes (n * 10 ^ 10)), IBytes (hta recipient)], tmd_Type = FungibleTransfer\<rparr> \<and>
     FungibleMessageHandler_HandleMessage m = Inr p \<and> p_Data p = PBtc data \<and>
     uint (btpd_Amount data) = int n \<and> btpd_DepositNonce data = nonce \<and> btpd_ResourceId data = res"
proof -
  have split: "split_on (CHR ''_'') (recipient @ CHR ''_'' # dec domain) = [recipient, dec domain]"
    using assms(2) by (simp add: split_on_append split_on_no_sep dec_no_char)
  have "nat \<bar>int n * 10 ^ 10\<bar> = n * 10 ^ 10" by (simp add: nat_mult_distrib abs_mult)
  then show ?thesis
    using assms(1,3)
    by (simp add: BtcDepositHandler_HandleDeposit_def split ParseUint10_dec NewMessage_def
        FungibleMessageHandler_HandleMessage_def Btc_ERC20MessageHandler_def NewProposal_def Let_def payload_at_def
        unsigned_of_nat take_bit_nat_eq_self)
qed


theorem btc_amount_roundtrip_witness:
  "\<exists>m p data. BtcDepositHandler_HandleDeposit (\<lambda>_. [1]) 4 7 [3] (int 29) (''abc'' @ ''_'' @ dec 2) 9 0 = Inr m \<and>
     m_Destination m = 2 \<and> FungibleMessageHandler_HandleMessage m = Inr p \<and> p_Data p = PBtc data \<and>
     uint (btpd_Amount data) = 29"
proof -
  have "CHR ''_'' \<notin> set ''abc''" by simp
  from btc_amount_roundtrip [of 2 "''abc''" 29 "\<lambda>_. [1]" 4 7 "[3]" 9 0, OF _ this] show ?thesis by fastforce
qed

section \<open>Blocks are handled confirmed, in order, and all of them\<close>

fun finished :: "listen_action list \<Rightarrow> int list" where
  "finished [] = []"
| "finished (Handled i b # as) = finished as"
| "finished (Stored b # as) = b # finished as"
| "finished (StoreFailed b # as) = b # finished as"

lemma finished_append [simp]: "finished (xs @ ys) = finished xs @ finished ys"
  by (induction xs rule: finished.induct) auto

lemma run_handlers_spec:
  "finished (snd (run_handlers i b hs)) = [] \<and> (\<forall>a \<in> set (snd (run_handlers i b hs)). \<exists>j. a = Handled j b) \<and>
   (fst (run_handlers i b hs) \<longleftrightarrow> (\<forall>h \<in> set hs. is_ok (h b)))"
  by (induction i b hs rule: run_handlers.induct) (auto simp: is_ok_def case_prod_beta split: sum.splits)

text \<open>One round on a confirmed block, and on any other.\<close>

lemma listen_round:
  assumes "\<not> po_done p" "po_head p = Inr head" "c \<le> head - b"
  shows "ListenToEvents c (Some b) (p # ps) =
     (let r = ListenToEvents c (Some (if \<forall>h \<in> set (po_handlers p). is_ok (h b) then b + 1 else b)) ps in
      (fst r, snd (run_handlers 0 b (po_handlers p)) @
        (if \<forall>h \<in> set (po_handlers p). is_ok (h b)
         then [case po_store p of Inr _ \<Rightarrow> Stored b | Inl _ \<Rightarrow> StoreFailed b] else []) @ snd r))"
  using assms run_handlers_spec [of 0 b "po_handlers p"] by (simp add: case_prod_beta Let_def)

lemma listen_idle:
  assumes "\<not> po_done p" "\<And>head. po_head p = Inr head \<Longrightarrow> head - b < c"
  shows "ListenToEvents c (Some b) (p # ps) = ListenToEvents c (Some b) ps"
  using assms by (cases "po_head p") auto

lemma listen_stop: "po_done p \<Longrightarrow> ListenToEvents c (Some b) (p # ps) = (Some b, [])"
  by simp

declare ListenToEvents.simps(2) [simp del]

lemma listen_order:
  "finished (snd (ListenToEvents c (Some b) ps)) = map (\<lambda>i. b + int i) [0..<length (finished (snd (ListenToEvents c (Some b) ps)))] \<and>
   fst (ListenToEvents c (Some b) ps) = Some (b + int (length (finished (snd (ListenToEvents c (Some b) ps)))))"
proof (induction ps arbitrary: b)
  case (Cons p ps)
  have shift: "b # map (\<lambda>i. b + 1 + int i) [0..<n] = map (\<lambda>i. b + int i) [0..<Suc n]" for n
    by (rule nth_equalityI) (auto simp: nth_Cons' simp del: upt_Suc)
  consider (stop) "po_done p" | (idle) "\<not> po_done p" "\<And>head. po_head p = Inr head \<Longrightarrow> head - b < c"
    | (go) head where "\<not> po_done p" "po_head p = Inr head" "c \<le> head - b"
    by (metis not_less)
  then show ?case
  proof cases
    case stop
    then show ?thesis by (simp add: listen_stop)
  next
    case idle
    then show ?thesis using Cons.IH [of b] by (simp add: listen_idle)
  next
    case go
    have one: "finished ((case po_store p of Inr _ \<Rightarrow> Stored b | Inl _ \<Rightarrow> StoreFailed b) # as) = b # finished as" for as
      by (simp split: sum.split)
    show ?thesis
    proof (cases "\<forall>h \<in> set (po_handlers p). is_ok (h b)")
      case True
      obtain n where n: "finished (snd (ListenToEvents c (Some (b + 1)) ps)) = map (\<lambda>i. b + 1 + int i) [0..<n]"
        "fst (ListenToEvents c (Some (b + 1)) ps) = Some (b + 1 + int n)"
        using Cons.IH [of "b + 1"] by blast
      have "finished (snd (ListenToEvents c (Some b) (p # ps))) = b # finished (snd (ListenToEvents c (Some (b + 1)) ps))"
        using True run_handlers_spec [of 0 b "po_handlers p"] one by (simp add: listen_round [OF go] Let_def)
      then have fin: "finished (snd (ListenToEvents c (Some b) (p # ps))) = map (\<lambda>i. b + int i) [0..<Suc n]"
        unfolding n(1) shift .
      have "fst (ListenToEvents c (Some b) (p # ps)) = Some (b + int (Suc n))"
        using True n(2) by (simp add: listen_round [OF go] Let_def)
      then show ?thesis unfolding fin by (simp del: upt_Suc)
    next
      case False
      then have "finished (snd (ListenToEvents c (Some b) (p # ps))) = finished (snd (ListenToEvents c (Some b) ps))"
        "fst (ListenToEvents c (Some b) (p # ps)) = fst (ListenToEvents c (Some b) ps)"
        unfolding listen_round [OF go] using run_handlers_spec [of 0 b "po_handlers p"]
        by (simp_all only: if_False Let_def) simp_all
      then show ?thesis using Cons.IH [of b] by simp
    qed
  qed
qed simp

lemma listen_confirmed:
  "Handled i x \<in> set (snd (ListenToEvents c (Some b) ps)) \<Longrightarrow> \<exists>p \<in> set ps. \<exists>head. po_head p = Inr head \<and> c \<le> head - x"
proof (induction ps arbitrary: b)
  case (Cons p ps)
  consider (stop) "po_done p" | (idle) "\<not> po_done p" "\<And>head. po_head p = Inr head \<Longrightarrow> head - b < c"
    | (go) head where "\<not> po_done p" "po_head p = Inr head" "c \<le> head - b"
    by (metis not_less)
  then show ?case
  proof cases
    case stop
    with Cons.prems show ?thesis by (simp add: listen_stop)
  next
    case idle
    with Cons show ?thesis by (auto simp: listen_idle)
  next
    case go
    let ?b = "if \<forall>h \<in> set (po_handlers p). is_ok (h b) then b + 1 else b"
    from Cons.prems have "Handled i x \<in> set (snd (run_handlers 0 b (po_handlers p))) \<or>
        Handled i x \<in> set (snd (ListenToEvents c (Some ?b) ps))"
      by (auto simp: listen_round [OF go] Let_def split: if_splits sum.splits)
    then show ?thesis using run_handlers_spec [of 0 b "po_handlers p"] go(2,3) Cons.IH [of ?b] by fastforce
  qed
qed simp

text \<open>
  C37. The listener works through the chain block by block: whatever the node, the handlers
  and the block store answer, the blocks it completes are the start block and its successors
  without gap or repetition, it resumes right after the last one, and every block a handler
  sees has at least the configured number of confirmations.
\<close>

theorem btc_listener_in_order:
  assumes "ListenToEvents c (Some b) ps = (s, acts)"
  shows "finished acts = map (\<lambda>i. b + int i) [0..<length (finished acts)] \<and> s = Some (b + int (length (finished acts))) \<and>
     (\<forall>i x. Handled i x \<in> set acts \<longrightarrow> (\<exists>p \<in> set ps. \<exists>head. po_head p = Inr head \<and> c \<le> head - x))"
proof -
  have "acts = snd (ListenToEvents c (Some b) ps)" "s = fst (ListenToEvents c (Some b) ps)" using assms by simp_all
  with listen_order [of c b ps] listen_confirmed [of _ _ c b ps] show ?thesis by simp
qed

text \<open>
  And it gets on: with a reachable node whose chain is long enough and with handlers
  that succeed, every round completes one more block.
\<close>

theorem btc_listener_progress:
  assumes "\<forall>p \<in> set ps. \<not> po_done p \<and> (\<forall>h \<in> set (po_handlers p). \<forall>x. is_ok (h x)) \<and>
      (\<exists>head. po_head p = Inr head \<and> b + int (length ps) + c \<le> head)"
  shows "fst (ListenToEvents c (Some b) ps) = Some (b + int (length ps))"
  using assms
proof (induction ps arbitrary: b)
  case (Cons p ps)
  then obtain head where p: "\<not> po_done p" "po_head p = Inr head" "c \<le> head - b" by force
  have "\<forall>h \<in> set (po_handlers p). is_ok (h b)" using Cons.prems by simp
  moreover have "fst (ListenToEvents c (Some (b + 1)) ps) = Some (b + 1 + int (length ps))"
    by (rule Cons.IH) (use Cons.prems in auto)
  ultimately show ?case by (simp add: listen_round [OF p] Let_def)
qed simp

definition example_poll :: "int \<Rightarrow> bool \<Rightarrow> poll" where
  "example_poll head ok = \<lparr>po_done = False, po_head = Inr head, po_handlers = [\<lambda>_. if ok then Inr () else Inl (Error [])],
     po_store = Inr ()\<rparr>"

theorem btc_listener_in_order_witness:
  "\<exists>s acts. ListenToEvents 2 (Some 10) [example_poll 11 True, example_poll 12 False, example_poll 13 True, example_poll 14 True] = (s, acts) \<and>
     finished acts = [10, 11] \<and> s = Some 12 \<and> (\<forall>i x. Handled i x \<in> set acts \<longrightarrow> x \<le> 12)"
proof -
  let ?ps = "[example_poll 11 True, example_poll 12 False, example_poll 13 True, example_poll 14 True]"
  obtain s acts where run: "ListenToEvents 2 (Some 10) ?ps = (s, acts)" by fastforce
  then have "finished acts = [10, 11]" by (auto simp: example_poll_def ListenToEvents.simps)
  with btc_listener_in_order [OF run] run show ?thesis by (fastforce simp: example_poll_def)
qed

theorem btc_listener_progress_witness:
  "fst (ListenToEvents 2 (Some 10) [example_poll 14 True, example_poll 14 True]) = Some 12"
  using btc_listener_progress [of "[example_poll 14 True, example_poll 14 True]" 10 2] by (simp add: example_poll_def)

end
