(* ===== verification/Btc_Mempool.thy ===== *)
theory Btc_Mempool
  imports Btc_Executor "HOL-Library.List_Lexorder" "HOL-Library.Char_ord" "HOL-Library.Product_Lexorder"
begin

text \<open>
  The mempool client (\<open>chains/btc/mempool/mempool.go\<close>). The HTTP request and the JSON decoder are
  outside; what the client does with the decoded outputs is to sort them, so that all relayers
  choose the same inputs for a transaction.
\<close>

definition utxo_less :: "Utxo \<Rightarrow> Utxo \<Rightarrow> bool" where
  "utxo_less a b =
     (if ux_BlockTime a = ux_BlockTime b then ux_TxID a < ux_TxID b else ux_BlockTime a < ux_BlockTime b)"

text \<open>
  \<open>sort.Slice\<close> sorts short slices by insertion. Longer slices are sorted by another algorithm;
  the results agree where the order is total, see \<open>sort_Slice_unique\<close>.
\<close>

fun insert_sorted :: "('a \<Rightarrow> 'a \<Rightarrow> bool) \<Rightarrow> 'a \<Rightarrow> 'a list \<Rightarrow> 'a list" where
  "insert_sorted lt x [] = [x]"
| "insert_sorted lt x (y # ys) = (if lt x y then x # y # ys else y # insert_sorted lt x ys)"

definition sort_Slice :: "('a \<Rightarrow> 'a \<Rightarrow> bool) \<Rightarrow> 'a list \<Rightarrow> 'a list" where
  "sort_Slice lt xs = foldl (\<lambda>acc x. insert_sorted lt x acc) [] xs"

definition Mempool_Utxos :: "bytes res \<Rightarrow> (bytes \<Rightarrow> Utxo list res) \<Rightarrow> Utxo list res" where
  "Mempool_Utxos body Unmarshal =
     and_then body (\<lambda>data. and_then (Unmarshal data) (\<lambda>utxos. Inr (sort_Slice utxo_less utxos)))"

definition Mempool_RecommendedFee :: "bytes res \<Rightarrow> (bytes \<Rightarrow> Fee res) \<Rightarrow> Fee res" where
  "Mempool_RecommendedFee body Unmarshal = and_then body Unmarshal"

section \<open>Sorting\<close>

definition utxo_key :: "Utxo \<Rightarrow> uint64 \<times> string" where
  "utxo_key u = (ux_BlockTime u, ux_TxID u)"

lemma utxo_less_key: "utxo_less a b \<longleftrightarrow> utxo_key a < utxo_key b"
  by (auto simp: utxo_less_def utxo_key_def less_prod_def' order.strict_iff_order)

lemma mset_insert_sorted: "mset (insert_sorted lt x ys) = add_mset x (mset ys)"
  by (induction ys) auto

lemma mset_sort_Slice: "mset (sort_Slice lt xs) = mset xs"
proof -
  have "mset (foldl (\<lambda>acc x. insert_sorted lt x acc) acc xs) = mset acc + mset xs" for acc
    by (induction xs arbitrary: acc) (auto simp: mset_insert_sorted)
  then show ?thesis by (simp add: sort_Slice_def)
qed

lemma set_insert_sorted: "set (insert_sorted lt x ys) = insert x (set ys)"
  by (induction ys) auto

lemma sorted_insert_sorted:
  "sorted (map utxo_key ys) \<Longrightarrow> sorted (map utxo_key (insert_sorted utxo_less x ys))"
  by (induction ys) (auto simp: set_insert_sorted utxo_less_key)

lemma sorted_sort_Slice: "sorted (map utxo_key (sort_Slice utxo_less xs))"
proof -
  have "sorted (map utxo_key acc) \<Longrightarrow> sorted (map utxo_key (foldl (\<lambda>acc x. insert_sorted utxo_less x acc) acc xs))" for acc
    by (induction xs arbitrary: acc) (auto simp: sorted_insert_sorted)
  then show ?thesis by (simp add: sort_Slice_def)
qed

text \<open>With distinct keys there is only one sorted arrangement.\<close>

lemma sorted_arrangement_unique:
  assumes "inj_on utxo_key (set xs)" "mset ys = mset xs" "sorted (map utxo_key ys)"
  shows "ys = sort_key utxo_key xs"
proof -
  have set: "set ys = set xs" using assms(2) by (rule mset_eq_setD)
  have "filter (\<lambda>x. utxo_key k = utxo_key x) zs = filter ((=) k) zs" if "k \<in> set xs" "set zs = set xs" for k zs
    using assms(1) that by (intro filter_cong) (auto dest: inj_onD)
  moreover have "filter ((=) k) ys = filter ((=) k) xs" for k
    using assms(2) by (metis replicate_count_mset_eq_filter_eq)
  ultimately have "filter (\<lambda>x. utxo_key k = utxo_key x) ys = filter (\<lambda>x. utxo_key k = utxo_key x) xs" if "k \<in> set ys" for k
    using that set by simp
  then show ?thesis using properties_for_sort_key [OF assms(2), of utxo_key] assms(3) by simp
qed

lemma sort_Slice_unique:
  assumes "inj_on utxo_key (set xs)" "mset ys = mset xs" "sorted_wrt (\<lambda>a b. \<not> utxo_less b a) ys"
  shows "sort_Slice utxo_less xs = ys"
proof -
  have "sorted (map utxo_key ys)"
    using assms(3) by (simp add: sorted_wrt_map utxo_less_key not_less)
  with assms have "ys = sort_key utxo_key xs" by (intro sorted_arrangement_unique)
  moreover have "sort_Slice utxo_less xs = sort_key utxo_key xs"
    using assms(1) mset_sort_Slice sorted_sort_Slice by (intro sorted_arrangement_unique)
  ultimately show ?thesis by simp
qed

section \<open>Properties\<close>

text \<open>
  C40. Two relayers whose mempool services report the same outputs in different orders work with the
  same list, provided that no two outputs belong to the same transaction.
\<close>

lemma utxos_order_independent:
  assumes "inj_on utxo_key (set us)" "mset us' = mset us"
    and "Unmarshal data = Inr us" "Unmarshal' data' = Inr us'"
  shows "Mempool_Utxos (Inr data) Unmarshal = Mempool_Utxos (Inr data') Unmarshal'"
proof -
  have set: "set us' = set us" using assms(2) by (rule mset_eq_setD)
  have "sorted_wrt (\<lambda>a b. \<not> utxo_less b a) (sort_Slice utxo_less us')"
    using sorted_sort_Slice [of us'] by (simp add: sorted_wrt_map utxo_less_key not_less)
  with assms set have "sort_Slice utxo_less us = sort_Slice utxo_less us'"
    by (intro sort_Slice_unique) (simp_all add: mset_sort_Slice)
  with assms show ?thesis by (simp add: Mempool_Utxos_def)
qed

definition sample_utxo :: "string \<Rightarrow> uint32 \<Rightarrow> uint64 \<Rightarrow> Utxo" where
  "sample_utxo tx vout time = \<lparr>ux_TxID = tx, ux_Vout = vout, ux_Value = 1000, ux_BlockTime = time\<rparr>"

lemma utxos_order_independent_witness:
  "Mempool_Utxos (Inr []) (\<lambda>_. Inr [sample_utxo ''a'' 0 2, sample_utxo ''b'' 1 1]) =
   Mempool_Utxos (Inr []) (\<lambda>_. Inr [sample_utxo ''b'' 1 1, sample_utxo ''a'' 0 2])"
  by (rule utxos_order_independent [of "[sample_utxo ''a'' 0 2, sample_utxo ''b'' 1 1]"
        "[sample_utxo ''b'' 1 1, sample_utxo ''a'' 0 2]"])
    (simp_all add: inj_on_def utxo_key_def sample_utxo_def)

text \<open>
  Two outputs of one transaction are not ordered: they stay in the order in which the service
  reported them.
\<close>

lemma same_transaction_unordered:
  "Mempool_Utxos (Inr []) (\<lambda>_. Inr [sample_utxo ''a'' 0 2, sample_utxo ''a'' 1 2]) =
     Inr [sample_utxo ''a'' 0 2, sample_utxo ''a'' 1 2] \<and>
   Mempool_Utxos (Inr []) (\<lambda>_. Inr [sample_utxo ''a'' 1 2, sample_utxo ''a'' 0 2]) =
     Inr [sample_utxo ''a'' 1 2, sample_utxo ''a'' 0 2]"
  by (simp add: Mempool_Utxos_def sort_Slice_def utxo_less_def sample_utxo_def)

end
