(* ===== verification/Btc_Uploader.thy ===== *)
theory Btc_Uploader
  imports Btc_Executor Config
begin

text \<open>
  Publishing the proposals of a Bitcoin transaction (\<open>chains/btc/uploader/ipfs.go\<close>): the JSON of the
  metadata, the multipart request, the attempts to send it, and the hash that goes into the transaction. The
  decision of the back-off package to give up and the decoding of the answer are arguments. A request is built
  once; its body is a buffer, which an attempt that sends it leaves empty.
\<close>

section \<open>The request\<close>

definition quoted :: "string \<Rightarrow> string" where
  "quoted s = CHR 0x22 # s @ [CHR 0x22]"

text \<open>\<open>json.Marshal\<close> of a list of maps: keys in order, \<open>null\<close> for the nil slice.\<close>

definition metadata_entry :: "uint8 \<times> uint64 \<Rightarrow> string" where
  "metadata_entry p =
     ''{'' @ quoted ''depositNonce'' @ '':'' @ dec (unat (snd p)) @ '','' @ quoted ''sourceDomain'' @ '':'' @ dec (unat (fst p)) @ ''}''"

fun comma_separated :: "string list \<Rightarrow> string" where
  "comma_separated [] = ''''"
| "comma_separated [s] = s"
| "comma_separated (s # ss) = s @ '','' @ comma_separated ss"

definition metadata_json :: "(uint8 \<times> uint64) list \<Rightarrow> string" where
  "metadata_json dataToUpload =
     (if dataToUpload = [] then ''null'' else ''['' @ comma_separated (map metadata_entry dataToUpload) @ '']'')"

definition crlf :: string where "crlf = [CHR 0x0D, CHR 0x0A]"

text \<open>The form with the single file \<open>metadata.json\<close>.\<close>

definition form_header :: "string \<Rightarrow> string" where
  "form_header boundary =
     ''--'' @ boundary @ crlf @
     ''Content-Disposition: form-data; name='' @ quoted ''file'' @ ''; filename='' @ quoted ''metadata.json'' @ crlf @
     ''Content-Type: application/octet-stream'' @ crlf @ crlf"

definition multipart_body :: "string \<Rightarrow> string \<Rightarrow> string" where
  "multipart_body boundary file = form_header boundary @ file @ crlf @ ''--'' @ boundary @ ''--'' @ crlf"

record http_request =
  hr_Method :: string
  hr_URL :: string
  hr_Header :: "(string \<times> string) list"
  hr_ContentLength :: nat
  hr_unread :: string

definition upload_request :: "UploaderConfig \<Rightarrow> string \<Rightarrow> (uint8 \<times> uint64) list \<Rightarrow> http_request" where
  "upload_request cfg boundary dataToUpload =
     (let body = multipart_body boundary (metadata_json dataToUpload) in
      \<lparr>hr_Method = ''POST'', hr_URL = uc_URL cfg,
       hr_Header = [(''Authorization'', ''Bearer '' @ uc_AuthToken cfg),
                    (''Content-Type'', ''multipart/form-data; boundary='' @ boundary)],
       hr_ContentLength = length body, hr_unread = body\<rparr>)"

section \<open>Attempts\<close>

text \<open>
  What an attempt meets: no connection, a connection that breaks after some of the body was sent, or an
  answer with its status and body.
\<close>

datatype http_answer =
    NoConnection string
  | Broken string nat
  | Answer nat "bytes res"

text \<open>\<open>http.Client.Do\<close>: the body must have the length that the header announces.\<close>

definition client_Do :: "http_request \<Rightarrow> http_answer \<Rightarrow> (nat \<times> bytes res) res \<times> http_request" where
  "client_Do req a =
     (case a of
        NoConnection e \<Rightarrow> (Inl (Error e), req)
      | Broken e n \<Rightarrow> (Inl (Error e), req\<lparr>hr_unread := drop (Suc n) (hr_unread req)\<rparr>)
      | Answer status body \<Rightarrow>
          if length (hr_unread req) \<noteq> hr_ContentLength req
          then (Inl (Error ''http: ContentLength with shorter Body length''), req\<lparr>hr_unread := ''''\<rparr>)
          else (Inr (status, body), req\<lparr>hr_unread := ''''\<rparr>))"

definition performRequest ::
  "(bytes \<Rightarrow> string res) \<Rightarrow> http_request \<Rightarrow> http_answer \<Rightarrow> string res \<times> http_request" where
  "performRequest Unmarshal req a =
     (let (r, req') = client_Do req a in
      (and_then r (\<lambda>(status, body).
         if status \<noteq> 200 then Inl (Error ''received non-200 status code'')
         else and_then body Unmarshal), req'))"

text \<open>\<open>RetryNotify\<close>: \<open>stop n\<close> is the decision of the back-off policy after failure \<open>n\<close>; \<open>None\<close> while it waits.\<close>

fun RetryNotify ::
  "(nat \<Rightarrow> bool) \<Rightarrow> (bytes \<Rightarrow> string res) \<Rightarrow> nat \<Rightarrow> http_request \<Rightarrow> http_answer list \<Rightarrow> string res option" where
  "RetryNotify stop Unmarshal n req [] = None"
| "RetryNotify stop Unmarshal n req (a # as) =
     (case performRequest Unmarshal req a of
        (Inr hash, _) \<Rightarrow> Some (Inr hash)
      | (Inl e, req') \<Rightarrow> if stop n then Some (Inl e) else RetryNotify stop Unmarshal (Suc n) req' as)"

definition IPFS_Upload ::
  "UploaderConfig \<Rightarrow> (nat \<Rightarrow> bool) \<Rightarrow> (bytes \<Rightarrow> string res) \<Rightarrow> string \<Rightarrow> http_answer list \<Rightarrow> (uint8 \<times> uint64) list \<Rightarrow>
   string res option" where
  "IPFS_Upload cfg stop Unmarshal boundary answers dataToUpload =
     RetryNotify stop Unmarshal 0 (upload_request cfg boundary dataToUpload) answers"

section \<open>Retries\<close>

definition complete :: "http_request \<Rightarrow> bool" where
  "complete req \<longleftrightarrow> length (hr_unread req) = hr_ContentLength req"

lemma upload_request_complete [simp]: "complete (upload_request cfg boundary ps)"
  by (simp add: complete_def upload_request_def Let_def)

lemma upload_request_length: "0 < hr_ContentLength (upload_request cfg boundary ps)"
  by (simp add: upload_request_def multipart_body_def form_header_def Let_def)

text \<open>Without the whole body no attempt succeeds, and it never comes back.\<close>

lemma RetryNotify_incomplete:
  "length (hr_unread req) < hr_ContentLength req \<Longrightarrow> RetryNotify stop U n req answers \<noteq> Some (Inr h)"
proof (induction answers arbitrary: n req)
  case (Cons a as)
  then show ?case
    by (cases a) (auto simp: performRequest_def client_Do_def)
qed simp

definition answered :: "(nat \<Rightarrow> bool) \<Rightarrow> (bytes \<Rightarrow> string res) \<Rightarrow> nat \<Rightarrow> http_answer list \<Rightarrow> string \<Rightarrow> bool" where
  "answered stop U n answers h \<longleftrightarrow>
     (\<exists>es b rest. answers = map NoConnection es @ Answer 200 (Inr b) # rest \<and> U b = Inr h \<and> (\<forall>i < length es. \<not> stop (n + i)))"

lemma answered_simps:
  "answered stop U n (NoConnection e # as) h \<longleftrightarrow> \<not> stop n \<and> answered stop U (Suc n) as h"
  "\<not> answered stop U n (Broken e m # as) h"
  "answered stop U n (Answer st body # as) h \<longleftrightarrow> st = 200 \<and> (\<exists>b. body = Inr b \<and> U b = Inr h)"
proof -
  have "answered stop U n (NoConnection e # as) h \<longleftrightarrow>
      (\<exists>es b rest. as = map NoConnection es @ Answer 200 (Inr b) # rest \<and> U b = Inr h \<and> (\<forall>i < Suc (length es). \<not> stop (n + i)))"
  proof
    assume "answered stop U n (NoConnection e # as) h"
    then obtain es b rest where "NoConnection e # as = map NoConnection es @ Answer 200 (Inr b) # rest" "U b = Inr h"
      "\<forall>i < length es. \<not> stop (n + i)" by (auto simp: answered_def)
    then show "\<exists>es b rest. as = map NoConnection es @ Answer 200 (Inr b) # rest \<and> U b = Inr h \<and> (\<forall>i < Suc (length es). \<not> stop (n + i))"
      by (cases es) auto
  next
    assume "\<exists>es b rest. as = map NoConnection es @ Answer 200 (Inr b) # rest \<and> U b = Inr h \<and> (\<forall>i < Suc (length es). \<not> stop (n + i))"
    then obtain es b rest where es: "as = map NoConnection es @ Answer 200 (Inr b) # rest" "U b = Inr h" "\<forall>i < Suc (length es). \<not> stop (n + i)"
      by blast
    then show "answered stop U n (NoConnection e # as) h"
      unfolding answered_def by (intro exI [of _ "e # es"] exI [of _ b] exI [of _ rest]) simp
  qed
  then show "answered stop U n (NoConnection e # as) h \<longleftrightarrow> \<not> stop n \<and> answered stop U (Suc n) as h"
    unfolding answered_def All_less_Suc2 by auto
qed (auto simp: answered_def Cons_eq_append_conv Cons_eq_map_conv)

lemma RetryNotify_success:
  assumes "complete req" "0 < hr_ContentLength req"
  shows "RetryNotify stop U n req answers = Some (Inr h) \<longleftrightarrow> answered stop U n answers h"
proof (induction answers arbitrary: n)
  case Nil
  show ?case by (simp add: answered_def)
next
  case (Cons a as)
  have drained: "RetryNotify stop U m (req\<lparr>hr_unread := u\<rparr>) as \<noteq> Some (Inr h)" if "length u < hr_ContentLength req" for m u
    using RetryNotify_incomplete [of "req\<lparr>hr_unread := u\<rparr>"] that by simp
  show ?case
  proof (cases a)
    case (NoConnection e)
    with Cons.IH show ?thesis by (auto simp: performRequest_def client_Do_def answered_simps)
  next
    case (Broken e m)
    then show ?thesis
      using drained [of "drop (Suc m) (hr_unread req)"] assms
      by (auto simp: performRequest_def client_Do_def answered_simps complete_def)
  next
    case (Answer status body)
    with assms drained [of "''''"] show ?thesis
      by (cases body) (auto simp: performRequest_def client_Do_def answered_simps complete_def split: sum.splits)
  qed
qed


text \<open>A server that is busy once makes the upload fail, however often and successfully it is asked again.\<close>

corollary upload_retry_in_vain:
  "status \<noteq> 200 \<Longrightarrow> IPFS_Upload cfg stop U boundary (Answer status body # answers) ps \<noteq> Some (Inr h)"
  using RetryNotify_success [OF upload_request_complete upload_request_length, of stop U 0 cfg boundary ps _ h]
  by (simp add: IPFS_Upload_def answered_simps del: RetryNotify.simps)



section \<open>The metadata\<close>

lemma not_digit_json [simp]: "\<not> is_digit CHR '',''" "\<not> is_digit CHR ''}''"
  by (simp_all add: is_digit_def)

lemma metadata_entry_inj:
  assumes "metadata_entry p @ xs = metadata_entry q @ ys"
  shows "p = q \<and> xs = ys"
proof -
  have "dec (unat (snd p)) @ CHR '','' # quoted ''sourceDomain'' @ '':'' @ dec (unat (fst p)) @ ''}'' @ xs =
      dec (unat (snd q)) @ CHR '','' # quoted ''sourceDomain'' @ '':'' @ dec (unat (fst q)) @ ''}'' @ ys"
    using assms by (simp add: metadata_entry_def)
  from append_sep_eq [OF _ _ this] have 1: "dec (unat (snd p)) = dec (unat (snd q))"
    "dec (unat (fst p)) @ CHR ''}'' # xs = dec (unat (fst q)) @ CHR ''}'' # ys"
    by (simp_all add: dec_no_char)
  from append_sep_eq [OF _ _ 1(2)] have 2: "dec (unat (fst p)) = dec (unat (fst q))" "xs = ys" by (simp_all add: dec_no_char)
  from dec_inj [OF 1(1)] dec_inj [OF 2(1)] 2(2) show ?thesis by (simp add: prod_eq_iff word_unat_eq_iff)
qed

lemma metadata_list_inj:
  assumes "comma_separated (map metadata_entry ps) @ CHR '']'' # xs = comma_separated (map metadata_entry qs) @ CHR '']'' # ys" "ps \<noteq> []" "qs \<noteq> []"
  shows "ps = qs \<and> xs = ys"
  using assms
proof (induction ps arbitrary: qs)
  case (Cons p ps)
  then obtain q qs' where qs: "qs = q # qs'" by (cases qs) auto
  show ?case
  proof (cases "ps = [] \<or> qs' = []")
    case True
    with Cons.prems(1) qs show ?thesis
      by (cases ps; cases qs') (auto dest: metadata_entry_inj)
  next
    case False
    then obtain p2 ps2 q2 qs2 where c: "ps = p2 # ps2" "qs' = q2 # qs2" by (meson neq_Nil_conv)
    with Cons.prems(1) qs have "p = q \<and> '','' @ comma_separated (map metadata_entry ps) @ CHR '']'' # xs = '','' @ comma_separated (map metadata_entry qs') @ CHR '']'' # ys"
      by (intro metadata_entry_inj) simp
    with Cons.IH [of qs'] False qs show ?thesis by auto
  qed
qed simp

text \<open>
  The published metadata identifies the proposals of the transaction, in their order: two lists of proposals with
  the same metadata are equal.
\<close>

theorem metadata_identifies_proposals: "metadata_json ps = metadata_json qs \<longleftrightarrow> ps = qs"
proof
  assume eq: "metadata_json ps = metadata_json qs"
  show "ps = qs"
  proof (cases "ps = [] \<or> qs = []")
    case True
    with eq show ?thesis by (auto simp: metadata_json_def split: if_splits)
  next
    case False
    with eq show ?thesis using metadata_list_inj [of ps "[]" qs "[]"] by (simp add: metadata_json_def)
  qed
qed simp

text \<open>The file is what stands between the header of the form and its closing boundary.\<close>

definition form_file :: "string \<Rightarrow> string \<Rightarrow> string" where
  "form_file boundary body = take (length body - length (form_header boundary) - length boundary - 8) (drop (length (form_header boundary)) body)"

lemma form_file_body: "form_file boundary (multipart_body boundary file) = file"
  by (simp add: form_file_def multipart_body_def crlf_def)

text \<open>The metadata of the outputs of a transaction.\<close>

definition proposal_keys :: "BtcTransferProposal list \<Rightarrow> (uint8 \<times> uint64) list" where
  "proposal_keys proposals = map (\<lambda>p. (bp_Source p, btpd_DepositNonce (bp_Data p))) proposals"

lemma add_outputs_keys:
  "add_outputs lib tx amount keys proposals = Inr (tx', amount', keys') \<Longrightarrow> keys' = keys @ proposal_keys proposals"
  by (induction lib tx amount keys proposals rule: add_outputs.induct) (auto simp: proposal_keys_def)

text \<open>
  What a Bitcoin transaction says about its proposals: if its outputs are built with the IPFS uploader, the
  last output carries the hash with which the server answered a request whose file is the metadata of exactly these
  proposals.
\<close>

theorem outputs_publish_proposals:
  assumes "\<And>ps r. Upload srv ps = Inr r \<Longrightarrow> IPFS_Upload cfg stop U boundary answers ps = Some (Inr r)"
    and "outputs lib srv tx proposals = Inr (amount, tx')"
  shows "\<exists>hash script b. NullDataScript lib (map (of_nat \<circ> of_char) (''syg_'' @ hash)) = Inr script \<and>
     last (tx_Out tx') = \<lparr>to_Value = 0, to_PkScript = script\<rparr> \<and> Answer 200 (Inr b) \<in> set answers \<and> U b = Inr hash \<and>
     form_file boundary (hr_unread (upload_request cfg boundary (proposal_keys proposals))) = metadata_json (proposal_keys proposals)"
proof -
  from assms(2) obtain hash script where out: "Upload srv (proposal_keys proposals) = Inr hash"
    "NullDataScript lib (map (of_nat \<circ> of_char) (''syg_'' @ hash)) = Inr script"
    "last (tx_Out tx') = \<lparr>to_Value = 0, to_PkScript = script\<rparr>"
    by (auto simp: outputs_def dest!: add_outputs_keys)
  from RetryNotify_success [OF upload_request_complete upload_request_length, of stop U 0 cfg boundary _ answers hash]
    assms(1) [OF out(1)] have "\<exists>b. Answer 200 (Inr b) \<in> set answers \<and> U b = Inr hash"
    by (auto simp: IPFS_Upload_def answered_def)
  with out show ?thesis by (auto simp: upload_request_def Let_def form_file_body)
qed

end
