(* ===== verification/Substrate.thy ===== *)
theory Substrate
  imports Evm_Message_Handler Evm_Executor
begin

text \<open>
  The Substrate chain: decoding of pallet events, deposit and retry event handlers
  (\<open>chains/substrate/listener\<close>), message handlers and executor (\<open>chains/substrate/executor\<close>) and
  the bridge pallet (\<open>chains/substrate/pallet\<close>). The RPC client, \<open>mapstructure\<close> and the integer
  decoding of the client library are arguments.
\<close>

section \<open>Events\<close>

definition ParachainUpdatedEvent :: string where "ParachainUpdatedEvent = ''ParachainSystem.ValidationFunctionApplied''"
definition RetryEvent :: string where "RetryEvent = ''SygmaBridge.Retry''"
definition DepositEvent :: string where "DepositEvent = ''SygmaBridge.Deposit''"

record SubstrateDeposit =
  sd_DestDomainID :: uint8
  sd_ResourceID :: bytes32
  sd_DepositNonce :: uint64
  sd_TransferType :: uint8
  sd_CallData :: gslice
  sd_Handler :: bytes
  sd_Timestamp :: int

text \<open>The block height of a retry is a pointer, nil until the field was decoded.\<close>

record SubstrateRetry =
  sr_DepositOnBlockHeight :: "nat option"
  sr_DestDomainID :: uint8

record 'v Event =
  ev_Name :: string
  ev_Fields :: "(string \<times> 'v) list"

text \<open>\<open>mapstructure.Decode\<close> into each of the field types.\<close>

record 'v mapstructure =
  DecodeU8 :: "'v \<Rightarrow> uint8 res"
  DecodeU64 :: "'v \<Rightarrow> uint64 res"
  DecodeU128 :: "'v \<Rightarrow> nat res"
  DecodeBytes32 :: "'v \<Rightarrow> bytes32 res"
  DecodeBytes :: "'v \<Rightarrow> gslice res"
  DecodeByte1 :: "'v \<Rightarrow> bytes res"
  DecodeTime :: "'v \<Rightarrow> int res"

text \<open>The zero value of \<open>time.Time\<close>, in seconds of the Unix epoch.\<close>

definition zero_time :: int where "zero_time = - 62135596800"

definition zero_deposit :: SubstrateDeposit where
  "zero_deposit = \<lparr>sd_DestDomainID = 0, sd_ResourceID = replicate 32 0, sd_DepositNonce = 0, sd_TransferType = 0,
     sd_CallData = exact [], sd_Handler = [0], sd_Timestamp = zero_time\<rparr>"

definition decode_deposit_field :: "'v mapstructure \<Rightarrow> SubstrateDeposit \<Rightarrow> string \<Rightarrow> 'v \<Rightarrow> SubstrateDeposit res" where
  "decode_deposit_field lib d name value =
     (if name = ''dest_domain_id'' then and_then (DecodeU8 lib value) (\<lambda>x. Inr (d\<lparr>sd_DestDomainID := x\<rparr>))
      else if name = ''resource_id'' then and_then (DecodeBytes32 lib value) (\<lambda>x. Inr (d\<lparr>sd_ResourceID := x\<rparr>))
      else if name = ''deposit_nonce'' then and_then (DecodeU64 lib value) (\<lambda>x. Inr (d\<lparr>sd_DepositNonce := x\<rparr>))
      else if name = ''sygma_traits_TransferType'' then and_then (DecodeU8 lib value) (\<lambda>x. Inr (d\<lparr>sd_TransferType := x\<rparr>))
      else if name = ''deposit_data'' then and_then (DecodeBytes lib value) (\<lambda>x. Inr (d\<lparr>sd_CallData := x\<rparr>))
      else if name = ''handler_response'' then and_then (DecodeByte1 lib value) (\<lambda>x. Inr (d\<lparr>sd_Handler := x\<rparr>))
      else if name = ''block_timestamp'' then and_then (DecodeTime lib value) (\<lambda>x. Inr (d\<lparr>sd_Timestamp := x\<rparr>))
      else Inr d)"

fun decode_deposit_fields :: "'v mapstructure \<Rightarrow> SubstrateDeposit \<Rightarrow> (string \<times> 'v) list \<Rightarrow> SubstrateDeposit res" where
  "decode_deposit_fields lib d [] = Inr d"
| "decode_deposit_fields lib d ((name, value) # rest) =
     and_then (decode_deposit_field lib d name value) (\<lambda>d'. decode_deposit_fields lib d' rest)"

definition Substrate_DecodeDepositEvent :: "'v mapstructure \<Rightarrow> (string \<times> 'v) list \<Rightarrow> SubstrateDeposit res" where
  "Substrate_DecodeDepositEvent lib evtFields = decode_deposit_fields lib zero_deposit evtFields"

fun decode_retry_fields :: "'v mapstructure \<Rightarrow> SubstrateRetry \<Rightarrow> (string \<times> 'v) list \<Rightarrow> SubstrateRetry res" where
  "decode_retry_fields lib r [] = Inr r"
| "decode_retry_fields lib r ((name, value) # rest) =
     (if name = ''deposit_on_block_height''
      then and_then (DecodeU128 lib value) (\<lambda>x. decode_retry_fields lib (r\<lparr>sr_DepositOnBlockHeight := Some x\<rparr>) rest)
      else if name = ''dest_domain_id''
      then and_then (DecodeU8 lib value) (\<lambda>x. decode_retry_fields lib (r\<lparr>sr_DestDomainID := x\<rparr>) rest)
      else decode_retry_fields lib r rest)"

definition DecodeRetryEvent :: "'v mapstructure \<Rightarrow> (string \<times> 'v) list \<Rightarrow> SubstrateRetry res" where
  "DecodeRetryEvent lib evtFields = decode_retry_fields lib \<lparr>sr_DepositOnBlockHeight = None, sr_DestDomainID = 0\<rparr> evtFields"

section \<open>Deposit handlers\<close>

type_synonym substrate_handler =
  "uint8 \<Rightarrow> uint8 \<Rightarrow> uint64 \<Rightarrow> bytes32 \<Rightarrow> gslice \<Rightarrow> string \<Rightarrow> int \<Rightarrow> message res"

definition SubstrateFungibleTransfer :: uint8 where "SubstrateFungibleTransfer = 0"

definition matchTransferTypeHandlerFunc ::
  "(TransferType \<rightharpoonup> substrate_handler) \<Rightarrow> TransferType \<Rightarrow> substrate_handler res" where
  "matchTransferTypeHandlerFunc handlers transferType =
     (case handlers transferType of
        None \<Rightarrow> Inl (Error ''no corresponding deposit handler for this transfer type exists'')
      | Some hf \<Rightarrow> Inr hf)"

definition Substrate_RegisterDepositHandler ::
  "(TransferType \<rightharpoonup> substrate_handler) \<Rightarrow> TransferType \<Rightarrow> substrate_handler \<Rightarrow> (TransferType \<rightharpoonup> substrate_handler)" where
  "Substrate_RegisterDepositHandler handlers transferType handler =
     (if transferType = '''' then handlers else handlers(transferType \<mapsto> handler))"

definition SubstrateDepositHandler_HandleDeposit ::
  "(TransferType \<rightharpoonup> substrate_handler) \<Rightarrow> uint8 \<Rightarrow> uint8 \<Rightarrow> uint64 \<Rightarrow> bytes32 \<Rightarrow> gslice \<Rightarrow> uint8 \<Rightarrow> string \<Rightarrow> int \<Rightarrow> message res" where
  "SubstrateDepositHandler_HandleDeposit handlers sourceID destID depositNonce resourceID calldata transferType messageID timestamp =
     (if transferType = SubstrateFungibleTransfer then
        and_then (matchTransferTypeHandlerFunc handlers FungibleTransfer) (\<lambda>depositHandler.
        depositHandler sourceID destID depositNonce resourceID calldata messageID timestamp)
      else Inl (Error ''no corresponding deposit handler for this transfer type exists''))"

text \<open>
  \<open>IntBytesToBigInt\<close> of the client library decodes the length; its error is ignored, so
  that its nil result panics.
\<close>

definition FungibleTransferHandler :: "(bytes \<Rightarrow> int option) \<Rightarrow> substrate_handler" where
  "FungibleTransferHandler IntBytesToBigInt sourceID destID nonce resourceID calldata messageID timestamp =
     (if slice_len calldata < 84 then Inl (Error ''invalid calldata length: less than 84 bytes'')
      else
        and_then (subslice calldata 0 32) (\<lambda>amount.
        and_then (subslice calldata 32 64) (\<lambda>lengthBytes.
        case IntBytesToBigInt lengthBytes of
          None \<Rightarrow> Inl (Panic ''invalid memory address or nil pointer dereference'')
        | Some recipientAddressLength \<Rightarrow>
            and_then (subslice calldata 64 (int64 (64 + int64 recipientAddressLength))) (\<lambda>recipientAddress.
            Inr (transfer_message sourceID destID nonce resourceID [] [IBytes amount, IBytes recipientAddress]
                   FungibleTransfer messageID timestamp)))))"

section \<open>Event handlers\<close>

text \<open>The loop of the system update handler; the number counts the metadata updates.\<close>

fun update_loop :: "(nat \<Rightarrow> unit res) \<Rightarrow> nat \<Rightarrow> 'v Event list \<Rightarrow> unit res \<times> nat" where
  "update_loop UpdateMetadata n [] = (Inr (), n)"
| "update_loop UpdateMetadata n (e # es) =
     (if ev_Name e = ParachainUpdatedEvent then
        (case UpdateMetadata n of Inl err \<Rightarrow> (Inl err, Suc n) | Inr _ \<Rightarrow> update_loop UpdateMetadata (Suc n) es)
      else update_loop UpdateMetadata n es)"

definition SystemUpdate_HandleEvents ::
  "(int \<Rightarrow> int \<Rightarrow> 'v Event list res) \<Rightarrow> (nat \<Rightarrow> unit res) \<Rightarrow> int \<Rightarrow> int \<Rightarrow> unit res \<times> nat" where
  "SystemUpdate_HandleEvents FetchEvents UpdateMetadata startBlock endBlock =
     (case FetchEvents startBlock endBlock of
        Inl err \<Rightarrow> (Inl err, 0)
      | Inr evts \<Rightarrow> update_loop UpdateMetadata 0 evts)"

type_synonym handle_substrate_deposit =
  "uint8 \<Rightarrow> uint8 \<Rightarrow> uint64 \<Rightarrow> bytes32 \<Rightarrow> gslice \<Rightarrow> uint8 \<Rightarrow> string \<Rightarrow> int \<Rightarrow> message res"

definition substrate_message ::
  "'v mapstructure \<Rightarrow> handle_substrate_deposit \<Rightarrow> uint8 \<Rightarrow> string \<Rightarrow> int \<Rightarrow> int \<Rightarrow> 'v Event \<Rightarrow> message res" where
  "substrate_message lib HandleDeposit domainID prefix startBlock endBlock evt =
     and_then (Substrate_DecodeDepositEvent lib (ev_Fields evt)) (\<lambda>d.
     HandleDeposit domainID (sd_DestDomainID d) (sd_DepositNonce d) (sd_ResourceID d) (sd_CallData d) (sd_TransferType d)
       (prefix @ dec (unat domainID) @ ''-'' @ dec (unat (sd_DestDomainID d)) @ ''-'' @ dec_int startBlock @ ''-'' @ dec_int endBlock)
       (sd_Timestamp d))"

definition Substrate_ProcessDeposits ::
  "'v mapstructure \<Rightarrow> handle_substrate_deposit \<Rightarrow> (int \<Rightarrow> int \<Rightarrow> 'v Event list res) \<Rightarrow> uint8 \<Rightarrow> int \<Rightarrow> int \<Rightarrow>
   (uint8 \<times> message list) list res" where
  "Substrate_ProcessDeposits lib HandleDeposit FetchEvents domainID startBlock endBlock =
     and_then (FetchEvents startBlock endBlock) (\<lambda>evts.
     Inr (group_loop (substrate_message lib HandleDeposit domainID '''' startBlock endBlock) []
            (filter (\<lambda>evt. ev_Name evt = DepositEvent) evts)))"

definition Substrate_HandleEvents ::
  "'v mapstructure \<Rightarrow> handle_substrate_deposit \<Rightarrow> (int \<Rightarrow> int \<Rightarrow> 'v Event list res) \<Rightarrow> uint8 \<Rightarrow> int \<Rightarrow> int \<Rightarrow>
   message list list res" where
  "Substrate_HandleEvents lib HandleDeposit FetchEvents domainID startBlock endBlock =
     and_then (Substrate_ProcessDeposits lib HandleDeposit FetchEvents domainID startBlock endBlock)
       (\<lambda>domainDeposits. Inr (map snd domainDeposits))"

section \<open>Retry events\<close>

record ('v, 'h) substrate_conn =
  FetchEvents :: "int \<Rightarrow> int \<Rightarrow> 'v Event list res"
  FinalizedNumber :: "int res"
  GetBlockHash :: "uint64 \<Rightarrow> 'h res"
  GetBlockEvents :: "'h \<Rightarrow> 'v Event list res"

fun retry_block ::
  "('v Event \<Rightarrow> message res) \<Rightarrow> (uint8 \<times> message list) list \<Rightarrow> 'v Event list \<Rightarrow> unit res \<times> (uint8 \<times> message list) list" where
  "retry_block f domainDeposits [] = (Inr (), domainDeposits)"
| "retry_block f domainDeposits (event # events) =
     (if ev_Name event = DepositEvent then
        (case f event of
           Inl err \<Rightarrow> (Inl err, domainDeposits)
         | Inr m \<Rightarrow> retry_block f (append_at (m_Destination m) m domainDeposits) events)
      else retry_block f domainDeposits events)"

definition retry_event ::
  "'v mapstructure \<Rightarrow> ('v, 'h) substrate_conn \<Rightarrow> ('v Event \<Rightarrow> message res) \<Rightarrow> int \<Rightarrow> (uint8 \<times> message list) list \<Rightarrow> 'v Event \<Rightarrow>
   unit res \<times> (uint8 \<times> message list) list" where
  "retry_event lib conn f finalized domainDeposits evt =
     (case DecodeRetryEvent lib (ev_Fields evt) of
        Inl err \<Rightarrow> (Inl err, domainDeposits)
      | Inr er \<Rightarrow>
     (case sr_DepositOnBlockHeight er of
        None \<Rightarrow> (Inl (Panic ''invalid memory address or nil pointer dereference''), domainDeposits)
      | Some height \<Rightarrow>
          if finalized < int height then (Inr (), domainDeposits)
          else
     (case and_then (GetBlockHash conn (of_nat height)) (GetBlockEvents conn) of
        Inl err \<Rightarrow> (Inl err, domainDeposits)
      | Inr bEvts \<Rightarrow> retry_block f domainDeposits bEvts)))"

text \<open>A panic inside the event function is recovered and the loop goes on; an error ends it.\<close>

fun retry_events ::
  "('d \<Rightarrow> 'v Event \<Rightarrow> unit res \<times> 'd) \<Rightarrow> 'd \<Rightarrow> 'v Event list \<Rightarrow> unit res \<times> 'd" where
  "retry_events step domainDeposits [] = (Inr (), domainDeposits)"
| "retry_events step domainDeposits (evt # evts) =
     (if ev_Name evt = RetryEvent then
        (case step domainDeposits evt of
           (Inl (Error e), dd) \<Rightarrow> (Inl (Error e), dd)
         | (_, dd) \<Rightarrow> retry_events step dd evts)
      else retry_events step domainDeposits evts)"

definition Substrate_Retry_HandleEvents ::
  "'v mapstructure \<Rightarrow> handle_substrate_deposit \<Rightarrow> ('v, 'h) substrate_conn \<Rightarrow> uint8 \<Rightarrow> int \<Rightarrow> int \<Rightarrow> message list list res" where
  "Substrate_Retry_HandleEvents lib HandleDeposit conn domainID startBlock endBlock =
     and_then (FetchEvents conn startBlock endBlock) (\<lambda>evts.
     and_then (FinalizedNumber conn) (\<lambda>finalized.
     case retry_events
            (retry_event lib conn (substrate_message lib HandleDeposit domainID ''retry-'' startBlock endBlock) finalized)
            [] evts of
       (Inl err, dd) \<Rightarrow> Inl err
     | (Inr _, dd) \<Rightarrow> Inr (map snd dd)))"

section \<open>Message handlers\<close>

definition fungibleTransferMessageHandler :: "'t go_ethereum \<Rightarrow> TransferMessage \<Rightarrow> proposal res" where
  "fungibleTransferMessageHandler lib m =
     (let payload = tmd_Payload (tm_Data m) in
      if length payload \<noteq> 2 then Inl (Error ''malformed payload. Len  of payload should be 2'')
      else
        and_then (and_then (payload_at payload 0) (asBytes ''wrong payload amount format'')) (\<lambda>amount.
        and_then (and_then (payload_at payload 1) (asBytes ''wrong payload recipient format'')) (\<lambda>recipient.
        Inr (NewTransferProposal m
          (LeftPadBytes lib amount 32 @ LeftPadBytes lib (Bytes (length recipient)) 32 @ recipient)))))"

definition SubstrateMessageHandler_HandleMessage :: "'t go_ethereum \<Rightarrow> message \<Rightarrow> proposal res" where
  "SubstrateMessageHandler_HandleMessage lib m =
     and_then (asTransferMessageData (m_Data m)) (\<lambda>data.
     if tmd_Type data = FungibleTransfer
     then fungibleTransferMessageHandler lib
            \<lparr>tm_Source = m_Source m, tm_Destination = m_Destination m, tm_Data = data, tm_Type = m_Type m, tm_ID = m_ID m\<rparr>
     else Inl (Error ''wrong message type passed while handling message''))"

lemmas substrate_message_handlers [message_handler_defs] = SubstrateMessageHandler_HandleMessage_def
  fungibleTransferMessageHandler_def

definition Substrate_RetryMessageHandler_HandleMessage ::
  "('s \<Rightarrow> uint8 \<Rightarrow> uint8 \<Rightarrow> uint64 \<Rightarrow> PropStatus res) \<Rightarrow> ('s \<Rightarrow> uint8 \<Rightarrow> uint8 \<Rightarrow> uint64 \<Rightarrow> PropStatus \<Rightarrow> 's res) \<Rightarrow>
   int res \<Rightarrow> (int \<Rightarrow> int \<Rightarrow> (uint8 \<times> message list) list res) \<Rightarrow> 's \<Rightarrow> message \<Rightarrow> unit res \<times> 's \<times> message list list" where
  "Substrate_RetryMessageHandler_HandleMessage status store finalized processDeposits st msg =
     (case asRetryMessageData (m_Data msg) of
        Inl e \<Rightarrow> (Inl e, st, [])
      | Inr retryData \<Rightarrow>
     (case finalized of
        Inl err \<Rightarrow> (Inl err, st, [])
      | Inr latestBlock \<Rightarrow>
          if latestBlock \<le> rmd_BlockHeight retryData
          then (Inl (Error (''latest block '' @ dec_int latestBlock @ '' higher than receipt block number ''
                  @ dec_int (rmd_BlockHeight retryData))), st, [])
          else
     (case processDeposits (rmd_BlockHeight retryData) (rmd_BlockHeight retryData) of
        Inl err \<Rightarrow> (Inl err, st, [])
      | Inr domainDeposits \<Rightarrow>
     (case FilterDeposits status store st domainDeposits (rmd_ResourceID retryData) (rmd_DestinationDomainID retryData) of
        (Inl err, st') \<Rightarrow> (Inl err, st', [])
      | (Inr filtered, st') \<Rightarrow> (Inr (), st', if filtered = [] then [] else [filtered])))))"

section \<open>The pallet\<close>

definition pallet_bridgeVersion :: string where "pallet_bridgeVersion = ''3.1.0''"
definition verifyingContract :: string where "verifyingContract = ''6CdE2Cd82a4F8B74693Ff5e194c19CA08c2d1c68''"

record 'r substrate_client =
  Transact :: "string \<Rightarrow> BridgeProposal list \<Rightarrow> bytes \<Rightarrow> 'r res"
  CallExecuted :: "string \<Rightarrow> uint64 \<Rightarrow> uint8 \<Rightarrow> bool res"
  PalletChainID :: int

definition Pallet_ExecuteProposals :: "'r substrate_client \<Rightarrow> TransferProposal list \<Rightarrow> bytes \<Rightarrow> 'r res" where
  "Pallet_ExecuteProposals p proposals signature =
     Transact p ''SygmaBridge.execute_proposal'' (map toBridgeProposal proposals) signature"

definition Pallet_ProposalsHash :: "eip712 \<Rightarrow> 'r substrate_client \<Rightarrow> TransferProposal list \<Rightarrow> bytes res" where
  "Pallet_ProposalsHash lib p proposals =
     ProposalsHash lib proposals (int64 (PalletChainID p)) verifyingContract pallet_bridgeVersion"

definition Pallet_IsProposalExecuted :: "'r substrate_client \<Rightarrow> TransferProposal \<Rightarrow> bool res" where
  "Pallet_IsProposalExecuted p prop =
     CallExecuted p ''sygma_isProposalExecuted'' (tpd_DepositNonce (tp_Data prop)) (tp_Source prop)"

section \<open>The executor\<close>

text \<open>
  The loop over the proposals. The second list is \<open>proposals\<close> itself, to which the loop
  appends; it is only asked for its length afterwards.
\<close>

fun collect_proposals ::
  "(TransferProposal \<Rightarrow> bool res) \<Rightarrow> TransferProposal list \<Rightarrow> proposal list \<Rightarrow> proposal list \<Rightarrow>
   (TransferProposal list \<times> proposal list) res" where
  "collect_proposals IsProposalExecuted transferProposals appended [] = Inr (transferProposals, appended)"
| "collect_proposals IsProposalExecuted transferProposals appended (prop # props) =
     and_then (toTransferProposal prop) (\<lambda>transferProposal.
     and_then (IsProposalExecuted transferProposal) (\<lambda>isExecuted.
     collect_proposals IsProposalExecuted (transferProposals @ [transferProposal])
       (if isExecuted then appended else appended @ [prop]) props))"

record substrate_session =
  su_msg :: nat
  su_messageID :: string
  su_sessionID :: string
  su_proposals :: "TransferProposal list"

text \<open>\<open>Inr None\<close>: nothing to execute.\<close>

definition Substrate_Execute ::
  "(TransferProposal \<Rightarrow> bool res) \<Rightarrow> (TransferProposal list \<Rightarrow> bytes res) \<Rightarrow> (substrate_session \<Rightarrow> unit res) \<Rightarrow>
   proposal list \<Rightarrow> substrate_session option res" where
  "Substrate_Execute IsProposalExecuted hash NewSigning proposals =
     and_then (collect_proposals IsProposalExecuted [] proposals proposals) (\<lambda>(transferProposals, proposals').
     if length proposals' = 0 then Inr None
     else
       and_then (hash transferProposals) (\<lambda>propHash.
       if transferProposals = [] then Inl (Panic ''index out of range'')
       else
         (let messageID = tp_MessageID (hd transferProposals);
              session = \<lparr>su_msg = SetBytes propHash, su_messageID = messageID, su_sessionID = messageID,
                         su_proposals = transferProposals\<rparr>
          in and_then (NewSigning session) (\<lambda>_. Inr (Some session)))))"

definition executeProposal ::
  "(bytes \<Rightarrow> nat \<Rightarrow> bytes) \<Rightarrow> (TransferProposal list \<Rightarrow> bytes \<Rightarrow> 'r res) \<Rightarrow> TransferProposal list \<Rightarrow> SignatureData \<Rightarrow> 'r res" where
  "executeProposal LeftPad ExecuteProposals proposals signatureData =
     and_then (batchSignature LeftPad signatureData) (ExecuteProposals proposals)"

text \<open>
  What the watcher receives: a signature with the answer of the pallet to a submission and
  of the tracking of its extrinsic, a tick, the timeout, or the cancellation.
\<close>

datatype substrate_event =
    SubSig "SignatureData option" "TransferProposal list \<Rightarrow> bytes \<Rightarrow> string res" "unit res"
  | SubTick "TransferProposal \<Rightarrow> bool res"
  | SubTimeout
  | SubDone

datatype substrate_action =
    SubCancel
  | SubSubmit "TransferProposal list" bytes
  | SubFail string

fun Substrate_watchExecution ::
  "(bytes \<Rightarrow> nat \<Rightarrow> bytes) \<Rightarrow> TransferProposal list \<Rightarrow> string \<Rightarrow> substrate_event list \<Rightarrow>
   unit res option \<times> substrate_action list" where
  "Substrate_watchExecution LeftPad proposals sessionID [] = (None, [])"
| "Substrate_watchExecution LeftPad proposals sessionID (SubSig None pallet track # es) =
     (let (r, acts) = Substrate_watchExecution LeftPad proposals sessionID es in (r, SubCancel # acts))"
| "Substrate_watchExecution LeftPad proposals sessionID (SubSig (Some sd) pallet track # es) =
     (case batchSignature LeftPad sd of
        Inl e \<Rightarrow> (Some (Inl e), [SubCancel, SubCancel])
      | Inr sig \<Rightarrow>
     (case executeProposal LeftPad pallet proposals sd of
        Inl err \<Rightarrow> (Some (Inl err), [SubCancel, SubSubmit proposals sig, SubFail sessionID, SubCancel])
      | Inr hash \<Rightarrow> (Some track, [SubCancel, SubSubmit proposals sig, SubCancel])))"
| "Substrate_watchExecution LeftPad proposals sessionID (SubTick executed # es) =
     (if areProposalsExecuted executed proposals then (Some (Inr ()), [SubCancel])
      else Substrate_watchExecution LeftPad proposals sessionID es)"
| "Substrate_watchExecution LeftPad proposals sessionID (SubTimeout # es) =
     (Some (Inl (Error ''execution timed out in 30m0s'')), [SubCancel])"
| "Substrate_watchExecution LeftPad proposals sessionID (SubDone # es) = (Some (Inr ()), [SubCancel])"


section \<open>Round trip\<close>

text \<open>What the client library documents of \<open>IntBytesToBigInt\<close>: a big-endian number whose top bit is clear is read as it is.\<close>

definition reads_length :: "(bytes \<Rightarrow> int option) \<Rightarrow> bool" where
  "reads_length f \<longleftrightarrow> (\<forall>n k. k \<noteq> 0 \<and> n < 256 ^ k div 2 \<longrightarrow> f (left_pad (Bytes n) k) = Some (int n))"

lemma FungibleTransferHandler_ok:
  assumes "reads_length f" "elems cd = erc20_calldata amount recipient rest"
    and "length amount = 32" "20 \<le> length recipient" "length recipient < 2 ^ 62"
  shows "FungibleTransferHandler f s d n r cd i t =
     Inr (transfer_message s d n r [] [IBytes amount, IBytes recipient] FungibleTransfer i t)"
proof -
  note h = head_fields [OF assms(2) [unfolded erc20_calldata_def] assms(3,5)]
  have "length recipient < 256 ^ 32 div 2" using assms(5) by simp
  then have "f (left_pad (Bytes (length recipient)) 32) = Some (int (length recipient))"
    using assms(1) by (simp add: reads_length_def)
  moreover have "int64 (int (length recipient)) = int (length recipient)"
    "int64 (64 + int (length recipient)) = 64 + int (length recipient)"
    using assms(5) by (simp_all add: int64_small)
  ultimately show ?thesis using h assms by (simp add: FungibleTransferHandler_def)
qed

text \<open>
  C39. A fungible deposit made on Substrate arrives as it was made, on a Substrate and on an
  EVM destination alike: the proposal data is amount, recipient length and recipient of the
  deposit, whatever follows them.
\<close>

theorem substrate_deposit_roundtrip:
  assumes "pads_left lib" "reads_length f" "elems cd = erc20_calldata amount recipient rest"
    and "length amount = 32" "20 \<le> length recipient" "length recipient < 2 ^ 62"
  shows "\<exists>m p. FungibleTransferHandler f s d n r cd i t = Inr m \<and>
     SubstrateMessageHandler_HandleMessage lib m = Inr p \<and> TransferMessageHandler_HandleMessage lib m = Inr p \<and>
     p = NewProposal s d (PTransfer \<lparr>tpd_DepositNonce = n, tpd_ResourceId = r, tpd_Metadata = [],
           tpd_Data = erc20_calldata amount recipient []\<rparr>) i TransferProposalType"
  using FungibleTransferHandler_ok [OF assms(2-6)] assms(1,4)
  by (simp add: SubstrateMessageHandler_HandleMessage_def fungibleTransferMessageHandler_def
      proposal_bytes_simps transfer_message_def NewMessage_def erc20_calldata_def)

definition example_int :: "bytes \<Rightarrow> int option" where
  "example_int b = Some (int (SetBytes b))"

lemma example_int_reads: "reads_length example_int"
  by (simp add: reads_length_def example_int_def)

theorem substrate_deposit_roundtrip_witness:
  "\<exists>m p. FungibleTransferHandler example_int 5 2 9 [3] (exact (erc20_calldata (replicate 32 9) (replicate 32 1) [])) ''id'' 0 = Inr m \<and>
     SubstrateMessageHandler_HandleMessage example_lib m = Inr p \<and> TransferMessageHandler_HandleMessage example_lib m = Inr p"
proof -
  let ?cd = "exact (erc20_calldata (replicate 32 9) (replicate 32 1) [])"
  have "elems ?cd = erc20_calldata (replicate 32 9) (replicate 32 1) []" by simp
  from substrate_deposit_roundtrip [OF example_lib_pads example_int_reads this] show ?thesis by fastforce
qed

section \<open>Deposits per destination\<close>

text \<open>
  The deposit events of a range of blocks are delivered complete, in order and by
  destination; an event that cannot be handled costs no other event its message.
\<close>

theorem substrate_process_deposits:
  assumes "fetch startBlock endBlock = Inr evts"
  shows "\<exists>dd. Substrate_ProcessDeposits lib handle fetch domain startBlock endBlock = Inr dd \<and> grouped dd \<and>
     Substrate_HandleEvents lib handle fetch domain startBlock endBlock = Inr (map snd dd) \<and>
     (\<forall>k. at_key dd k = filter (\<lambda>m. m_Destination m = k)
        (oks (substrate_message lib handle domain '''' startBlock endBlock) (filter (\<lambda>e. ev_Name e = DepositEvent) evts)))"
  using assms
  by (simp add: Substrate_ProcessDeposits_def Substrate_HandleEvents_def group_loop_at_key group_loop_grouped)

definition example_mapstructure :: "nat mapstructure" where
  "example_mapstructure = \<lparr>DecodeU8 = (\<lambda>v. Inr (of_nat v)), DecodeU64 = (\<lambda>v. Inr (of_nat v)), DecodeU128 = Inr,
     DecodeBytes32 = (\<lambda>v. Inr (replicate 32 (of_nat v))), DecodeBytes = (\<lambda>v. Inr (exact [])), DecodeByte1 = (\<lambda>v. Inr [0]),
     DecodeTime = (\<lambda>v. Inr (int v))\<rparr>"

definition example_deposit_event :: "nat \<Rightarrow> nat Event" where
  "example_deposit_event dest = \<lparr>ev_Name = DepositEvent, ev_Fields = [(''dest_domain_id'', dest), (''deposit_nonce'', 4)]\<rparr>"

definition example_substrate_handler :: handle_substrate_deposit where
  "example_substrate_handler s d n r cd tt i t = Inr (transfer_message s d n r [] [] FungibleTransfer i t)"

theorem substrate_process_deposits_witness:
  "\<exists>dd. Substrate_ProcessDeposits example_mapstructure example_substrate_handler
      (\<lambda>_ _. Inr [example_deposit_event 1, example_deposit_event 2]) 5 1 2 = Inr dd \<and> grouped dd \<and> length (at_key dd 2) = 1"
proof -
  let ?f = "\<lambda>_ _. Inr [example_deposit_event 1, example_deposit_event 2]"
  obtain dd where dd: "Substrate_ProcessDeposits example_mapstructure example_substrate_handler ?f 5 1 2 = Inr dd" "grouped dd"
    "at_key dd 2 = filter (\<lambda>m. m_Destination m = 2) (oks (substrate_message example_mapstructure example_substrate_handler 5 '''' 1 2)
        (filter (\<lambda>e. ev_Name e = DepositEvent) [example_deposit_event 1, example_deposit_event 2]))"
    using substrate_process_deposits [of ?f 1 2 "[example_deposit_event 1, example_deposit_event 2]" example_mapstructure
        example_substrate_handler 5] by blast
  moreover from dd(3) have "length (at_key dd 2) = 1"
    by (simp add: example_deposit_event_def substrate_message_def Substrate_DecodeDepositEvent_def decode_deposit_field_def
        example_mapstructure_def example_substrate_handler_def zero_deposit_def transfer_message_def NewMessage_def)
  ultimately show ?thesis by blast
qed

section \<open>Retries\<close>

lemma retry_block_ok:
  "retry_block f dd es = (Inr (), dd') \<Longrightarrow>
   at_key dd' k = at_key dd k @ filter (\<lambda>m. m_Destination m = k) (oks f (filter (\<lambda>e. ev_Name e = DepositEvent) es))"
  by (induction es arbitrary: dd) (auto split: if_splits sum.splits)

text \<open>
  A retry request on Substrate repeats the whole block: whatever destination the request
  names, every deposit of the block is sent again, to its own destination, and no proposal
  status is consulted.
\<close>

theorem substrate_retry_repeats_block:
  assumes "DecodeRetryEvent lib (ev_Fields evt) = Inr er" "sr_DepositOnBlockHeight er = Some height" "int height \<le> finalized"
    and "GetBlockHash conn (of_nat height) = Inr h" "GetBlockEvents conn h = Inr es"
    and "retry_event lib conn f finalized dd evt = (Inr (), dd')"
  shows "at_key dd' k = at_key dd k @ filter (\<lambda>m. m_Destination m = k) (oks f (filter (\<lambda>e. ev_Name e = DepositEvent) es))"
  using assms by (intro retry_block_ok) (simp add: retry_event_def)

definition example_retry_event :: "nat Event" where
  "example_retry_event = \<lparr>ev_Name = RetryEvent, ev_Fields = [(''deposit_on_block_height'', 3), (''dest_domain_id'', 1)]\<rparr>"

definition example_conn :: "(nat, nat) substrate_conn" where
  "example_conn = \<lparr>FetchEvents = (\<lambda>_ _. Inr [example_retry_event]), FinalizedNumber = Inr 9, GetBlockHash = (\<lambda>n. Inr (unat n)),
     GetBlockEvents = (\<lambda>_. Inr [example_deposit_event 1, example_deposit_event 2])\<rparr>"

theorem substrate_retry_repeats_block_witness:
  "\<exists>dd' er. DecodeRetryEvent example_mapstructure (ev_Fields example_retry_event) = Inr er \<and> sr_DestDomainID er = 1 \<and>
     retry_event example_mapstructure example_conn (substrate_message example_mapstructure example_substrate_handler 5 ''retry-'' 1 2) 9 []
       example_retry_event = (Inr (), dd') \<and> length (at_key dd' 2) = 1"
proof -
  let ?f = "substrate_message example_mapstructure example_substrate_handler 5 ''retry-'' 1 2"
  let ?es = "[example_deposit_event 1, example_deposit_event 2]"
  note ex = example_deposit_event_def substrate_message_def Substrate_DecodeDepositEvent_def decode_deposit_field_def
        example_mapstructure_def example_substrate_handler_def zero_deposit_def transfer_message_def NewMessage_def
  have er: "DecodeRetryEvent example_mapstructure (ev_Fields example_retry_event) =
      Inr \<lparr>sr_DepositOnBlockHeight = Some 3, sr_DestDomainID = 1\<rparr>"
    by (simp add: DecodeRetryEvent_def example_retry_event_def example_mapstructure_def)
  have "\<exists>dd'. retry_event example_mapstructure example_conn ?f 9 [] example_retry_event = (Inr (), dd')"
    unfolding retry_event_def er by (simp add: example_conn_def ex)
  then obtain dd' where run: "retry_event example_mapstructure example_conn ?f 9 [] example_retry_event = (Inr (), dd')" by blast
  have "at_key dd' (2 :: uint8) = at_key [] (2 :: uint8) @ filter (\<lambda>m. m_Destination m = 2) (oks ?f (filter (\<lambda>e. ev_Name e = DepositEvent) ?es))"
    by (rule substrate_retry_repeats_block [OF er, of 3 9 example_conn 3 ?es]) (use run in \<open>simp_all add: example_conn_def\<close>)
  then have "length (at_key dd' 2) = 1" by (simp add: ex)
  with er run show ?thesis by auto
qed

section \<open>Execution\<close>

lemma collect_proposals_spec:
  assumes "collect_proposals I tps app props = Inr (tps', app')"
  shows "\<exists>new. tps' = tps @ new \<and> map Inr new = map toTransferProposal props \<and> length app \<le> length app'"
  using assms
proof (induction props arbitrary: tps app)
  case (Cons p props)
  then obtain tp ex where tp: "toTransferProposal p = Inr tp" "I tp = Inr ex"
    "collect_proposals I (tps @ [tp]) (if ex then app else app @ [p]) props = Inr (tps', app')"
    by auto
  from Cons.IH [OF tp(3)] tp(1) show ?case by (auto split: if_splits)
qed simp

text \<open>
  The Substrate executor does not leave out executed proposals: whatever the pallet reports
  about them, the message that is signed and the extrinsic that is submitted cover all
  proposals of the request, and a request with at least one proposal always opens a session.
\<close>

theorem substrate_executes_everything:
  assumes "Substrate_Execute I hash NewSigning props = Inr r" "props \<noteq> []"
  shows "\<exists>s. r = Some s \<and> map Inr (su_proposals s) = map toTransferProposal props \<and>
     (\<exists>h. hash (su_proposals s) = Inr h \<and> su_msg s = SetBytes h)"
proof -
  from assms(1) obtain tps app where c: "collect_proposals I [] props props = Inr (tps, app)"
    by (cases "collect_proposals I [] props props") (auto simp: Substrate_Execute_def)
  from collect_proposals_spec [OF c] assms(2) have "map Inr tps = map toTransferProposal props" "app \<noteq> []" by auto
  with c assms(1) show ?thesis by (auto simp: Substrate_Execute_def Let_def split: if_splits)
qed

theorem substrate_executes_everything_witness:
  "\<exists>s. Substrate_Execute (\<lambda>_. Inr True) (\<lambda>_. Inr [1]) (\<lambda>_. Inr ()) [example_open 1] = Inr (Some s) \<and>
     su_proposals s = [example_proposal 1 []]"
proof -
  let ?r = "Substrate_Execute (\<lambda>_. Inr True) (\<lambda>_. Inr [1]) (\<lambda>_. Inr ()) [example_open 1]"
  have tp: "toTransferProposal (example_open 1) = Inr (example_proposal 1 [])"
    by (simp add: toTransferProposal_def example_open_def NewProposal_def example_proposal_def)
  then obtain r where r: "?r = Inr r" by (simp add: Substrate_Execute_def Let_def)
  with substrate_executes_everything [OF r] tp show ?thesis by auto
qed


lemma Substrate_watchExecution_actions:
  "snd (Substrate_watchExecution pad props sid es) = acts \<Longrightarrow>
   length (filter (\<lambda>a. \<exists>ps sig. a = SubSubmit ps sig) acts) \<le> 1 \<and>
   (\<forall>ps sig. SubSubmit ps sig \<in> set acts \<longrightarrow> ps = props \<and>
      (\<exists>sd pallet track. SubSig (Some sd) pallet track \<in> set es \<and> batchSignature pad sd = Inr sig)) \<and>
   (\<forall>s. SubFail s \<in> set acts \<longrightarrow> s = sid \<and> (\<exists>err. fst (Substrate_watchExecution pad props sid es) = Some (Inl err)))"
proof (induction pad props sid es arbitrary: acts rule: Substrate_watchExecution.induct)
  case (3 pad props sid sd pallet track es)
  then show ?case
    by (cases "batchSignature pad sd"; cases "executeProposal pad pallet props sd") fastforce+
next
  case (2 pad props sid pallet track es)
  then show ?case by (auto simp: case_prod_beta)
qed (auto split: if_splits)

text \<open>
  A Substrate session submits at most one extrinsic, with the proposals it was opened for
  and a signature the signing process delivered, and it announces a failure only for its own
  session and only when it ends with an error.
\<close>

theorem substrate_watch_safe:
  assumes "Substrate_watchExecution pad props sid es = (r, acts)"
  shows "length (filter (\<lambda>a. \<exists>ps sig. a = SubSubmit ps sig) acts) \<le> 1 \<and>
   (\<forall>ps sig. SubSubmit ps sig \<in> set acts \<longrightarrow> ps = props \<and>
      (\<exists>sd pallet track. SubSig (Some sd) pallet track \<in> set es \<and> batchSignature pad sd = Inr sig)) \<and>
   (\<forall>s. SubFail s \<in> set acts \<longrightarrow> s = sid \<and> (\<exists>err. r = Some (Inl err)))"
  using Substrate_watchExecution_actions [of pad props sid es acts] assms by simp

theorem substrate_watch_safe_witness:
  "\<exists>r acts sig. Substrate_watchExecution left_pad [example_proposal 1 []] ''s''
      [SubSig None (\<lambda>_ _. Inr []) (Inr ()), SubSig (Some example_signature) (\<lambda>_ _. Inl (Error [])) (Inr ())] = (r, acts) \<and>
     SubSubmit [example_proposal 1 []] sig \<in> set acts \<and> SubFail ''s'' \<in> set acts \<and> (\<exists>err. r = Some (Inl err))"
proof -
  let ?es = "[SubSig None (\<lambda>_ _. Inr []) (Inr ()), SubSig (Some example_signature) (\<lambda>_ _. Inl (Error [])) (Inr ())]"
  obtain sig where sig: "batchSignature left_pad example_signature = Inr sig"
    by (simp add: batchSignature_def example_signature_def left_pad_def)
  obtain r acts where run: "Substrate_watchExecution left_pad [example_proposal 1 []] ''s'' ?es = (r, acts)" by fastforce
  then have "SubFail ''s'' \<in> set acts" "SubSubmit [example_proposal 1 []] sig \<in> set acts"
    by (auto simp: executeProposal_def sig)
  with substrate_watch_safe [OF run] run show ?thesis by blast
qed

end
