(* ===== verification/App.thy ===== *)
theory App
  imports Config Key_Lock Evm_Executor Btc_Listener Btc_Mempool Btc_Uploader Substrate
begin

text \<open>
  Start-up (\<open>app/app.go\<close>): choosing and loading the configuration, finding the topology, building
  one chain per configured domain; the Bitcoin chain object (\<open>chains/btc/chain.go\<close>), the topology
  commands (\<open>cli/topology\<close>) and the health job (\<open>jobs\<close>, \<open>metrics/mpc.go\<close>). Constructors that only
  store their arguments are left out; connections and the block store of sygma-core are arguments.
\<close>

definition panicOnError :: "'a res \<Rightarrow> 'a res" where
  "panicOnError r = (case r of Inl (Error e) \<Rightarrow> Inl (Panic e) | _ \<Rightarrow> r)"

section \<open>Configuration and topology\<close>

text \<open>\<open>strings.ToLower\<close> on ASCII.\<close>

definition ToLower :: "string \<Rightarrow> string" where
  "ToLower s = map lower s"

definition load_configuration ::
  "(string \<Rightarrow> Config res) \<Rightarrow> (Config option \<Rightarrow> Config res) \<Rightarrow> (string \<Rightarrow> Config option \<Rightarrow> Config res) \<Rightarrow> string \<Rightarrow> string \<Rightarrow> Config res" where
  "load_configuration fromNetwork fromENV fromFile configFlag configURL =
     and_then (if configURL \<noteq> '''' then and_then (panicOnError (fromNetwork configURL)) (\<lambda>c. Inr (Some c)) else Inr None)
       (\<lambda>configuration.
          if ToLower configFlag = ''env'' then panicOnError (fromENV configuration)
          else panicOnError (fromFile configFlag configuration))"

text \<open>
  A stored topology is used as it is. Without one the topology is fetched, with no hash to
  compare with, and stored.
\<close>

definition startup_topology ::
  "NetworkTopology files \<Rightarrow> provider \<Rightarrow> bytes option \<Rightarrow> NetworkTopology res \<times> bytes option" where
  "startup_topology fs topologyProvider stored =
     (case ReadTopology fs stored of
        Inr networkTopology \<Rightarrow> (Inr networkTopology, stored)
      | Inl (Panic e) \<Rightarrow> (Inl (Panic e), stored)
      | Inl (Error _) \<Rightarrow>
          (case panicOnError (Provider_NetworkTopology topologyProvider '''') of
             Inl e \<Rightarrow> (Inl e, stored)
           | Inr networkTopology \<Rightarrow>
               (case StoreTopology fs stored networkTopology of
                  (r, stored') \<Rightarrow> (and_then (panicOnError r) (\<lambda>_. Inr networkTopology), stored'))))"

section \<open>Chains\<close>

definition register_handler :: "(string \<Rightarrow> 'h) \<Rightarrow> 'h DepositHandlers \<Rightarrow> HandlerConfig \<Rightarrow> 'h DepositHandlers" where
  "register_handler HexToAddress handlers handler =
     (if hc_Type handler = ''erc20'' \<or> hc_Type handler = ''native''
      then RegisterDepositHandler HexToAddress handlers (hc_Address handler) Erc20Handler
      else if hc_Type handler = ''permissionlessGeneric''
      then RegisterDepositHandler HexToAddress handlers (hc_Address handler) PermissionlessHandler
      else if hc_Type handler = ''erc721''
      then RegisterDepositHandler HexToAddress handlers (hc_Address handler) Erc721Handler
      else if hc_Type handler = ''erc1155''
      then RegisterDepositHandler HexToAddress handlers (hc_Address handler) Erc1155Handler
      else handlers)"

definition register_handlers :: "(string \<Rightarrow> 'h) \<Rightarrow> HandlerConfig list \<Rightarrow> 'h DepositHandlers" where
  "register_handlers HexToAddress configs = foldl (register_handler HexToAddress) NewETHDepositHandler configs"

text \<open>\<open>GetStartBlock\<close> belongs to the block store of sygma-core; \<open>None\<close> asks for the head of the chain.\<close>

type_synonym get_start_block = "uint8 \<Rightarrow> int \<Rightarrow> bool \<Rightarrow> bool \<Rightarrow> int option res"

definition start_block :: "get_start_block \<Rightarrow> int res \<Rightarrow> GeneralChainConfig \<Rightarrow> int \<Rightarrow> int \<Rightarrow> int res" where
  "start_block GetStartBlock latestBlock general startBlock blockInterval =
     and_then (panicOnError (GetStartBlock (the (gc_Id general)) startBlock (gc_LatestBlock general) (gc_FreshStart general))) (\<lambda>s.
     and_then (case s of None \<Rightarrow> panicOnError latestBlock | Some b \<Rightarrow> Inr b) (\<lambda>b.
     panicOnError (CalculateStartingBlock (Some b) (Some blockInterval))))"

definition resource_map :: "'a Resource list \<Rightarrow> (bytes32 \<rightharpoonup> 'a Resource)" where
  "resource_map resources = foldl (\<lambda>m resource. m(rc_ResourceID resource \<mapsto> resource)) Map.empty resources"

datatype ('h, 'a) chain =
    EvmChain EVMConfig "'h DepositHandlers" int
  | SubstrateChain SubstrateConfig int
  | BtcChain "'a BtcConfig" "bytes32 \<rightharpoonup> 'a Resource"

text \<open>
  What the chains are built with: the decoders and defaults of the three configurations,
  connecting to the node, the head of the chain, the address parsers.
\<close>

record ('h, 'a) app_libs =
  al_flags :: viper_flags
  al_DecodeEvm :: "chain_config \<Rightarrow> RawEVMConfig res"
  al_DefaultsEvm :: "RawEVMConfig \<Rightarrow> RawEVMConfig res"
  al_ConnectEvm :: "EVMConfig \<Rightarrow> unit res"
  al_HeadEvm :: "EVMConfig \<Rightarrow> int res"
  al_HexToAddress :: "string \<Rightarrow> 'h"
  al_DecodeSubstrate :: "chain_config \<Rightarrow> RawSubstrateConfig res"
  al_DefaultsSubstrate :: "RawSubstrateConfig \<Rightarrow> RawSubstrateConfig res"
  al_ConnectSubstrate :: "SubstrateConfig \<Rightarrow> unit res"
  al_HeadSubstrate :: "SubstrateConfig \<Rightarrow> int res"
  al_DecodeBtc :: "chain_config \<Rightarrow> RawBtcConfig res"
  al_DefaultsBtc :: "RawBtcConfig \<Rightarrow> RawBtcConfig res"
  al_ConnectBtc :: "'a BtcConfig \<Rightarrow> unit res"
  al_DecodeAddress :: "string \<Rightarrow> Params \<Rightarrow> 'a res"
  al_GetStartBlock :: get_start_block

definition new_evm_chain :: "('h, 'a) app_libs \<Rightarrow> chain_config \<Rightarrow> (uint8 \<times> ('h, 'a) chain) res" where
  "new_evm_chain libs chainConfig =
     and_then (panicOnError (NewEVMConfig (al_DecodeEvm libs) (al_DefaultsEvm libs) (al_flags libs) chainConfig)) (\<lambda>config.
     and_then (panicOnError (al_ConnectEvm libs config)) (\<lambda>_.
     and_then (start_block (al_GetStartBlock libs) (al_HeadEvm libs config) (ec_GeneralChainConfig config) (ec_StartBlock config)
        (ec_BlockInterval config)) (\<lambda>startBlock.
     Inr (the (gc_Id (ec_GeneralChainConfig config)),
          EvmChain config (register_handlers (al_HexToAddress libs) (ec_Handlers config)) startBlock))))"

definition new_substrate_chain :: "('h, 'a) app_libs \<Rightarrow> chain_config \<Rightarrow> (uint8 \<times> ('h, 'a) chain) res" where
  "new_substrate_chain libs chainConfig =
     and_then (panicOnError (NewSubstrateConfig (al_DecodeSubstrate libs) (al_DefaultsSubstrate libs) (al_flags libs) chainConfig)) (\<lambda>config.
     and_then (panicOnError (al_ConnectSubstrate libs config)) (\<lambda>_.
     and_then (start_block (al_GetStartBlock libs) (al_HeadSubstrate libs config) (su_GeneralChainConfig config) (su_StartBlock config)
        (su_BlockInterval config)) (\<lambda>startBlock.
     Inr (the (gc_Id (su_GeneralChainConfig config)), SubstrateChain config startBlock))))"

definition new_btc_chain :: "('h, 'a) app_libs \<Rightarrow> chain_config \<Rightarrow> (uint8 \<times> ('h, 'a) chain) res" where
  "new_btc_chain libs chainConfig =
     and_then (panicOnError (NewBtcConfig (al_DecodeBtc libs) (al_DefaultsBtc libs) (al_DecodeAddress libs) (al_flags libs) chainConfig)) (\<lambda>config.
     and_then (panicOnError (al_ConnectBtc libs config)) (\<lambda>_.
     Inr (the (gc_Id (bt_GeneralChainConfig config)), BtcChain config (resource_map (bt_Resources config)))))"

fun register_domains ::
  "('h, 'a) app_libs \<Rightarrow> (uint8 \<rightharpoonup> ('h, 'a) chain) \<Rightarrow> chain_config list \<Rightarrow> (uint8 \<rightharpoonup> ('h, 'a) chain) res" where
  "register_domains libs domains [] = Inr domains"
| "register_domains libs domains (chainConfig # rest) =
     (let t = config_get chainConfig ''type'' in
      and_then
        (if t = JString ''evm'' then new_evm_chain libs chainConfig
         else if t = JString ''substrate'' then new_substrate_chain libs chainConfig
         else if t = JString ''btc'' then new_btc_chain libs chainConfig
         else Inl (Panic ''type not recognized''))
        (\<lambda>(i, ch). register_domains libs (domains(i \<mapsto> ch)) rest))"

section \<open>The Bitcoin chain\<close>

record btc_chain =
  bch_id :: uint8
  bch_startBlock :: "int option"

definition NewBtcChain :: "uint8 \<Rightarrow> btc_chain" where
  "NewBtcChain i = \<lparr>bch_id = i, bch_startBlock = None\<rparr>"

text \<open>The error log reads the first proposal.\<close>

definition BtcChain_Write :: "(proposal list \<Rightarrow> unit res) \<Rightarrow> proposal list \<Rightarrow> unit res" where
  "BtcChain_Write execute props =
     (case execute props of
        Inl (Error e) \<Rightarrow> if props = [] then Inl (Panic ''index out of range'') else Inl (Error e)
      | r \<Rightarrow> r)"

definition BtcChain_PollEvents :: "btc_chain \<Rightarrow> int \<Rightarrow> poll list \<Rightarrow> int option \<times> listen_action list" where
  "BtcChain_PollEvents c confirmations polls = ListenToEvents confirmations (bch_startBlock c) polls"

section \<open>Publishing a topology\<close>

text \<open>
  The command that encrypts a topology file; its result is the ciphertext and the hash it prints.
  The deferred \<open>Close\<close> of a file that could not be opened panics, and so does encrypting without a
  cipher, whose error is dropped.
\<close>

definition encryptTopology ::
  "(bytes \<Rightarrow> bytes) res \<Rightarrow> bytes res \<Rightarrow> (bytes \<Rightarrow> RawTopology res) \<Rightarrow> (bytes \<Rightarrow> bytes) \<Rightarrow> bytes res \<Rightarrow> unit res \<Rightarrow> bytes res \<Rightarrow>
   (string \<times> string) res" where
  "encryptTopology cipher rnd Unmarshal Sha256 openFile closeFile readFile =
     (case openFile of
        Inl _ \<Rightarrow> Inl (Panic ''invalid argument'')
      | Inr _ \<Rightarrow>
          (let result =
             and_then readFile (\<lambda>byteValue.
             and_then (wrap_error ''topology was wrong formed '' (Unmarshal byteValue)) (\<lambda>_.
             case cipher of
               Inl _ \<Rightarrow> Inl (Panic ''invalid memory address or nil pointer dereference'')
             | Inr block \<Rightarrow>
                 and_then (Encrypt block rnd byteValue) (\<lambda>ct. Inr (hex_encode ct, hex_encode (Sha256 ct)))))
           in case closeFile of Inl e \<Rightarrow> Inl (Panic ''close'') | Inr _ \<Rightarrow> result))"

definition testTopology :: "provider res \<Rightarrow> string \<Rightarrow> NetworkTopology res" where
  "testTopology newProvider hash = and_then newProvider (\<lambda>nt. Provider_NetworkTopology nt hash)"

section \<open>The health job\<close>

record MpcMetrics =
  mm_totalRelayerCount :: int
  mm_availableRelayerCount :: int

definition TrackRelayerStatus :: "MpcMetrics \<Rightarrow> 'p list \<Rightarrow> 'p list \<Rightarrow> MpcMetrics" where
  "TrackRelayerStatus m unavailable all =
     m\<lparr>mm_totalRelayerCount := int (length all), mm_availableRelayerCount := int (length all) - int (length unavailable)\<rparr>"

text \<open>One round of the job.\<close>

definition health_check_round ::
  "('n \<Rightarrow> 'p list \<Rightarrow> bytes \<Rightarrow> MessageType \<Rightarrow> string \<Rightarrow> 'p comm_error option \<times> 'n) \<Rightarrow> ('n \<Rightarrow> string \<Rightarrow> 'n) \<Rightarrow>
   'p list \<Rightarrow> 'n \<Rightarrow> MpcMetrics \<Rightarrow> MpcMetrics res \<times> 'n" where
  "health_check_round broadcast closeSession peers net m =
     (let (r, net') = ExecuteCommHealthCheck broadcast closeSession net peers
      in (and_then r (\<lambda>errors. Inr (TrackRelayerStatus m (map fst errors) peers)), net'))"

section \<open>The registered chains\<close>

lemma panicOnError_Inr [simp]: "panicOnError r = Inr x \<longleftrightarrow> r = Inr x"
  by (cases r) (auto simp: panicOnError_def split: go_error.splits)

lemma panicOnError_is_panic: "panicOnError r = Inl e \<Longrightarrow> \<exists>s. e = Panic s"
  by (cases r; cases "projl r") (auto simp: panicOnError_def)

definition chain_ok :: "uint8 \<Rightarrow> ('h, 'a) chain \<Rightarrow> bool" where
  "chain_ok i ch =
     (case ch of
        EvmChain c hs b \<Rightarrow>
          gc_Id (ec_GeneralChainConfig c) = Some i \<and> 1 \<le> ec_BlockConfirmations c \<and> ec_Bridge c \<noteq> '''' \<and> ec_BlockInterval c dvd b
      | SubstrateChain c b \<Rightarrow> gc_Id (su_GeneralChainConfig c) = Some i \<and> su_BlockInterval c dvd b
      | BtcChain c rs \<Rightarrow>
          gc_Id (bt_GeneralChainConfig c) = Some i \<and> 1 \<le> bt_BlockConfirmations c \<and>
          (\<forall>rid r. rs rid = Some r \<longrightarrow> rc_ResourceID r = rid \<and> r \<in> set (bt_Resources c)))"

lemma ParseFlags_Id [simp]: "gc_Id (ParseFlags flags c) = gc_Id c"
  by (simp add: ParseFlags_def Let_def)

lemma GeneralChainConfig_Validate_Id: "GeneralChainConfig_Validate c = Inr u \<Longrightarrow> \<exists>i. gc_Id c = Some i"
  by (auto simp: GeneralChainConfig_Validate_def split: option.splits)

lemma dvd_minus_mod_abs: "(c :: int) dvd v - v mod \<bar>c\<bar>"
proof -
  have "\<bar>c\<bar> dvd v - v mod \<bar>c\<bar>" by (rule dvd_minus_mod)
  then show ?thesis unfolding abs_dvd_iff .
qed

lemma start_block_dvd: "start_block get head g s interval = Inr b \<Longrightarrow> interval dvd b"
  by (auto simp: start_block_def CalculateStartingBlock_def dvd_minus_mod_abs split: if_splits option.splits)

lemma resource_map_Some: "resource_map rs rid = Some r \<Longrightarrow> rc_ResourceID r = rid \<and> r \<in> set rs"
proof -
  have "foldl (\<lambda>m resource. m(rc_ResourceID resource \<mapsto> resource)) m0 rs rid = Some r \<Longrightarrow>
      rc_ResourceID r = rid \<and> r \<in> set rs \<or> m0 rid = Some r" for m0
    by (induction rs arbitrary: m0) (fastforce split: if_splits)+
  then show "resource_map rs rid = Some r \<Longrightarrow> rc_ResourceID r = rid \<and> r \<in> set rs"
    by (fastforce simp: resource_map_def)
qed

lemma new_evm_chain_ok: "new_evm_chain libs c = Inr (i, ch) \<Longrightarrow> chain_ok i ch"
  by (auto simp: new_evm_chain_def NewEVMConfig_def RawEVMConfig_Validate_def chain_ok_def
      dest!: start_block_dvd GeneralChainConfig_Validate_Id split: if_splits)

lemma new_substrate_chain_ok: "new_substrate_chain libs c = Inr (i, ch) \<Longrightarrow> chain_ok i ch"
  by (auto simp: new_substrate_chain_def NewSubstrateConfig_def RawSubstrateConfig_Validate_def chain_ok_def
      dest!: start_block_dvd GeneralChainConfig_Validate_Id)

lemma new_btc_chain_ok: "new_btc_chain libs c = Inr (i, ch) \<Longrightarrow> chain_ok i ch"
  by (auto simp: new_btc_chain_def NewBtcConfig_def RawBtcConfig_Validate_def chain_ok_def Let_def
      dest!: GeneralChainConfig_Validate_Id dest: resource_map_Some split: if_splits)

lemma register_domains_ok:
  assumes "register_domains libs domains configs = Inr domains'" "\<And>i ch. domains i = Some ch \<Longrightarrow> chain_ok i ch"
    and "domains' i = Some ch"
  shows "chain_ok i ch"
  using assms
proof (induction configs arbitrary: domains)
  case (Cons chainConfig rest)
  then obtain j c where c: "chain_ok j c" "register_domains libs (domains(j \<mapsto> c)) rest = Inr domains'"
    by (auto simp: Let_def dest: new_evm_chain_ok new_substrate_chain_ok new_btc_chain_ok split: if_splits)
  show ?case by (rule Cons.IH [OF c(2) _ Cons.prems(3)]) (use c(1) Cons.prems(2) in \<open>auto split: if_splits\<close>)
qed simp

text \<open>
  Every chain that start-up registers is registered under its own id, listens from a block that
  is a multiple of its block interval (EVM and Substrate), waits for at least one confirmation
  (EVM and Bitcoin), and keeps the Bitcoin resources under their own ids.
\<close>

lemma startup_domains:
  assumes "register_domains libs Map.empty configs = Inr domains" "domains i = Some ch"
  shows "chain_ok i ch"
  using register_domains_ok [OF assms(1) _ assms(2)] by simp

definition sample_general :: GeneralChainConfig where
  "sample_general = \<lparr>gc_Name = ''eth'', gc_Id = Some 1, gc_Endpoint = ''ws://node'', gc_Type = ''evm'', gc_BlockstorePath = '''',
     gc_FreshStart = False, gc_LatestBlock = False, gc_Key = ''k'', gc_Insecure = False\<rparr>"

definition sample_evm :: RawEVMConfig where
  "sample_evm = \<lparr>re_GeneralChainConfig = sample_general, re_Bridge = ''0xb'', re_Retry = '''', re_FrostKeygen = '''',
     re_Handlers = [\<lparr>hc_Address = ''0xa'', hc_Type = ''erc20''\<rparr>], re_MaxGasPrice = 500, re_GasMultiplier = (False, (1, 0)),
     re_GasIncreasePercentage = 15, re_GasLimit = 15000000, re_TransferGas = 250000, re_StartBlock = 0,
     re_BlockConfirmations = 10, re_BlockInterval = 5, re_BlockRetryInterval = 5\<rparr>"

definition sample_libs :: "(string, string) app_libs" where
  "sample_libs = \<lparr>al_flags = \<lparr>vf_Blockstore = '''', vf_FreshStart = False, vf_LatestBlock = False\<rparr>,
     al_DecodeEvm = (\<lambda>_. Inr sample_evm), al_DefaultsEvm = Inr, al_ConnectEvm = (\<lambda>_. Inr ()), al_HeadEvm = (\<lambda>_. Inr 104),
     al_HexToAddress = (\<lambda>s. s), al_DecodeSubstrate = (\<lambda>_. Inl (Error ''decode'')), al_DefaultsSubstrate = Inr,
     al_ConnectSubstrate = (\<lambda>_. Inr ()), al_HeadSubstrate = (\<lambda>_. Inr 0), al_DecodeBtc = (\<lambda>_. Inl (Error ''decode'')),
     al_DefaultsBtc = Inr, al_ConnectBtc = (\<lambda>_. Inr ()), al_DecodeAddress = (\<lambda>s p. Inr s),
     al_GetStartBlock = (\<lambda>i s latest fresh. Inr None)\<rparr>"

lemma startup_domains_witness:
  "\<exists>domains ch. register_domains sample_libs Map.empty [sample_chain (JInt 1)] = Inr domains \<and> domains 1 = Some ch \<and> chain_ok 1 ch"
proof -
  have "\<exists>domains ch. register_domains sample_libs Map.empty [sample_chain (JInt 1)] = Inr domains \<and> domains 1 = Some ch"
    by (simp add: sample_chain_def config_get_def new_evm_chain_def NewEVMConfig_def sample_libs_def sample_evm_def sample_general_def
        RawEVMConfig_Validate_def GeneralChainConfig_Validate_def ParseFlags_def panicOnError_def start_block_def CalculateStartingBlock_def)
  then show ?thesis using startup_domains by blast
qed


lemma start_block_panics: "start_block get head g s interval = Inl e \<Longrightarrow> \<exists>t. e = Panic t"
  by (auto simp: start_block_def and_then_Inl_iff dest: panicOnError_is_panic split: option.splits)

lemma new_chain_panics:
  "new_evm_chain libs c = Inl e \<Longrightarrow> \<exists>t. e = Panic t"
  "new_substrate_chain libs c = Inl e \<Longrightarrow> \<exists>t. e = Panic t"
  "new_btc_chain libs c = Inl e \<Longrightarrow> \<exists>t. e = Panic t"
  by (auto simp: new_evm_chain_def new_substrate_chain_def new_btc_chain_def and_then_Inl_iff
      dest: panicOnError_is_panic start_block_panics)

lemma register_domains_panics: "register_domains libs domains configs = Inl e \<Longrightarrow> \<exists>t. e = Panic t"
proof (induction configs arbitrary: domains)
  case (Cons c configs)
  from Cons.prems show ?case
    by (auto simp: Let_def and_then_Inl_iff dest: new_chain_panics Cons.IH split: if_splits)
qed simp

lemma register_domains_types:
  "register_domains libs domains configs = Inr domains' \<Longrightarrow> c \<in> set configs \<Longrightarrow>
   config_get c ''type'' \<in> {JString ''evm'', JString ''substrate'', JString ''btc''}"
proof (induction configs arbitrary: domains)
  case (Cons c' configs)
  from Cons.prems show ?case by (auto simp: Let_def dest: Cons.IH split: if_splits)
qed simp

text \<open>
  Start-up never goes on with a part of the configuration: when one of the chains cannot be
  built, or has an unknown type, the relayer panics.
\<close>

lemma startup_all_or_nothing:
  "case register_domains libs domains configs of
     Inr _ \<Rightarrow> \<forall>c \<in> set configs. config_get c ''type'' \<in> {JString ''evm'', JString ''substrate'', JString ''btc''}
   | Inl e \<Rightarrow> \<exists>t. e = Panic t"
  by (cases "register_domains libs domains configs")
    (auto dest: register_domains_panics dest!: register_domains_types)

section \<open>Topologies\<close>

lemma hex_digit_no_newline: "n < 16 \<Longrightarrow> hex_digit n \<noteq> CHR 0x0A"
proof
  assume "n < 16" "hex_digit n = CHR 0x0A"
  then have "(of_char (hex_digit n) :: nat) = 10" by simp
  with \<open>n < 16\<close> show False by (simp add: hex_digit_def split: if_splits)
qed

lemma hex_encode_no_newline: "CHR 0x0A \<notin> set (hex_encode bs)"
proof -
  have "hex_digit (unat b div 16) \<noteq> CHR 0x0A" "hex_digit (unat b mod 16) \<noteq> CHR 0x0A" for b :: byte
    using unat_byte_less [of b] by (auto intro!: hex_digit_no_newline simp del: hex_digit_def)
  then show ?thesis by (auto simp: hex_encode_def) blast+
qed

lemma TrimSuffix_newline:
  assumes "CHR 0x0A \<notin> set s"
  shows "TrimSuffix (s @ [CHR 0x0A]) [CHR 0x0A] = s" "TrimSuffix s [CHR 0x0A] = s"
proof -
  show "TrimSuffix (s @ [CHR 0x0A]) [CHR 0x0A] = s" by (simp add: TrimSuffix_def)
  have "drop (length s - 1) s \<noteq> [CHR 0x0A]" using assms by (metis in_set_dropD list.set_intros(1))
  then show "TrimSuffix s [CHR 0x0A] = s" by (simp add: TrimSuffix_def)
qed

text \<open>
  C34. A topology file that was encrypted with the command line tool and published, with or without a
  final newline, is accepted under the printed hash and read as exactly the topology of the file,
  for every block cipher with 16-byte blocks, hash function and random vector.
\<close>

lemma published_topology_accepted:
  assumes "\<And>b. length (block b) = BlockSize" "length iv = BlockSize" "unmarshal content = Inr raw"
  shows "\<exists>enc hash. encryptTopology (Inr block) (Inr iv) unmarshal sha (Inr content) (Inr ()) (Inr content) = Inr (enc, hash) \<and>
    (\<forall>end \<in> {'''', [CHR 0x0A]}.
      testTopology (Inr \<lparr>pv_Get = Inr (enc @ end), pv_Sha256 = sha, pv_Block = block, pv_Unmarshal = unmarshal, pv_AddrInfo = addr\<rparr>) hash =
      ProcessRawTopology addr raw)"
proof -
  let ?ct = "iv @ XORKeyStream block iv content"
  have "encryptTopology (Inr block) (Inr iv) unmarshal sha (Inr content) (Inr ()) (Inr content) =
      Inr (hex_encode ?ct, hex_encode (sha ?ct))"
    using assms(3) by (simp add: encryptTopology_def wrap_error_def Encrypt_def)
  moreover have "Decrypt block ?ct = Inr content"
    using assms(2) by (simp add: Decrypt_def XORKeyStream_twice [OF assms(1)])
  ultimately show ?thesis
    using TrimSuffix_newline [OF hex_encode_no_newline [of ?ct]] assms(3)
    by (auto simp: testTopology_def Provider_NetworkTopology_def hex_decode_encode)
qed

lemma published_topology_accepted_witness:
  "\<exists>enc hash. encryptTopology (Inr (\<lambda>b. replicate 16 7)) (Inr (replicate 16 1))
      (\<lambda>b. Inr \<lparr>raw_Peers = [''p''], raw_Threshold = ''1''\<rparr>) (\<lambda>b. [170]) (Inr [1, 2]) (Inr ()) (Inr [1, 2]) = Inr (enc, hash) \<and>
    testTopology (Inr \<lparr>pv_Get = Inr (enc @ [CHR 0x0A]), pv_Sha256 = (\<lambda>b. [170]), pv_Block = (\<lambda>b. replicate 16 7),
        pv_Unmarshal = (\<lambda>b. Inr \<lparr>raw_Peers = [''p''], raw_Threshold = ''1''\<rparr>), pv_AddrInfo = example_addr\<rparr>) hash =
      Inr \<lparr>nt_Peers = [\<lparr>ai_ID = ''p'', ai_Addrs = [''p'']\<rparr>], nt_Threshold = 1\<rparr>"
proof -
  have "ProcessRawTopology example_addr \<lparr>raw_Peers = [''p''], raw_Threshold = ''1''\<rparr> =
      Inr \<lparr>nt_Peers = [\<lparr>ai_ID = ''p'', ai_Addrs = [''p'']\<rparr>], nt_Threshold = 1\<rparr>"
    by (simp add: ProcessRawTopology_def example_addr_def ParseInt0_one)
  then show ?thesis
    using published_topology_accepted [of "\<lambda>b. replicate 16 7" "replicate 16 1"
        "\<lambda>b. Inr \<lparr>raw_Peers = [''p''], raw_Threshold = ''1''\<rparr>" "[1, 2]" "\<lparr>raw_Peers = [''p''], raw_Threshold = ''1''\<rparr>" "\<lambda>b. [170]" example_addr]
    by (auto simp: BlockSize_def)
qed

text \<open>
  Once start-up has found a topology, every later start-up finds the same one, whatever is
  published by then. JSON round trips and complete writes are what is relied on.
\<close>

lemma startup_topology_kept:
  assumes "keyshare_files fs" "startup_topology fs p stored = (Inr nt, stored')"
  shows "startup_topology fs p' stored' = (Inr nt, stored')"
proof -
  have "ReadTopology fs stored' = Inr nt"
    using assms keyshare_files.json_roundtrip [OF assms(1)] keyshare_files.full_write [OF assms(1)]
    by (fastforce simp: startup_topology_def ReadTopology_def StoreTopology_def split: sum.splits go_error.splits option.splits prod.splits)
  then show ?thesis by (simp add: startup_topology_def)
qed

lemma startup_topology_kept_witness:
  "startup_topology (single_files \<lparr>nt_Peers = [], nt_Threshold = 1\<rparr>) example_provider (Some [1]) =
     (Inr \<lparr>nt_Peers = [], nt_Threshold = 1\<rparr>, Some [1])"
proof -
  have "startup_topology (single_files \<lparr>nt_Peers = [], nt_Threshold = 1\<rparr>)
      \<lparr>pv_Get = Inr (hex_encode (replicate 16 1)), pv_Sha256 = (\<lambda>b. []), pv_Block = (\<lambda>b. replicate 16 7),
       pv_Unmarshal = (\<lambda>b. Inr \<lparr>raw_Peers = [], raw_Threshold = ''1''\<rparr>), pv_AddrInfo = example_addr\<rparr> None =
      (Inr \<lparr>nt_Peers = [], nt_Threshold = 1\<rparr>, Some [1])"
    using TrimSuffix_newline(2) [OF hex_encode_no_newline [of "replicate 16 1"]]
    by (simp add: startup_topology_def ReadTopology_def Provider_NetworkTopology_def hex_decode_encode Decrypt_def BlockSize_def
        ProcessRawTopology_def ParseInt0_one panicOnError_def StoreTopology_def single_files_def)
  from startup_topology_kept [OF keyshare_files_single this] show ?thesis .
qed

section \<open>Deposit handlers\<close>

definition handler_kind :: "string \<Rightarrow> deposit_handler option" where
  "handler_kind t =
     (if t \<in> {''erc20'', ''native''} then Some Erc20Handler
      else if t = ''permissionlessGeneric'' then Some PermissionlessHandler
      else if t = ''erc721'' then Some Erc721Handler
      else if t = ''erc1155'' then Some Erc1155Handler
      else None)"

lemma register_handler_kind:
  "register_handler H hs c =
     (case handler_kind (hc_Type c) of
        Some k \<Rightarrow> RegisterDepositHandler H hs (hc_Address c) k
      | None \<Rightarrow> hs)"
  by (auto simp: register_handler_def handler_kind_def)

lemma register_handlers_match:
  assumes "distinct (map (H \<circ> hc_Address) configs)" "\<forall>c \<in> set configs. hc_Address c \<noteq> ''''"
    and "c \<in> set configs" "handler_kind (hc_Type c) = Some k"
  shows "matchAddressWithHandlerFunc (register_handlers H configs) (H (hc_Address c)) = Inr k"
  using assms unfolding register_handlers_def
proof (induction configs rule: rev_induct)
  case (snoc d configs)
  show ?case
  proof (cases "c = d")
    case True
    with snoc.prems show ?thesis by (simp add: register_handler_kind matchAddressWithHandlerFunc_def RegisterDepositHandler_def)
  next
    case False
    with snoc.prems have "c \<in> set configs" "H (hc_Address c) \<noteq> H (hc_Address d)" by (auto, metis image_eqI)
    with snoc show ?thesis
      by (auto simp: register_handler_kind matchAddressWithHandlerFunc_def RegisterDepositHandler_def split: option.splits)
  qed
qed simp

text \<open>
  With distinct handler addresses in the configuration, a deposit of a resource is decoded by the
  handler whose type is configured for the address the bridge contract reports for the resource.
\<close>

lemma deposits_reach_configured_handler:
  assumes "distinct (map (H \<circ> hc_Address) configs)" "\<forall>c \<in> set configs. hc_Address c \<noteq> ''''"
    and "c \<in> set configs" "handler_kind (hc_Type c) = Some k" "GetHandlerAddress resourceID = Inr (H (hc_Address c))"
  shows "ETHDepositHandler_HandleDeposit lib GetHandlerAddress (register_handlers H configs) s d n resourceID calldata response mid ts =
    run_handler lib k s d n resourceID calldata response mid ts"
  using register_handlers_match [OF assms(1-4)] assms(5) by (simp add: ETHDepositHandler_HandleDeposit_def)

section \<open>The first Bitcoin block\<close>

lemma run_handlers_block: "Handled i b \<in> set (snd (run_handlers j block hs)) \<Longrightarrow> b = block"
  by (induction j block hs rule: run_handlers.induct) (auto split: sum.splits prod.splits)

lemma ListenToEvents_from:
  "Handled i b \<in> set (snd (ListenToEvents confirmations (Some first) ps)) \<Longrightarrow> first \<le> b"
proof (induction ps arbitrary: first)
  case (Cons p ps)
  show ?case
  proof (cases "po_done p \<or> (\<exists>e. po_head p = Inl e)")
    case True
    with Cons show ?thesis by (cases "po_done p") (auto simp: ListenToEvents.simps(2))
  next
    case False
    then obtain head where "\<not> po_done p" "po_head p = Inr head" by (cases "po_head p") auto
    with Cons.prems Cons.IH [of first] Cons.IH [of "first + 1"] show ?thesis
      using run_handlers_block [of i b 0 first "po_handlers p"]
      by (fastforce simp: ListenToEvents.simps(2) Let_def split: if_splits prod.splits sum.splits)
  qed
qed simp

text \<open>
  The Bitcoin chain starts at the head its node reports first: neither the configured start block nor
  the last block that was stored is used, so that blocks before that head are never handled.
\<close>

lemma btc_skips_history:
  assumes "\<not> po_done p" "po_head p = Inr head"
    and "Handled i b \<in> set (snd (BtcChain_PollEvents (NewBtcChain domain) confirmations (p # ps)))"
  shows "head \<le> b"
proof -
  have "BtcChain_PollEvents (NewBtcChain domain) confirmations (p # ps) = ListenToEvents confirmations (Some head) (p # ps)"
    using assms(1,2) by (simp add: BtcChain_PollEvents_def NewBtcChain_def ListenToEvents.simps(2))
  with assms(3) show ?thesis using ListenToEvents_from by metis
qed

definition example_raw_poll :: "int \<Rightarrow> poll" where
  "example_raw_poll head = \<lparr>po_done = False, po_head = Inr head, po_handlers = [\<lambda>_. Inr ()], po_store = Inr ()\<rparr>"

lemma btc_skips_history_witness:
  "Handled 0 500 \<in> set (snd (BtcChain_PollEvents (NewBtcChain 4) 1 [example_raw_poll 500, example_raw_poll 501])) \<and> (500 :: int) \<le> 500"
proof -
  have h: "Handled 0 500 \<in> set (snd (BtcChain_PollEvents (NewBtcChain 4) 1 [example_raw_poll 500, example_raw_poll 501]))"
    by (simp add: BtcChain_PollEvents_def NewBtcChain_def ListenToEvents.simps(2) example_raw_poll_def)
  from btc_skips_history [OF _ _ h, of 500] h show ?thesis by (simp add: example_raw_poll_def)
qed

end
