(* ===== verification/Network.thy ===== *)
theory Network
  imports Topology
begin

text \<open>
  The communication layer on a libp2p host: the communication object with its two registries
  (\<open>comm/p2p/libp2p.go\<close>), the host (\<open>comm/p2p/host.go\<close>), and what reaches the subscribers of another
  relayer when a relayer broadcasts. What the network does at one moment (resolving addresses,
  connecting, opening streams, writing) is an argument, a record of type \<open>network\<close>.
\<close>

section \<open>The communication object\<close>

record ('a, 'st) network =
  nw_NewResolver :: "unit res"
  nw_Resolve :: "'a \<Rightarrow> 'a list res"
  nw_Addrs :: "peerID \<Rightarrow> 'a list"
  nw_Connect :: "peerID \<Rightarrow> 'a list \<Rightarrow> unit res"
  nw_NewStream :: "peerID \<Rightarrow> string \<Rightarrow> 'st res"
  nw_Write :: "'st \<Rightarrow> bytes \<Rightarrow> unit res"
  nw_Flush :: "'st \<Rightarrow> unit res"

record ('c, 'st) Libp2pCommunication =
  lc_subscribers :: "'c subscribersMap"
  lc_hostID :: peerID
  lc_protocolID :: string
  lc_streams :: "(peerID, 'st) streams"

text \<open>
  \<open>NewCommunication\<close> also registers the handler of its protocol with the host: the protocols for which the
  host has a handler are an argument and a result.
\<close>

definition NewCommunication :: "peerID \<Rightarrow> string list \<Rightarrow> string \<Rightarrow> ('c, 'st) Libp2pCommunication \<times> string list" where
  "NewCommunication hostID handlers protocolID =
     (\<lparr>lc_subscribers = NewSessionSubscriptionManager, lc_hostID = hostID, lc_protocolID = protocolID,
       lc_streams = NewStreamManager\<rparr>, List.insert protocolID handlers)"

definition resolveDNS :: "(peerID \<Rightarrow> string) \<Rightarrow> ('a, 'st) network \<Rightarrow> peerID \<Rightarrow> unit res" where
  "resolveDNS pretty nw peerID =
     and_then (nw_NewResolver nw) (\<lambda>_.
       case nw_Addrs nw peerID of
         [] \<Rightarrow> Inl (Error (''peer '' @ pretty peerID @ '' has no defined addresses''))
       | addr0 # _ \<Rightarrow> and_then (nw_Resolve nw addr0) (\<lambda>addr. nw_Connect nw peerID addr))"

definition Libp2p_Broadcast ::
  "(peerID WrappedMessage \<Rightarrow> bytes res) \<Rightarrow> (peerID \<Rightarrow> string) \<Rightarrow> ('a, 'st) network \<Rightarrow> ('c, 'st) Libp2pCommunication \<Rightarrow>
   peerID list \<Rightarrow> bytes \<Rightarrow> MessageType \<Rightarrow> string \<Rightarrow>
   peerID comm_error option \<times> (peerID \<times> ('st \<times> bytes) res) list \<times> ('c, 'st) Libp2pCommunication" where
  "Libp2p_Broadcast Marshal pretty nw c peers msg msgType sessionID =
     (let (err, rs, sm) = Broadcast Marshal (resolveDNS pretty nw) (\<lambda>p. nw_NewStream nw p (lc_protocolID c))
            (\<lambda>st m. WriteStream (nw_Write nw st (m @ [newline])) (nw_Flush nw st) m)
            (lc_hostID c) (lc_streams c) peers msg msgType sessionID
      in (err, rs, c\<lparr>lc_streams := sm\<rparr>))"

definition Libp2p_Subscribe ::
  "int \<Rightarrow> ('c, 'st) Libp2pCommunication \<Rightarrow> string \<Rightarrow> MessageType \<Rightarrow> 'c \<Rightarrow> SubscriptionID \<times> ('c, 'st) Libp2pCommunication" where
  "Libp2p_Subscribe now c sessionID msgType channel =
     (let (subID, ms) = SubscribeTo now (lc_subscribers c) sessionID msgType channel in (subID, c\<lparr>lc_subscribers := ms\<rparr>))"

definition Libp2p_UnSubscribe :: "('c, 'st) Libp2pCommunication \<Rightarrow> SubscriptionID \<Rightarrow> ('c, 'st) Libp2pCommunication" where
  "Libp2p_UnSubscribe c subID = c\<lparr>lc_subscribers := UnSubscribeFrom (lc_subscribers c) subID\<rparr>"

text \<open>The streams that are closed, and the communication afterwards.\<close>

definition Libp2p_CloseSession :: "('c, 'st) Libp2pCommunication \<Rightarrow> string \<Rightarrow> 'st list \<times> ('c, 'st) Libp2pCommunication" where
  "Libp2p_CloseSession c sessionID =
     (let (closed, sm) = CloseSession (lc_streams c) sessionID in (closed, c\<lparr>lc_streams := sm\<rparr>))"

text \<open>
  The handler of an incoming stream: the deliveries it makes, and the stream it closes at the end. The
  communication is read at each message, as a function of the number of messages read so far.
\<close>

definition StreamHandlerFunc ::
  "(bytes \<Rightarrow> peerID WrappedMessage res) \<Rightarrow> (nat \<Rightarrow> ('c, 'st) Libp2pCommunication) \<Rightarrow> 'st \<Rightarrow> peerID \<Rightarrow> bytes \<Rightarrow>
   ('c \<times> peerID WrappedMessage) list \<times> 'st list" where
  "StreamHandlerFunc Unmarshal c s remote r =
     (ProcessMessagesFromStream Unmarshal (\<lambda>n. lc_subscribers (c n)) remote 0 r, [s])"

section \<open>The host\<close>

record 'key host_options =
  ho_ListenAddrs :: string
  ho_Identity :: 'key
  ho_Relay :: bool
  ho_Security :: string
  ho_ConnectionGater :: ConnectionGate

text \<open>\<open>New\<close> is \<open>libp2p.New\<close>: the host's peer store and the addresses it listens on.\<close>

definition NewHost ::
  "'ps peerstore \<Rightarrow> ('key host_options \<Rightarrow> ('ps \<times> string list) res) \<Rightarrow> 'key option \<Rightarrow> NetworkTopology \<Rightarrow> ConnectionGate \<Rightarrow>
   uint16 \<Rightarrow> 'ps res" where
  "NewHost lib New privKey networkTopology cg port =
     (case privKey of
        None \<Rightarrow> Inl (Error ''unable to create libp2p host: private key not defined'')
      | Some key \<Rightarrow>
     (case New \<lparr>ho_ListenAddrs = ''/ip4/0.0.0.0/tcp/'' @ dec (unat port), ho_Identity = key, ho_Relay = False,
                ho_Security = ''/noise'', ho_ConnectionGater = cg\<rparr> of
        Inl (Error err) \<Rightarrow> Inl (Error (''unable to create libp2p host: '' @ err))
      | Inl (Panic err) \<Rightarrow> Inl (Panic err)
      | Inr (h, addrs) \<Rightarrow>
          if addrs = [] then Inl (Panic ''index out of range'')
          else LoadPeers lib h (nt_Peers networkTopology)))"

text \<open>
  A new host knows exactly the peers of the topology that its gate lets through, if the gate was built
  from the same topology.
\<close>

theorem new_host_topology:
  assumes "peerstore_laws lib" "\<forall>a \<in> set (nt_Peers nt). ai_Addrs a \<noteq> []"
    and "NewHost lib New key nt \<lparr>cg_topology = nt\<rparr> port = Inr h"
  shows "\<forall>p. p \<in> set (ps_Peers lib h) \<longleftrightarrow> InterceptPeerDial \<lparr>cg_topology = nt\<rparr> p \<and> InterceptSecured \<lparr>cg_topology = nt\<rparr> p"
proof -
  from assms(3) obtain h0 where "LoadPeers lib h0 (nt_Peers nt) = Inr h"
    by (auto simp: NewHost_def split: option.splits sum.splits go_error.splits if_splits)
  with LoadPeers_ok [OF assms(1,2), of h0] show ?thesis
    by (auto simp: InterceptPeerDial_def InterceptSecured_def IsAllowedPeer_iff)
qed

section \<open>Streams of a session\<close>

lemma sendMessage_ok:
  assumes "sendMessage resolve newStream write sm p enc s = (Inr (st, out), sm')"
  shows "Stream sm' s p = Inr st \<and> write st enc = Inr out \<and> (\<forall>st0. Stream sm s p = Inr st0 \<longrightarrow> st0 = st)"
proof (cases "Stream sm s p")
  case (Inr st0)
  with assms show ?thesis by (auto simp: sendMessage_def split: sum.splits)
next
  case (Inl e)
  with assms have "write st enc = Inr out" "sm' = AddStream sm s p st"
    by (auto simp: sendMessage_def split: sum.splits)
  with Inl show ?thesis by (simp add: Stream_AddStream)
qed

lemma sendMessage_stream:
  assumes "sendMessage resolve newStream write sm p enc s = (r, sm')" "Stream sm s' q = Inr st"
  shows "Stream sm' s' q = Inr st"
  using assms by (auto simp: sendMessage_def Stream_AddStream split: sum.splits)

lemma broadcast_loop_stream:
  assumes "Stream sm s' q = Inr st"
    and "broadcast_loop (\<lambda>sm p. sendMessage resolve newStream write sm p enc s) h sm ps = (rs, sm')"
  shows "Stream sm' s' q = Inr st"
  using assms
  by (induction ps arbitrary: sm rs sm') (fastforce split: if_splits prod.splits dest: sendMessage_stream)+

text \<open>
  A successful send of a broadcast: its bytes, and the stream that stays the stream of this peer in this
  session until the session is closed.
\<close>

lemma broadcast_loop_ok:
  assumes "broadcast_loop (\<lambda>sm p. sendMessage resolve newStream write sm p enc s) h sm ps = (rs, sm')"
    and "(p, Inr (st, out)) \<in> set rs"
  shows "Stream sm' s p = Inr st \<and> write st enc = Inr out \<and> (\<forall>st0. Stream sm s p = Inr st0 \<longrightarrow> st0 = st)"
  using assms
proof (induction ps arbitrary: sm rs sm')
  case (Cons q ps)
  show ?case
  proof (cases "h = q")
    case True
    with Cons show ?thesis by simp
  next
    case False
    obtain r sm1 rs1 where step: "sendMessage resolve newStream write sm q enc s = (r, sm1)"
      "broadcast_loop (\<lambda>sm p. sendMessage resolve newStream write sm p enc s) h sm1 ps = (rs1, sm')" "rs = (q, r) # rs1"
      using Cons.prems(1) False by (auto split: prod.splits)
    show ?thesis
    proof (cases "(p, Inr (st, out)) = (q, r)")
      case True
      with step have "sendMessage resolve newStream write sm q enc s = (Inr (st, out), sm1)" "p = q" by simp_all
      with sendMessage_ok [OF this(1)] broadcast_loop_stream [OF _ step(2), of s q st] show ?thesis by auto
    next
      case False
      with Cons.prems(2) step(3) have "(p, Inr (st, out)) \<in> set rs1" by auto
      from Cons.IH [OF step(2) this] sendMessage_stream [OF step(1)] show ?thesis by auto
    qed
  qed
qed simp

section \<open>What broadcasts deliver\<close>

text \<open>
  A relayer broadcasts several messages of one session; each time the network may behave differently. The
  results are listed per broadcast.
\<close>

fun broadcasts ::
  "(peerID WrappedMessage \<Rightarrow> bytes res) \<Rightarrow> (peerID \<Rightarrow> string) \<Rightarrow> string \<Rightarrow> ('c, 'st) Libp2pCommunication \<Rightarrow>
   (('a, 'st) network \<times> peerID list \<times> bytes \<times> MessageType) list \<Rightarrow>
   (peerID \<times> ('st \<times> bytes) res) list list \<times> ('c, 'st) Libp2pCommunication" where
  "broadcasts Marshal pretty s c [] = ([], c)"
| "broadcasts Marshal pretty s c ((nw, peers, msg, t) # bs) =
     (let (err, rs, c') = Libp2p_Broadcast Marshal pretty nw c peers msg t s;
          (rss, c'') = broadcasts Marshal pretty s c' bs
      in (rs # rss, c''))"

definition sends_to :: "peerID \<Rightarrow> (peerID \<times> 'r) list list \<Rightarrow> 'r list" where
  "sends_to b rss = map snd (filter (\<lambda>e. fst e = b) (concat rss))"

lemma sends_to_Nil [simp]: "sends_to b [] = []"
  by (simp add: sends_to_def)

lemma sends_to_Cons: "sends_to b (rs # rss) = sends_to b [rs] @ sends_to b rss"
  by (simp add: sends_to_def)

lemma filter_once: "distinct (map fst xs) \<Longrightarrow> b \<in> fst ` set xs \<Longrightarrow> \<exists>r. filter (\<lambda>e. fst e = b) xs = [(b, r)]"
proof (induction xs)
  case (Cons x xs)
  show ?case
  proof (cases "fst x = b")
    case True
    with Cons.prems(1) have "b \<notin> fst ` set xs" by simp
    then have "filter (\<lambda>e. fst e = b) xs = []" unfolding filter_empty_conv by blast
    with True show ?thesis by (cases x) simp
  qed (use Cons in auto)
qed simp

lemma WriteStream_ok: "WriteStream w f m = Inr out \<Longrightarrow> out = m @ [newline]"
  by (auto simp: WriteStream_def split: sum.splits go_error.splits)

lemma Libp2p_Broadcast_once:
  assumes "Libp2p_Broadcast Marshal pretty nw c peers msg t s = (err, rs, c')"
    and "Marshal \<lparr>w_MessageType = t, w_SessionID = s, w_Payload = msg, w_From = lc_hostID c\<rparr> = Inr enc"
    and "distinct peers" "b \<in> set peers" "b \<noteq> lc_hostID c" "\<forall>r \<in> set (sends_to b [rs]). is_ok r"
  obtains st where "sends_to b [rs] = [Inr (st, enc @ [newline])]" "Stream (lc_streams c') s b = Inr st"
    "\<forall>st0. Stream (lc_streams c) s b = Inr st0 \<longrightarrow> st0 = st" "lc_hostID c' = lc_hostID c"
proof -
  let ?put = "\<lambda>st m. WriteStream (nw_Write nw st (m @ [newline])) (nw_Flush nw st) m"
  let ?send = "\<lambda>sm p. sendMessage (resolveDNS pretty nw) (\<lambda>p. nw_NewStream nw p (lc_protocolID c)) ?put sm p enc s"
  obtain sm where loop: "broadcast_loop ?send (lc_hostID c) (lc_streams c) peers = (rs, sm)" and c': "c' = c\<lparr>lc_streams := sm\<rparr>"
    using assms(1,2) by (auto simp: Libp2p_Broadcast_def Broadcast_def split: prod.splits)
  have peers: "map fst rs = filter (\<lambda>p. p \<noteq> lc_hostID c) peers"
    using broadcast_loop_peers [of ?send "lc_hostID c" "lc_streams c" peers] loop by simp
  have "distinct (map fst rs)" using assms(3) by (simp add: peers)
  moreover have "b \<in> fst ` set rs" using assms(4,5) by (simp add: peers flip: set_map)
  ultimately obtain r where f: "filter (\<lambda>e. fst e = b) rs = [(b, r)]" by (rule filter_once [THEN exE])
  then have "sends_to b [rs] = [r]" by (simp add: sends_to_def)
  with assms(6) obtain st out where r: "r = Inr (st, out)" by (cases r) auto
  have "(b, r) \<in> set (filter (\<lambda>e. fst e = b) rs)" unfolding f by simp
  then have "(b, r) \<in> set rs" by simp
  from broadcast_loop_ok [OF loop this [unfolded r]] WriteStream_ok
  have "Stream sm s b = Inr st" "out = enc @ [newline]" "\<forall>st0. Stream (lc_streams c) s b = Inr st0 \<longrightarrow> st0 = st" by auto
  with c' r \<open>sends_to b [rs] = [r]\<close> that show thesis by simp
qed

lemma broadcasts_sent:
  assumes "broadcasts Marshal pretty s c bs = (rss, c')" "lc_hostID c = h" "b \<noteq> h" "\<forall>r \<in> set (sends_to b rss). is_ok r"
    and "\<forall>(nw, peers, msg, t) \<in> set bs. distinct peers \<and> b \<in> set peers \<and>
      Marshal \<lparr>w_MessageType = t, w_SessionID = s, w_Payload = msg, w_From = h\<rparr> = Inr (enc (msg, t))"
  shows "\<exists>st. sends_to b rss = map (\<lambda>(nw, peers, m). Inr (st, enc m @ [newline])) bs \<and>
    (\<forall>st0. Stream (lc_streams c) s b = Inr st0 \<longrightarrow> bs = [] \<or> st0 = st)"
  using assms
proof (induction bs arbitrary: c rss)
  case (Cons x bs)
  obtain nw peers msg t where x: "x = (nw, peers, msg, t)" by (metis prod_cases4)
  obtain err rs c1 rss1 where step: "Libp2p_Broadcast Marshal pretty nw c peers msg t s = (err, rs, c1)"
    "broadcasts Marshal pretty s c1 bs = (rss1, c')" "rss = rs # rss1"
    using Cons.prems(1) unfolding x by (auto split: prod.splits)
  obtain st where st: "sends_to b [rs] = [Inr (st, enc (msg, t) @ [newline])]" "Stream (lc_streams c1) s b = Inr st"
    "\<forall>st0. Stream (lc_streams c) s b = Inr st0 \<longrightarrow> st0 = st" "lc_hostID c1 = lc_hostID c"
    by (rule Libp2p_Broadcast_once [OF step(1), of "enc (msg, t)" b])
      (use Cons.prems in \<open>auto simp: x step(3) sends_to_Cons [of b rs rss1]\<close>)
  have "\<forall>r \<in> set (sends_to b rss1). is_ok r" using Cons.prems(4) by (simp add: step(3) sends_to_Cons [of b rs rss1])
  with Cons.IH [OF step(2) _ Cons.prems(3)] Cons.prems(2,5) st(2,4)
  obtain st' where st': "sends_to b rss1 = map (\<lambda>(nw, peers, m). Inr (st', enc m @ [newline])) bs" "bs = [] \<or> st = st'"
    by auto
  have "sends_to b rss = map (\<lambda>(nw, peers, m). Inr (st, enc m @ [newline])) (x # bs)"
    using st(1) st' by (auto simp: x step(3) sends_to_Cons [of b rs rss1])
  with st(3) show ?case by blast
qed simp

lemma deliveries_enumerate:
  assumes "\<forall>b \<in> set bs. Unmarshal (f b) = Inr (g b)"
  shows "deliveries Unmarshal reg remote n (map f bs) =
    concat (map (\<lambda>(n, b). map (\<lambda>sub. (sub, (g b)\<lparr>w_From := remote\<rparr>)) (GetSubscribers (reg n) (w_SessionID (g b)) (w_MessageType (g b))))
      (enumerate n bs))"
  using assms by (induction bs arbitrary: n) auto


definition example_network :: "(string, nat) network" where
  "example_network =
     \<lparr>nw_NewResolver = Inr (), nw_Resolve = (\<lambda>a. Inr [a]), nw_Addrs = (\<lambda>p. [p]),
      nw_Connect = (\<lambda>p _. if p = ''c'' then Inl (Error ''down'') else Inr ()), nw_NewStream = (\<lambda>p _. Inr (length p)),
      nw_Write = (\<lambda>_ _. Inr ()), nw_Flush = (\<lambda>_. Inr ())\<rparr>"

lemma example_network_simps [simp]:
  "resolveDNS pretty example_network p = (if p = ''c'' then Inl (Error ''down'') else Inr ())"
  "nw_NewStream example_network p pid = Inr (length p)"
  "WriteStream (nw_Write example_network st m) (nw_Flush example_network st) m' = Inr (m' @ [newline])"
  by (simp_all add: resolveDNS_def example_network_def WriteStream_def)


end
