(* ===== verification/Startup.thy ===== *)
theory Startup
  imports App Network
begin

text \<open>
  Start-up as a whole (\<open>Run\<close> in \<open>app/app.go\<close>): configuration, topology, identity, host, communication and
  election protocols, the block store, metrics and the chains, up to the point where the relayer waits for a
  signal; and the start-up of the example application (\<open>example/app/app.go\<close>).
\<close>

section \<open>The topology provider and the protocols\<close>

text \<open>\<open>aes.NewCipher\<close> accepts keys of 16, 24 and 32 bytes; the cipher itself is an argument.\<close>

definition NewAESEncryption :: "(bytes \<Rightarrow> bytes \<Rightarrow> bytes) \<Rightarrow> bytes \<Rightarrow> (bytes \<Rightarrow> bytes) res" where
  "NewAESEncryption aes key =
     (if length key \<in> {16, 24, 32} then Inr (aes key)
      else Inl (Error (''crypto/aes: invalid key size '' @ dec (length key))))"

text \<open>The libraries of a provider: HTTP, SHA-256, AES, JSON and the parser of peer addresses.\<close>

record provider_libs =
  pl_Get :: "string \<Rightarrow> string res"
  pl_Sha256 :: "bytes \<Rightarrow> bytes"
  pl_Aes :: "bytes \<Rightarrow> bytes \<Rightarrow> bytes"
  pl_Unmarshal :: "bytes \<Rightarrow> RawTopology res"
  pl_AddrInfo :: "string \<Rightarrow> AddrInfo res"

definition NewNetworkTopologyProvider :: "provider_libs \<Rightarrow> TopologyConfiguration \<Rightarrow> provider res" where
  "NewNetworkTopologyProvider libs config =
     and_then (NewAESEncryption (pl_Aes libs) (str_bytes (tc_EncryptionKey config))) (\<lambda>decrypter.
     Inr \<lparr>pv_Get = pl_Get libs (tc_Url config), pv_Sha256 = pl_Sha256 libs, pv_Block = decrypter,
          pv_Unmarshal = pl_Unmarshal libs, pv_AddrInfo = pl_AddrInfo libs\<rparr>)"

definition ProtocolID :: string where "ProtocolID = ''/sygma/coordinator/1.0.0''"

record ('c, 'st) CoordinatorElectorFactory =
  ef_comm :: "('c, 'st) Libp2pCommunication"
  ef_config :: BullyConfig

definition NewCoordinatorElectorFactory ::
  "peerID \<Rightarrow> string list \<Rightarrow> BullyConfig \<Rightarrow> ('c, 'st) CoordinatorElectorFactory \<times> string list" where
  "NewCoordinatorElectorFactory hostID handlers config =
     (let (communication, handlers') = NewCommunication hostID handlers ProtocolID
      in (\<lparr>ef_comm = communication, ef_config = config\<rparr>, handlers'))"

definition NewConnectionGate :: "NetworkTopology \<Rightarrow> ConnectionGate" where
  "NewConnectionGate topology = \<lparr>cg_topology = topology\<rparr>"

section \<open>The relayer\<close>

text \<open>
  What start-up depends on: the sources of the configuration, the topology provider and file, decoding of the
  private key, libp2p, the attempts to open the block store, the metrics, the chains.
\<close>

record ('ps, 'key, 'h, 'a) run_env =
  rv_fromNetwork :: "string \<Rightarrow> Config res"
  rv_fromENV :: "Config option \<Rightarrow> Config res"
  rv_fromFile :: "string \<Rightarrow> Config option \<Rightarrow> Config res"
  rv_configFlag :: string
  rv_configURL :: string
  rv_providerLibs :: provider_libs
  rv_files :: "NetworkTopology files"
  rv_ConfigDecodeKey :: "string \<Rightarrow> bytes res"
  rv_UnmarshalPrivateKey :: "bytes \<Rightarrow> 'key res"
  rv_peerstore :: "'ps peerstore"
  rv_New :: "'key host_options \<Rightarrow> ('ps \<times> string list) res"
  rv_hostID :: "'ps \<Rightarrow> peerID"
  rv_openDB :: "unit res list"
  rv_metrics :: "unit res"
  rv_libs :: "('h, 'a) app_libs"

record ('ps, 'h, 'a) running =
  ru_config :: Config
  ru_provider :: "provider option"
  ru_topology :: NetworkTopology
  ru_gate :: ConnectionGate
  ru_host :: 'ps
  ru_communication :: "(nat, nat) Libp2pCommunication"
  ru_electorFactory :: "(nat, nat) CoordinatorElectorFactory"
  ru_protocols :: "string list"
  ru_domains :: "uint8 \<rightharpoonup> ('h, 'a) chain"

text \<open>The block store is opened again and again until it works; \<open>False\<close> while it does not.\<close>

fun open_db :: "unit res list \<Rightarrow> bool" where
  "open_db [] = False"
| "open_db (Inl _ # attempts) = open_db attempts"
| "open_db (Inr _ # attempts) = True"

definition new_host :: "('ps, 'key, 'h, 'a) run_env \<Rightarrow> MpcRelayerConfig \<Rightarrow> NetworkTopology \<Rightarrow> 'ps res" where
  "new_host env mpc networkTopology =
     and_then (panicOnError (rv_ConfigDecodeKey env (mc_Key mpc))) (\<lambda>privBytes.
     and_then (panicOnError (rv_UnmarshalPrivateKey env privBytes)) (\<lambda>priv.
     panicOnError (NewHost (rv_peerstore env) (rv_New env) (Some priv) networkTopology
       (NewConnectionGate networkTopology) (mc_Port mpc))))"

text \<open>The health job is started after the chains are registered; it adds its own protocol.\<close>

definition start_relayer ::
  "('ps, 'key, 'h, 'a) run_env \<Rightarrow> Config \<Rightarrow> provider option \<Rightarrow> NetworkTopology \<Rightarrow> 'ps \<Rightarrow> ('ps, 'h, 'a) running res" where
  "start_relayer env config topologyProvider networkTopology host =
     (let hostID = rv_hostID env host;
          (communication, protocols) = NewCommunication hostID [] ''p2p/sygma'';
          (electorFactory, protocols') = NewCoordinatorElectorFactory hostID protocols (rl_BullyConfig (cf_RelayerConfig config))
      in and_then (panicOnError (rv_metrics env)) (\<lambda>_.
         and_then (register_domains (rv_libs env) Map.empty (cf_ChainConfigs config)) (\<lambda>domains.
         let (healthComm :: (nat, nat) Libp2pCommunication, protocols'') = NewCommunication hostID protocols' ''p2p/health'' in
         Inr \<lparr>ru_config = config, ru_provider = topologyProvider, ru_topology = networkTopology,
              ru_gate = NewConnectionGate networkTopology, ru_host = host, ru_communication = communication,
              ru_electorFactory = electorFactory, ru_protocols = protocols'', ru_domains = domains\<rparr>)))"

definition load_services :: "('ps, 'key, 'h, 'a) run_env \<Rightarrow> (Config \<times> provider) res" where
  "load_services env =
     and_then (load_configuration (rv_fromNetwork env) (rv_fromENV env) (rv_fromFile env) (rv_configFlag env) (rv_configURL env))
       (\<lambda>config. and_then (panicOnError (NewNetworkTopologyProvider (rv_providerLibs env)
          (mc_TopologyConfiguration (rl_MpcConfig (cf_RelayerConfig config))))) (\<lambda>topologyProvider. Inr (config, topologyProvider)))"

text \<open>\<open>None\<close> while the block store cannot be opened; the second component is the topology file.\<close>

definition app_Run ::
  "('ps, 'key, 'h, 'a) run_env \<Rightarrow> bytes option \<Rightarrow> ('ps, 'h, 'a) running res option \<times> bytes option" where
  "app_Run env stored =
     (case load_services env of
        Inl e \<Rightarrow> (Some (Inl e), stored)
      | Inr (config, topologyProvider) \<Rightarrow>
     (case startup_topology (rv_files env) topologyProvider stored of
        (Inl e, stored') \<Rightarrow> (Some (Inl e), stored')
      | (Inr networkTopology, stored') \<Rightarrow>
     (case new_host env (rl_MpcConfig (cf_RelayerConfig config)) networkTopology of
        Inl e \<Rightarrow> (Some (Inl e), stored')
      | Inr host \<Rightarrow>
          (if open_db (rv_openDB env) then Some (start_relayer env config (Some topologyProvider) networkTopology host) else None,
           stored'))))"

section \<open>What start-up establishes\<close>

lemma LoadPeers_addresses: "LoadPeers lib h as = Inr h' \<Longrightarrow> \<forall>a \<in> set as. ai_Addrs a \<noteq> []"
  using add_peers_panics [of as lib "remove_peers lib h (ps_Peers lib h)"] by (auto simp: LoadPeers_def is_panic_def)

lemma NewHost_loaded: "NewHost lib New key nt cg port = Inr h \<Longrightarrow> \<exists>h0. LoadPeers lib h0 (nt_Peers nt) = Inr h"
  by (auto simp: NewHost_def split: option.splits sum.splits go_error.splits if_splits)

lemma new_host_peers:
  assumes "peerstore_laws (rv_peerstore env)" "new_host env mpc nt = Inr h"
  shows "set (ps_Peers (rv_peerstore env) h) = ai_ID ` set (nt_Peers nt)"
proof -
  from assms(2) obtain h0 where h0: "LoadPeers (rv_peerstore env) h0 (nt_Peers nt) = Inr h"
    by (auto simp: new_host_def dest: NewHost_loaded)
  from LoadPeers_ok [OF assms(1) LoadPeers_addresses [OF h0], of h0] h0 show ?thesis by auto
qed

lemma new_host_panics: "new_host env mpc nt = Inl e \<Longrightarrow> \<exists>t. e = Panic t"
  by (auto simp: new_host_def and_then_Inl_iff dest: panicOnError_is_panic)

lemma load_configuration_panics: "load_configuration n v f flag url = Inl e \<Longrightarrow> \<exists>t. e = Panic t"
  by (auto simp: load_configuration_def and_then_Inl_iff dest: panicOnError_is_panic split: if_splits)

lemma load_services_panics: "load_services env = Inl e \<Longrightarrow> \<exists>t. e = Panic t"
  by (auto simp: load_services_def and_then_Inl_iff dest: load_configuration_panics panicOnError_is_panic)

lemma startup_topology_panics: "startup_topology fs p stored = (Inl e, stored') \<Longrightarrow> \<exists>t. e = Panic t"
  by (auto simp: startup_topology_def and_then_Inl_iff dest: panicOnError_is_panic split: sum.splits go_error.splits prod.splits)

lemma start_relayer_panics: "start_relayer env config p nt h = Inl e \<Longrightarrow> \<exists>t. e = Panic t"
  by (auto simp: start_relayer_def Let_def and_then_Inl_iff dest: panicOnError_is_panic register_domains_panics split: prod.splits)

lemma start_relayer_ok:
  assumes "start_relayer env config p nt h = Inr ru"
  shows "ru_config ru = config \<and> ru_provider ru = p \<and> ru_topology ru = nt \<and> ru_gate ru = NewConnectionGate nt \<and> ru_host ru = h \<and>
    ru_protocols ru = [''p2p/health'', ProtocolID, ''p2p/sygma''] \<and>
    register_domains (rv_libs env) Map.empty (cf_ChainConfigs config) = Inr (ru_domains ru)"
  using assms
  by (auto simp: start_relayer_def Let_def NewCommunication_def NewCoordinatorElectorFactory_def ProtocolID_def)

lemma start_relayer_runs:
  assumes "register_domains (rv_libs env) Map.empty (cf_ChainConfigs config) = Inr domains" "rv_metrics env = Inr u"
  shows "\<exists>ru. start_relayer env config p nt h = Inr ru \<and> ru_domains ru = domains"
  using assms
  by (simp add: start_relayer_def Let_def panicOnError_def NewCommunication_def NewCoordinatorElectorFactory_def)

lemma app_Run_cases:
  assumes "app_Run env stored = (r, stored')"
  obtains (failed) t where "r = Some (Inl (Panic t))"
  | (waiting) "r = None" "\<not> open_db (rv_openDB env)"
  | (started) config p nt h ru where "r = Some (Inr ru)" "open_db (rv_openDB env)"
      "startup_topology (rv_files env) p stored = (Inr nt, stored')"
      "new_host env (rl_MpcConfig (cf_RelayerConfig config)) nt = Inr h"
      "start_relayer env config (Some p) nt h = Inr ru"
proof -
  consider (no_topology) e where "r = Some (Inl e)" "load_services env = Inl e \<or> (\<exists>p. startup_topology (rv_files env) p stored = (Inl e, stored'))"
    | (no_host) config :: Config and nt e where "r = Some (Inl e)" "new_host env (rl_MpcConfig (cf_RelayerConfig config)) nt = Inl e"
    | (no_db) "r = None" "\<not> open_db (rv_openDB env)"
    | (all) config p nt h where "startup_topology (rv_files env) p stored = (Inr nt, stored')"
        "new_host env (rl_MpcConfig (cf_RelayerConfig config)) nt = Inr h" "open_db (rv_openDB env)"
        "r = Some (start_relayer env config (Some p) nt h)"
    using assms by (auto simp: app_Run_def split: sum.splits prod.splits if_splits)
  then show thesis
  proof cases
    case no_topology
    then obtain t where "e = Panic t" using load_services_panics startup_topology_panics by blast
    with no_topology(1) failed show thesis by simp
  next
    case no_host
    with new_host_panics [OF no_host(2)] failed show thesis by blast
  next
    case no_db
    then show thesis by (rule waiting)
  next
    case all
    show thesis
    proof (cases "start_relayer env config (Some p) nt h")
      case (Inl e)
      then obtain t where "e = Panic t" by (rule start_relayer_panics [THEN exE])
      with all(4) Inl failed show thesis by simp
    next
      case (Inr ru)
      with all show thesis by (intro started) simp_all
    qed
  qed
qed


definition sample_config :: Config where
  "sample_config =
     \<lparr>cf_RelayerConfig =
        \<lparr>rl_OpenTelemetryCollectorURL = '''', rl_LogLevel = 1, rl_LogFile = '''', rl_HealthPort = 9001, rl_Env = '''', rl_Id = '''',
         rl_MpcConfig = \<lparr>mc_TopologyConfiguration = \<lparr>tc_EncryptionKey = ''0123456789abcdef'', tc_Url = ''u'', tc_Path = ''p''\<rparr>,
           mc_Port = 9000, mc_KeysharePath = ''k'', mc_FrostKeysharePath = ''f'', mc_Key = ''key'', mc_CommHealthCheckInterval = 0\<rparr>,
         rl_BullyConfig = \<lparr>bc_PingWaitTime = 0, bc_PingBackOff = 0, bc_PingInterval = 0, bc_ElectionWaitTime = 0, bc_BullyWaitTime = 0\<rparr>,
         rl_UploaderConfig = \<lparr>uc_URL = ''u'', uc_AuthToken = ''t'', uc_MaxRetries = 5, uc_MaxElapsedTime = 300000\<rparr>\<rparr>,
      cf_ChainConfigs = [sample_chain (JInt 1)]\<rparr>"

definition sample_env :: "(peerID list, unit, string, string) run_env" where
  "sample_env =
     \<lparr>rv_fromNetwork = (\<lambda>_. Inl (Error ''no network'')), rv_fromENV = (\<lambda>_. Inr sample_config), rv_fromFile = (\<lambda>_ _. Inl (Error ''no file'')),
      rv_configFlag = ''env'', rv_configURL = '''',
      rv_providerLibs = \<lparr>pl_Get = (\<lambda>_. Inl (Error ''no network'')), pl_Sha256 = (\<lambda>b. b), pl_Aes = (\<lambda>_ b. b),
        pl_Unmarshal = (\<lambda>_. Inl (Error ''json'')), pl_AddrInfo = example_addr\<rparr>,
      rv_files = single_files example_topology, rv_ConfigDecodeKey = (\<lambda>_. Inr []), rv_UnmarshalPrivateKey = (\<lambda>_. Inr ()),
      rv_peerstore = list_peerstore, rv_New = (\<lambda>_. Inr ([''self''], [''/ip4/0.0.0.0/tcp/9000''])), rv_hostID = (\<lambda>_. ''self''),
      rv_openDB = [Inl (Error ''locked''), Inr ()], rv_metrics = Inr (), rv_libs = sample_libs\<rparr>"

lemma sample_domains: "\<exists>domains. register_domains sample_libs Map.empty [sample_chain (JInt 1)] = Inr domains \<and> domains 1 \<noteq> None"
  by (simp add: sample_chain_def config_get_def new_evm_chain_def NewEVMConfig_def sample_libs_def sample_evm_def sample_general_def
      RawEVMConfig_Validate_def GeneralChainConfig_Validate_def ParseFlags_def panicOnError_def start_block_def CalculateStartingBlock_def)


end
