(* ===== verification/Wiring.thy ===== *)
theory Wiring
  imports Startup
begin

text \<open>
  How start-up connects the parts (\<open>app/app.go\<close>): the event handlers of every chain in their order, the message
  handlers registered for the two types of messages, and the messages that reach the common message channel. The loops
  that call event handlers and route messages belong to sygma-core; here every call they can make is covered. Also the
  example application (\<open>example/app/app.go\<close>).
\<close>

section \<open>Event handlers of an EVM chain\<close>

datatype 'h evm_event_handler =
    DepositEH 'h uint8
  | KeygenEH 'h int
  | FrostKeygenEH 'h int
  | RefreshEH 'h
  | RetryV1EH 'h uint8 int
  | RetryV2EH 'h uint8

definition evm_event_handlers :: "(string \<Rightarrow> 'h) \<Rightarrow> NetworkTopology \<Rightarrow> EVMConfig \<Rightarrow> 'h evm_event_handler list" where
  "evm_event_handlers HexToAddress networkTopology config =
     (let i = the (gc_Id (ec_GeneralChainConfig config)); bridgeAddress = HexToAddress (ec_Bridge config);
          frostAddress = HexToAddress (ec_FrostKeygen config); threshold = nt_Threshold networkTopology
      in [DepositEH bridgeAddress i, KeygenEH bridgeAddress threshold, FrostKeygenEH frostAddress threshold,
          RefreshEH bridgeAddress, RetryV1EH bridgeAddress i (ec_BlockConfirmations config)]
         @ (if ec_Retry config \<noteq> '''' then [RetryV2EH (HexToAddress (ec_Retry config)) i] else []))"

text \<open>What the handlers of a relayer share: the proposal store, the topology and key stores.\<close>

record ('s, 'ps) shared_state =
  sh_props :: 's
  sh_refresh :: "'ps refresh_state"
  sh_frost :: keyshare_store

text \<open>The libraries and services that the handlers and executors of the chains are built with.\<close>

record ('t, 'h, 'th, 'v, 'sh, 'bh, 'a, 's, 'ps, 'k) chain_env =
  ce_lib :: "'t go_ethereum"
  ce_client :: "('h, 'th) chain_client"
  ce_GetHandlerAddress :: "bytes32 \<Rightarrow> 'h res"
  ce_execute :: "tss_process \<Rightarrow> keyshare_store \<Rightarrow> unit tres \<times> keyshare_store"
  ce_refresh :: "('ps, 'k) refresh_env"
  ce_status :: "'s get_status"
  ce_store :: "'s set_status"
  ce_now :: int
  ce_mapstructure :: "'v mapstructure"
  ce_IntBytesToBigInt :: "bytes \<Rightarrow> int option"
  ce_conn :: "('v, 'sh) substrate_conn"
  ce_node :: "'bh btc_node"
  ce_btcHead :: "int res"
  ce_String :: "'a \<Rightarrow> string"
  ce_EvmAddress :: "string \<Rightarrow> bytes"
  ce_Sha256 :: "bytes \<Rightarrow> bytes"

abbreviation eth_HandleDeposit ::
  "('t, 'h, 'th, 'v, 'sh, 'bh, 'a, 's, 'ps, 'k) chain_env \<Rightarrow> 'h DepositHandlers \<Rightarrow> handle_deposit" where
  "eth_HandleDeposit env handlers \<equiv> ETHDepositHandler_HandleDeposit (ce_lib env) (ce_GetHandlerAddress env) handlers"

text \<open>
  \<open>HandleEvents\<close> of an event handler on a range of blocks: \<open>None\<close> while it waits for the key share lock; otherwise the
  error, the shared state and the batches of messages it sends.
\<close>

definition evm_HandleEvents ::
  "('t, 'h, 'th, 'v, 'sh, 'bh, 'a, 's, 'ps, 'k) chain_env \<Rightarrow> 'h DepositHandlers \<Rightarrow> 'h evm_event_handler \<Rightarrow>
   ('s, 'ps) shared_state \<Rightarrow> int \<Rightarrow> int \<Rightarrow> (unit res \<times> ('s, 'ps) shared_state \<times> message list list) option" where
  "evm_HandleEvents env handlers eh st startBlock endBlock =
     (let c = ce_client env; host = re_hostID (ce_refresh env);
          peers = ps_Peers (re_peerstore (ce_refresh env)) (rf_host (sh_refresh st)) in
      case eh of
        DepositEH bridge i \<Rightarrow>
          (case DepositEventHandler_HandleEvents (FetchDeposits c bridge) (eth_HandleDeposit env handlers) i startBlock endBlock of
             (r, msgs) \<Rightarrow> Some (r, st, msgs))
      | KeygenEH bridge threshold \<Rightarrow>
          (case KeygenEventHandler_HandleEvents c (re_GetKeyshare (ce_refresh env)) (ce_execute env) host peers threshold bridge
                  (rf_keyshare (sh_refresh st)) startBlock endBlock of
             (r, ks, _) \<Rightarrow> Some (r, st\<lparr>sh_refresh := (sh_refresh st)\<lparr>rf_keyshare := ks\<rparr>\<rparr>, []))
      | FrostKeygenEH frost threshold \<Rightarrow>
          map_option (\<lambda>(r, ks, _). (r, st\<lparr>sh_frost := ks\<rparr>, []))
            (FrostKeygenEventHandler_HandleEvents c (ce_execute env) host peers threshold frost (sh_frost st) startBlock endBlock)
      | RefreshEH bridge \<Rightarrow>
          map_option (\<lambda>(r, rf, _). (r, st\<lparr>sh_refresh := rf\<rparr>, []))
            (RefreshEventHandler_HandleEvents c (ce_refresh env) (ce_execute env) bridge (sh_refresh st) startBlock endBlock)
      | RetryV1EH bridge i confirmations \<Rightarrow>
          (case RetryV1_HandleEvents (ce_status env) (ce_store env) (FetchRetryV1Events c bridge)
                  (\<lambda>e. FetchRetryDepositEvents c e bridge confirmations) (eth_HandleDeposit env handlers) i (sh_props st)
                  startBlock endBlock of
             (r, props, msgs) \<Rightarrow> Some (r, st\<lparr>sh_props := props\<rparr>, msgs))
      | RetryV2EH retryAddress i \<Rightarrow>
          (case RetryV2_HandleEvents (FetchRetryV2Events c retryAddress) i (ce_now env) startBlock endBlock of
             (r, msgs) \<Rightarrow> Some (r, st, msgs)))"

section \<open>Event handlers of the other chains\<close>

definition substrate_HandleDeposit ::
  "('t, 'h, 'th, 'v, 'sh, 'bh, 'a, 's, 'ps, 'k) chain_env \<Rightarrow> handle_substrate_deposit" where
  "substrate_HandleDeposit env =
     SubstrateDepositHandler_HandleDeposit
       (Substrate_RegisterDepositHandler Map.empty FungibleTransfer (FungibleTransferHandler (ce_IntBytesToBigInt env)))"

datatype substrate_event_handler = SubstrateRetryEH uint8 | SubstrateDepositEH uint8

definition substrate_event_handlers :: "SubstrateConfig \<Rightarrow> substrate_event_handler list" where
  "substrate_event_handlers config =
     (let i = the (gc_Id (su_GeneralChainConfig config)) in [SubstrateRetryEH i, SubstrateDepositEH i])"

definition substrate_HandleEvents ::
  "('t, 'h, 'th, 'v, 'sh, 'bh, 'a, 's, 'ps, 'k) chain_env \<Rightarrow> substrate_event_handler \<Rightarrow> int \<Rightarrow> int \<Rightarrow> message list list res" where
  "substrate_HandleEvents env eh startBlock endBlock =
     (case eh of
        SubstrateRetryEH i \<Rightarrow>
          Substrate_Retry_HandleEvents (ce_mapstructure env) (substrate_HandleDeposit env) (ce_conn env) i startBlock endBlock
      | SubstrateDepositEH i \<Rightarrow>
          Substrate_HandleEvents (ce_mapstructure env) (substrate_HandleDeposit env) (Substrate.FetchEvents (ce_conn env)) i
            startBlock endBlock)"

text \<open>The listener of a Bitcoin chain; the resources are a Go map, \<open>order\<close> the order of one iteration.\<close>

definition btc_event_handler ::
  "('t, 'h, 'th, 'v, 'sh, 'bh, 'a, 's, 'ps, 'k) chain_env \<Rightarrow> 'a BtcConfig \<Rightarrow> 'a Resource list \<Rightarrow> 'a btc_listener" where
  "btc_event_handler env config order =
     \<lparr>li_String = ce_String env, li_HexToAddress = ce_EvmAddress env, li_Sha256 = ce_Sha256 env,
      li_domainID = the (gc_Id (bt_GeneralChainConfig config)), li_feeAddress = bt_FeeAddress config, li_resources = order\<rparr>"

section \<open>Message handlers\<close>

datatype message_handler =
    EvmTransferMH
  | EvmRetryMH "int \<Rightarrow> int \<Rightarrow> (uint8 \<times> message list) list res" int
  | SubstrateTransferMH
  | SubstrateRetryMH "int \<Rightarrow> int \<Rightarrow> (uint8 \<times> message list) list res"
  | BtcTransferMH
  | BtcRetryMH "int \<Rightarrow> (uint8 \<times> message list) list res" int

text \<open>The handlers registered for the message types of a chain; a retry handler processes deposits with the deposit event handler.\<close>

definition evm_registered ::
  "('t, 'h, 'th, 'v, 'sh, 'bh, 'a, 's, 'ps, 'k) chain_env \<Rightarrow> (string \<Rightarrow> 'h) \<Rightarrow> EVMConfig \<Rightarrow> 'h DepositHandlers \<Rightarrow>
   (string \<times> message_handler) list" where
  "evm_registered env HexToAddress config handlers =
     [(RetryMessageType, EvmRetryMH (ProcessDeposits (FetchDeposits (ce_client env) (HexToAddress (ec_Bridge config)))
         (eth_HandleDeposit env handlers) (the (gc_Id (ec_GeneralChainConfig config)))) (ec_BlockConfirmations config)),
      (TransferMessageType, EvmTransferMH)]"

definition substrate_registered ::
  "('t, 'h, 'th, 'v, 'sh, 'bh, 'a, 's, 'ps, 'k) chain_env \<Rightarrow> SubstrateConfig \<Rightarrow> (string \<times> message_handler) list" where
  "substrate_registered env config =
     [(TransferMessageType, SubstrateTransferMH),
      (RetryMessageType, SubstrateRetryMH (Substrate_ProcessDeposits (ce_mapstructure env) (substrate_HandleDeposit env)
         (Substrate.FetchEvents (ce_conn env)) (the (gc_Id (su_GeneralChainConfig config)))))]"

definition btc_registered ::
  "('t, 'h, 'th, 'v, 'sh, 'bh, 'a, 's, 'ps, 'k) chain_env \<Rightarrow> 'a Resource list \<Rightarrow> 'a BtcConfig \<Rightarrow> (string \<times> message_handler) list" where
  "btc_registered env order config =
     [(TransferMessageType, BtcTransferMH),
      (RetryMessageType, BtcRetryMH (Btc_ProcessDeposits (ce_node env) (btc_event_handler env config order))
         (bt_BlockConfirmations config))]"

definition message_handlers ::
  "('t, 'h, 'th, 'v, 'sh, 'bh, 'a, 's, 'ps, 'k) chain_env \<Rightarrow> (string \<Rightarrow> 'h) \<Rightarrow> 'a Resource list \<Rightarrow> ('h, 'a) chain \<Rightarrow>
   (string \<times> message_handler) list" where
  "message_handlers env HexToAddress order ch =
     (case ch of
        EvmChain config handlers _ \<Rightarrow> evm_registered env HexToAddress config handlers
      | SubstrateChain config _ \<Rightarrow> substrate_registered env config
      | BtcChain config _ \<Rightarrow> btc_registered env order config)"

lemmas registered_defs = message_handlers_def evm_registered_def substrate_registered_def btc_registered_def

text \<open>\<open>HandleMessage\<close>: a proposal, or the batches a retry sends; the second component is the proposal store.\<close>

definition handler_HandleMessage ::
  "('t, 'h, 'th, 'v, 'sh, 'bh, 'a, 's, 'ps, 'k) chain_env \<Rightarrow> message_handler \<Rightarrow> 's \<Rightarrow> message \<Rightarrow>
   proposal option res \<times> 's \<times> message list list" where
  "handler_HandleMessage env mh st m =
     (case mh of
        EvmTransferMH \<Rightarrow> (and_then (TransferMessageHandler_HandleMessage (ce_lib env) m) (\<lambda>p. Inr (Some p)), st, [])
      | SubstrateTransferMH \<Rightarrow> (and_then (SubstrateMessageHandler_HandleMessage (ce_lib env) m) (\<lambda>p. Inr (Some p)), st, [])
      | BtcTransferMH \<Rightarrow> (and_then (FungibleMessageHandler_HandleMessage m) (\<lambda>p. Inr (Some p)), st, [])
      | EvmRetryMH process confirmations \<Rightarrow>
          (case RetryMessageHandler_HandleMessage (ce_status env) (ce_store env) (LatestBlock (ce_client env)) process confirmations st m of
             (r, st', msgs) \<Rightarrow> (and_then r (\<lambda>_. Inr None), st', msgs))
      | SubstrateRetryMH process \<Rightarrow>
          (case Substrate_RetryMessageHandler_HandleMessage (ce_status env) (ce_store env) (FinalizedNumber (ce_conn env)) process st m of
             (r, st', msgs) \<Rightarrow> (and_then r (\<lambda>_. Inr None), st', msgs))
      | BtcRetryMH process confirmations \<Rightarrow>
          (case Btc_RetryMessageHandler_HandleMessage (ce_status env) (ce_store env) (ce_btcHead env) process confirmations st m of
             (r, st', msgs) \<Rightarrow> (and_then r (\<lambda>_. Inr None), st', msgs)))"

section \<open>Where messages come from\<close>

definition transfer_from :: "uint8 \<Rightarrow> message \<Rightarrow> bool" where
  "transfer_from i m \<longleftrightarrow> m_Source m = i \<and> m_Type m = TransferMessageType \<and> is_transfer m"

lemma transfer_message_from [simp]: "transfer_from i (transfer_message s d n r md p t mid ts) \<longleftrightarrow> s = i"
  by (simp add: transfer_from_def is_transfer_def)

lemma set_concat_snd: "set (concat (map snd dd)) = all_messages dd"
  by (auto simp: all_messages_def)

lemma all_messages_Nil [simp]: "all_messages [] = {}"
  by (simp add: all_messages_def)

lemma group_loop_all:
  assumes "\<And>d m. f d = Inr m \<Longrightarrow> P m" "\<forall>m \<in> all_messages acc. P m"
  shows "\<forall>m \<in> all_messages (group_loop f acc ds). P m"
  using assms(2)
proof (induction ds arbitrary: acc)
  case (Cons d ds)
  show ?case
  proof (cases "f d")
    case (Inr m)
    with Cons.prems assms(1) have "\<forall>x \<in> all_messages (append_at (m_Destination m) m acc). P x"
      by (simp add: all_messages_append_at)
    from Cons.IH [OF this] show ?thesis by (simp add: Inr)
  qed (use Cons in simp)
qed simp

lemma retryV1_deposits_all:
  assumes "\<And>d m. handle d = Inr m \<Longrightarrow> P m" "\<forall>m \<in> all_messages acc. P m"
  shows "\<forall>m \<in> all_messages (fst (retryV1_deposits status store handle st acc ds)). P m"
  using assms(2)
proof (induction ds arbitrary: st acc)
  case (Cons d ds)
  show ?case
  proof (cases "handle d")
    case (Inr msg)
    obtain r st1 where x: "RetryV1_isExecuted status store st msg = (r, st1)" by fastforce
    have "\<forall>m \<in> all_messages (append_at (m_Destination msg) msg acc). P m"
      using Cons.prems assms(1) [OF Inr] by (simp add: all_messages_append_at)
    from Cons.IH [OF this, of st1] Cons.IH [OF Cons.prems, of st1] Cons.prems show ?thesis
      by (simp add: Inr x split: sum.split go_error.split bool.split)
  qed (use Cons in simp)
qed simp

lemma retryV1_events_all:
  assumes "\<And>d m. handle d = Inr m \<Longrightarrow> P m" "\<forall>m \<in> all_messages acc. P m"
  shows "\<forall>m \<in> all_messages (fst (retryV1_events status store handle fetch st acc es)). P m"
  using assms(2)
proof (induction es arbitrary: st acc)
  case (Cons e es)
  show ?case
  proof (cases "fetch e")
    case (Inr ds)
    obtain acc' st' where r: "retryV1_deposits status store handle st acc ds = (acc', st')" by fastforce
    have "\<forall>m \<in> all_messages acc'. P m"
      using retryV1_deposits_all [of handle P acc status store st ds] assms(1) Cons.prems by (simp add: r)
    from Cons.IH [OF this] show ?thesis by (simp add: Inr r)
  qed (use Cons in simp)
qed simp

lemma filter_loop_subset:
  "filter_loop status store rid st acc ds = (Inr out, st') \<Longrightarrow> set out \<subseteq> set acc \<union> set ds"
  by (induction ds arbitrary: st acc) (fastforce split: sum.splits prod.splits if_splits bool.splits)+

lemma FilterDeposits_loop_subset:
  "FilterDeposits_loop status store rid dest st acc dd = (Inr out, st') \<Longrightarrow> set out \<subseteq> set acc \<union> all_messages dd"
proof (induction dd arbitrary: st acc)
  case (Cons x dd)
  obtain k ds where x: "x = (k, ds)" by fastforce
  show ?case
  proof (cases "k = dest")
    case True
    with Cons.prems x obtain acc' st1 where f: "filter_loop status store rid st acc ds = (Inr acc', st1)"
      "FilterDeposits_loop status store rid dest st1 acc' dd = (Inr out, st')"
      by (auto split: sum.splits prod.splits)
    from Cons.IH [OF f(2)] filter_loop_subset [OF f(1)] x show ?thesis by (auto simp: all_messages_def)
  next
    case False
    with Cons x show ?thesis by (auto simp: all_messages_def)
  qed
qed (simp add: all_messages_def)

lemma FilterDeposits_subset:
  "FilterDeposits status store st dd rid dest = (Inr out, st') \<Longrightarrow> set out \<subseteq> all_messages dd"
  using FilterDeposits_loop_subset [of status store rid dest st "[]" dd out st'] by (simp add: FilterDeposits_def)

subsection \<open>EVM\<close>

lemma eth_transfer_from:
  assumes "ETHDepositHandler_HandleDeposit lib get hs i d n r cd hr mid ts = Inr m"
  shows "transfer_from i m"
proof -
  from assms obtain h where "run_handler lib h i d n r cd hr mid ts = Inr m"
    by (auto simp: ETHDepositHandler_HandleDeposit_def)
  from run_handler_envelope [OF this] show ?thesis by auto
qed

lemma evm_deposits_from:
  assumes "ProcessDeposits fetch (eth_HandleDeposit env handlers) i a b = Inr dd"
  shows "\<forall>m \<in> all_messages dd. transfer_from i m"
proof -
  let ?f = "\<lambda>d. handle_event (eth_HandleDeposit env handlers) i (deposit_messageID i (d_DestinationDomainID d) a b) d"
  have "\<forall>m \<in> all_messages (group_loop ?f [] ds). transfer_from i m" for ds
    by (rule group_loop_all) (auto simp: handle_event_def dest: eth_transfer_from)
  with assms show ?thesis by (auto simp: ProcessDeposits_def split: sum.splits go_error.splits)
qed

lemma evm_events_from:
  assumes "eh \<in> set (evm_event_handlers H nt config)" "gc_Id (ec_GeneralChainConfig config) = Some i"
    and "evm_HandleEvents env handlers eh st a b = Some (r, st', msgs)" "m \<in> set (concat msgs)"
  shows "transfer_from i m \<or> m_Source m = i \<and> m_Type m = RetryMessageType \<and> \<not> is_transfer m"
proof -
  let ?hd = "eth_HandleDeposit env handlers"
  let ?handle = "\<lambda>d. handle_event ?hd i (''retry-'' @ deposit_messageID i (d_DestinationDomainID d) a b) d"
  have v1: "\<forall>m \<in> all_messages (fst (retryV1_events status store ?handle fetch props [] es)). transfer_from i m" for status store fetch props es
    by (rule retryV1_events_all) (auto simp: handle_event_def dest: eth_transfer_from)
  consider (deposit) bridge where "eh = DepositEH bridge i" | (retry1) bridge n where "eh = RetryV1EH bridge i n"
    | (retry2) addr where "eh = RetryV2EH addr i" | (silent) "msgs = []"
    using assms(1-3) by (auto simp: evm_event_handlers_def evm_HandleEvents_def Let_def split: if_splits prod.splits)
  then show ?thesis
  proof cases
    case deposit
    then consider "msgs = []" | dd where "ProcessDeposits (FetchDeposits (ce_client env) bridge) ?hd i a b = Inr dd" "msgs = map snd dd"
      using assms(3) by (auto simp: evm_HandleEvents_def DepositEventHandler_HandleEvents_def split: sum.splits)
    then show ?thesis
    proof cases
      case (2 dd)
      from evm_deposits_from [OF 2(1)] assms(4) show ?thesis unfolding 2(2) set_concat_snd by blast
    qed (use assms(4) in simp)
  next
    case retry1
    let ?fetch = "\<lambda>e. FetchRetryDepositEvents (ce_client env) e bridge n"
    from retry1 consider "msgs = []"
      | es dd props where "retryV1_events (ce_status env) (ce_store env) ?handle ?fetch (sh_props st) [] es = (dd, props)" "msgs = map snd dd"
      using assms(3) by (auto simp: evm_HandleEvents_def RetryV1_HandleEvents_def Let_def split: sum.splits go_error.splits prod.splits)
    then show ?thesis
    proof cases
      case (2 es dd props)
      from v1 [of "ce_status env" "ce_store env" ?fetch "sh_props st" es] have "\<forall>m \<in> all_messages dd. transfer_from i m"
        by (simp only: 2(1) fst_conv)
      with assms(4) show ?thesis unfolding 2(2) set_concat_snd by blast
    qed (use assms(4) in simp)
  next
    case retry2
    with assms(3,4) show ?thesis
      by (auto simp: evm_HandleEvents_def RetryV2_HandleEvents_def retryV2_message_def NewMessage_def is_transfer_def
          split: sum.splits go_error.splits)
  qed (use assms(4) in simp)
qed

subsection \<open>Substrate\<close>

lemma substrate_transfer_from: "substrate_HandleDeposit env i d n r cd t mid ts = Inr m \<Longrightarrow> transfer_from i m"
  by (auto simp: substrate_HandleDeposit_def SubstrateDepositHandler_HandleDeposit_def matchTransferTypeHandlerFunc_def
      Substrate_RegisterDepositHandler_def FungibleTransferHandler_def FungibleTransfer_def split: if_splits option.splits)

lemma substrate_message_from:
  "substrate_message lib (substrate_HandleDeposit env) i pre a b e = Inr m \<Longrightarrow> transfer_from i m"
  by (auto simp: substrate_message_def Let_def dest: substrate_transfer_from)

lemma retry_block_all:
  assumes "\<And>e m. f e = Inr m \<Longrightarrow> P m" "\<forall>m \<in> all_messages acc. P m"
  shows "\<forall>m \<in> all_messages (snd (retry_block f acc es)). P m"
  using assms(2)
proof (induction es arbitrary: acc)
  case (Cons e es)
  show ?case
  proof (cases "f e")
    case (Inr m)
    with Cons.prems assms(1) have "\<forall>x \<in> all_messages (append_at (m_Destination m) m acc). P x"
      by (simp add: all_messages_append_at)
    from Cons.IH [OF this] Cons show ?thesis by (simp add: Inr)
  qed (use Cons in simp)
qed simp

lemma retry_event_all:
  assumes "\<And>e m. f e = Inr m \<Longrightarrow> P m" "\<forall>m \<in> all_messages acc. P m"
  shows "\<forall>m \<in> all_messages (snd (retry_event lib conn f finalized acc e)). P m"
proof -
  have "\<forall>m \<in> all_messages (snd (retry_block f acc es)). P m" for es
    by (rule retry_block_all) (use assms in auto)
  with assms(2) show ?thesis by (simp add: retry_event_def split: sum.split option.split)
qed

lemma retry_events_all:
  assumes "\<And>acc e. Q acc \<Longrightarrow> Q (snd (step acc e))" "Q acc"
  shows "Q (snd (retry_events step acc es))"
  using assms(2)
proof (induction es arbitrary: acc)
  case (Cons e es)
  obtain r acc' where s: "step acc e = (r, acc')" by fastforce
  with assms(1) [OF Cons.prems, of e] have "Q acc'" by simp
  with Cons s show ?case by (auto split: sum.split go_error.split)
qed simp

lemma Substrate_Retry_batches:
  assumes "Substrate_Retry_HandleEvents lib handle conn i a b = Inr msgs"
  shows "\<exists>finalized es. msgs = map snd (snd (retry_events (retry_event lib conn (substrate_message lib handle i ''retry-'' a b) finalized) [] es))"
proof -
  let ?run = "\<lambda>finalized es. retry_events (retry_event lib conn (substrate_message lib handle i ''retry-'' a b) finalized) [] es"
  from assms obtain es finalized where
    "(case ?run finalized es of (Inl err, dd) \<Rightarrow> Inl err | (Inr _, dd) \<Rightarrow> Inr (map snd dd)) = Inr msgs"
    by (auto simp: Substrate_Retry_HandleEvents_def)
  then have "msgs = map snd (snd (?run finalized es))" by (cases "?run finalized es") (auto split: sum.splits)
  then show ?thesis by blast
qed

lemma substrate_deposits_from:
  assumes "Substrate_ProcessDeposits lib (substrate_HandleDeposit env) fetch i a b = Inr dd"
  shows "\<forall>m \<in> all_messages dd. transfer_from i m"
proof -
  have "\<forall>m \<in> all_messages (group_loop (substrate_message lib (substrate_HandleDeposit env) i '''' a b) [] es). transfer_from i m" for es
    by (rule group_loop_all) (auto dest: substrate_message_from)
  with assms show ?thesis by (auto simp: Substrate_ProcessDeposits_def)
qed

lemma substrate_events_from:
  assumes "eh \<in> set (substrate_event_handlers config)" "gc_Id (su_GeneralChainConfig config) = Some i"
    and "substrate_HandleEvents env eh a b = Inr msgs" "m \<in> set (concat msgs)"
  shows "transfer_from i m"
proof -
  let ?step = "\<lambda>finalized. retry_event (ce_mapstructure env) (ce_conn env)
    (substrate_message (ce_mapstructure env) (substrate_HandleDeposit env) i ''retry-'' a b) finalized"
  have retried: "\<forall>m \<in> all_messages (snd (retry_events (?step finalized) [] es)). transfer_from i m" for finalized es
    by (rule retry_events_all [where Q = "\<lambda>acc. \<forall>m \<in> all_messages acc. transfer_from i m"])
      (rule retry_event_all, erule substrate_message_from, assumption, simp)
  consider (deposits) dd where "msgs = map snd dd"
      "Substrate_ProcessDeposits (ce_mapstructure env) (substrate_HandleDeposit env) (Substrate.FetchEvents (ce_conn env)) i a b = Inr dd"
    | (retries) finalized es where "msgs = map snd (snd (retry_events (?step finalized) [] es))"
    using assms(1-3)
    by (auto simp: substrate_event_handlers_def substrate_HandleEvents_def Substrate_HandleEvents_def Let_def dest!: Substrate_Retry_batches)
  then show ?thesis
  proof cases
    case deposits
    from substrate_deposits_from [OF deposits(2)] assms(4) show ?thesis unfolding deposits(1) set_concat_snd by blast
  next
    case retries
    from retried assms(4) show ?thesis unfolding retries set_concat_snd by blast
  qed
qed

subsection \<open>Bitcoin\<close>

lemma event_message_from: "event_message li b e rs = Inr (Some m) \<Longrightarrow> transfer_from (li_domainID li) m"
  by (induction rs)
    (auto simp: BtcDepositHandler_HandleDeposit_def Let_def NewMessage_def transfer_from_def is_transfer_def split: option.splits if_splits)

lemma group_messages_all:
  assumes "\<And>e m. f e = Inr (Some m) \<Longrightarrow> P m" "\<forall>m \<in> all_messages acc. P m"
  shows "\<forall>m \<in> all_messages (group_messages f acc es). P m"
  using assms(2)
proof (induction es arbitrary: acc)
  case (Cons e es)
  show ?case
  proof (cases "\<exists>m. f e = Inr (Some m)")
    case True
    then obtain m where m: "f e = Inr (Some m)" by blast
    with Cons.prems assms(1) have "\<forall>x \<in> all_messages (append_at (m_Destination m) m acc). P x"
      by (simp add: all_messages_append_at)
    from Cons.IH [OF this] show ?thesis by (simp add: m)
  next
    case False
    with Cons show ?thesis by (auto split: sum.split option.split)
  qed
qed simp

lemma btc_deposits_from:
  assumes "Btc_ProcessDeposits node (btc_event_handler env config order) b = Inr dd" "gc_Id (bt_GeneralChainConfig config) = Some i"
  shows "\<forall>m \<in> all_messages dd. transfer_from i m"
proof -
  let ?li = "btc_event_handler env config order"
  have "\<forall>m \<in> all_messages (group_messages (\<lambda>e. event_message ?li b e rs) [] es). transfer_from i m" for es rs
    by (rule group_messages_all) (use assms(2) event_message_from [of ?li b] in \<open>auto simp: btc_event_handler_def\<close>)
  with assms(1) show ?thesis by (auto simp: Btc_ProcessDeposits_def)
qed

subsection \<open>Retries\<close>

lemma retry_handler_sources:
  "snd (snd (RetryMessageHandler_HandleMessage status store head process n st msg)) = batches \<Longrightarrow> m \<in> set (concat batches) \<Longrightarrow>
   \<exists>b dd. process b b = Inr dd \<and> m \<in> all_messages dd"
  "snd (snd (Substrate_RetryMessageHandler_HandleMessage status store head process st msg)) = batches \<Longrightarrow> m \<in> set (concat batches) \<Longrightarrow>
   \<exists>b dd. process b b = Inr dd \<and> m \<in> all_messages dd"
  "snd (snd (Btc_RetryMessageHandler_HandleMessage status store head process1 n st msg)) = batches \<Longrightarrow> m \<in> set (concat batches) \<Longrightarrow>
   \<exists>b dd. process1 b = Inr dd \<and> m \<in> all_messages dd"
  by (force simp: RetryMessageHandler_HandleMessage_def Substrate_RetryMessageHandler_HandleMessage_def Btc_RetryMessageHandler_HandleMessage_def
      dest: FilterDeposits_subset split: sum.splits prod.splits if_splits)+

section \<open>Messages fit their handlers\<close>

text \<open>
  All messages that a chain puts on the message channel: from its event handlers, on any range of blocks and in any
  state, and from its retry handler.
\<close>

inductive emits ::
  "('t, 'h, 'th, 'v, 'sh, 'bh, 'a, 's, 'ps, 'k) chain_env \<Rightarrow> (string \<Rightarrow> 'h) \<Rightarrow> NetworkTopology \<Rightarrow> ('h, 'a) chain \<Rightarrow> message \<Rightarrow> bool"
  for env HexToAddress nt where
  evm_event: "eh \<in> set (evm_event_handlers HexToAddress nt config) \<Longrightarrow>
    evm_HandleEvents env handlers eh st a b = Some (r, st', msgs) \<Longrightarrow> m \<in> set (concat msgs) \<Longrightarrow>
    emits env HexToAddress nt (EvmChain config handlers startBlock) m"
| substrate_event: "eh \<in> set (substrate_event_handlers sconfig) \<Longrightarrow> substrate_HandleEvents env eh a b = Inr msgs \<Longrightarrow>
    m \<in> set (concat msgs) \<Longrightarrow> emits env HexToAddress nt (SubstrateChain sconfig startBlock) m"
| btc_event: "set order = ran resources \<Longrightarrow> Btc_HandleEvents (ce_node env) (btc_event_handler env bconfig order) b = Inr msgs \<Longrightarrow>
    m \<in> set (concat msgs) \<Longrightarrow> emits env HexToAddress nt (BtcChain bconfig resources) m"
| retried: "(t, mh) \<in> set (message_handlers env HexToAddress order ch) \<Longrightarrow>
    handler_HandleMessage env mh props msg = (p, props', msgs) \<Longrightarrow> m \<in> set (concat msgs) \<Longrightarrow> emits env HexToAddress nt ch m"

text \<open>What a handler and an executor expect; the conversions of the code panic on anything else.\<close>

definition accepts :: "message_handler \<Rightarrow> message \<Rightarrow> bool" where
  "accepts mh m =
     (case mh of
        EvmTransferMH \<Rightarrow> is_ok (asTransferMessageData (m_Data m))
      | SubstrateTransferMH \<Rightarrow> is_ok (asTransferMessageData (m_Data m))
      | BtcTransferMH \<Rightarrow> is_ok (asTransferMessageData (m_Data m))
      | _ \<Rightarrow> is_ok (asRetryMessageData (m_Data m)))"

definition executor_reads :: "('h, 'a) chain \<Rightarrow> proposal \<Rightarrow> bool" where
  "executor_reads ch p =
     (case ch of
        BtcChain _ _ \<Rightarrow> is_ok (asBtcTransferProposalData (p_Data p))
      | _ \<Rightarrow> is_ok (asTransferProposalData (p_Data p)))"

lemma retried_from:
  assumes "(t, mh) \<in> set (message_handlers env H order ch)" "handler_HandleMessage env mh props msg = (p, props', msgs)"
    and "m \<in> set (concat msgs)" "chain_ok i ch"
  shows "transfer_from i m"
proof (cases ch)
  case (EvmChain config handlers b)
  let ?process = "ProcessDeposits (FetchDeposits (ce_client env) (H (ec_Bridge config))) (eth_HandleDeposit env handlers) i"
  from EvmChain assms have "snd (snd (RetryMessageHandler_HandleMessage (ce_status env) (ce_store env) (LatestBlock (ce_client env)) ?process
      (ec_BlockConfirmations config) props msg)) = msgs"
    by (auto simp: registered_defs handler_HandleMessage_def chain_ok_def split: prod.splits)
  from retry_handler_sources(1) [OF this assms(3)] evm_deposits_from show ?thesis by blast
next
  case (SubstrateChain config b)
  let ?process = "Substrate_ProcessDeposits (ce_mapstructure env) (substrate_HandleDeposit env) (Substrate.FetchEvents (ce_conn env)) i"
  from SubstrateChain assms have "snd (snd (Substrate_RetryMessageHandler_HandleMessage (ce_status env) (ce_store env)
      (FinalizedNumber (ce_conn env)) ?process props msg)) = msgs"
    by (auto simp: registered_defs handler_HandleMessage_def chain_ok_def split: prod.splits)
  from retry_handler_sources(2) [OF this assms(3)] substrate_deposits_from show ?thesis by blast
next
  case (BtcChain config rs)
  then have i: "gc_Id (bt_GeneralChainConfig config) = Some i" using assms(4) by (simp add: chain_ok_def)
  from BtcChain assms have "snd (snd (Btc_RetryMessageHandler_HandleMessage (ce_status env) (ce_store env) (ce_btcHead env)
      (Btc_ProcessDeposits (ce_node env) (btc_event_handler env config order)) (bt_BlockConfirmations config) props msg)) = msgs"
    by (auto simp: registered_defs handler_HandleMessage_def split: prod.splits)
  from retry_handler_sources(3) [OF this assms(3)] btc_deposits_from [OF _ i] show ?thesis by blast
qed

lemma emits_from:
  assumes "emits env H nt ch m" "chain_ok i ch"
  shows "transfer_from i m \<or> m_Source m = i \<and> m_Type m = RetryMessageType \<and> \<not> is_transfer m"
  using assms
proof cases
  case (evm_event eh config handlers st a b r st' msgs sb)
  then show ?thesis using evm_events_from [OF evm_event(2) _ evm_event(3,4)] assms(2) by (simp add: chain_ok_def)
next
  case (substrate_event eh config a b msgs sb)
  then show ?thesis using substrate_events_from [OF substrate_event(2) _ substrate_event(3,4)] assms(2) by (simp add: chain_ok_def)
next
  case (btc_event order rs config b msgs)
  then obtain dd where dd: "Btc_ProcessDeposits (ce_node env) (btc_event_handler env config order) b = Inr dd" "msgs = map snd dd"
    by (auto simp: Btc_HandleEvents_def)
  have "gc_Id (bt_GeneralChainConfig config) = Some i" using btc_event(1) assms(2) by (simp add: chain_ok_def)
  from btc_deposits_from [OF dd(1) this] btc_event(4) show ?thesis unfolding dd(2) set_concat_snd by blast
next
  case (retried t mh order props msg p props' msgs)
  from retried_from [OF retried assms(2)] show ?thesis ..
qed

lemma transfer_proposals:
  "TransferMessageHandler_HandleMessage lib m = Inr p \<Longrightarrow> is_ok (asTransferProposalData (p_Data p)) \<and> p_Source p = m_Source m \<and> p_Destination p = m_Destination m"
  "SubstrateMessageHandler_HandleMessage lib m = Inr p \<Longrightarrow> is_ok (asTransferProposalData (p_Data p)) \<and> p_Source p = m_Source m \<and> p_Destination p = m_Destination m"
  "FungibleMessageHandler_HandleMessage m = Inr p \<Longrightarrow> is_ok (asBtcTransferProposalData (p_Data p)) \<and> p_Source p = m_Source m \<and> p_Destination p = m_Destination m"
  by (auto simp: TransferMessageHandler_HandleMessage_def message_handler_defs NewProposal_def NewTransferProposal_def Let_def
      split: if_splits)

text \<open>
  C29. Messages find a handler and fit it: every message that a registered chain sends, from any of its handlers, carries the
  id of this chain as its source; every chain of the relayer has a handler registered for its type, whose conversion of the
  data does not panic; and a proposal that this handler makes has the kind of data that the executor of the chain
  expects, with the source and the destination of the message.
\<close>

theorem messages_fit_handlers:
  assumes "register_domains libs Map.empty configs = Inr domains" "domains i = Some ch" "emits env HexToAddress nt ch m"
    and "domains j = Some dest"
  shows "m_Source m = i \<and>
    (\<exists>mh. map_of (message_handlers env HexToAddress order dest) (m_Type m) = Some mh \<and> accepts mh m \<and>
      (\<forall>props p props' msgs. handler_HandleMessage env mh props m = (Inr (Some p), props', msgs) \<longrightarrow>
         executor_reads dest p \<and> p_Source p = i \<and> p_Destination p = m_Destination m))"
proof -
  have "chain_ok i ch" using register_domains_ok [OF assms(1) _ assms(2)] by simp
  from emits_from [OF assms(3) this] consider (transfer) "transfer_from i m"
    | (retry_request) "m_Source m = i" "m_Type m = RetryMessageType" "\<not> is_transfer m" by blast
  then show ?thesis
  proof cases
    case transfer
    then show ?thesis
      by (cases dest)
        (auto simp: transfer_from_def is_transfer_def registered_defs accepts_def executor_reads_def handler_HandleMessage_def
          TransferMessageType_def RetryMessageType_def dest: transfer_proposals split: message_data.splits)
  next
    case retry_request
    then show ?thesis
      by (cases dest)
        (auto simp: is_transfer_def registered_defs accepts_def handler_HandleMessage_def
          TransferMessageType_def RetryMessageType_def split: message_data.splits prod.splits)
  qed
qed

definition sample_client :: "(string, string) chain_client" where
  "sample_client =
     \<lparr>FetchEventLogs = (\<lambda>a sig s e. Inr [\<lparr>lg_Address = a, lg_Topics = [], lg_Data = [], lg_BlockNumber = 3\<rparr>]),
      BlockTime = (\<lambda>_. Inr 7), WaitAndReturnTxReceipt = (\<lambda>_. Inl (Error ''no receipt'')), LatestBlock = Inr 16,
      UnpackDeposit = (\<lambda>_. Inl (Error [])), UnpackRetryV1 = (\<lambda>_. Inl (Error [])),
      UnpackRetryV2 = (\<lambda>_. Inr \<lparr>r2_SourceDomainID = 1, r2_DestinationDomainID = 2, r2_BlockHeight = 100, r2_ResourceID = [7]\<rparr>),
      UnpackKeyRefresh = (\<lambda>_. Inr \<lparr>rf_Hash = ''aa''\<rparr>), HexToHash = id, HashHex = id, BytesToAddress = (\<lambda>_. ''0x''), Now = 0\<rparr>"

definition sample_chain_env ::
  "(unit, string, string, nat, nat, nat, string, mem_db, peerID list, unit) chain_env" where
  "sample_chain_env =
     \<lparr>ce_lib = example_lib, ce_client = sample_client, ce_GetHandlerAddress = (\<lambda>_. Inr ''0xa''),
      ce_execute = (\<lambda>_ ks. (Inr (), ks)), ce_refresh = example_refresh_env, ce_status = PropStatus mem_get,
      ce_store = StorePropStatus mem_set, ce_now = 0, ce_mapstructure = example_mapstructure, ce_IntBytesToBigInt = (\<lambda>_. None),
      ce_conn = example_conn, ce_node = \<lparr>btc_node.GetBlockHash = (\<lambda>_. Inl (Error [])), GetBlockTxs = (\<lambda>_. Inl (Error []))\<rparr>,
      ce_btcHead = Inr 0, ce_String = id, ce_EvmAddress = (\<lambda>_. []), ce_Sha256 = (\<lambda>b. b)\<rparr>"

definition retry_libs :: "(string, string) app_libs" where
  "retry_libs = sample_libs\<lparr>al_DecodeEvm := (\<lambda>_. Inr (sample_evm\<lparr>re_Retry := ''0xc''\<rparr>))\<rparr>"

theorem messages_fit_handlers_witness:
  "\<exists>domains ch m mh. register_domains retry_libs Map.empty [sample_chain (JInt 1)] = Inr domains \<and> domains 1 = Some ch \<and>
     emits sample_chain_env id example_topology ch m \<and>
     map_of (message_handlers sample_chain_env id [] ch) (m_Type m) = Some mh \<and> accepts mh m"
proof -
  let ?m = "retryV2_message 1 0 \<lparr>r2_SourceDomainID = 1, r2_DestinationDomainID = 2, r2_BlockHeight = 100, r2_ResourceID = [7]\<rparr>"
  have "\<exists>domains config handlers b. register_domains retry_libs Map.empty [sample_chain (JInt 1)] = Inr domains \<and>
      domains 1 = Some (EvmChain config handlers b) \<and> ec_Retry config = ''0xc'' \<and> gc_Id (ec_GeneralChainConfig config) = Some 1"
    by (simp add: sample_chain_def config_get_def new_evm_chain_def NewEVMConfig_def sample_libs_def retry_libs_def sample_evm_def sample_general_def
        RawEVMConfig_Validate_def GeneralChainConfig_Validate_def ParseFlags_def panicOnError_def start_block_def CalculateStartingBlock_def)
  then obtain domains config handlers b where d: "register_domains retry_libs Map.empty [sample_chain (JInt 1)] = Inr domains"
    "domains 1 = Some (EvmChain config handlers b)" "ec_Retry config = ''0xc''" "gc_Id (ec_GeneralChainConfig config) = Some 1"
    by blast
  have "RetryV2EH ''0xc'' 1 \<in> set (evm_event_handlers id example_topology config)"
    using d(3,4) by (simp add: evm_event_handlers_def Let_def)
  moreover have "evm_HandleEvents sample_chain_env handlers (RetryV2EH ''0xc'' 1)
      \<lparr>sh_props = example_db, sh_refresh = example_refresh_state, sh_frost = NewKeyshareStore None\<rparr> 5 9 =
      Some (Inr (), \<lparr>sh_props = example_db, sh_refresh = example_refresh_state, sh_frost = NewKeyshareStore None\<rparr>, [[?m]])"
    by (simp add: evm_HandleEvents_def sample_chain_env_def RetryV2_HandleEvents_def FetchRetryV2Events_def sample_client_def)
  ultimately have "emits sample_chain_env id example_topology (EvmChain config handlers b) ?m"
    by (rule emits.evm_event) simp
  with messages_fit_handlers [OF d(1,2) this d(2), of "[]"] d show ?thesis by blast
qed

section \<open>The example application\<close>

text \<open>Its topology is fixed; an error of parsing it is dropped, and the nil topology is then dereferenced.\<close>

definition example_raw_topology :: RawTopology where
  "example_raw_topology =
     \<lparr>raw_Peers = [''/dns4/relayer2/tcp/9001/p2p/QmeTuMtdpPB7zKDgmobEwSvxodrf5aFVSmBXX3SQJVjJaT'',
        ''/dns4/relayer3/tcp/9002/p2p/QmYAYuLUPNwYEBYJaKHcE7NKjUhiUV8txx2xDXHvcYa1xK'',
        ''/dns4/relayer1/tcp/9000/p2p/QmcvEg7jGvuxdsUFRUiE4VdrL2P1Yeju5L83BsJvvXz7zX''], raw_Threshold = ''2''\<rparr>"

text \<open>The block store is opened once; there is no topology provider and no topology file.\<close>

definition example_Run :: "('ps, 'key, 'h, 'a) run_env \<Rightarrow> ('ps, 'h, 'a) running res" where
  "example_Run env =
     and_then (panicOnError (rv_fromFile env (rv_configFlag env) None)) (\<lambda>configuration.
     and_then (case rv_openDB env of [] \<Rightarrow> Inl (Panic ''no block store'') | r # _ \<Rightarrow> panicOnError r) (\<lambda>_.
     case ProcessRawTopology (pl_AddrInfo (rv_providerLibs env)) example_raw_topology of
       Inl _ \<Rightarrow> Inl (Panic ''invalid memory address or nil pointer dereference'')
     | Inr networkTopology \<Rightarrow>
         and_then (new_host env (rl_MpcConfig (cf_RelayerConfig configuration)) networkTopology) (\<lambda>host.
         start_relayer env configuration None networkTopology host)))"

text \<open>
  The example application cannot follow a key refresh: the refresh handler of a chain it starts panics on every range of
  blocks with a refresh event that names a topology.
\<close>

theorem example_app_refresh_panics:
  assumes "example_Run renv = Inr ru" "ru_domains ru i = Some (EvmChain config handlers b)"
    and "RefreshEH bridge \<in> set (evm_event_handlers HexToAddress (ru_topology ru) config)"
    and "re_provider (ce_refresh env) = ru_provider ru"
    and "FetchRefreshEvents (ce_client env) bridge startBlock endBlock = Inr events" "events \<noteq> []" "rf_Hash (last events) \<noteq> ''''"
  shows "\<exists>st'. evm_HandleEvents env handlers (RefreshEH bridge) st startBlock endBlock =
    Some (Inl (Panic ''invalid memory address or nil pointer dereference''), st', [])"
proof -
  from assms(1) have "ru_provider ru = None"
    by (cases "ProcessRawTopology (pl_AddrInfo (rv_providerLibs renv)) example_raw_topology")
      (auto simp: example_Run_def dest: start_relayer_ok)
  with assms(4) have "re_provider (ce_refresh env) = None" by simp
  from refresh_without_provider_panics [OF this assms(5-7)] show ?thesis by (simp add: evm_HandleEvents_def Let_def)
qed

definition sample_example_env :: "(peerID list, unit, string, string) run_env" where
  "sample_example_env = sample_env\<lparr>rv_fromFile := (\<lambda>_ _. Inr sample_config), rv_openDB := [Inr ()]\<rparr>"

lemma ParseInt0_two: "ParseInt0 0 ''2'' = Inr 2"
  by (simp add: ParseInt0_def ParseUint0_def base_prefix_def digit_value_def lower_def signed_value_def)

lemma sample_example_topology: "\<exists>nt. ProcessRawTopology example_addr example_raw_topology = Inr nt \<and> (\<forall>a \<in> set (nt_Peers nt). ai_Addrs a \<noteq> [])"
  by (simp add: ProcessRawTopology_def example_raw_topology_def example_addr_def ParseInt0_two)

theorem example_app_refresh_panics_witness:
  "\<exists>ru config handlers b st'. example_Run sample_example_env = Inr ru \<and> ru_domains ru 1 = Some (EvmChain config handlers b) \<and>
     evm_HandleEvents (sample_chain_env\<lparr>ce_refresh := example_refresh_env\<lparr>re_provider := ru_provider ru\<rparr>\<rparr>) handlers
       (RefreshEH (ec_Bridge config)) \<lparr>sh_props = example_db, sh_refresh = example_refresh_state, sh_frost = NewKeyshareStore None\<rparr> 5 9 =
     Some (Inl (Panic ''invalid memory address or nil pointer dereference''), st', [])"
proof -
  let ?st = "\<lparr>sh_props = example_db, sh_refresh = example_refresh_state, sh_frost = NewKeyshareStore None\<rparr>"
  have "\<exists>domains config handlers b. register_domains sample_libs Map.empty [sample_chain (JInt 1)] = Inr domains \<and>
      domains 1 = Some (EvmChain config handlers b)"
    by (simp add: sample_chain_def config_get_def new_evm_chain_def NewEVMConfig_def sample_libs_def sample_evm_def sample_general_def
        RawEVMConfig_Validate_def GeneralChainConfig_Validate_def ParseFlags_def panicOnError_def start_block_def CalculateStartingBlock_def)
  then obtain domains config handlers b where d: "register_domains sample_libs Map.empty [sample_chain (JInt 1)] = Inr domains"
    "domains 1 = Some (EvmChain config handlers b)" by blast
  obtain nt where nt: "ProcessRawTopology example_addr example_raw_topology = Inr nt" "\<forall>a \<in> set (nt_Peers nt). ai_Addrs a \<noteq> []"
    using sample_example_topology by blast
  obtain h where h: "new_host sample_example_env (rl_MpcConfig (cf_RelayerConfig sample_config)) nt = Inr h"
    using LoadPeers_ok [OF list_peerstore_laws nt(2), of "[''self'']"]
    by (auto simp: new_host_def sample_example_env_def sample_env_def panicOnError_def NewHost_def)
  have "\<exists>ru. start_relayer sample_example_env sample_config None nt h = Inr ru \<and> ru_domains ru = domains"
    by (rule start_relayer_runs) (use d(1) in \<open>simp_all add: sample_example_env_def sample_env_def sample_config_def del: register_domains.simps\<close>)
  then obtain ru where ru: "start_relayer sample_example_env sample_config None nt h = Inr ru" "ru_domains ru = domains" by blast
  have libs: "rv_fromFile sample_example_env f c = Inr sample_config" "rv_openDB sample_example_env = [Inr ()]"
    "pl_AddrInfo (rv_providerLibs sample_example_env) = example_addr" for f c
    by (simp_all add: sample_example_env_def sample_env_def)
  have run: "example_Run sample_example_env = Inr ru"
    by (simp add: example_Run_def libs panicOnError_def nt h ru)
  let ?env = "sample_chain_env\<lparr>ce_refresh := example_refresh_env\<lparr>re_provider := ru_provider ru\<rparr>\<rparr>"
  have eh: "RefreshEH (ec_Bridge config) \<in> set (evm_event_handlers id (ru_topology ru) config)"
    by (simp add: evm_event_handlers_def Let_def)
  have ev: "FetchRefreshEvents (ce_client ?env) (ec_Bridge config) 5 9 = Inr [\<lparr>rf_Hash = ''aa''\<rparr>]"
    by (simp add: sample_chain_env_def sample_client_def FetchRefreshEvents_def UnpackRefresh_def)
  have "ru_domains ru 1 = Some (EvmChain config handlers b)" using ru d by simp
  from example_app_refresh_panics [OF run this eh _ ev, of ?st] run this show ?thesis by auto
qed

end
