(* ===== verification/Deposit_Data.thy ===== *)
theory Deposit_Data
  imports App
begin

text \<open>
  The deposits of the end-to-end tests (\<open>e2e/evm/util.go\<close>, \<open>e2e/substrate/util.go\<close>, \<open>e2e/btc/util.go\<close>,
  \<open>e2e/evm/keystore\<close>): the functions that build deposit data, the loops that wait for the execution of a proposal
  and the keys of the test accounts. The round trip at the end ties the builders to the deposit
  handlers: what a test deposits is what the relayer reads and proposes.
\<close>

section \<open>Building EVM deposit data\<close>

text \<open>
  \<open>math.PaddedBigBytes\<close> of go-ethereum is an argument; it documents that it encodes a number big-endian, padded
  to at least the given length.
\<close>

type_synonym padder = "nat \<Rightarrow> nat \<Rightarrow> bytes"

definition pads_big :: "padder \<Rightarrow> bool" where
  "pads_big PaddedBigBytes \<longleftrightarrow> (\<forall>n k. PaddedBigBytes n k = left_pad (Bytes n) k)"

definition ConstructPermissionlessGenericDepositData ::
  "'t go_ethereum \<Rightarrow> bytes \<Rightarrow> bytes \<Rightarrow> bytes \<Rightarrow> bytes \<Rightarrow> nat \<Rightarrow> bytes" where
  "ConstructPermissionlessGenericDepositData lib metadata executionFunctionSig executeContractAddress metadataDepositor maxFee =
     LeftPadBytes lib (Bytes maxFee) 32
       @ LeftPadBytes lib (Bytes (length executionFunctionSig)) 2
       @ executionFunctionSig
       @ [of_nat (length executeContractAddress)]
       @ executeContractAddress
       @ [of_nat (length metadataDepositor)]
       @ metadataDepositor
       @ metadata"

definition constructMainDepositData :: "padder \<Rightarrow> nat \<Rightarrow> bytes \<Rightarrow> bytes" where
  "constructMainDepositData PaddedBigBytes tokenStats destRecipient =
     PaddedBigBytes tokenStats 32 @ PaddedBigBytes (length destRecipient) 32 @ destRecipient"

definition ConstructErc20DepositData :: "padder \<Rightarrow> bytes \<Rightarrow> nat \<Rightarrow> bytes" where
  "ConstructErc20DepositData PaddedBigBytes destRecipient amount =
     constructMainDepositData PaddedBigBytes amount destRecipient"

definition ConstructErc721DepositData :: "padder \<Rightarrow> bytes \<Rightarrow> nat \<Rightarrow> bytes \<Rightarrow> bytes" where
  "ConstructErc721DepositData PaddedBigBytes destRecipient tokenId metadata =
     constructMainDepositData PaddedBigBytes tokenId destRecipient
       @ PaddedBigBytes (length metadata) 32 @ metadata"

definition ConstructGenericDepositData :: "padder \<Rightarrow> bytes \<Rightarrow> bytes" where
  "ConstructGenericDepositData PaddedBigBytes metadata = PaddedBigBytes (length metadata) 32 @ metadata"

text \<open>The metadata argument of the ERC-1155 builder is not used.\<close>

definition ConstructErc1155DepositData :: "'t go_ethereum \<Rightarrow> bytes \<Rightarrow> nat \<Rightarrow> nat \<Rightarrow> bytes \<Rightarrow> bytes res" where
  "ConstructErc1155DepositData lib destRecipient tokenId amount metadata =
     and_then (GetErc1155Type lib) (\<lambda>erc1155Type.
     PackValues lib erc1155Type [IBigInts [tokenId], IBigInts [amount], IBytes destRecipient, IBytes []])"

lemmas deposit_builders = ConstructErc20DepositData_def ConstructErc721DepositData_def constructMainDepositData_def
  ConstructPermissionlessGenericDepositData_def

section \<open>Waiting for an execution\<close>

text \<open>
  The three waiting loops. On EVM chains the loop waits for a log of the bridge and ignores an empty error of its
  subscription; the others poll on every tick. \<open>None\<close> means that the loop still waits.
\<close>

datatype exec_event = ExecutionLog | SubscriptionErr "string option" | WaitTimeout

fun evm_wait :: "exec_event list \<Rightarrow> unit res option" where
  "evm_wait [] = None"
| "evm_wait (ExecutionLog # es) = Some (Inr ())"
| "evm_wait (SubscriptionErr (Some err) # es) = Some (Inl (Error err))"
| "evm_wait (SubscriptionErr None # es) = evm_wait es"
| "evm_wait (WaitTimeout # es) = Some (Inl (Error ''test timed out waiting for proposal execution event''))"

text \<open>The filter: starting block (absent when it could not be fetched), address and topic.\<close>

definition Evm_WaitForProposalExecuted ::
  "int res \<Rightarrow> (int option \<times> 'a list \<times> 'h list list \<Rightarrow> unit res) \<Rightarrow> 'h \<Rightarrow> 'a \<Rightarrow> exec_event list \<Rightarrow> unit res option" where
  "Evm_WaitForProposalExecuted latest SubscribeFilterLogs topic bridge es =
     (let startBlock = (case latest of Inl _ \<Rightarrow> None | Inr b \<Rightarrow> Some b) in
      case SubscribeFilterLogs (startBlock, [bridge], [[topic]]) of
        Inl err \<Rightarrow> Some (Inl err)
      | Inr _ \<Rightarrow> evm_wait es)"

datatype 'r poll_event = PollTick 'r | PollTimeout

fun poll_loop :: "('r \<Rightarrow> bool res) \<Rightarrow> 'r poll_event list \<Rightarrow> unit res option" where
  "poll_loop check [] = None"
| "poll_loop check (PollTick r # es) =
     (case check r of
        Inl err \<Rightarrow> Some (Inl err)
      | Inr ok \<Rightarrow> if ok then Some (Inr ()) else poll_loop check es)"
| "poll_loop check (PollTimeout # es) = Some (Inl (Error ''test timed out waiting for proposal execution event''))"

definition put_uint32_le :: "uint32 \<Rightarrow> bytes" where
  "put_uint32_le n = map (\<lambda>i. ucast (drop_bit (8 * i) n)) [0, 1, 2, 3]"

definition checkBalance ::
  "(string \<Rightarrow> string \<Rightarrow> bytes \<Rightarrow> bytes \<Rightarrow> 'k) \<Rightarrow> nat \<Rightarrow> ('k \<Rightarrow> nat res) \<Rightarrow> bytes \<Rightarrow> bool res" where
  "checkBalance CreateStorageKey beforeBalance GetStorageLatest key =
     (let assetIdSerialized = put_uint32_le 2000 in
      and_then (GetStorageLatest (CreateStorageKey ''Assets'' ''Account'' assetIdSerialized key)) (\<lambda>destBalanceAfter.
      Inr (beforeBalance < destBalanceAfter)))"

text \<open>A tick carries the storage at the time of the request.\<close>

definition Substrate_WaitForProposalExecuted ::
  "(string \<Rightarrow> string \<Rightarrow> bytes \<Rightarrow> bytes \<Rightarrow> 'k) \<Rightarrow> nat \<Rightarrow> bytes \<Rightarrow> ('k \<Rightarrow> nat res) poll_event list \<Rightarrow> unit res option" where
  "Substrate_WaitForProposalExecuted CreateStorageKey beforeBalance key =
     poll_loop (\<lambda>storage. checkBalance CreateStorageKey beforeBalance storage key)"

text \<open>A tick carries the unspent outputs of the address.\<close>

definition Btc_WaitForProposalExecuted :: "'u list res poll_event list \<Rightarrow> unit res option" where
  "Btc_WaitForProposalExecuted = poll_loop (\<lambda>unspent. and_then unspent (\<lambda>balance. Inr (0 < length balance)))"

section \<open>Substrate recipients\<close>

text \<open>
  The SCALE encoding of a multi-location with the account is an argument. The fifth byte, the
  length of the account, is cut out.
\<close>

definition ConstructRecipientData :: "(bytes \<Rightarrow> bytes) \<Rightarrow> bytes \<Rightarrow> bytes res" where
  "ConstructRecipientData encode recipient =
     (let recipientBytes = exact (encode recipient) in
      and_then (subslice recipientBytes 0 4) (\<lambda>head.
      and_then (slice_from recipientBytes 5) (\<lambda>tail.
      Inr (head @ tail))))"

section \<open>Test keys\<close>

definition Keys :: "string list" where
  "Keys = [''alice'', ''bob'', ''charlie'', ''dave'', ''eve'']"

text \<open>\<open>make\<close> panics for a negative length.\<close>

definition padWithZeros :: "bytes \<Rightarrow> int \<Rightarrow> bytes res" where
  "padWithZeros key targetLength =
     (if targetLength - int (length key) < 0 then Inl (Panic ''makeslice: len out of range'')
      else Inr (replicate (nat (targetLength - int (length key))) 0 @ key))"

fun eth_ring :: "(bytes \<Rightarrow> 'kp res) \<Rightarrow> int \<Rightarrow> string list \<Rightarrow> (string \<rightharpoonup> 'kp) \<Rightarrow> (string \<rightharpoonup> 'kp) res" where
  "eth_ring NewKeypairFromPrivateKey len [] ring = Inr ring"
| "eth_ring NewKeypairFromPrivateKey len (key # keys) ring =
     and_then (padWithZeros (str_bytes key) len) (\<lambda>bz.
     and_then (panicOnError (NewKeypairFromPrivateKey bz)) (\<lambda>kp.
     eth_ring NewKeypairFromPrivateKey len keys (ring(key \<mapsto> kp))))"

definition makeEthRing :: "(bytes \<Rightarrow> 'kp res) \<Rightarrow> int \<Rightarrow> (string \<rightharpoonup> 'kp) res" where
  "makeEthRing NewKeypairFromPrivateKey PrivateKeyLength =
     eth_ring NewKeypairFromPrivateKey PrivateKeyLength Keys Map.empty"

section \<open>What is deposited is what is proposed\<close>

lemma built_erc20:
  assumes "pads_big P"
  shows "ConstructErc20DepositData P recipient amount = erc20_calldata (left_pad (Bytes amount) 32) recipient []"
  using assms by (simp add: deposit_builders pads_big_def erc20_calldata_def)

lemma built_erc721:
  assumes "pads_big P"
  shows "ConstructErc721DepositData P recipient tokenId metadata
    = erc721_calldata (left_pad (Bytes tokenId) 32) recipient metadata"
  using assms by (simp add: deposit_builders pads_big_def erc721_calldata_def)

lemma built_generic:
  assumes "pads_left lib"
  shows "ConstructPermissionlessGenericDepositData lib metadata sig contract depositor maxFee
    = generic_calldata (left_pad (Bytes maxFee) 32) sig contract depositor metadata"
  using assms by (simp add: deposit_builders pads_left_def generic_calldata_def)

text \<open>The ABI codec unpacks what it packed.\<close>

definition abi_codec :: "'t go_ethereum \<Rightarrow> bool" where
  "abi_codec lib \<longleftrightarrow> (\<forall>t v b. PackValues lib t v = Inr b \<longrightarrow> UnpackValues lib t b = Inr v)"

lemma built_erc1155:
  assumes "abi_codec lib" "ConstructErc1155DepositData lib recipient tokenId amount metadata = Inr (elems cd)"
  shows "Erc1155_HandleDeposit lib s d n r cd hr i ts = Inr (transfer_message s d n r []
      [IBigInts [tokenId], IBigInts [amount], IBytes recipient, IBytes []] SemiFungibleTransfer i ts)"
proof -
  let ?v = "[IBigInts [tokenId], IBigInts [amount], IBytes recipient, IBytes []]"
  obtain t where t: "GetErc1155Type lib = Inr t" "PackValues lib t ?v = Inr (elems cd)"
    using assms(2) by (auto simp: ConstructErc1155DepositData_def)
  with assms(1) have "UnpackValues lib t (elems cd) = Inr ?v" by (simp add: abi_codec_def)
  with t(1) show ?thesis by (simp add: Erc1155_HandleDeposit_def payload_at_def)
qed

lemma packed_erc1155:
  assumes "ConstructErc1155DepositData lib recipient tokenId amount metadata = Inr data" "length recipient = 20"
  shows "proposal_bytes lib (Inr (transfer_message s d n r []
      [IBigInts [tokenId], IBigInts [amount], IBytes recipient, IBytes []] SemiFungibleTransfer i ts)) = Inr data"
  using assms
  by (auto simp: ConstructErc1155DepositData_def proposal_bytes_simps transfer_message_def NewMessage_def)

lemmas transfer_message_defs = transfer_of_def transfer_message_def NewMessage_def

lemma erc20_arrives:
  assumes "pads_left lib" "pads_big P" "amount < 256 ^ 32" "20 \<le> length recipient" "length recipient < 2 ^ 61"
    and "elems cd = ConstructErc20DepositData P recipient amount" "elems hr = []"
  shows "\<exists>w m. Erc20_HandleDeposit lib s d n r cd hr i ts = Inr m \<and> proposal_bytes lib (Inr m) = Inr (elems cd) \<and>
    tmd_Payload (transfer_of m) = [IBytes w, IBytes recipient] \<and> SetBytes w = amount"
proof -
  let ?w = "left_pad (Bytes amount) 32"
  have l: "length ?w = 32" using assms(3) by (rule length_pad_Bytes)
  have cd: "elems cd = erc20_calldata ?w recipient []" using assms by (simp add: built_erc20)
  have "Erc20_HandleDeposit lib s d n r cd hr i ts
      = Inr (transfer_message s d n r [] [IBytes ?w, IBytes recipient] FungibleTransfer i ts)"
    using assms(4,5) by (intro erc20_plain [OF cd assms(7) l]) simp_all
  then show ?thesis using assms(1) l
    by (intro exI [of _ ?w]) (simp add: cd proposal_bytes_simps transfer_message_defs erc20_calldata_def)
qed

lemma erc721_arrives:
  assumes "pads_left lib" "pads_big P" "tokenId < 256 ^ 32" "length recipient < 2 ^ 61" "length metadata < 2 ^ 61"
    and "elems cd = ConstructErc721DepositData P recipient tokenId metadata"
  shows "\<exists>w m. Erc721_HandleDeposit s d n r cd hr i ts = Inr m \<and> proposal_bytes lib (Inr m) = Inr (elems cd) \<and>
    tmd_Payload (transfer_of m) = [IBytes w, IBytes recipient, IBytes metadata] \<and> SetBytes w = tokenId"
proof -
  let ?w = "left_pad (Bytes tokenId) 32"
  have l: "length ?w = 32" using assms(3) by (rule length_pad_Bytes)
  have cd: "elems cd = erc721_calldata ?w recipient metadata" using assms by (simp add: built_erc721)
  show ?thesis using assms(1) l erc721_ok [OF cd l assms(4,5)]
    by (intro exI [of _ ?w]) (simp add: cd proposal_bytes_simps transfer_message_defs erc721_calldata_def)
qed

lemma generic_arrives:
  assumes "pads_left lib" "maxFee < 256 ^ 32" "length sig < 65536" "length contract < 256" "length depositor < 256"
    and "elems cd = ConstructPermissionlessGenericDepositData lib metadata sig contract depositor maxFee"
    and "40 \<le> length sig + length contract + length depositor + length metadata"
  shows "\<exists>w m. PermissionlessGeneric_HandleDeposit s d n r cd hr i ts = Inr m \<and> proposal_bytes lib (Inr m) = Inr (elems cd) \<and>
    tmd_Payload (transfer_of m) = [IBytes sig, IBytes contract, IBytes w, IBytes depositor, IBytes metadata] \<and>
    SetBytes w = maxFee"
proof -
  let ?w = "left_pad (Bytes maxFee) 32"
  have l: "length ?w = 32" using assms(2) by (rule length_pad_Bytes)
  have "length (left_pad (Bytes (length sig)) 2) = 2" using assms(3) by (intro length_pad_Bytes) simp
  moreover have cd: "elems cd = generic_calldata ?w sig contract depositor metadata"
    using assms by (simp add: built_generic)
  ultimately have "76 \<le> length (elems cd)" using assms(7) l
    by (simp add: generic_calldata_def del: length_left_pad)
  then show ?thesis using assms(1) l generic_ok [OF cd l assms(3-5)]
    by (intro exI [of _ ?w]) (simp add: cd proposal_bytes_simps transfer_message_defs generic_calldata_def)
qed

text \<open>
  C30. The deposit data that the builders make is read back by the deposit handlers and proposed unchanged on an
  EVM destination: for every transfer type the message carries the amount, token, recipient and call that the
  deposit was built from, and the data of its proposal is the deposit data. The one exception is the
  metadata of an ERC-1155 deposit, which the builder drops.
\<close>

theorem built_deposits_arrive:
  assumes "pads_left lib" "pads_big P" "abi_codec lib"
    and "amount < 256 ^ 32" "tokenId < 256 ^ 32" "maxFee < 256 ^ 32" "length recipient = 20" "length metadata < 2 ^ 61"
    and "length sig < 65536" "length depositor = 20"
    and "elems erc20 = ConstructErc20DepositData P recipient amount" "elems hr = []"
    and "elems erc721 = ConstructErc721DepositData P recipient tokenId metadata"
    and "elems gen = ConstructPermissionlessGenericDepositData lib metadata sig recipient depositor maxFee"
    and "ConstructErc1155DepositData lib recipient tokenId amount metadata = Inr (elems erc1155)"
  shows "(\<exists>w m. Erc20_HandleDeposit lib s d n r erc20 hr i ts = Inr m \<and> proposal_bytes lib (Inr m) = Inr (elems erc20) \<and>
      tmd_Payload (transfer_of m) = [IBytes w, IBytes recipient] \<and> SetBytes w = amount) \<and>
    (\<exists>w m. Erc721_HandleDeposit s d n r erc721 hr i ts = Inr m \<and> proposal_bytes lib (Inr m) = Inr (elems erc721) \<and>
      tmd_Payload (transfer_of m) = [IBytes w, IBytes recipient, IBytes metadata] \<and> SetBytes w = tokenId) \<and>
    (\<exists>w m. PermissionlessGeneric_HandleDeposit s d n r gen hr i ts = Inr m \<and> proposal_bytes lib (Inr m) = Inr (elems gen) \<and>
      tmd_Payload (transfer_of m) = [IBytes sig, IBytes recipient, IBytes w, IBytes depositor, IBytes metadata] \<and>
      SetBytes w = maxFee) \<and>
    (\<exists>m. Erc1155_HandleDeposit lib s d n r erc1155 hr i ts = Inr m \<and> proposal_bytes lib (Inr m) = Inr (elems erc1155) \<and>
      tmd_Payload (transfer_of m) = [IBigInts [tokenId], IBigInts [amount], IBytes recipient, IBytes []])"
proof (intro conjI)
  have l: "20 \<le> length recipient" "length recipient < 2 ^ 61" "length recipient < 256" "length depositor < 256"
    "40 \<le> length sig + length recipient + length depositor + length metadata" using assms(7,10) by simp_all
  show "\<exists>w m. Erc20_HandleDeposit lib s d n r erc20 hr i ts = Inr m \<and> proposal_bytes lib (Inr m) = Inr (elems erc20) \<and>
      tmd_Payload (transfer_of m) = [IBytes w, IBytes recipient] \<and> SetBytes w = amount"
    by (rule erc20_arrives [OF assms(1,2,4) l(1,2) assms(11,12)])
  show "\<exists>w m. Erc721_HandleDeposit s d n r erc721 hr i ts = Inr m \<and> proposal_bytes lib (Inr m) = Inr (elems erc721) \<and>
      tmd_Payload (transfer_of m) = [IBytes w, IBytes recipient, IBytes metadata] \<and> SetBytes w = tokenId"
    by (rule erc721_arrives [OF assms(1,2,5) l(2) assms(8,13)])
  show "\<exists>w m. PermissionlessGeneric_HandleDeposit s d n r gen hr i ts = Inr m \<and> proposal_bytes lib (Inr m) = Inr (elems gen) \<and>
      tmd_Payload (transfer_of m) = [IBytes sig, IBytes recipient, IBytes w, IBytes depositor, IBytes metadata] \<and>
      SetBytes w = maxFee"
    by (rule generic_arrives [OF assms(1,6,9) l(3,4) assms(14) l(5)])
  show "\<exists>m. Erc1155_HandleDeposit lib s d n r erc1155 hr i ts = Inr m \<and> proposal_bytes lib (Inr m) = Inr (elems erc1155) \<and>
      tmd_Payload (transfer_of m) = [IBigInts [tokenId], IBigInts [amount], IBytes recipient, IBytes []]"
    using built_erc1155 [OF assms(3,15)] packed_erc1155 [OF assms(15,7)] by (simp add: transfer_message_defs)
qed

text \<open>A library whose codec knows one value.\<close>

definition one_value_lib :: "unit go_ethereum" where
  "one_value_lib =
     (let v = [IBigInts [7], IBigInts [9], IBytes (replicate 20 1), IBytes []] in
      \<lparr>LeftPadBytes = left_pad, NewType = (\<lambda>_. Inr ()),
       UnpackValues = (\<lambda>_ b. if b = [5] then Inr v else Inl (Error ''unpack'')),
       PackValues = (\<lambda>_ x. if x = v then Inr [5] else Inl (Error ''pack''))\<rparr>)"

lemma one_value_lib_laws: "pads_left one_value_lib" "abi_codec one_value_lib"
  "ConstructErc1155DepositData one_value_lib (replicate 20 1) 7 9 [3] = Inr [5]"
  by (auto simp: one_value_lib_def Let_def pads_left_def abi_codec_def ConstructErc1155DepositData_def GetErc1155Type_def
      split: if_splits)

theorem built_deposits_arrive_witness:
  "\<exists>w m. Erc20_HandleDeposit one_value_lib 1 2 5 [] (exact (ConstructErc20DepositData (\<lambda>n. left_pad (Bytes n)) (replicate 20 1) 9))
        (exact []) ''id'' 0 = Inr m \<and>
     tmd_Payload (transfer_of m) = [IBytes w, IBytes (replicate 20 1)] \<and> SetBytes w = 9"
proof -
  let ?P = "\<lambda>n. left_pad (Bytes n)" and ?a = "replicate 20 1 :: bytes"
  have p: "pads_big ?P" by (simp add: pads_big_def)
  show ?thesis
    using built_deposits_arrive [OF one_value_lib_laws(1) p one_value_lib_laws(2), of 9 7 0 ?a "[3]" "[]" ?a
        "exact (ConstructErc20DepositData ?P ?a 9)" "exact []" "exact (ConstructErc721DepositData ?P ?a 7 [3])"
        "exact (ConstructPermissionlessGenericDepositData one_value_lib [3] [] ?a ?a 0)" "exact [5]" 1 2 5 "[]" "''id''" 0]
      one_value_lib_laws(3)
    by (simp (no_asm_use)) blast
qed

section \<open>What the waiting loops report\<close>

text \<open>
  A polling loop succeeds exactly when a check succeeds before the time is up and all earlier
  checks answered that nothing has happened yet.
\<close>

lemma poll_succeeds_iff:
  "poll_loop check es = Some (Inr ()) \<longleftrightarrow>
     (\<exists>pre r post. es = map PollTick pre @ PollTick r # post \<and> check r = Inr True \<and> (\<forall>q \<in> set pre. check q = Inr False))"
proof (induction es)
  case (Cons e es)
  show ?case (is "?l \<longleftrightarrow> ?x")
  proof
    assume ?l
    then obtain r where e: "e = PollTick r" by (cases e) simp_all
    with \<open>?l\<close> consider "check r = Inr True" | "check r = Inr False" "poll_loop check es = Some (Inr ())"
      by (auto split: sum.splits if_splits)
    then show ?x
    proof cases
      case 1
      with e show ?thesis by (intro exI [of _ "[]"]) auto
    next
      case 2
      then obtain pre q post where "es = map PollTick pre @ PollTick q # post" "check q = Inr True"
        "\<forall>q \<in> set pre. check q = Inr False" using Cons.IH by blast
      with 2(1) e show ?thesis by (intro exI [of _ "r # pre"]) auto
    qed
  next
    assume ?x
    then obtain pre q post where "e # es = map PollTick pre @ PollTick q # post" "check q = Inr True"
      "\<forall>q \<in> set pre. check q = Inr False" by blast
    then show ?l using Cons.IH by (cases pre) auto
  qed
qed simp

lemma substrate_wait_sees_balance:
  assumes "Substrate_WaitForProposalExecuted createKey before key es = Some (Inr ())"
  shows "\<exists>storage balance. PollTick storage \<in> set es \<and> before < balance \<and>
    storage (createKey ''Assets'' ''Account'' [208, 7, 0, 0] key) = Inr balance"
proof -
  have k: "put_uint32_le 2000 = [208, 7, 0, 0]" by (simp add: put_uint32_le_def drop_bit_eq_div)
  obtain pre storage post where "es = map PollTick pre @ PollTick storage # post"
    "checkBalance createKey before storage key = Inr True"
    using assms unfolding Substrate_WaitForProposalExecuted_def poll_succeeds_iff by blast
  then show ?thesis by (auto simp: checkBalance_def k)
qed

text \<open>
  Cutting the fifth byte removes the length of the account when SCALE writes it as one byte, that is for
  accounts below 64 bytes; a two-byte length leaves a byte behind.
\<close>

lemma recipient_data_cuts_length:
  assumes "encode recipient = hd4 @ len @ recipient" "length hd4 = 4" "len \<noteq> []"
  shows "ConstructRecipientData encode recipient = Inr (hd4 @ tl len @ recipient)"
proof -
  have cut: "encode recipient = (hd4 @ [hd len]) @ tl len @ recipient" using assms by simp
  have "subslice (exact (encode recipient)) 0 4 = Inr hd4"
    by (rule subslice_append3 [where pre = "[]" and post = "len @ recipient"]) (use assms in simp_all)
  moreover have "slice_from (exact (encode recipient)) 5 = Inr (tl len @ recipient)"
    unfolding slice_from_def
    by (rule subslice_append3 [where pre = "hd4 @ [hd len]" and post = "[]"])
      (use cut assms(2) in \<open>simp_all add: slice_len_def\<close>)
  ultimately show ?thesis by (simp add: ConstructRecipientData_def)
qed

lemma eth_ring_complete:
  assumes "\<forall>b. int (length b) = len \<longrightarrow> new b = Inr (keypair b)" "\<forall>k \<in> set keys. int (length (str_bytes k)) \<le> len"
  shows "\<exists>ring'. eth_ring new len keys ring = Inr ring' \<and>
    (\<forall>k. ring' k = (if k \<in> set keys
       then Some (keypair (replicate (nat (len - int (length (str_bytes k)))) 0 @ str_bytes k)) else ring k))"
  using assms(2)
proof (induction keys arbitrary: ring)
  case (Cons key keys)
  let ?kp = "\<lambda>k. keypair (replicate (nat (len - int (length (str_bytes k)))) 0 @ str_bytes k)"
  obtain ring' where r: "eth_ring new len keys (ring(key \<mapsto> ?kp key)) = Inr ring'"
    "\<forall>k. ring' k = (if k \<in> set keys then Some (?kp k) else (ring(key \<mapsto> ?kp key)) k)"
    using Cons by fastforce
  have "eth_ring new len (key # keys) ring = Inr ring'"
    using Cons.prems assms(1) r(1) by (simp add: padWithZeros_def panicOnError_def)
  moreover have "ring' k = (if k \<in> set (key # keys) then Some (?kp k) else ring k)" for k
    using r(2) [rule_format, of k] by auto
  ultimately show ?case by blast
qed simp

text \<open>The five test accounts get the keys made of their names, padded to 32 bytes.\<close>

lemma test_keys:
  assumes "\<forall>b. length b = 32 \<longrightarrow> new b = Inr (keypair b)"
  shows "\<exists>ring. makeEthRing new 32 = Inr ring \<and> dom ring = set Keys \<and>
    ring ''eve'' = Some (keypair (replicate 29 0 @ [101, 118, 101]))"
proof -
  have "\<forall>k \<in> set Keys. int (length (str_bytes k)) \<le> 32" by (simp add: Keys_def str_bytes_def)
  then obtain ring where r: "makeEthRing new 32 = Inr ring" "\<And>k. ring k = (if k \<in> set Keys
       then Some (keypair (replicate (nat (32 - int (length (str_bytes k)))) 0 @ str_bytes k)) else None)"
    using eth_ring_complete [of 32 new keypair Keys Map.empty] assms by (auto simp: makeEthRing_def)
  then show ?thesis by (auto simp: Keys_def str_bytes_def dom_def)
qed

end
