(* ===== verification/Transfer_Flow.thy ===== *)
theory Transfer_Flow
  imports Wiring Deposit_Data
begin

text \<open>
  A transfer from end to end: the deposit event handler of the source chain, the message handler of an EVM
  destination, its executor with batches and signing sessions, and the calls of its bridge contract. The
  development of the single steps is in the theories of the components; here they are put in the order in which
  \<open>app/app.go\<close> and the relayer of sygma-core connect them.
\<close>

section \<open>From deposits to proposals\<close>

text \<open>
  What the relayer of sygma-core does with a batch of messages: it hands them to the destination one by one, leaves
  out those that are refused, and writes the proposals together.
\<close>

definition routed :: "(message \<Rightarrow> proposal res) \<Rightarrow> message list \<Rightarrow> proposal list \<Rightarrow> bool" where
  "routed receive msgs props \<longleftrightarrow> props = oks receive msgs"

text \<open>The proposal that a deposit event is meant to become.\<close>

definition deposit_proposal ::
  "'t go_ethereum \<Rightarrow> handle_deposit \<Rightarrow> uint8 \<Rightarrow> string \<Rightarrow> 'a Evm_Listener.Deposit \<Rightarrow> TransferProposal res" where
  "deposit_proposal lib handle i mid d =
     and_then (handle_event handle i mid d) (\<lambda>m.
     and_then (TransferMessageHandler_HandleMessage lib m) toTransferProposal)"

lemma oks_oks: "oks g (oks f ds) = oks (\<lambda>d. and_then (f d) g) ds"
  by (induction ds) (auto split: sum.splits)

lemma map_projr_oks:
  assumes "\<And>d p. f d = Inr p \<Longrightarrow> is_ok (g p)"
  shows "map (projr \<circ> g) (oks f ds) = oks (\<lambda>d. and_then (f d) g) ds"
proof (induction ds)
  case (Cons d ds)
  then show ?case using assms [of d] by (auto simp: is_ok_def split: sum.splits)
qed simp

lemma NewTransferProposal_converts:
  "toTransferProposal (NewTransferProposal msg data) = Inr
     \<lparr>tp_Source = tm_Source msg, tp_Destination = tm_Destination msg,
      tp_Data = \<lparr>tpd_DepositNonce = tmd_DepositNonce (tm_Data msg), tpd_ResourceId = tmd_ResourceId (tm_Data msg),
                 tpd_Metadata = tmd_Metadata (tm_Data msg), tpd_Data = data\<rparr>,
      tp_Type = TransferProposalType, tp_MessageID = tm_ID msg\<rparr>"
  by (simp add: toTransferProposal_def NewTransferProposal_def NewProposal_def)

lemma transfer_handler_result:
  assumes "TransferMessageHandler_HandleMessage lib m = Inr p"
  shows "\<exists>d data. m_Data m = MTransfer d \<and> p = NewTransferProposal
    \<lparr>tm_Source = m_Source m, tm_Destination = m_Destination m, tm_Data = d, tm_Type = m_Type m, tm_ID = m_ID m\<rparr> data"
proof (cases "m_Data m")
  case (MTransfer d)
  with assms show ?thesis
    by (auto simp: TransferMessageHandler_HandleMessage_def message_handler_defs Let_def split: if_splits)
next
  case (MRetry x2)
  with assms show ?thesis by (simp add: TransferMessageHandler_HandleMessage_def)
qed

lemma transfer_handler_converts: "TransferMessageHandler_HandleMessage lib m = Inr p \<Longrightarrow> is_ok (toTransferProposal p)"
  using transfer_handler_result [of lib m p] by (auto simp: NewTransferProposal_converts)

lemma deposit_proposal_Inr:
  assumes "deposit_proposal lib (ETHDepositHandler_HandleDeposit lib' get hs) i mid d = Inr tp"
  shows "tp_Source tp = i \<and> tp_Destination tp = d_DestinationDomainID d \<and> tp_MessageID tp = mid \<and>
    tpd_DepositNonce (tp_Data tp) = d_DepositNonce d \<and> tpd_ResourceId (tp_Data tp) = d_ResourceID d \<and>
    proposal_bytes lib (handle_event (ETHDepositHandler_HandleDeposit lib' get hs) i mid d) = Inr (tpd_Data (tp_Data tp))"
proof -
  from assms obtain m p where m: "handle_event (ETHDepositHandler_HandleDeposit lib' get hs) i mid d = Inr m"
    "TransferMessageHandler_HandleMessage lib m = Inr p" "toTransferProposal p = Inr tp"
    by (auto simp: deposit_proposal_def)
  from m(1) have e: "m_Source m = i \<and> m_Destination m = d_DestinationDomainID d \<and> m_ID m = mid \<and>
      tmd_DepositNonce (transfer_of m) = d_DepositNonce d \<and> tmd_ResourceId (transfer_of m) = d_ResourceID d"
    using eth_handler_envelope by (fastforce simp: handle_event_def)
  from transfer_handler_result [OF m(2)] obtain td data where p: "m_Data m = MTransfer td" "p = NewTransferProposal
    \<lparr>tm_Source = m_Source m, tm_Destination = m_Destination m, tm_Data = td, tm_Type = m_Type m, tm_ID = m_ID m\<rparr> data"
    by blast
  have "proposal_bytes lib (Inr m) = Inr data"
    using m(2) p(2) by (simp add: proposal_bytes_def NewTransferProposal_def NewProposal_def)
  with m(1,3) e p show ?thesis by (auto simp: NewTransferProposal_converts transfer_of_def)
qed

section \<open>From proposals to submissions\<close>

lemma deposit_batch:
  assumes "evm_HandleEvents env handlers (DepositEH bridge i) st a b = Some (Inr (), st', batches)" "msgs \<in> set batches"
  shows "\<exists>ds dest. FetchDeposits (ce_client env) bridge a b = Inr ds \<and>
    msgs = oks (handle_event (eth_HandleDeposit env handlers) i (deposit_messageID i dest a b))
      (filter (\<lambda>d. d_DestinationDomainID d = dest) ds)"
proof -
  let ?H = "eth_HandleDeposit env handlers" and ?F = "FetchDeposits (ce_client env) bridge"
  from assms(1) obtain dd where dd: "ProcessDeposits ?F ?H i a b = Inr dd" "batches = map snd dd"
    by (auto simp: evm_HandleEvents_def DepositEventHandler_HandleEvents_def Let_def split: sum.splits prod.splits)
  then obtain ds where ds: "?F a b = Inr ds"
    by (auto simp: ProcessDeposits_def split: sum.splits go_error.splits)
  from process_deposits_per_domain [of ?F a b ds "ce_lib env" "ce_GetHandlerAddress env" handlers i, OF ds] dd(1)
  have g: "grouped dd" "\<And>k. at_key dd k = oks (handle_event ?H i (deposit_messageID i k a b))
        (filter (\<lambda>d. d_DestinationDomainID d = k) ds)" by auto
  from assms(2) dd(2) obtain k where k: "(k, msgs) \<in> set dd" by auto
  with g(1) have "at_key dd k = msgs" by (intro at_key_in) (auto simp: grouped_def)
  with ds g(2) show ?thesis by blast
qed

lemma routed_open_proposals:
  assumes "routed (TransferMessageHandler_HandleMessage lib) (oks (handle_event handle i mid) ds) props"
  shows "open_proposals I props = filter (\<lambda>p. I p = Inr False) (oks (deposit_proposal lib handle i mid) ds)"
proof -
  have "map (projr \<circ> toTransferProposal) props =
      oks (\<lambda>m. and_then (TransferMessageHandler_HandleMessage lib m) toTransferProposal) (oks (handle_event handle i mid) ds)"
    unfolding assms [unfolded routed_def] by (rule map_projr_oks) (rule transfer_handler_converts)
  then have "map (projr \<circ> toTransferProposal) props = oks (deposit_proposal lib handle i mid) ds"
    by (simp only: oks_oks deposit_proposal_def [abs_def])
  then show ?thesis by (simp add: open_proposals_def)
qed

lemma sessions_open_proposals:
  assumes "proposalBatches I c m props = Inr bs" "sessions_from hash new 0 bs = map Inr ss"
  shows "concat (map (b_proposals \<circ> ss_batch) ss) = open_proposals I props"
proof -
  have "map ss_batch ss = map snd (session_batches 0 bs)" using session_ids_distinct [OF assms(2)] by simp
  then have "concat (map b_proposals (map ss_batch ss)) = concat (map b_proposals bs)"
    using session_batches_concat [of 0 bs] by simp
  with batch_loop_concat [OF assms(1) [unfolded proposalBatches_def]] show ?thesis by (simp add: emptyBatch_def)
qed

lemma session_signs_batch:
  assumes "sessions_from hash new i bs = map Inr ss" "s \<in> set ss"
  shows "\<exists>h. hash (b_proposals (ss_batch s)) = Inr h \<and> ss_msg s = SetBytes h"
proof -
  from assms have "Inr s \<in> set (sessions_from hash new i bs)" by simp
  then obtain j b where "batch_session hash new j b = Inr s" unfolding sessions_from_eq by auto
  from batch_session_Inr [OF this] show ?thesis by auto
qed


text \<open>One ERC-20 deposit from domain 1 to domain 2, and a bridge that has executed nothing.\<close>

definition flow_deposit :: "bytes \<Rightarrow> bytes \<Rightarrow> string Evm_Listener.Deposit" where
  "flow_deposit amount recipient =
     \<lparr>d_DestinationDomainID = 2, d_ResourceID = replicate 32 3, d_DepositNonce = 5, d_SenderAddress = ''0x'',
      d_Data = exact (erc20_calldata amount recipient []), d_HandlerResponse = exact [], d_Timestamp = 7\<rparr>"

definition flow_env :: "bytes \<Rightarrow> bytes \<Rightarrow> (unit, string, string, nat, nat, nat, string, mem_db, peerID list, unit) chain_env" where
  "flow_env amount recipient = sample_chain_env\<lparr>ce_client := sample_client
     \<lparr>FetchEventLogs := (\<lambda>a sig s e. Inr [\<lparr>lg_Address = a, lg_Topics = [[], []], lg_Data = [], lg_BlockNumber = 3\<rparr>]),
      UnpackDeposit := (\<lambda>_. Inr (flow_deposit amount recipient))\<rparr>\<rparr>"

definition flow_message :: "bytes \<Rightarrow> bytes \<Rightarrow> message" where
  "flow_message amount recipient = transfer_message 1 2 5 (replicate 32 3) [] [IBytes amount, IBytes recipient] FungibleTransfer
     (deposit_messageID 1 2 5 9) 7"

lemma flow_fetch: "FetchDeposits (ce_client (flow_env w r)) bridge a b = Inr [flow_deposit w r]"
  by (simp add: FetchDeposits_def flow_env_def parseDeposit_def sample_client_def flow_deposit_def)

lemma flow_handled:
  assumes "length w = 32" "20 \<le> length r" "length r < 2 ^ 62"
  shows "handle_event (eth_HandleDeposit (flow_env w r) [(''0xa'', Erc20Handler)]) 1 (deposit_messageID 1 2 5 9) (flow_deposit w r)
    = Inr (flow_message w r)"
proof -
  have "Erc20_HandleDeposit example_lib 1 2 5 (replicate 32 3) (exact (erc20_calldata w r []))
      (exact []) (deposit_messageID 1 2 5 9) 7 = Inr (flow_message w r)"
    unfolding flow_message_def by (rule erc20_plain [where rest = "[]"]) (use assms in simp_all)
  then show ?thesis
    by (simp add: handle_event_def flow_deposit_def flow_env_def sample_chain_env_def ETHDepositHandler_HandleDeposit_def
        matchAddressWithHandlerFunc_def run_handler_def)
qed

lemma flow_sent:
  assumes "length w = 32" "20 \<le> length r" "length r < 2 ^ 62"
  shows "evm_HandleEvents (flow_env w r) [(''0xa'', Erc20Handler)] (DepositEH ''0xb'' 1) st 5 9 = Some (Inr (), st, [[flow_message w r]])"
proof -
  have "m_Destination (flow_message w r) = 2" by (simp add: flow_message_def transfer_message_def NewMessage_def)
  moreover have "d_DestinationDomainID (flow_deposit w r) = 2" by (simp add: flow_deposit_def)
  ultimately show ?thesis
    by (simp add: evm_HandleEvents_def Let_def DepositEventHandler_HandleEvents_def ProcessDeposits_def flow_fetch
        flow_handled [OF assms])
qed

definition flow_contract :: "(string, unit) contract" where
  "flow_contract = \<lparr>ExecuteTransaction = (\<lambda>_ _ _. Inr ''0x''), CallContract = (\<lambda>_ _. Inr [VBool False]), ChainID = Inr 1,
     ContractAddressHex = ''0xb''\<rparr>"

definition flow_proposal :: TransferProposal where
  "flow_proposal = \<lparr>tp_Source = 1, tp_Destination = 2,
     tp_Data = \<lparr>tpd_DepositNonce = 5, tpd_ResourceId = replicate 32 3, tpd_Metadata = [],
                tpd_Data = erc20_calldata (replicate 32 9) (replicate 20 1) []\<rparr>,
     tp_Type = TransferProposalType, tp_MessageID = deposit_messageID 1 2 5 9\<rparr>"


section \<open>Payments on Bitcoin\<close>

text \<open>
  A deposit that an output pays: what its handler reads as amount, cut off at ten decimals, and as recipient.
\<close>

definition pays_deposit ::
  "('adr, 'tx) btcd \<Rightarrow> handle_deposit \<Rightarrow> uint8 \<Rightarrow> string \<Rightarrow> 'a Evm_Listener.Deposit \<Rightarrow> TxOut \<Rightarrow> bool" where
  "pays_deposit btc handle i mid d out \<longleftrightarrow>
     (\<exists>m w recipient a. handle_event handle i mid d = Inr m \<and> tmd_Type (transfer_of m) = FungibleTransfer \<and>
        tmd_Payload (transfer_of m) = [IBytes w, IBytes recipient] \<and>
        to_Value out = int (SetBytes w div 10 ^ 10 mod 2 ^ 64) \<and>
        DecodeAddress btc (map (char_of \<circ> unat) recipient) = Inr a \<and> PayToAddrScript btc a = Inr (to_PkScript out))"

lemma bitcoin_proposal:
  assumes "FungibleMessageHandler_HandleMessage m = Inr p"
  shows "\<exists>w recipient. tmd_Type (transfer_of m) = FungibleTransfer \<and> tmd_Payload (transfer_of m) = [IBytes w, IBytes recipient] \<and>
    p_Source p = m_Source m \<and> p_Destination p = m_Destination m \<and>
    p_Data p = PBtc \<lparr>btpd_Amount = of_nat (SetBytes w div 10 ^ 10), btpd_Recipient = map (char_of \<circ> unat) recipient,
      btpd_DepositNonce = tmd_DepositNonce (transfer_of m), btpd_ResourceId = tmd_ResourceId (transfer_of m)\<rparr>"
proof -
  obtain d where d: "m_Data m = MTransfer d"
    using assms by (cases "m_Data m") (simp_all add: FungibleMessageHandler_HandleMessage_def)
  with assms have f: "tmd_Type d = FungibleTransfer" "length (tmd_Payload d) = 2"
    by (auto simp: message_handler_defs Let_def split: if_splits)
  then obtain x y where "tmd_Payload d = [x, y]" by (auto simp: length_Suc_conv numeral_2_eq_2)
  with assms d f show ?thesis
    by (auto simp: message_handler_defs Let_def payload_at_def transfer_of_def NewProposal_def)
qed

text \<open>A routed message becomes a payment request with the identity of its deposit.\<close>

lemma bitcoin_request:
  assumes "q \<in> set (oks FungibleMessageHandler_HandleMessage (oks (handle_event (ETHDepositHandler_HandleDeposit lib get hs) i mid) ds))"
    and "\<forall>d \<in> set ds. d_DestinationDomainID d = dest"
  shows "\<exists>d \<in> set ds. \<exists>m w recipient. handle_event (ETHDepositHandler_HandleDeposit lib get hs) i mid d = Inr m \<and>
    tmd_Type (transfer_of m) = FungibleTransfer \<and> tmd_Payload (transfer_of m) = [IBytes w, IBytes recipient] \<and>
    p_Source q = i \<and> p_Destination q = dest \<and>
    p_Data q = PBtc \<lparr>btpd_Amount = of_nat (SetBytes w div 10 ^ 10), btpd_Recipient = map (char_of \<circ> unat) recipient,
      btpd_DepositNonce = d_DepositNonce d, btpd_ResourceId = d_ResourceID d\<rparr>"
proof -
  from assms(1) obtain d m where d: "d \<in> set ds" "handle_event (ETHDepositHandler_HandleDeposit lib get hs) i mid d = Inr m"
    "FungibleMessageHandler_HandleMessage m = Inr q" by (auto simp: set_oks)
  from d(2) have "m_Source m = i \<and> m_Destination m = d_DestinationDomainID d \<and>
      tmd_DepositNonce (transfer_of m) = d_DepositNonce d \<and> tmd_ResourceId (transfer_of m) = d_ResourceID d"
    using eth_handler_envelope by (fastforce simp: handle_event_def)
  with bitcoin_proposal [OF d(3)] d(1,2) assms(2) show ?thesis by fastforce
qed

text \<open>What the selection of the executor guarantees.\<close>

lemma selected:
  assumes "prop_storer status store" "proposalsForExecution status store e props = Some (Inr sel, e')"
  shows "distinct (map bp_key sel)"
    and "\<forall>p \<in> set sel. \<exists>q \<in> set props. bp_Source p = p_Source q \<and> bp_Destination p = p_Destination q \<and>
      asBtcTransferProposalData (p_Data q) = Inr (bp_Data p)"
    and "\<forall>q \<in> set props. \<forall>d x. asBtcTransferProposalData (p_Data q) = Inr d \<longrightarrow>
      status (ex_store e) (p_Source q) (p_Destination q) (btpd_DepositNonce d) = Inr x \<longrightarrow> x \<in> {MissingProp, FailedProp} \<longrightarrow>
      (p_Source q, p_Destination q, btpd_DepositNonce d) \<in> bp_key ` set sel"
proof -
  from assms(2) obtain st where s: "select_proposals status store (ex_store e) [] props = (Inr sel, st)"
    by (auto simp: proposalsForExecution_def split: if_splits prod.splits)
  show "distinct (map bp_key sel)"
    using prop_storer.select_proposals_taken [OF assms(1) s prop_storer.taken_none [OF assms(1)]] by (rule taken_distinct)
  show "\<forall>p \<in> set sel. \<exists>q \<in> set props. bp_Source p = p_Source q \<and> bp_Destination p = p_Destination q \<and>
      asBtcTransferProposalData (p_Data q) = Inr (bp_Data p)"
    using select_proposals_from [OF s] by simp
  show "\<forall>q \<in> set props. \<forall>d x. asBtcTransferProposalData (p_Data q) = Inr d \<longrightarrow>
      status (ex_store e) (p_Source q) (p_Destination q) (btpd_DepositNonce d) = Inr x \<longrightarrow> x \<in> {MissingProp, FailedProp} \<longrightarrow>
      (p_Source q, p_Destination q, btpd_DepositNonce d) \<in> bp_key ` set sel"
    using prop_storer.select_proposals_complete [OF assms(1) s] by blast
qed

text \<open>The payment that a deposit asks for.\<close>

definition payment_of :: "handle_deposit \<Rightarrow> uint8 \<Rightarrow> string \<Rightarrow> 'a Evm_Listener.Deposit \<Rightarrow> BtcTransferProposal \<Rightarrow> bool" where
  "payment_of handle i mid d p \<longleftrightarrow>
     (\<exists>m w recipient. handle_event handle i mid d = Inr m \<and> tmd_Type (transfer_of m) = FungibleTransfer \<and>
        tmd_Payload (transfer_of m) = [IBytes w, IBytes recipient] \<and>
        bp_Data p = \<lparr>btpd_Amount = of_nat (SetBytes w div 10 ^ 10), btpd_Recipient = map (char_of \<circ> unat) recipient,
          btpd_DepositNonce = d_DepositNonce d, btpd_ResourceId = d_ResourceID d\<rparr>)"

lemma rawTx_outputs:
  assumes "rawTx lib srv ps res = Inr (tx, us)" "amounts ps < 2 ^ 62"
  shows "\<exists>outs rest. tx_Out tx = outs @ rest \<and> list_all2 (\<lambda>p out. pays lib p out \<and> to_Value out = uint (btpd_Amount (bp_Data p))) ps outs"
proof -
  obtain outs rest where o: "tx_Out tx = outs @ rest" "list_all2 (pays lib) ps outs"
    using rawTx_scripts [OF assms(1)] by blast
  from rawTx_spec [OF assms(1)] obtain tail where "map to_Value (tx_Out tx) = map (\<lambda>p. sint (btpd_Amount (bp_Data p))) ps @ tail"
    by auto
  moreover have "map (\<lambda>p. sint (btpd_Amount (bp_Data p))) ps = map (\<lambda>p. uint (btpd_Amount (bp_Data p))) ps"
    by (rule sum_sint_amounts) (use assms(2) in simp)
  moreover have "length outs = length ps" using o(2) by (simp add: list_all2_lengthD)
  ultimately have "map to_Value outs = map (\<lambda>p. uint (btpd_Amount (bp_Data p))) ps" using o(1) by simp
  then have "list_all2 (\<lambda>p out. to_Value out = uint (btpd_Amount (bp_Data p))) ps outs"
    by (simp add: list_all2_conv_all_nth list_eq_iff_nth_eq)
  with o show ?thesis by (auto simp: list_all2_conv_all_nth)
qed

lemma uint64_of_nat: "uint (of_nat x :: uint64) = int (x mod 2 ^ 64)"
  by (simp add: unsigned_of_nat take_bit_eq_mod zmod_int)

lemma paid_deposit:
  assumes "payment_of handle i mid d p" "pays btc p out" "to_Value out = uint (btpd_Amount (bp_Data p))"
  shows "pays_deposit btc handle i mid d out"
  using assms by (auto simp: payment_of_def pays_deposit_def pays_def uint64_of_nat)

lemma selected_deposit:
  assumes "prop_storer status store" "proposalsForExecution status store e props = Some (Inr sel, e')"
    and "props = oks FungibleMessageHandler_HandleMessage (oks (handle_event (ETHDepositHandler_HandleDeposit lib get hs) i mid) ds)"
    and "\<forall>d \<in> set ds. d_DestinationDomainID d = dest" "p \<in> set sel"
  shows "\<exists>d \<in> set ds. bp_Source p = i \<and> bp_Destination p = dest \<and> payment_of (ETHDepositHandler_HandleDeposit lib get hs) i mid d p"
  using selected(2) [OF assms(1,2)] assms(5) bitcoin_request [OF _ assms(4), of _ lib get hs i mid]
  unfolding assms(3) payment_of_def by fastforce

lemma open_deposit_selected:
  fixes lib get hs
  defines "H \<equiv> ETHDepositHandler_HandleDeposit lib get hs"
  assumes "prop_storer status store" "proposalsForExecution status store e props = Some (Inr sel, e')"
    and "props = oks FungibleMessageHandler_HandleMessage (oks (handle_event H i mid) ds)"
    and "\<forall>d \<in> set ds. d_DestinationDomainID d = dest" "d \<in> set ds" "inj_on d_DepositNonce (set ds)"
    and "is_ok (and_then (handle_event H i mid d) FungibleMessageHandler_HandleMessage)"
    and "status (ex_store e) i dest (d_DepositNonce d) = Inr x" "x \<in> {MissingProp, FailedProp}"
  shows "\<exists>p \<in> set sel. payment_of H i mid d p"
proof -
  obtain m q where m: "handle_event H i mid d = Inr m" "FungibleMessageHandler_HandleMessage m = Inr q"
    using assms(8) by (auto simp: is_ok_def split: sum.splits)
  then have "q \<in> set (oks FungibleMessageHandler_HandleMessage (oks (handle_event H i mid) [d]))" by simp
  from bitcoin_request [OF this [unfolded H_def], of dest] assms(5,6) obtain data where q: "p_Source q = i" "p_Destination q = dest"
    "p_Data q = PBtc data" "btpd_DepositNonce data = d_DepositNonce d" by fastforce
  have "m \<in> set (oks (handle_event H i mid) ds)" using m(1) assms(6) by (force simp: set_oks)
  with m(2) have "q \<in> set props" unfolding assms(4) by (subst set_oks) blast
  then have "(i, dest, d_DepositNonce d) \<in> bp_key ` set sel" using selected(3) [OF assms(2,3)] q assms(9,10) by fastforce
  then obtain p where p: "p \<in> set sel" "btpd_DepositNonce (bp_Data p) = d_DepositNonce d" by auto
  with selected_deposit [OF assms(2,3) assms(4) [unfolded H_def] assms(5)] obtain d' where
    d': "d' \<in> set ds" "payment_of H i mid d' p" unfolding H_def by blast
  then have "d_DepositNonce d' = d_DepositNonce d" using p(2) by (auto simp: payment_of_def)
  with assms(6,7) d'(1) have "d' = d" by (auto dest: inj_onD)
  with p d' show ?thesis by blast
qed


definition flow_payment :: BtcTransferProposal where
  "flow_payment = \<lparr>bp_Source = 1, bp_Destination = 2, bp_Data = \<lparr>btpd_Amount = 1500, btpd_Recipient = replicate 20 (CHR ''A''),
     btpd_DepositNonce = 5, btpd_ResourceId = replicate 32 3\<rparr>\<rparr>"


end
