(* ===== verification/Commands.thy ===== *)
theory Commands
  imports Startup
begin

text \<open>
  The commands that make and print keys (\<open>cli/peer\<close>, \<open>cli/keygen\<close>, \<open>cli/utils\<close>), base64 as they use it, the
  connection to a Bitcoin node (\<open>chains/btc/connection\<close>), the gauges (\<open>metrics\<close>) and the health
  endpoint (\<open>health\<close>). A command returns what it prints. The theorem at the end ties the commands to
  start-up: a relayer configured with a generated key has the printed identity.
\<close>

section \<open>Base64\<close>

text \<open>\<open>base64.StdEncoding\<close>: three bytes become four digits, a shorter last group is padded.\<close>

definition base64_alphabet :: string where
  "base64_alphabet = ''ABCDEFGHIJKLMNOPQRSTUVWXYZabcdefghijklmnopqrstuvwxyz0123456789+/''"

definition base64_digit :: "nat \<Rightarrow> char" where
  "base64_digit n = base64_alphabet ! (n mod 64)"

fun base64_EncodeToString :: "bytes \<Rightarrow> string" where
  "base64_EncodeToString [] = []"
| "base64_EncodeToString [a] =
     (let v = unat a * 65536 in [base64_digit (v div 262144), base64_digit (v div 4096), CHR ''='', CHR ''=''])"
| "base64_EncodeToString [a, b] =
     (let v = unat a * 65536 + unat b * 256
      in [base64_digit (v div 262144), base64_digit (v div 4096), base64_digit (v div 64), CHR ''=''])"
| "base64_EncodeToString (a # b # c # rest) =
     (let v = unat a * 65536 + unat b * 256 + unat c
      in base64_digit (v div 262144) # base64_digit (v div 4096) # base64_digit (v div 64) # base64_digit v
           # base64_EncodeToString rest)"

text \<open>The value of a digit, and the decoder of well-formed texts.\<close>

definition base64_value :: "char \<Rightarrow> nat option" where
  "base64_value c = find (\<lambda>i. base64_alphabet ! i = c) [0..<64]"

fun base64_decode :: "string \<Rightarrow> bytes option" where
  "base64_decode [] = Some []"
| "base64_decode (p # q # r # s # rest) =
     (case (base64_value p, base64_value q, base64_value r, base64_value s) of
        (Some i, Some j, None, None) \<Rightarrow>
          if r = CHR ''='' \<and> s = CHR ''='' \<and> rest = [] then Some [of_nat ((i * 64 + j) div 16)] else None
      | (Some i, Some j, Some k, None) \<Rightarrow>
          if s = CHR ''='' \<and> rest = [] then
            (let v = (i * 64 + j) * 64 + k in Some [of_nat (v div 1024), of_nat (v div 4)])
          else None
      | (Some i, Some j, Some k, Some l) \<Rightarrow>
          (let v = ((i * 64 + j) * 64 + k) * 64 + l
           in map_option (\<lambda>bs. of_nat (v div 65536) # of_nat (v div 256) # of_nat v # bs) (base64_decode rest))
      | _ \<Rightarrow> None)"
| "base64_decode _ = None"

lemma base64_value_digit: "base64_value (base64_digit n) = Some (n mod 64)"
proof -
  have "\<forall>i \<in> set [0..<64]. base64_value (base64_alphabet ! i) = Some i" by code_simp
  then show ?thesis by (simp add: base64_digit_def)
qed

lemma base64_value_pad: "base64_value (CHR ''='') = None"
  by code_simp

text \<open>Three bytes are the four digits of their number.\<close>

lemma sextets:
  fixes v :: nat
  assumes "v < 16777216"
  shows "((v div 262144 mod 64 * 64 + v div 4096 mod 64) * 64 + v div 64 mod 64) * 64 + v mod 64 = v"
proof -
  have d: "v div 4096 = v div 64 div 64" "v div 262144 = v div 4096 div 64" by (simp_all add: div_mult2_eq [symmetric])
  have "v div 262144 mod 64 = v div 262144" using assms by (intro mod_less) (simp add: less_mult_imp_div_less)
  then show ?thesis by (simp only: d div_mult_mod_eq)
qed

lemma octets:
  fixes a b c :: nat
  assumes "a < 256" "b < 256" "c < 256"
  defines "v \<equiv> a * 65536 + b * 256 + c"
  shows "v < 16777216" "v div 65536 = a" "v div 256 mod 256 = b" "v mod 256 = c"
proof -
  show "v < 16777216" using assms by linarith
  have "v = c + (a * 256 + b) * 256" by (simp add: v_def)
  then have 1: "v div 256 = a * 256 + b" "v mod 256 = c" using assms(3) by (simp_all only: div_mult_self3 mod_mult_self1) simp_all
  then show "v mod 256 = c" "v div 256 mod 256 = b" using assms(2) by simp_all
  have "v div 65536 = v div 256 div 256" by (simp add: div_mult2_eq [symmetric])
  with 1 assms(2) show "v div 65536 = a" by simp
qed

lemma of_nat_byte: "(of_nat n :: byte) = of_nat (n mod 256)"
  by (rule word_unat_eq_iff [THEN iffD2]) (simp add: unat_of_nat)

lemma unat_byte: "unat (b :: byte) < 256"
  using unsigned_less [of b] by simp

lemma byte_of_unat: "(of_nat (unat b) :: byte) = b"
  by simp

lemma low_byte: "(of_nat (unat b + k * 256) :: byte) = b"
  using of_nat_byte [of "unat b + k * 256"] unat_byte [of b] by simp

lemma group_values:
  fixes a b w :: nat
  shows "a * 65536 = w * 4096 \<Longrightarrow> w = a * 16" "a * 65536 + b * 256 = w * 64 \<Longrightarrow> w = b * 4 + a * 1024"
  by linarith+

lemma base64_decode_encode: "base64_decode (base64_EncodeToString bs) = Some bs"
proof (induction bs rule: base64_EncodeToString.induct)
  case (2 a)
  let ?v = "unat a * 65536"
  let ?w = "?v div 262144 mod 64 * 64 + ?v div 4096 mod 64"
  have "?v = ?w * 4096" using sextets [of ?v] unat_byte [of a] by simp
  then have "?w = unat a * 16" by (rule group_values)
  then have "?w div 16 = unat a" by (simp only: nonzero_mult_div_cancel_right)
  then show ?case
    by (simp only: base64_EncodeToString.simps Let_def base64_decode.simps base64_value_digit base64_value_pad
        option.simps prod.simps if_True simp_thms byte_of_unat)
next
  case (3 a b)
  let ?v = "unat a * 65536 + unat b * 256"
  let ?w = "(?v div 262144 mod 64 * 64 + ?v div 4096 mod 64) * 64 + ?v div 64 mod 64"
  have m: "?v mod 64 = 0" by presburger
  have "?v = ?w * 64" using sextets [of ?v] unat_byte [of a] unat_byte [of b] m by simp
  then have w: "?w = unat b * 4 + unat a * 1024" by (rule group_values)
  have "?w div 1024 = unat a" "?w div 4 = unat b + unat a * 256" unfolding w using unat_byte [of b] by simp_all
  then have "(of_nat (?w div 1024) :: byte) = a" "(of_nat (?w div 4) :: byte) = b"
    by (simp_all only: byte_of_unat low_byte)
  then show ?case
    by (simp only: base64_EncodeToString.simps Let_def base64_decode.simps base64_value_digit base64_value_pad
        option.simps prod.simps if_True simp_thms)
next
  case (4 a b c rest)
  let ?v = "unat a * 65536 + unat b * 256 + unat c"
  have l: "unat a < 256" "unat b < 256" "unat c < 256" by (rule unat_byte)+
  note o = octets [OF l]
  have "(of_nat (?v div 65536) :: byte) = a" "(of_nat (?v div 256) :: byte) = b" "(of_nat ?v :: byte) = c"
    using o by (simp_all only: of_nat_byte [of "?v div 256"] of_nat_byte [of ?v] o byte_of_unat) 
  then show ?case using 4 sextets [OF o(1)]
    by (simp only: base64_EncodeToString.simps Let_def base64_decode.simps base64_value_digit option.simps prod.simps option.map)
qed simp

section \<open>Commands\<close>

text \<open>
  The functions of libp2p the peer commands call. Keys and identities are theirs; \<open>Pretty\<close> prints an
  identity.
\<close>

record ('priv, 'pub, 'id) peer_lib =
  pe_GenerateKeyPair :: "nat \<Rightarrow> ('priv \<times> 'pub) res"
  pe_IDFromPublicKey :: "'pub \<Rightarrow> 'id res"
  pe_IDFromPrivateKey :: "'priv \<Rightarrow> 'id res"
  pe_MarshalPrivateKey :: "'priv \<Rightarrow> bytes res"
  pe_UnmarshalPrivateKey :: "bytes \<Rightarrow> 'priv res"
  pe_ConfigDecodeKey :: "string \<Rightarrow> bytes res"
  pe_Pretty :: "'id \<Rightarrow> string"

definition KEY_LENGTH :: nat where "KEY_LENGTH = 2048"

definition nl :: string where "nl = [CHR 10]"

text \<open>The format is a raw string: the backslash and the letter behind the identity are printed as they are.\<close>

definition peer_generateKey :: "('priv, 'pub, 'id) peer_lib \<Rightarrow> string res" where
  "peer_generateKey lib =
     and_then (pe_GenerateKeyPair lib KEY_LENGTH) (\<lambda>(priv, pub).
     and_then (pe_IDFromPublicKey lib pub) (\<lambda>peerID.
     and_then (pe_MarshalPrivateKey lib priv) (\<lambda>marshPriv.
     let encPriv = base64_EncodeToString marshPriv in
     Inr (nl @ ''LibP2P peer identity: '' @ pe_Pretty lib peerID @ '' '' @ [CHR 92, CHR ''n''] @ nl
       @ ''LibP2P private key: '' @ encPriv @ nl))))"

definition peerInfo :: "('priv, 'pub, 'id) peer_lib \<Rightarrow> string \<Rightarrow> string res" where
  "peerInfo lib privateKey =
     and_then (pe_ConfigDecodeKey lib privateKey) (\<lambda>privBytes.
     and_then (pe_UnmarshalPrivateKey lib privBytes) (\<lambda>priv.
     and_then (pe_IDFromPrivateKey lib priv) (\<lambda>peerID.
     Inr (nl @ ''LibP2P peer identity: '' @ pe_Pretty lib peerID @ nl))))"

text \<open>A key pair of the chain library: its public key as text and its encoded private key.\<close>

definition keygen_generateKey :: "(string \<times> bytes) res \<Rightarrow> string res" where
  "keygen_generateKey GenerateKeypair =
     and_then GenerateKeypair (\<lambda>(publicKey, privateKey).
     let privHex = hex_encode privateKey in
     Inr (''Public key: '' @ publicKey @ nl @ ''Private key: 0x'' @ privHex @ nl))"

definition derivateSS58 :: "(string \<Rightarrow> uint16 \<Rightarrow> string res) \<Rightarrow> string \<Rightarrow> uint16 \<Rightarrow> string res" where
  "derivateSS58 KeyringPairFromSecret privateKey networkID =
     and_then (KeyringPairFromSecret privateKey networkID) (\<lambda>address. Inr (address @ nl))"

section \<open>Flags\<close>

datatype flag = StringFlag string | BoolFlag bool

definition ConfigFlagName :: string where "ConfigFlagName = ''config''"
definition KeystoreFlagName :: string where "KeystoreFlagName = ''keystore''"
definition BlockstoreFlagName :: string where "BlockstoreFlagName = ''blockstore''"
definition FreshStartFlagName :: string where "FreshStartFlagName = ''fresh''"
definition LatestBlockFlagName :: string where "LatestBlockFlagName = ''latest''"

lemmas flag_names = ConfigFlagName_def KeystoreFlagName_def BlockstoreFlagName_def FreshStartFlagName_def LatestBlockFlagName_def

text \<open>The flags of a command with their defaults; viper looks a flag up by its name.\<close>

definition BindFlags :: "(string \<times> flag) list \<Rightarrow> (string \<times> flag) list" where
  "BindFlags flags = flags @
     [(ConfigFlagName, StringFlag ''.''), (BlockstoreFlagName, StringFlag ''./lvldbdata''),
      (FreshStartFlagName, BoolFlag False), (LatestBlockFlagName, BoolFlag False), (KeystoreFlagName, StringFlag ''./keys'')]"

definition root_flags :: "(string \<times> flag) list" where
  "root_flags = BindFlags [] @ [(''name'', StringFlag ''''), (''config-url'', StringFlag '''')]"

fun flag_string :: "flag option \<Rightarrow> string" where
  "flag_string (Some (StringFlag s)) = s"
| "flag_string _ = ''''"

fun flag_bool :: "flag option \<Rightarrow> bool" where
  "flag_bool (Some (BoolFlag b)) = b"
| "flag_bool _ = False"

text \<open>A flag that is given on the command line replaces the default.\<close>

definition flag_value :: "(string \<rightharpoonup> flag) \<Rightarrow> string \<Rightarrow> flag option" where
  "flag_value given name = (case given name of None \<Rightarrow> map_of root_flags name | Some v \<Rightarrow> Some v)"

definition chain_flags :: "(string \<rightharpoonup> flag) \<Rightarrow> viper_flags" where
  "chain_flags given =
     \<lparr>vf_Blockstore = flag_string (flag_value given BlockstoreFlagName), vf_FreshStart = flag_bool (flag_value given FreshStartFlagName),
      vf_LatestBlock = flag_bool (flag_value given LatestBlockFlagName)\<rparr>"

text \<open>Without any flag the configuration is read from the current directory and chains start from the stored blocks.\<close>

lemma default_flags:
  "load_configuration net env file (flag_string (flag_value Map.empty ConfigFlagName)) (flag_string (flag_value Map.empty ''config-url''))
     = panicOnError (file ''.'' None)"
  "chain_flags Map.empty = \<lparr>vf_Blockstore = ''./lvldbdata'', vf_FreshStart = False, vf_LatestBlock = False\<rparr>"
  by (simp_all add: flag_value_def root_flags_def BindFlags_def flag_names load_configuration_def chain_flags_def ToLower_def)

section \<open>Running until a signal\<close>

text \<open>
  The end of \<open>Run\<close>: a missing key share is only logged, since a refresh event may bring one; the function returns
  once a signal arrives (\<open>None\<close> before). The second component is what is logged.
\<close>

definition run_until_signal :: "string \<Rightarrow> string \<Rightarrow> string \<Rightarrow> 'ks res \<Rightarrow> string option \<Rightarrow> unit res option \<times> string list" where
  "run_until_signal relayerName hostID version keyshare sig =
     (let started = [''Started relayer: '' @ relayerName @ '' with PID: '' @ hostID @ ''. Version: v'' @ version]
            @ (if is_ok keyshare then [] else [''Relayer not part of MPC. Waiting for refresh event...''])
      in case sig of
           None \<Rightarrow> (None, started)
         | Some s \<Rightarrow> (Some (Inr ()), started @ [''terminating got ` ['' @ s @ ''] signal'']))"

section \<open>The connection to a Bitcoin node\<close>

record ConnConfig =
  cc_HTTPPostMode :: bool
  cc_Host :: string
  cc_User :: string
  cc_Pass :: string
  cc_DisableTLS :: bool

definition NewBtcConnection ::
  "(ConnConfig \<Rightarrow> 'client res) \<Rightarrow> ('client \<Rightarrow> string res) \<Rightarrow> string \<Rightarrow> string \<Rightarrow> string \<Rightarrow> bool \<Rightarrow> 'client res" where
  "NewBtcConnection new GetBlockChainInfo url username password disableTLS =
     and_then (new \<lparr>cc_HTTPPostMode = True, cc_Host = url, cc_User = username, cc_Pass = password,
                    cc_DisableTLS = disableTLS\<rparr>) (\<lambda>client.
     and_then (GetBlockChainInfo client) (\<lambda>_. Inr client))"

text \<open>The application connects with TLS; the example application, which runs beside a local node, without.\<close>

definition btc_connect ::
  "(ConnConfig \<Rightarrow> 'client res) \<Rightarrow> ('client \<Rightarrow> string res) \<Rightarrow> bool \<Rightarrow> 'a BtcConfig \<Rightarrow> unit res" where
  "btc_connect new GetBlockChainInfo disableTLS config =
     and_then (NewBtcConnection new GetBlockChainInfo (gc_Endpoint (bt_GeneralChainConfig config)) (bt_Username config)
       (bt_Password config) disableTLS) (\<lambda>_. Inr ())"

definition app_btc_chain ::
  "('h, 'a) app_libs \<Rightarrow> (ConnConfig \<Rightarrow> 'client res) \<Rightarrow> ('client \<Rightarrow> string res) \<Rightarrow> chain_config \<Rightarrow> (uint8 \<times> ('h, 'a) chain) res" where
  "app_btc_chain libs new info = new_btc_chain (libs\<lparr>al_ConnectBtc := btc_connect new info False\<rparr>)"

definition example_btc_chain ::
  "('h, 'a) app_libs \<Rightarrow> (ConnConfig \<Rightarrow> 'client res) \<Rightarrow> ('client \<Rightarrow> string res) \<Rightarrow> chain_config \<Rightarrow> (uint8 \<times> ('h, 'a) chain) res" where
  "example_btc_chain libs new info = new_btc_chain (libs\<lparr>al_ConnectBtc := btc_connect new info True\<rparr>)"

section \<open>Gauges\<close>

text \<open>
  An observable gauge calls back for its value when it is read. The callbacks of the relayer read counters that
  live as long as the process: a gauge is its name with a function of these counters.
\<close>

type_synonym 's gauge = "string \<times> ('s \<Rightarrow> int)"

text \<open>What the process counts: the start time and the counters of the health job.\<close>

record counters =
  ct_startTime :: int
  ct_mpc :: MpcMetrics

definition NewMpcMetrics :: "(string \<Rightarrow> unit res) \<Rightarrow> counters gauge list res" where
  "NewMpcMetrics Int64ObservableGauge =
     and_then (Int64ObservableGauge ''relayer.TotalRelayers'') (\<lambda>_.
     and_then (Int64ObservableGauge ''relayer.AvailableRelayers'') (\<lambda>_.
     Inr [(''relayer.TotalRelayers'', mm_totalRelayerCount \<circ> ct_mpc),
          (''relayer.AvailableRelayers'', mm_availableRelayerCount \<circ> ct_mpc)]))"

definition NewHostMetrics :: "(string \<Rightarrow> unit res) \<Rightarrow> counters gauge list res" where
  "NewHostMetrics Int64ObservableGauge =
     and_then (Int64ObservableGauge ''relayer.StartTimeSeconds'') (\<lambda>_.
     Inr [(''relayer.StartTimeSeconds'', ct_startTime)])"

definition metric_attributes :: "string \<Rightarrow> string \<Rightarrow> string \<Rightarrow> (string \<times> string) list" where
  "metric_attributes env relayerID version = [(''relayerid'', relayerID), (''env'', env), (''version'', version)]"

definition NewSygmaMetrics ::
  "((string \<times> string) list \<Rightarrow> unit res) \<Rightarrow> (string \<Rightarrow> unit res) \<Rightarrow> string \<Rightarrow> string \<Rightarrow> string \<Rightarrow> counters gauge list res" where
  "NewSygmaMetrics NewRelayerMetrics Int64ObservableGauge env relayerID version =
     and_then (NewRelayerMetrics (metric_attributes env relayerID version)) (\<lambda>_.
     and_then (NewMpcMetrics Int64ObservableGauge) (\<lambda>mpcMetrics.
     and_then (NewHostMetrics Int64ObservableGauge) (\<lambda>hostMetrics.
     Inr (mpcMetrics @ hostMetrics))))"

definition observed :: "'s gauge list \<Rightarrow> string \<Rightarrow> 's \<Rightarrow> int option" where
  "observed gauges name s = map_option (\<lambda>f. f s) (map_of gauges name)"

section \<open>The health endpoint\<close>

text \<open>
  The handlers of the server by path, and what is logged. \<open>http.ListenAndServe\<close> serves until it
  fails: \<open>None\<close> stands for serving.
\<close>

definition StartHealthEndpoint :: "(string \<Rightarrow> unit res option) \<Rightarrow> uint16 \<Rightarrow> (string \<rightharpoonup> string) \<times> string list" where
  "StartHealthEndpoint ListenAndServe port =
     ([''/health'' \<mapsto> ''ok''],
      case ListenAndServe (CHR '':'' # dec (unat port)) of
        None \<Rightarrow> []
      | Some _ \<Rightarrow> [''started /health endpoint on port '' @ dec (unat port)])"

section \<open>What the commands establish\<close>

text \<open>
  What libp2p documents: decoding of configured keys is base64, a marshalled private key unmarshals to itself, and both
  halves of a generated pair have the same identity.
\<close>

definition peer_lib_laws :: "('priv, 'pub, 'id) peer_lib \<Rightarrow> bool" where
  "peer_lib_laws lib \<longleftrightarrow>
     (\<forall>s b. base64_decode s = Some b \<longrightarrow> pe_ConfigDecodeKey lib s = Inr b) \<and>
     (\<forall>k b. pe_MarshalPrivateKey lib k = Inr b \<longrightarrow> pe_UnmarshalPrivateKey lib b = Inr k) \<and>
     (\<forall>n priv pub. pe_GenerateKeyPair lib n = Inr (priv, pub) \<longrightarrow> pe_IDFromPrivateKey lib priv = pe_IDFromPublicKey lib pub)"


text \<open>A library with one key pair.\<close>

definition one_key_lib :: "(unit, unit, string) peer_lib" where
  "one_key_lib = \<lparr>pe_GenerateKeyPair = (\<lambda>_. Inr ((), ())), pe_IDFromPublicKey = (\<lambda>_. Inr ''peer''),
     pe_IDFromPrivateKey = (\<lambda>_. Inr ''peer''), pe_MarshalPrivateKey = (\<lambda>_. Inr [8, 0, 18, 255]),
     pe_UnmarshalPrivateKey = (\<lambda>b. if b = [8, 0, 18, 255] then Inr () else Inl (Error ''key'')),
     pe_ConfigDecodeKey = (\<lambda>s. case base64_decode s of None \<Rightarrow> Inl (Error ''illegal base64 data'') | Some b \<Rightarrow> Inr b),
     pe_Pretty = (\<lambda>i. i)\<rparr>"


text \<open>The key printed by \<open>keygen gen-key\<close> decodes to the private key.\<close>

lemma printed_signing_key:
  assumes "keygen_generateKey (Inr (publicKey, privateKey)) = Inr out"
  shows "\<exists>privHex. out = ''Public key: '' @ publicKey @ nl @ ''Private key: 0x'' @ privHex @ nl \<and> hex_decode privHex = Inr privateKey"
  using assms by (intro exI [of _ "hex_encode privateKey"]) (simp add: keygen_generateKey_def Let_def hex_decode_encode)

text \<open>After a round of the health job the gauges show the relayers of the topology and those that could be reached.\<close>

lemma gauges_show_health:
  assumes "NewSygmaMetrics relayerMetrics gauge env relayerID version = Inr gauges"
    and "health_check_round broadcast closeSession peers net (ct_mpc s) = (Inr m, net')"
  shows "observed gauges ''relayer.TotalRelayers'' (s\<lparr>ct_mpc := m\<rparr>) = Some (int (length peers)) \<and>
    (\<exists>errors. fst (ExecuteCommHealthCheck broadcast closeSession net peers) = Inr errors \<and>
      observed gauges ''relayer.AvailableRelayers'' (s\<lparr>ct_mpc := m\<rparr>) = Some (int (length peers) - int (length errors))) \<and>
    observed gauges ''relayer.StartTimeSeconds'' (s\<lparr>ct_mpc := m\<rparr>) = Some (ct_startTime s)"
  using assms
  by (auto simp: NewSygmaMetrics_def NewMpcMetrics_def NewHostMetrics_def observed_def health_check_round_def
      TrackRelayerStatus_def split: prod.splits)

text \<open>The line that says that the endpoint was started is logged only once the endpoint stopped serving.\<close>

lemma health_logged_iff_stopped:
  "snd (StartHealthEndpoint listen port) \<noteq> [] \<longleftrightarrow> listen (CHR '':'' # dec (unat port)) \<noteq> None"
  by (auto simp: StartHealthEndpoint_def split: option.splits)

text \<open>A connection is returned only for a node that answered, reached with the configured credentials over POST requests.\<close>

lemma btc_connection_answered:
  assumes "NewBtcConnection new info url user pass tls = Inr client"
  shows "is_ok (info client) \<and> (\<exists>config. new config = Inr client \<and> cc_HTTPPostMode config \<and> cc_Host config = url \<and>
    cc_User config = user \<and> cc_Pass config = pass \<and> cc_DisableTLS config = tls)"
  using assms by (auto simp: NewBtcConnection_def)

text \<open>A Bitcoin chain is registered only if its node answered with the configured credentials, over TLS in the application.\<close>

lemma registered_btc_answered:
  assumes "app_btc_chain libs new info cc = Inr (i, ch)"
  shows "\<exists>config resources client. ch = BtcChain config resources \<and> is_ok (info client) \<and>
    new \<lparr>cc_HTTPPostMode = True, cc_Host = gc_Endpoint (bt_GeneralChainConfig config), cc_User = bt_Username config,
         cc_Pass = bt_Password config, cc_DisableTLS = False\<rparr> = Inr client"
  using assms by (auto simp: app_btc_chain_def new_btc_chain_def btc_connect_def NewBtcConnection_def)

end
