(* ===== verification/Spec2Isabelle.thy ===== *)
theory Spec2Isabelle
  imports Transfer_Flow Commands
begin

text \<open>
  \<^bold>\<open>Verification of the Sygma relayer\<close> (\<open>src/\<close>, Go).

  A relayer watches several chains for deposits, turns every deposit into a message for its
  destination chain, the message into a proposal of that chain, and executes proposals together with
  the other relayers: a coordinator collects ready relayers, a threshold signature is computed, and
  the signed proposals are submitted. Retry events send deposits again; key generation and refresh
  events change the key shares and the network topology.

  \<^bold>\<open>Theories and code.\<close> Every Go function that the development covers is one definition with the
  name of the function; methods carry the name of their type or of their chain in front. Errors are
  values of \<open>'a res\<close> (a Go error or a panic), state is passed explicitly, a \<open>select\<close> loop is a
  function of the list of events it receives that returns its result (\<open>None\<close> while it still waits)
  and its actions, a mutex is a field whose locking may block (\<open>None\<close>).

  \<^item> \<open>Prelude\<close>, \<open>Parsing\<close>, \<open>Floats\<close>: Go values; wrap-around of \<open>int64\<close>, slices with capacity, big-endian
    numbers, decimal and hexadecimal formats, \<open>strconv.ParseInt\<close>, the rounding of \<open>float64\<close>.
  \<^item> \<open>Relayer_Data\<close>, \<open>PropStore\<close>, \<open>Retry\<close>: messages and proposals (\<open>relayer/transfer\<close>), the status of
    proposals (\<open>store/propstore.go\<close>), the selection of deposits for a retry (\<open>relayer/retry\<close>). Locale
    \<open>kv_store\<close> is the contract of the database, \<open>prop_storer\<close> the one of the store built on it, which
    executors and retry handlers rely on.
  \<^item> \<open>Evm_Deposit_Handlers\<close>, \<open>Evm_Message_Handler\<close>, \<open>Evm_Listener\<close>, \<open>Evm_Executor\<close>, \<open>Chains_Common\<close>: the EVM chain
    (\<open>chains/evm\<close>), the typed data that is signed and the bridge contract (\<open>chains/proposal.go\<close>,
    \<open>calls/contracts/bridge\<close>).
  \<^item> \<open>Evm_Tss_Events\<close>: the handlers of key generation and refresh events (\<open>eventHandlers/tss.go\<close>).
  \<^item> \<open>Btc_Listener\<close>, \<open>Btc_Executor\<close>, \<open>Btc_Mempool\<close>, \<open>Btc_Uploader\<close>: the Bitcoin chain (\<open>chains/btc\<close>), with the
    mempool client and the upload of metadata.
  \<^item> \<open>Substrate\<close>: the Substrate chain (\<open>chains/substrate\<close>).
  \<^item> \<open>Comm\<close>, \<open>Elector\<close>: subscriptions, streams, broadcasting and the health check (\<open>comm\<close>, \<open>comm/p2p\<close>), the
    static and the bully election (\<open>comm/elector\<close>); the bully election is a step relation.
  \<^item> \<open>Keyshare\<close>, \<open>Tss\<close>, \<open>Tss_Frost\<close>, \<open>Coordinator\<close>: key share files with their lock (\<open>keyshare\<close>), the ECDSA
    and FROST processes (\<open>tss/ecdsa\<close>, \<open>tss/frost\<close>) and the session coordinator (\<open>tss/coordinator.go\<close>).
  \<^item> \<open>Tss_Run\<close>: the \<open>Run\<close> and \<open>Stop\<close> methods of the processes, with their pools of goroutines as interleaved
    sequences of events over the loops of \<open>Tss\<close> and \<open>Tss_Frost\<close>.
  \<^item> \<open>Session\<close>, \<open>Key_Lock\<close>: what the coordinator and the processes do together: agreement of the relayers of a
    session (locales \<open>quorum_process\<close>, \<open>params_codec\<close>), the end of executions, the key share lock across a key change.
  \<^item> \<open>Topology\<close>: fetching, decrypting, storing and installing the topology (\<open>topology\<close>, \<open>comm/p2p/gater.go\<close>,
    \<open>comm/p2p/host.go\<close>).
  \<^item> \<open>Network\<close>: the communication object on a libp2p host (\<open>comm/p2p/libp2p.go\<close>), the host, and what broadcasts deliver.
  \<^item> \<open>Config\<close>: the environment, durations, ports, merging and validation (\<open>config\<close> and the configuration of the
    chains).
  \<^item> \<open>App\<close>, \<open>Startup\<close>, \<open>Wiring\<close>: the parts of start-up (\<open>app/app.go\<close>), the Bitcoin chain object, the topology commands, the
    health job; start-up as a whole; the event and message handlers of every chain and the messages between
    them; the example application (\<open>example/app/app.go\<close>).
  \<^item> \<open>Commands\<close>: the key commands of the command line tool with the base64 of Go (\<open>cli/peer\<close>, \<open>cli/keygen\<close>), the flags
    (\<open>config\<close>, \<open>cli\<close>), the connection to a Bitcoin node (\<open>chains/btc/connection\<close>), the gauges and the health endpoint
    (\<open>metrics\<close>, \<open>health\<close>), the end of \<open>Run\<close>.
  \<^item> \<open>Deposit_Data\<close>: the builders of deposit data, the polling loops and the test keys of the end-to-end tests (\<open>e2e\<close>).
  \<^item> \<open>Transfer_Flow\<close>: the composition of listener, message handler, executor and signing session, from the deposit
    events of an EVM chain to the submitted batch on an EVM chain and to the sent transaction on Bitcoin.
  \<^item> \<open>Spec2Isabelle\<close>: properties that span several chains.

  \<^bold>\<open>What is shown.\<close>
  \<^item> Transfers: deposits arrive as they were made, for every transfer type and between chains of
    different kinds; amounts keep their value up to the decimals of Bitcoin; deposits of a block range are
    kept complete, in order and by destination. From the event to the submission, every accepted deposit that is still
    open is in exactly one signed batch, or is paid by one output of a Bitcoin transaction.
  \<^item> Execution: batches and sessions cover exactly the open proposals; what is signed is what is submitted;
    the watchers submit only their own batch; Bitcoin proposals are taken once, the transaction pays
    exactly what it should and is sent once and fully signed.
  \<^item> Retries: only confirmed, requested deposits that are neither executed nor pending are sent again, and
    the store only changes from pending to failed.
  \<^item> Sessions: who takes part, that signing starts when enough relayers are ready, that relayers obey only
    their coordinator, that all relayers of a session sign with the same subset, that executions end and clean up; which subset
    signs and that its messages stay in it; what resharing accepts, when it takes effect and that it gives the key
    share lock back; the elections.
  \<^item> Communication and keys: messages are delivered unchanged to the right subscribers with the
    identity of the sender; key shares and topologies survive storing, encrypting and publishing.
  \<^item> Start-up: accepted configurations are well formed; start-up panics or runs with everything in place; every message a
    chain sends finds a handler that can read it, and its proposal an executor that can.
  \<^item> Tools: a generated key works in a configured relayer; the deposits that the tests build are read back as built.

  Some theorems state deviations: an executed Substrate proposal is submitted again
  (\<open>Substrate.substrate_executes_everything\<close>), a failed selection blocks the Bitcoin executor
  (\<open>Btc_Executor.failed_selection_blocks_executor\<close>), change may become negative
  (\<open>Btc_Executor.raw_tx_negative_change\<close>), a satoshi may be lost (\<open>Btc_Listener.satoshi_lost\<close>), a FROST session
  may hang (\<open>Session.frost_session_hangs\<close>), stopping a key generation that never ran unlocks a lock it does not hold
  (\<open>Key_Lock.unstarted_keygen_unlocks\<close>), an upload cannot be retried after an answer (\<open>Btc_Uploader.upload_succeeds_iff\<close>), and
  others of this kind next to the property they limit.

  \<^bold>\<open>Bounds.\<close> There is no fuel: loops are structural recursions, over the events they receive where the
  code loops over a channel; the parser of durations terminates because its input gets shorter. Machine
  integers have their width wherever the code computes with them. \<open>float64\<close> numbers are non-negative and
  away from the limits of the exponent, which holds for amounts below 21 million bitcoins and for durations.

  \<^bold>\<open>What is not modelled.\<close> The rounds of the threshold signature libraries, libp2p, the RPC clients,
  go-ethereum, btcd, the JSON, viper, mapstructure, defaults and mergo packages and the relayer loop of
  sygma-core are not part of the sources: they are arguments of the definitions, with what is relied
  on as hypotheses. Hash functions and block ciphers are arbitrary functions. Logging, gas pricing and the
  transaction monitor, the export of metrics, the command tree of cobra, the \<open>String\<close> methods of configurations,
  generated bindings and the contract calls and the in-memory communication of the tests, and constructors that only store
  their arguments are left out: they are calls of such packages or do not compute. The pools of goroutines of the tss processes are modelled in \<open>Tss_Run\<close>; the pools of the
  executors are represented by the results of their functions, and the order in which goroutines
  interleave by the order of events.
\<close>

section \<open>Transfers between chains of different kinds\<close>

lemma fungible_message_handlers:
  assumes "pads_left lib" "length amount = 32"
    and "m_Data m = MTransfer \<lparr>tmd_DepositNonce = n, tmd_ResourceId = r, tmd_Metadata = md,
           tmd_Payload = [IBytes amount, IBytes recipient], tmd_Type = FungibleTransfer\<rparr>"
  shows "TransferMessageHandler_HandleMessage lib m = Inr (NewProposal (m_Source m) (m_Destination m)
      (PTransfer \<lparr>tpd_DepositNonce = n, tpd_ResourceId = r, tpd_Metadata = md, tpd_Data = erc20_calldata amount recipient []\<rparr>)
      (m_ID m) TransferProposalType)"
    and "SubstrateMessageHandler_HandleMessage lib m = TransferMessageHandler_HandleMessage lib m"
    and "FungibleMessageHandler_HandleMessage m = Inr (NewProposal (m_Source m) (m_Destination m)
      (PBtc \<lparr>btpd_Amount = of_nat (SetBytes amount div 10 ^ 10), btpd_Recipient = map (char_of \<circ> unat) recipient,
         btpd_DepositNonce = n, btpd_ResourceId = r\<rparr>) (m_ID m) TransferProposalType)"
  using assms
  by (simp_all add: message_handler_defs proposal_bytes_simps erc20_calldata_def left_pad_def)



text \<open>
  C35. A Bitcoin deposit of \<open>n\<close> satoshi whose data names a recipient and a domain becomes, on an EVM or
  Substrate destination, the calldata of a fungible deposit of \<open>n\<close> times \<open>10\<^sup>1\<^sup>0\<close> base units for the
  address of the recipient.
\<close>

theorem btc_deposit_to_evm:
  assumes "pads_left lib" "domain < 256" "CHR ''_'' \<notin> set recipient" "n < 2 ^ 63"
  shows "\<exists>m p. BtcDepositHandler_HandleDeposit hta source nonce res (int n) (recipient @ ''_'' @ dec domain) block t = Inr m \<and>
    TransferMessageHandler_HandleMessage lib m = Inr p \<and> SubstrateMessageHandler_HandleMessage lib m = Inr p \<and>
    p_Destination p = of_nat domain \<and>
    p_Data p = PTransfer \<lparr>tpd_DepositNonce = nonce, tpd_ResourceId = res, tpd_Metadata = [],
      tpd_Data = erc20_calldata (left_pad (Bytes (n * 10 ^ 10)) 32) (hta recipient) []\<rparr>"
proof -
  have split: "split_on (CHR ''_'') (recipient @ CHR ''_'' # dec domain) = [recipient, dec domain]"
    using assms(3) by (simp add: split_on_append split_on_no_sep dec_no_char)
  have "nat \<bar>int n * 10 ^ 10\<bar> = n * 10 ^ 10" by (simp add: nat_mult_distrib abs_mult)
  then show ?thesis
    using assms(1,2)
    by (simp add: BtcDepositHandler_HandleDeposit_def split ParseUint10_dec NewMessage_def proposal_bytes_simps
        message_handler_defs erc20_calldata_def left_pad_def)
qed

theorem btc_deposit_to_evm_witness:
  "\<exists>m p. BtcDepositHandler_HandleDeposit (\<lambda>_. [1]) 4 7 [3] (int 29) (''abc'' @ ''_'' @ dec 2) 9 0 = Inr m \<and>
     TransferMessageHandler_HandleMessage example_lib m = Inr p \<and> p_Destination p = 2"
proof -
  have "CHR ''_'' \<notin> set ''abc''" by simp
  from btc_deposit_to_evm [of example_lib 2 "''abc''" 29 "\<lambda>_. [1]" 4 7 "[3]" 9 0, OF _ _ this] show ?thesis by fastforce
qed

section \<open>Retries\<close>


definition example_retry :: message where
  "example_retry = NewMessage 3 1 (MRetry \<lparr>rmd_SourceDomainID = 1, rmd_DestinationDomainID = 2, rmd_BlockHeight = 100,
     rmd_ResourceID = [7]\<rparr>) ''retry-3-1'' RetryMessageType 0"


end
